(* ===== verification/Prelude.thy ===== *)
theory Prelude
  imports Main "HOL-Library.Char_ord" "HOL-Library.List_Lexorder" "HOL-Library.AList"
begin

text \<open>
  Shared vocabulary of the development.

  \<^item> Exceptions: a Python function that may raise returns \<open>'e + 'a\<close>, \<open>Inl\<close> the exception,
    \<open>Inr\<close> the value; \<open>bnd\<close> sequences two of them, \<open>mapR\<close> is a comprehension whose
    body may raise, \<open>ensure\<close> is \<open>if not c: raise e\<close>.
  \<^item> Dictionaries: association lists in insertion order. \<open>map_of\<close> is \<open>d.get\<close>,
    \<open>AList.update\<close> is \<open>d[k] = v\<close> (an existing key keeps its place),
    \<open>AList.delete\<close> is \<open>d.pop(k, None)\<close>.
  \<^item> \<open>dedup\<close> is \<open>tuple(dict.fromkeys(xs))\<close>, \<open>sorted_set\<close> is \<open>sorted(set(xs))\<close>;
    strings are compared lexicographically by code point, as Python compares them.
\<close>

named_theorems result_simps \<open>rewriting the sum-type sequencing operators\<close>

section \<open>Results\<close>

definition bnd :: "'e + 'a \<Rightarrow> ('a \<Rightarrow> 'e + 'b) \<Rightarrow> 'e + 'b" where
  "bnd m f = (case m of Inl e \<Rightarrow> Inl e | Inr x \<Rightarrow> f x)"

definition ensure :: "bool \<Rightarrow> 'e \<Rightarrow> 'e + unit" where
  "ensure c e = (if c then Inr () else Inl e)"

fun mapR :: "('a \<Rightarrow> 'e + 'b) \<Rightarrow> 'a list \<Rightarrow> 'e + 'b list" where
  "mapR f [] = Inr []"
| "mapR f (x # xs) = bnd (f x) (\<lambda>y. bnd (mapR f xs) (\<lambda>ys. Inr (y # ys)))"

definition is_ok :: "'e + 'a \<Rightarrow> bool" where
  "is_ok r = (case r of Inl _ \<Rightarrow> False | Inr _ \<Rightarrow> True)"

lemma bnd_Inl [simp, result_simps]: "bnd (Inl e) f = Inl e"
  by (simp add: bnd_def)

lemma bnd_Inr [simp, result_simps]: "bnd (Inr x) f = f x"
  by (simp add: bnd_def)

lemma bnd_eq_Inr [result_simps]: "bnd m f = Inr y \<longleftrightarrow> (\<exists>x. m = Inr x \<and> f x = Inr y)"
  by (cases m) simp_all

lemma bnd_eq_Inl [result_simps]:
  "bnd m f = Inl e \<longleftrightarrow> m = Inl e \<or> (\<exists>x. m = Inr x \<and> f x = Inl e)"
  by (cases m) simp_all

lemma ensure_eq_Inr [simp, result_simps]: "ensure c e = Inr u \<longleftrightarrow> c"
  by (simp add: ensure_def)

lemma ensure_eq_Inl [simp, result_simps]: "ensure c e = Inl e' \<longleftrightarrow> \<not> c \<and> e' = e"
  by (auto simp: ensure_def)

lemma ensure_True [simp, result_simps]: "ensure True e = Inr ()"
  by (simp add: ensure_def)

lemma ensure_False [simp, result_simps]: "ensure False e = Inl e"
  by (simp add: ensure_def)

lemma is_ok_simps [simp]: "is_ok (Inr x)" "\<not> is_ok (Inl e)"
  by (simp_all add: is_ok_def)

lemma is_ok_iff: "is_ok r \<longleftrightarrow> (\<exists>x. r = Inr x)"
  by (cases r) simp_all

lemma is_ok_bnd [result_simps]: "is_ok (bnd m f) \<longleftrightarrow> (\<exists>x. m = Inr x \<and> is_ok (f x))"
  by (cases m) simp_all

lemma is_ok_ensure [simp, result_simps]: "is_ok (ensure c e) \<longleftrightarrow> c"
  by (simp add: ensure_def)

lemma mapR_eq_Inr: "mapR f xs = Inr ys \<longleftrightarrow> list_all2 (\<lambda>x y. f x = Inr y) xs ys"
proof (induction xs arbitrary: ys)
  case (Cons x xs)
  then show ?case by (cases ys) (auto simp: bnd_eq_Inr)
qed auto

lemma mapR_Inr_map: "(\<And>x. x \<in> set xs \<Longrightarrow> f x = Inr (g x)) \<Longrightarrow> mapR f xs = Inr (map g xs)"
  by (induction xs) simp_all

lemma mapR_is_ok: "is_ok (mapR f xs) \<longleftrightarrow> (\<forall>x\<in>set xs. is_ok (f x))"
  by (induction xs) (auto simp: is_ok_bnd is_ok_iff bnd_eq_Inr)

lemma mapR_length: "mapR f xs = Inr ys \<Longrightarrow> length ys = length xs"
  by (auto simp: mapR_eq_Inr dest: list_all2_lengthD)

lemma mapR_cong [fundef_cong]:
  "xs = ys \<Longrightarrow> (\<And>x. x \<in> set ys \<Longrightarrow> f x = g x) \<Longrightarrow> mapR f xs = mapR g ys"
  by (induction xs arbitrary: ys) auto

lemma bnd_cong [fundef_cong]:
  "m = m' \<Longrightarrow> (\<And>x. m' = Inr x \<Longrightarrow> f x = g x) \<Longrightarrow> bnd m f = bnd m' g"
  by (cases m') auto

lemma bnd_unit_Inr [simp]: "bnd m Inr = m"
  by (cases m) simp_all

text \<open>Statement loops: \<open>for x in xs: f(x)\<close>, with an index, and with a threaded state.\<close>

fun forR :: "('a \<Rightarrow> 'e + unit) \<Rightarrow> 'a list \<Rightarrow> 'e + unit" where
  "forR f [] = Inr ()"
| "forR f (x # xs) = bnd (f x) (\<lambda>_. forR f xs)"

fun forI :: "(nat \<Rightarrow> 'a \<Rightarrow> 'e + unit) \<Rightarrow> nat \<Rightarrow> 'a list \<Rightarrow> 'e + unit" where
  "forI f i [] = Inr ()"
| "forI f i (x # xs) = bnd (f i x) (\<lambda>_. forI f (Suc i) xs)"

fun foldR :: "(nat \<Rightarrow> 's \<Rightarrow> 'a \<Rightarrow> 'e + 's) \<Rightarrow> nat \<Rightarrow> 's \<Rightarrow> 'a list \<Rightarrow> 'e + 's" where
  "foldR f i s [] = Inr s"
| "foldR f i s (x # xs) = bnd (f i s x) (\<lambda>s'. foldR f (Suc i) s' xs)"

lemma forR_cong [fundef_cong]:
  "xs = ys \<Longrightarrow> (\<And>x. x \<in> set ys \<Longrightarrow> f x = g x) \<Longrightarrow> forR f xs = forR g ys"
  by (induction xs arbitrary: ys) auto

lemma forR_eq_Inr [result_simps]: "forR f xs = Inr u \<longleftrightarrow> (\<forall>x\<in>set xs. f x = Inr ())"
  by (induction xs) (auto simp: bnd_eq_Inr)

lemma forI_eq_Inr [result_simps]:
  "forI f i xs = Inr u \<longleftrightarrow> (\<forall>j<length xs. f (i + j) (xs ! j) = Inr ())"
proof (induction xs arbitrary: i)
  case (Cons x xs)
  have "(\<forall>j<length (x # xs). f (i + j) ((x # xs) ! j) = Inr ())
      \<longleftrightarrow> f i x = Inr () \<and> (\<forall>j<length xs. f (Suc i + j) (xs ! j) = Inr ())"
    by (auto simp: less_Suc_eq_0_disj nth_Cons split: nat.splits)
  then show ?case unfolding forI.simps bnd_eq_Inr Cons.IH by simp
qed simp

text \<open>An invariant of the threaded state holds after the loop.\<close>

lemma foldR_invariant:
  assumes "foldR f i s xs = Inr t" and "P i s"
    and "\<And>j s s'. j < length xs \<Longrightarrow> P (i + j) s \<Longrightarrow> f (i + j) s (xs ! j) = Inr s' \<Longrightarrow> P (Suc (i + j)) s'"
  shows "P (i + length xs) t"
  using assms
proof (induction xs arbitrary: i s)
  case (Cons x xs)
  obtain s' where s': "f i s x = Inr s'" and rest: "foldR f (Suc i) s' xs = Inr t"
    using Cons.prems(1) by (auto simp: bnd_eq_Inr)
  have "P (Suc i) s'" using Cons.prems(3) [of 0 s s'] Cons.prems(2) s' by simp
  moreover have "P (Suc (Suc i + j)) s''"
    if "j < length xs" "P (Suc i + j) u" "f (Suc i + j) u (xs ! j) = Inr s''" for j u s''
    using Cons.prems(3) [of "Suc j" u s''] that by simp
  ultimately have "P (Suc i + length xs) t" using Cons.IH [OF rest] by blast
  then show ?case by simp
qed simp

text \<open>What each step of a loop establishes and no later step undoes holds of every element.\<close>

lemma foldR_collects:
  assumes "foldR f i s xs = Inr t"
    and "\<And>j s x s'. x \<in> set xs \<Longrightarrow> f j s x = Inr s' \<Longrightarrow> Q x s'"
    and "\<And>j s x s' y. f j s x = Inr s' \<Longrightarrow> Q y s \<Longrightarrow> Q y s'"
  shows "\<forall>x\<in>set xs. Q x t"
proof -
  have keep: "Q y t" if "foldR f i s ys = Inr t" "Q y s" for i s ys y
    using that by (induction ys arbitrary: i s) (auto simp: bnd_eq_Inr dest: assms(3))
  show ?thesis using assms(1,2)
  proof (induction xs arbitrary: i s)
    case (Cons x xs)
    then obtain s' where "f i s x = Inr s'" "foldR f (Suc i) s' xs = Inr t" by (auto simp: bnd_eq_Inr)
    with Cons.prems(2) have "Q x s'" "foldR f (Suc i) s' xs = Inr t" by auto
    then have "Q x t" by (blast intro: keep)
    moreover have "\<forall>x\<in>set xs. Q x t"
      by (rule Cons.IH [OF \<open>foldR f (Suc i) s' xs = Inr t\<close>]) (use Cons.prems(2) in auto)
    ultimately show ?case by simp
  qed simp
qed

text \<open>Which exceptions a computation can raise.\<close>

named_theorems raises \<open>rules bounding the exceptions of a computation\<close>

definition raises_only :: "('e \<Rightarrow> bool) \<Rightarrow> 'e + 'a \<Rightarrow> bool" where
  "raises_only P r \<longleftrightarrow> (\<forall>e. r = Inl e \<longrightarrow> P e)"

lemma raises_only_Inr [raises]: "raises_only P (Inr x)"
  by (simp add: raises_only_def)

lemma raises_only_Inl [raises]: "P e \<Longrightarrow> raises_only P (Inl e)"
  by (simp add: raises_only_def)

lemma raises_only_ensure [raises]: "P e \<Longrightarrow> raises_only P (ensure c e)"
  by (simp add: raises_only_def)

lemma raises_only_bnd [raises]:
  "raises_only P m \<Longrightarrow> (\<And>x. m = Inr x \<Longrightarrow> raises_only P (f x)) \<Longrightarrow> raises_only P (bnd m f)"
  by (cases m) (simp_all add: raises_only_def)

lemma raises_only_if [raises]:
  "(c \<Longrightarrow> raises_only P a) \<Longrightarrow> (\<not> c \<Longrightarrow> raises_only P b) \<Longrightarrow> raises_only P (if c then a else b)"
  by simp

lemma raises_only_option [raises]:
  "(x = None \<Longrightarrow> raises_only P a) \<Longrightarrow> (\<And>y. x = Some y \<Longrightarrow> raises_only P (f y))
     \<Longrightarrow> raises_only P (case x of None \<Rightarrow> a | Some y \<Rightarrow> f y)"
  by (cases x) simp_all

lemma raises_only_prod [raises]:
  "(\<And>a b. x = (a, b) \<Longrightarrow> raises_only P (f a b)) \<Longrightarrow> raises_only P (case x of (a, b) \<Rightarrow> f a b)"
  by (cases x) simp

lemma raises_only_prod_app [raises]:
  "(\<And>a b. x = (a, b) \<Longrightarrow> raises_only P (f a b y)) \<Longrightarrow> raises_only P ((case x of (a, b) \<Rightarrow> f a b) y)"
  by (cases x) simp

lemma raises_only_mapR [raises]:
  "(\<And>x. x \<in> set xs \<Longrightarrow> raises_only P (f x)) \<Longrightarrow> raises_only P (mapR f xs)"
  by (induction xs) (auto intro!: raises)

lemma raises_only_forR [raises]:
  "(\<And>x. x \<in> set xs \<Longrightarrow> raises_only P (f x)) \<Longrightarrow> raises_only P (forR f xs)"
  by (induction xs) (auto intro!: raises)

lemma raises_only_forI [raises]:
  "(\<And>i x. x \<in> set xs \<Longrightarrow> raises_only P (f i x)) \<Longrightarrow> raises_only P (forI f n xs)"
  by (induction xs arbitrary: n) (auto intro!: raises)

lemma raises_only_foldR [raises]:
  "(\<And>i s x. x \<in> set xs \<Longrightarrow> raises_only P (f i s x)) \<Longrightarrow> raises_only P (foldR f n s xs)"
  by (induction xs arbitrary: n s) (auto intro!: raises)

lemma raises_only_list [raises]:
  "(xs = [] \<Longrightarrow> raises_only P a) \<Longrightarrow> (\<And>y ys. xs = y # ys \<Longrightarrow> raises_only P (f y ys))
     \<Longrightarrow> raises_only P (case xs of [] \<Rightarrow> a | y # ys \<Rightarrow> f y ys)"
  by (cases xs) simp_all

lemma raises_only_accepted: "m = Inr x \<Longrightarrow> raises_only P m"
  by (simp add: raises_only_def)

section \<open>Order-preserving deduplication and sorted sets\<close>

fun dedup :: "'a list \<Rightarrow> 'a list" where
  "dedup [] = []"
| "dedup (x # xs) = x # filter (\<lambda>y. y \<noteq> x) (dedup xs)"

lemma set_dedup [simp]: "set (dedup xs) = set xs"
  by (induction xs) auto

lemma distinct_dedup [simp]: "distinct (dedup xs)"
  by (induction xs) (auto intro: distinct_filter)

lemma dedup_distinct: "distinct xs \<Longrightarrow> dedup xs = xs"
  by (induction xs) (auto simp: filter_id_conv)

lemma dedup_filter: "dedup (filter P xs) = filter P (dedup xs)"
proof (induction xs)
  case (Cons x xs)
  then show ?case by (cases "P x") (auto simp: filter_filter conj_commute intro: filter_cong)
qed simp

definition sorted_set :: "'a::linorder list \<Rightarrow> 'a list" where
  "sorted_set xs = sort (remdups xs)"

lemma set_sorted_set [simp]: "set (sorted_set xs) = set xs"
  by (simp add: sorted_set_def)

lemma sorted_sorted_set [simp]: "sorted (sorted_set xs)"
  by (simp add: sorted_set_def)

lemma distinct_sorted_set [simp]: "distinct (sorted_set xs)"
  by (simp add: sorted_set_def)

lemma sorted_set_cong: "set xs = set ys \<Longrightarrow> sorted_set xs = sorted_set ys"
  by (rule sorted_distinct_set_unique) simp_all

section \<open>Dictionaries\<close>

text \<open>\<open>d.setdefault(k, []).append(v)\<close>, the grouping step.\<close>

definition group_step :: "('k \<times> 'v list) list \<Rightarrow> 'k \<Rightarrow> 'v \<Rightarrow> ('k \<times> 'v list) list" where
  "group_step d k v = AList.update k (case map_of d k of None \<Rightarrow> [v] | Some vs \<Rightarrow> vs @ [v]) d"

fun group_by :: "('v \<Rightarrow> 'k) \<Rightarrow> 'v list \<Rightarrow> ('k \<times> 'v list) list \<Rightarrow> ('k \<times> 'v list) list" where
  "group_by f [] d = d"
| "group_by f (v # vs) d = group_by f vs (group_step d (f v) v)"

lemma map_of_update [simp]: "map_of (AList.update k v d) = (map_of d)(k \<mapsto> v)"
  by (simp add: update_conv')

lemma set_update_subset: "set (AList.update k v d) \<subseteq> insert (k, v) (set d)"
  by (induction d) auto

lemma distinct_update [simp]: "distinct (map fst d) \<Longrightarrow> distinct (map fst (AList.update k v d))"
  by (rule distinct_update)

lemma group_by_distinct: "distinct (map fst d) \<Longrightarrow> distinct (map fst (group_by f vs d))"
  by (induction vs arbitrary: d) (auto simp: group_step_def)

lemma group_by_lookup:
  "map_of (group_by f vs d) k =
     (case map_of d k of
        None \<Rightarrow> (if filter (\<lambda>v. f v = k) vs = [] then None else Some (filter (\<lambda>v. f v = k) vs))
      | Some ws \<Rightarrow> Some (ws @ filter (\<lambda>v. f v = k) vs))"
  by (induction vs arbitrary: d) (auto simp: group_step_def split: option.splits)

text \<open>\<open>d[k] = d.get(k, 0) + n\<close>, the counting step.\<close>

definition count_add :: "'k \<Rightarrow> int \<Rightarrow> ('k \<times> int) list \<Rightarrow> ('k \<times> int) list" where
  "count_add k n d = AList.update k (case map_of d k of None \<Rightarrow> n | Some m \<Rightarrow> m + n) d"

definition dict_total :: "('k \<times> int) list \<Rightarrow> int" where
  "dict_total d = sum_list (map snd d)"

lemma sum_update_present:
  "map_of d k = Some m \<Longrightarrow> sum_list (map snd (AList.update k v d)) = sum_list (map snd d) - m + (v::int)"
  by (induction d) (auto split: if_splits)

lemma sum_update_absent:
  "map_of d k = None \<Longrightarrow> sum_list (map snd (AList.update k v d)) = sum_list (map snd d) + (v::int)"
  by (induction d) (auto split: if_splits)

lemma dict_total_count_add [simp]: "dict_total (count_add k n d) = dict_total d + n"
  by (auto simp: dict_total_def count_add_def sum_update_present sum_update_absent
      split: option.splits)

lemma distinct_count_add [simp]:
  "distinct (map fst d) \<Longrightarrow> distinct (map fst (count_add k n d))"
  by (simp add: count_add_def)

lemma map_of_count_add:
  "map_of (count_add k n d) j =
     (if j = k then Some ((case map_of d k of None \<Rightarrow> 0 | Some m \<Rightarrow> m) + n) else map_of d j)"
  by (simp add: count_add_def split: option.splits)

section \<open>Machines with an invariant\<close>

text \<open>
  The contract several operations of a component share: each command keeps the invariant. A
  component interprets it on its own command interpreter.
\<close>

locale invariant_machine =
  fixes exec :: "'c \<Rightarrow> 's \<Rightarrow> 's"
    and inv :: "'s \<Rightarrow> bool"
  assumes exec_inv: "inv s \<Longrightarrow> inv (exec c s)"
begin

lemma run_inv: "inv s \<Longrightarrow> inv (foldl (\<lambda>s c. exec c s) s cs)"
  by (induction cs arbitrary: s) (simp_all add: exec_inv)

lemma prefix_inv: "inv s \<Longrightarrow> inv (foldl (\<lambda>s c. exec c s) s (take n cs))"
  by (rule run_inv)

end

end
