(* ===== verification/PyFloat.thy ===== *)
theory PyFloat
  imports Complex_Main
begin

text \<open>
  Python floats. The code computes with IEEE binary64 numbers; a finite one is a rational
  \<open>m * 2^e\<close>, so the model keeps it as a \<open>rat\<close> and applies \<open>fl\<close>, rounding to the nearest
  binary64 number with ties to even, after every operation, as the hardware does. Subnormals
  are rounded at exponent \<open>- 1074\<close>. \<open>fl\<close> itself does not overflow: a result of magnitude
  \<open>FLOAT_LIMIT\<close> or more is an infinity, and definitions that can reach one compare with it.
  The sign of zero is not modelled. \<open>x ** n\<close> is taken to be correctly rounded.

  The locale \<open>rounding\<close> holds the laws the statistics rely on (monotone, idempotent, odd,
  exact at one); \<open>b64\<close> interprets it on \<open>fl\<close>.
\<close>

section \<open>Rounding to binary64\<close>

definition pow2 :: "int \<Rightarrow> rat" where
  "pow2 e = (if 0 \<le> e then of_int (2 ^ nat e) else 1 / of_int (2 ^ nat (- e)))"

definition round_half_even :: "rat \<Rightarrow> int" where
  "round_half_even q =
     (let f = \<lfloor>q\<rfloor>; d = q - of_int f
      in if d < 1 / 2 then f
         else if d > 1 / 2 then f + 1
         else if even f then f else f + 1)"

function nbits :: "int \<Rightarrow> nat" where
  "nbits n = (if n \<le> 0 then 0 else Suc (nbits (n div 2)))"
  by pat_completeness auto
termination
  by (relation "measure nat") auto

declare nbits.simps [simp del]

definition ilog2 :: "rat \<Rightarrow> int" where
  "ilog2 q =
     (let (n, d) = quotient_of q; k = int (nbits n) - int (nbits d)
      in if pow2 k \<le> q then k else k - 1)"

definition fl_exponent :: "rat \<Rightarrow> int" where
  "fl_exponent q = max (ilog2 q - 52) (- 1074)"

definition fl_pos :: "rat \<Rightarrow> rat" where
  "fl_pos q = (let e = fl_exponent q in of_int (round_half_even (q / pow2 e)) * pow2 e)"

definition FLOAT_LIMIT :: rat where
  "FLOAT_LIMIT = 2 ^ 1024"

definition fl :: "rat \<Rightarrow> rat" where
  "fl q = (if q = 0 then 0 else if q < 0 then - fl_pos (- q) else fl_pos q)"

lemma FLOAT_LIMIT_code [code]: "FLOAT_LIMIT = 179769313486231590772930519078902473361797697894230657273430081157732675805500963132708477322407536021120113879871393357658789768814416622492847430639474124377767893424865485276302219601246094119453082952085005768838150682342462881473913110540827237163350510684586298239947245938479716304835356329624224137216"
  by (simp add: FLOAT_LIMIT_def)

lemma pow2_pos [simp]: "0 < pow2 e"
  by (simp add: pow2_def)

lemma pow2_0 [simp]: "pow2 0 = 1"
  by (simp add: pow2_def)

lemma pow2_powi: "pow2 e = 2 powi e"
  by (simp add: pow2_def power_int_def field_simps)

lemma pow2_add: "pow2 (a + b) = pow2 a * pow2 b"
  by (simp add: pow2_powi power_int_add)

lemma pow2_mono: "a \<le> b \<Longrightarrow> pow2 a \<le> pow2 b"
  by (simp add: pow2_powi power_int_increasing)

lemma pow2_strict: "a < b \<Longrightarrow> pow2 a < pow2 b"
  by (simp add: pow2_powi power_int_strict_increasing)

lemma pow2_le_iff [simp]: "pow2 a \<le> pow2 b \<longleftrightarrow> a \<le> b"
  by (meson linorder_not_less pow2_mono pow2_strict)

lemma pow2_less_iff [simp]: "pow2 a < pow2 b \<longleftrightarrow> a < b"
  by (meson linorder_not_less pow2_le_iff)

lemma nbits_bounds:
  assumes "0 < n"
  shows "2 ^ (nbits n - 1) \<le> n" and "n < 2 ^ nbits n" and "0 < nbits n"
proof -
  have "2 ^ (nbits n - 1) \<le> n \<and> n < 2 ^ nbits n \<and> 0 < nbits n"
    using assms
  proof (induction n rule: nbits.induct)
    case (1 n)
    show ?case
    proof (cases "n = 1")
      case False
      then have "0 < n div 2" using 1 by linarith
      then have IH: "2 ^ (nbits (n div 2) - 1) \<le> n div 2" "n div 2 < 2 ^ nbits (n div 2)"
        "0 < nbits (n div 2)"
        using 1 by auto
      have N: "nbits n = Suc (nbits (n div 2))" using 1 by (simp add: nbits.simps [of n])
      obtain k where k: "nbits (n div 2) = Suc k" using IH(3) by (cases "nbits (n div 2)") auto
      have "2 * 2 ^ k \<le> n" using IH(1) k by simp
      moreover have "n < 2 * (2 * 2 ^ k)" using IH(2) k by simp
      ultimately show ?thesis by (simp add: N k)
    qed (simp add: nbits.simps)
  qed
  then show "2 ^ (nbits n - 1) \<le> n" and "n < 2 ^ nbits n" and "0 < nbits n" by auto
qed

lemma pow2_diff_of_nat: "pow2 (int a - int b) = 2 ^ a / 2 ^ b"
  by (simp add: pow2_powi power_int_diff)

lemma ilog2_bounds:
  assumes "0 < q"
  shows "pow2 (ilog2 q) \<le> q" and "q < pow2 (ilog2 q + 1)"
proof -
  obtain n d where nd: "quotient_of q = (n, d)" by (cases "quotient_of q")
  have d: "0 < d" using nd by (rule quotient_of_denom_pos)
  have q: "q = of_int n / of_int d" using nd by (rule quotient_of_div)
  have n: "0 < n" using assms d by (simp add: q zero_less_divide_iff)
  define k where "k = int (nbits n) - int (nbits d)"
  have N: "(2::rat) ^ (nbits n - 1) \<le> of_int n" "of_int n < (2::rat) ^ nbits n"
    using nbits_bounds [OF n] by (metis of_int_le_iff of_int_numeral of_int_power)
      (metis nbits_bounds(2) [OF n] of_int_less_iff of_int_numeral of_int_power)
  have D: "(2::rat) ^ (nbits d - 1) \<le> of_int d" "of_int d < (2::rat) ^ nbits d"
    using nbits_bounds [OF d] by (metis of_int_le_iff of_int_numeral of_int_power)
      (metis nbits_bounds(2) [OF d] of_int_less_iff of_int_numeral of_int_power)
  have up: "q < pow2 (k + 1)"
  proof -
    have "q < 2 ^ nbits n / 2 ^ (nbits d - 1)"
      unfolding q by (rule frac_less) (use N D n d in auto)
    also have "\<dots> = pow2 (k + 1)"
      using nbits_bounds(3) [OF d] by (cases "nbits d") (auto simp: k_def pow2_diff_of_nat)
    finally show ?thesis .
  qed
  have low: "pow2 (k - 1) \<le> q"
  proof -
    have "pow2 (k - 1) = 2 ^ (nbits n - 1) / 2 ^ nbits d"
      using nbits_bounds(3) [OF n] by (cases "nbits n") (auto simp: k_def pow2_diff_of_nat)
    also have "\<dots> \<le> q"
      unfolding q by (rule frac_le) (use N D n d in auto)
    finally show ?thesis .
  qed
  have "ilog2 q = (if pow2 k \<le> q then k else k - 1)"
    by (simp add: ilog2_def nd k_def)
  then show "pow2 (ilog2 q) \<le> q" and "q < pow2 (ilog2 q + 1)"
    using up low by (auto split: if_splits)
qed

lemma ilog2_unique:
  assumes "pow2 e \<le> q" and "q < pow2 (e + 1)"
  shows "ilog2 q = e"
proof -
  have q: "0 < q" using assms(1) pow2_pos [of e] by linarith
  from ilog2_bounds [OF q] assms have "e < ilog2 q + 1" "ilog2 q < e + 1"
    by (meson le_less_trans pow2_less_iff)+
  then show ?thesis by simp
qed

lemma ilog2_mono:
  assumes "0 < x" and "x \<le> y"
  shows "ilog2 x \<le> ilog2 y"
proof -
  have y: "0 < y" using assms by simp
  have "pow2 (ilog2 x) < pow2 (ilog2 y + 1)"
    using ilog2_bounds(1) [OF assms(1)] ilog2_bounds(2) [OF y] assms(2) by linarith
  then show ?thesis by simp
qed

lemma round_half_even_of_int [simp]: "round_half_even (of_int n) = n"
  by (simp add: round_half_even_def)

lemma round_half_even_mono:
  assumes "x \<le> y"
  shows "round_half_even x \<le> round_half_even y"
proof -
  have f: "\<lfloor>x\<rfloor> \<le> \<lfloor>y\<rfloor>" using assms by (rule floor_mono)
  have up: "round_half_even x \<le> \<lfloor>x\<rfloor> + 1" and lo: "\<lfloor>y\<rfloor> \<le> round_half_even y"
    by (auto simp: round_half_even_def Let_def)
  show ?thesis
  proof (cases "\<lfloor>x\<rfloor> = \<lfloor>y\<rfloor>")
    case True
    then show ?thesis using assms by (auto simp: round_half_even_def Let_def)
  next
    case False
    with f have "\<lfloor>x\<rfloor> + 1 \<le> \<lfloor>y\<rfloor>" by simp
    with up lo show ?thesis by linarith
  qed
qed

lemma round_half_even_minus: "round_half_even (- x) = - round_half_even x"
proof (cases "x = of_int \<lfloor>x\<rfloor>")
  case True
  then show ?thesis by (metis of_int_minus round_half_even_of_int)
next
  case False
  have f: "\<lfloor>- x\<rfloor> = - \<lfloor>x\<rfloor> - 1"
    using False by (simp add: floor_minus ceiling_altdef)
  show ?thesis by (auto simp: round_half_even_def Let_def f)
qed


definition representable :: "rat \<Rightarrow> bool" where
  "representable x \<longleftrightarrow> (\<exists>m e. x = of_int m * pow2 e \<and> \<bar>m\<bar> \<le> 2 ^ 53 \<and> - 1074 \<le> e)"

lemma fl_exponent_bounds:
  assumes "0 < q"
  shows "q / pow2 (fl_exponent q) < 2 ^ 53"
    and "- 1074 < fl_exponent q \<Longrightarrow> 2 ^ 52 \<le> q / pow2 (fl_exponent q)"
proof -
  let ?e = "fl_exponent q"
  have "q < pow2 (ilog2 q + 1)" using assms by (rule ilog2_bounds)
  also have "\<dots> \<le> pow2 (53 + ?e)" by (simp add: fl_exponent_def)
  also have "\<dots> = 2 ^ 53 * pow2 ?e" by (simp add: pow2_add) (simp add: pow2_def)
  finally show "q / pow2 ?e < 2 ^ 53" by (simp add: divide_less_eq)
  assume "- 1074 < ?e"
  then have "ilog2 q = 52 + ?e" by (simp add: fl_exponent_def)
  then have "pow2 (52 + ?e) \<le> q" using ilog2_bounds(1) [OF assms] by simp
  then have "2 ^ 52 * pow2 ?e \<le> q" by (simp only: pow2_add) (simp add: pow2_def)
  then show "2 ^ 52 \<le> q / pow2 ?e" by (simp add: le_divide_eq)
qed

lemma fl_exponent_mono: "0 < x \<Longrightarrow> x \<le> y \<Longrightarrow> fl_exponent x \<le> fl_exponent y"
  using ilog2_mono [of x y] by (simp add: fl_exponent_def)

lemma round_half_even_le: "q \<le> of_int n \<Longrightarrow> round_half_even q \<le> n"
  using round_half_even_mono [of q "of_int n"] by simp

lemma round_half_even_ge: "of_int n \<le> q \<Longrightarrow> n \<le> round_half_even q"
  using round_half_even_mono [of "of_int n" q] by simp

lemma fl_pos_nonneg: "0 < q \<Longrightarrow> 0 \<le> fl_pos q"
  using round_half_even_ge [of 0 "q / pow2 (fl_exponent q)"]
  by (simp add: fl_pos_def Let_def less_imp_le zero_le_mult_iff)

lemma rat_power_le_of_int: "2 ^ k \<le> n \<Longrightarrow> (2::rat) ^ k \<le> of_int n"
  by (metis of_int_le_iff of_int_numeral of_int_power)

lemma rat_of_int_le_power: "n \<le> 2 ^ k \<Longrightarrow> of_int n \<le> (2::rat) ^ k"
  by (metis of_int_le_iff of_int_numeral of_int_power)

lemma pow2_53_add: "pow2 (53 + e) = 2 ^ 53 * pow2 e" and pow2_52_add: "pow2 (52 + e) = 2 ^ 52 * pow2 e"
  and pow2_1_add: "pow2 (e + 1) = 2 * pow2 e"
  by (simp_all only: pow2_add) (simp_all add: pow2_def)

lemma fl_pos_mono:
  assumes x: "0 < x" and xy: "x \<le> y"
  shows "fl_pos x \<le> fl_pos y"
proof -
  let ?ex = "fl_exponent x" and ?ey = "fl_exponent y"
  have y: "0 < y" using assms by simp
  show ?thesis
  proof (cases "?ex = ?ey")
    case True
    have "round_half_even (x / pow2 ?ey) \<le> round_half_even (y / pow2 ?ey)"
      by (rule round_half_even_mono) (simp add: xy divide_right_mono less_imp_le)
    then show ?thesis using True
      by (simp add: fl_pos_def Let_def mult_right_mono less_imp_le)
  next
    case False
    with fl_exponent_mono [OF x xy] have lt: "?ex < ?ey" by simp
    then have "- 1074 < ?ey" by (simp add: fl_exponent_def)
    from fl_exponent_bounds(2) [OF y this] have "2 ^ 52 \<le> round_half_even (y / pow2 ?ey)"
      by (intro round_half_even_ge) (simp only: of_int_power of_int_numeral)
    from rat_power_le_of_int [OF this] have hi: "2 ^ 52 * pow2 ?ey \<le> fl_pos y"
      unfolding fl_pos_def Let_def by (rule mult_right_mono) (simp add: less_imp_le)
    have "round_half_even (x / pow2 ?ex) \<le> 2 ^ 53"
      using fl_exponent_bounds(1) [OF x]
      by (intro round_half_even_le) (simp only: of_int_power of_int_numeral less_imp_le)
    from rat_of_int_le_power [OF this] have "fl_pos x \<le> 2 ^ 53 * pow2 ?ex"
      unfolding fl_pos_def Let_def by (rule mult_right_mono) (simp add: less_imp_le)
    also have "\<dots> = pow2 (53 + ?ex)" by (simp only: pow2_53_add)
    also have "\<dots> \<le> pow2 (52 + ?ey)" using lt by (simp only: pow2_le_iff)
    also have "\<dots> = 2 ^ 52 * pow2 ?ey" by (simp only: pow2_52_add)
    finally show ?thesis using hi by (rule order_trans)
  qed
qed

lemma fl_minus: "fl (- x) = - fl x"
  by (simp add: fl_def)

lemma fl_mono: "x \<le> y \<Longrightarrow> fl x \<le> fl y"
  using fl_pos_mono [of x y] fl_pos_mono [of "- y" "- x"] fl_pos_nonneg [of y] fl_pos_nonneg [of "- x"]
  by (auto simp: fl_def not_less)

lemma representable_minus: "representable x \<Longrightarrow> representable (- x)"
proof -
  assume "representable x"
  then obtain m e where "x = of_int m * pow2 e" "\<bar>m\<bar> \<le> 2 ^ 53" "- 1074 \<le> e"
    by (auto simp: representable_def)
  then show ?thesis unfolding representable_def
    by (intro exI [of _ "- m"] exI [of _ e]) simp
qed

lemma fl_representable: "representable (fl x)"
proof -
  have pos: "representable (fl_pos q)" if q: "0 < q" for q
  proof -
    let ?e = "fl_exponent q" and ?m = "round_half_even (q / pow2 (fl_exponent q))"
    have "?m \<le> 2 ^ 53" using fl_exponent_bounds(1) [OF q]
      by (intro round_half_even_le) (simp only: of_int_power of_int_numeral less_imp_le)
    moreover have "0 \<le> ?m" using q by (intro round_half_even_ge) (simp add: less_imp_le)
    moreover have "- 1074 \<le> ?e" by (simp add: fl_exponent_def)
    ultimately show ?thesis unfolding representable_def fl_pos_def Let_def
      by (metis abs_of_nonneg)
  qed
  have zero: "representable 0"
    unfolding representable_def by (intro exI [of _ 0]) simp
  show ?thesis
  proof (cases x "0 :: rat" rule: linorder_cases)
    case less
    then show ?thesis using representable_minus [OF pos [of "- x"]] by (simp add: fl_def)
  qed (simp_all add: fl_def zero pos)
qed

lemma fl_pos_representable:
  assumes q: "0 < q" and r: "representable q"
  shows "fl_pos q = q"
proof -
  obtain m e where me: "q = of_int m * pow2 e" "\<bar>m\<bar> \<le> 2 ^ 53" "- 1074 \<le> e"
    using r by (auto simp: representable_def)
  let ?f = "fl_exponent q"
  have "\<exists>n. q / pow2 ?f = of_int n"
  proof (cases "?f \<le> e")
    case True
    then have "e = int (nat (e - ?f)) + ?f" by simp
    then have "pow2 e = pow2 (int (nat (e - ?f))) * pow2 ?f" by (metis pow2_add)
    then have "pow2 e = 2 ^ nat (e - ?f) * pow2 ?f" by (simp add: pow2_def)
    then have "q = of_int (m * 2 ^ nat (e - ?f)) * pow2 ?f"
      by (simp add: me(1))
    then have "q / pow2 ?f = of_int (m * 2 ^ nat (e - ?f))"
      by (metis less_irrefl nonzero_eq_divide_eq pow2_pos)
    then show ?thesis by blast
  next
    case False
    then have "- 1074 < ?f" using me(3) by simp
    from fl_exponent_bounds(2) [OF q this] have "2 ^ 52 * pow2 ?f \<le> q"
      by (simp add: le_divide_eq)
    moreover have "2 * pow2 e \<le> pow2 ?f" using False by (simp flip: pow2_1_add)
    then have "2 ^ 52 * (2 * pow2 e) \<le> 2 ^ 52 * pow2 ?f" by (rule mult_left_mono) simp
    ultimately have "2 ^ 53 * pow2 e \<le> q" by simp
    then have "2 ^ 53 * pow2 e \<le> of_int m * pow2 e" using me(1) by argo
    then have "2 ^ 53 \<le> (of_int m :: rat)" by (rule mult_right_le_imp_le) (rule pow2_pos)
    then have "2 ^ 53 \<le> m" by (metis of_int_le_iff of_int_numeral of_int_power)
    with me have "m = 2 ^ 53" by linarith
    with me have q53: "q = pow2 (53 + e)" by (simp only: pow2_53_add of_int_power of_int_numeral)
    then have "ilog2 q = 53 + e" by (intro ilog2_unique) simp_all
    then have "?f = e + 1" using me(3) by (simp add: fl_exponent_def)
    then have "q = 2 ^ 52 * pow2 ?f" using q53 pow2_52_add [of "e + 1"] by (simp add: add.commute)
    then have "q / pow2 ?f = of_int (2 ^ 52)"
      by (metis less_irrefl nonzero_eq_divide_eq pow2_pos of_int_power of_int_numeral)
    then show ?thesis by blast
  qed
  then obtain n where n: "q / pow2 ?f = of_int n" by blast
  then have "q = of_int n * pow2 ?f"
    by (metis less_irrefl nonzero_divide_eq_eq pow2_pos)
  then show ?thesis by (simp only: fl_pos_def Let_def n round_half_even_of_int)
qed

lemma fl_of_representable:
  assumes "representable x"
  shows "fl x = x"
proof (cases x "0 :: rat" rule: linorder_cases)
  case less
  then show ?thesis
    using fl_pos_representable [OF _ representable_minus [OF assms]] by (simp add: fl_def)
next
  case greater
  then show ?thesis using fl_pos_representable [OF _ assms] by (simp add: fl_def)
qed (simp add: fl_def)

lemma representable_of_int: "\<bar>n\<bar> \<le> 2 ^ 53 \<Longrightarrow> representable (of_int n)"
  unfolding representable_def
  by (rule exI [of _ n], rule exI [of _ 0], simp only: pow2_0 mult_1_right) simp

lemma fl_of_int [simp]: "\<bar>n\<bar> \<le> 2 ^ 53 \<Longrightarrow> fl (of_int n) = of_int n"
  by (simp add: fl_of_representable representable_of_int)

section \<open>The laws of rounding\<close>
locale rounding =
  fixes rnd :: "rat \<Rightarrow> rat"
  assumes rnd_mono: "x \<le> y \<Longrightarrow> rnd x \<le> rnd y"
    and rnd_idem: "rnd (rnd x) = rnd x"
    and rnd_minus: "rnd (- x) = - rnd x"
    and rnd_1: "rnd 1 = 1"
begin

lemma rnd_0: "rnd 0 = 0"
  using rnd_minus [of 0] by simp

lemma rnd_nonneg: "0 \<le> x \<Longrightarrow> 0 \<le> rnd x"
  using rnd_mono [of 0 x] by (simp add: rnd_0)

lemma rnd_nonpos: "x \<le> 0 \<Longrightarrow> rnd x \<le> 0"
  using rnd_mono [of x 0] by (simp add: rnd_0)

lemma rnd_le_1: "x \<le> 1 \<Longrightarrow> rnd x \<le> 1"
  using rnd_mono [of x 1] by (simp add: rnd_1)

lemma rnd_ge_1: "1 \<le> x \<Longrightarrow> 1 \<le> rnd x"
  using rnd_mono [of 1 x] by (simp add: rnd_1)

lemma rnd_sub_le: "rnd c = c \<Longrightarrow> 0 \<le> m \<Longrightarrow> rnd (c - m) \<le> c"
  using rnd_mono [of "c - m" c] by simp

lemma rnd_add_ge: "rnd c = c \<Longrightarrow> 0 \<le> m \<Longrightarrow> c \<le> rnd (c + m)"
  using rnd_mono [of c "c + m"] by simp

lemma rnd_quotient_le_1:
  assumes "0 < d" and "n \<le> d"
  shows "rnd (n / d) \<le> 1"
  using assms by (intro rnd_le_1) simp

end

interpretation b64: rounding fl
  by unfold_locales
    (auto simp: fl_mono fl_minus fl_of_representable fl_representable
      intro: fl_of_int [of 1, simplified])


lemmas fl_rules = b64.rnd_nonneg b64.rnd_nonpos b64.rnd_le_1 b64.rnd_ge_1 b64.rnd_mono

lemma fl_0 [simp]: "fl 0 = 0"
  by (rule b64.rnd_0)

lemma fl_1 [simp]: "fl 1 = 1"
  by (rule b64.rnd_1)

lemma fl_fl [simp]: "fl (fl x) = fl x"
  by (rule b64.rnd_idem)

lemma representable_fraction:
  assumes "\<bar>m\<bar> \<le> 2 ^ 53" and "k \<le> 1074"
  shows "representable (of_int m / 2 ^ k)"
proof -
  have "of_int m / 2 ^ k = of_int m * pow2 (- int k)"
    by (simp add: pow2_def)
  then show ?thesis using assms unfolding representable_def by (metis neg_le_iff_le of_nat_le_iff of_nat_numeral)
qed

text \<open>
  Evaluation by certificate: the caller names the integer significand and the exponent, and
  only comparisons of rational literals remain.
\<close>

lemma round_half_even_eqI:
  assumes "2 * \<bar>q - of_int n\<bar> < 1 \<or> 2 * \<bar>q - of_int n\<bar> = 1 \<and> even n"
  shows "round_half_even q = n"
proof -
  define d where "d = q - of_int n"
  have d: "2 * \<bar>d\<bar> < 1 \<or> 2 * \<bar>d\<bar> = 1 \<and> even n" using assms by (simp add: d_def)
  have q: "q = of_int n + d" by (simp add: d_def)
  show ?thesis
  proof (cases "0 \<le> d")
    case True
    then have "d \<le> 1 / 2" using d by (simp add: abs_if) linarith
    then have "\<lfloor>q\<rfloor> = n" using True by (simp add: q floor_eq_iff)
    then show ?thesis using d True by (auto simp: round_half_even_def Let_def q)
  next
    case False
    then have "- 1 / 2 \<le> d" using d by (simp add: abs_if) linarith
    then have "\<lfloor>q\<rfloor> = n - 1" using False by (simp add: q floor_eq_iff)
    then show ?thesis using d False by (auto simp: round_half_even_def Let_def q)
  qed
qed

lemma fl_eqI:
  assumes "of_int n * pow2 e = y" and "pow2 (52 + e) \<le> x" and "x < pow2 (53 + e)"
    and "- 1074 \<le> e" and "2 * \<bar>x - y\<bar> < pow2 e \<or> 2 * \<bar>x - y\<bar> = pow2 e \<and> even n"
  shows "fl x = y"
proof -
  have x: "0 < x" using assms(2) pow2_pos [of "52 + e"] by linarith
  have "ilog2 x = 52 + e" using ilog2_unique [of "52 + e" x] assms(2,3) by (simp add: ac_simps)
  then have e: "fl_exponent x = e" using assms(4) by (simp add: fl_exponent_def)
  have p: "0 < pow2 e" "pow2 e \<noteq> 0" using pow2_pos [of e] by linarith+
  then have "x / pow2 e - of_int n = (x - y) / pow2 e"
    unfolding assms(1) [symmetric] using p by (simp add: diff_divide_distrib)
  then have "\<bar>x / pow2 e - of_int n\<bar> = \<bar>x - y\<bar> / pow2 e"
    using p by (simp add: abs_divide abs_of_pos)
  then have "2 * \<bar>x / pow2 e - of_int n\<bar> < 1 \<or> 2 * \<bar>x / pow2 e - of_int n\<bar> = 1 \<and> even n"
    using assms(5) p by (auto simp: divide_less_eq divide_eq_eq)
  then have "round_half_even (x / pow2 e) = n" by (rule round_half_even_eqI)
  then show ?thesis using x assms(1) by (simp add: fl_def fl_pos_def e Let_def)
qed

lemma fl_power_two: "fl (2 ^ k) = 2 ^ k"
proof (rule fl_of_representable)
  have "(2 :: rat) ^ k = of_int 1 * pow2 (int k)" by (simp add: pow2_def)
  then show "representable (2 ^ k)" unfolding representable_def
    by (intro exI [of _ 1] exI [of _ "int k"]) simp
qed

lemma power_two_less_FLOAT_LIMIT: "k \<le> 1023 \<Longrightarrow> 2 ^ k < FLOAT_LIMIT"
  unfolding FLOAT_LIMIT_def by (rule power_strict_increasing) simp_all

lemma FLOAT_LIMIT_le_power_two: "1024 \<le> k \<Longrightarrow> FLOAT_LIMIT \<le> 2 ^ k"
  unfolding FLOAT_LIMIT_def by (rule power_increasing) simp_all

lemma FLOAT_LIMIT_pos: "0 < FLOAT_LIMIT"
  unfolding FLOAT_LIMIT_def by (rule zero_less_power) simp

section \<open>Built-in numeric functions\<close>

text \<open>
  Integer square root, four bits of the argument at a time, and from it the correctly rounded
  \<open>math.sqrt\<close>: the argument is scaled to about 120 bits, so that its integer root has about 60,
  and a half is added when the root is inexact, which no rounding boundary can separate from
  the true root.
\<close>

function isqrt :: "int \<Rightarrow> int" where
  "isqrt n = (if n \<le> 0 then 0
     else let s = 2 * isqrt (n div 4) in if (s + 1) * (s + 1) \<le> n then s + 1 else s)"
  by pat_completeness auto
termination
  by (relation "measure nat") auto

declare isqrt.simps [simp del]

definition fl_sqrt :: "rat \<Rightarrow> rat" where
  "fl_sqrt q = (if q \<le> 0 then 0 else
     let k = 60 - ilog2 q div 2;
         s = isqrt \<lfloor>q * pow2 (2 * k)\<rfloor>
     in fl ((if of_int (s * s) = q * pow2 (2 * k) then of_int s else of_int s + 1 / 2) / pow2 k))"

text \<open>\<open>round(x, n)\<close> for \<open>n >= 0\<close>: the exact value rounded half-even in decimal, then to binary64.\<close>

definition py_round :: "rat \<Rightarrow> nat \<Rightarrow> rat" where
  "py_round x n = fl (of_int (round_half_even (x * 10 ^ n)) / 10 ^ n)"

text \<open>
  \<open>sum(xs)\<close> over floats: since Python 3.12 (the version the package requires) the interpreter
  keeps a compensation term and adds it at the end.
\<close>

definition two_sum :: "rat \<Rightarrow> rat \<Rightarrow> rat \<times> rat" where
  "two_sum hi x =
     (let t = fl (hi + x)
      in (t, if \<bar>x\<bar> \<le> \<bar>hi\<bar> then fl (fl (hi - t) + x) else fl (fl (x - t) + hi)))"

fun sum_loop :: "rat \<Rightarrow> rat \<Rightarrow> rat list \<Rightarrow> rat" where
  "sum_loop hi lo [] = (if lo = 0 then hi else fl (hi + lo))"
| "sum_loop hi lo (x # xs) = (case two_sum hi x of (t, c) \<Rightarrow> sum_loop t (fl (lo + c)) xs)"

definition py_sum :: "rat list \<Rightarrow> rat" where
  "py_sum xs = sum_loop 0 0 xs"

text \<open>\<open>a / b\<close> on integers and \<open>x ** n\<close> on a float and a natural exponent.\<close>

definition int_div :: "int \<Rightarrow> int \<Rightarrow> rat" where
  "int_div a b = fl (of_int a / of_int b)"

definition fl_pow :: "rat \<Rightarrow> nat \<Rightarrow> rat" where
  "fl_pow x n = fl (x ^ n)"

lemma isqrt_spec:
  "0 \<le> n \<Longrightarrow> 0 \<le> isqrt n \<and> isqrt n * isqrt n \<le> n \<and> n < (isqrt n + 1) * (isqrt n + 1)"
proof (induction n rule: isqrt.induct)
  case (1 n)
  show ?case
  proof (cases "n \<le> 0")
    case False
    define r where "r = isqrt (n div 4)"
    have IH: "0 \<le> r" "r * r \<le> n div 4" "n div 4 < (r + 1) * (r + 1)"
      using 1 False by (simp_all add: r_def)
    have lo: "4 * (r * r) \<le> n" using IH(2) by linarith
    have hi: "n < 4 * ((r + 1) * (r + 1))" using IH(3) by linarith
    have "isqrt n = (if (2 * r + 1) * (2 * r + 1) \<le> n then 2 * r + 1 else 2 * r)"
      using False by (simp add: isqrt.simps [of n] Let_def r_def)
    then show ?thesis using IH(1) lo hi by (auto simp: algebra_simps)
  qed (use 1 in \<open>simp add: isqrt.simps\<close>)
qed

lemma isqrt_unique:
  assumes "0 \<le> s" and "s * s \<le> n" and "n < (s + 1) * (s + 1)"
  shows "isqrt n = s"
proof -
  have n: "0 \<le> n" using assms(1,2) by (meson mult_nonneg_nonneg order_trans)
  note i = isqrt_spec [OF n]
  have "isqrt n * isqrt n < (s + 1) * (s + 1)" and "s * s < (isqrt n + 1) * (isqrt n + 1)"
    using i assms by linarith+
  then have "isqrt n < s + 1" "s < isqrt n + 1"
    using i assms(1) by (meson add_nonneg_nonneg mult_mono not_le zero_le_one)+
  then show ?thesis by simp
qed

lemma fl_sqrt_eqI:
  assumes "pow2 e \<le> q" and "q < pow2 (e + 1)" and "k = 60 - e div 2" and "x = q * pow2 (2 * k)"
    and "0 \<le> s" and "of_int (s * s) < x" and "x < of_int ((s + 1) * (s + 1))"
    and "fl ((of_int s + 1 / 2) / pow2 k) = y"
  shows "fl_sqrt q = y"
proof -
  have q: "0 < q" using assms(1) pow2_pos [of e] by linarith
  have "ilog2 q = e" by (rule ilog2_unique [OF assms(1,2)])
  moreover have "isqrt \<lfloor>x\<rfloor> = s"
  proof (rule isqrt_unique [OF assms(5)])
    show "s * s \<le> \<lfloor>x\<rfloor>" using assms(6) by (simp only: le_floor_iff less_imp_le)
    show "\<lfloor>x\<rfloor> < (s + 1) * (s + 1)" using assms(7) by (simp only: floor_less_iff)
  qed
  ultimately show ?thesis
    using q assms(3,4,6,8) by (simp add: fl_sqrt_def Let_def)
qed

lemma fl_sqrt_nonneg: "0 \<le> fl_sqrt q"
proof (cases "q \<le> 0")
  case False
  define k where "k = 60 - ilog2 q div 2"
  define s where "s = isqrt \<lfloor>q * pow2 (2 * k)\<rfloor>"
  have s: "0 \<le> s" unfolding s_def
    by (intro isqrt_spec [THEN conjunct1]) (use False in \<open>simp add: less_imp_le\<close>)
  have "fl_sqrt q = fl ((if of_int (s * s) = q * pow2 (2 * k) then of_int s else of_int s + 1 / 2) / pow2 k)"
    using False by (simp add: fl_sqrt_def Let_def s_def k_def)
  with s show ?thesis by (simp add: b64.rnd_nonneg less_imp_le)
qed (simp add: fl_sqrt_def)

lemma fl_sqrt_0 [simp]: "fl_sqrt 0 = 0"
  by (simp add: fl_sqrt_def)

text \<open>The root is bracketed by the two neighbouring 60-bit candidates it was computed from.\<close>

lemma fl_sqrt_bracket:
  assumes q: "0 < q"
  obtains s k where "fl (of_int s / pow2 k) \<le> fl_sqrt q"
    and "fl_sqrt q \<le> fl ((of_int s + 1) / pow2 k)"
    and "(of_int s / pow2 k) ^ 2 \<le> q" and "q < ((of_int s + 1) / pow2 k) ^ 2"
proof -
  define k where "k = 60 - ilog2 q div 2"
  define x where "x = q * pow2 (2 * k)"
  define s where "s = isqrt \<lfloor>x\<rfloor>"
  have x: "0 \<le> \<lfloor>x\<rfloor>" using q by (simp add: x_def less_imp_le)
  have sq: "pow2 (2 * k) = pow2 k * pow2 k" by (metis mult_2 pow2_add)
  note spec = isqrt_spec [OF x, folded s_def]
  have "of_int (s * s) \<le> x" using spec by (metis le_floor_iff)
  then have lo: "of_int s * of_int s \<le> q * (pow2 k * pow2 k)" by (simp add: x_def sq)
  have "x < of_int ((s + 1) * (s + 1))" using spec by (metis floor_less_iff)
  then have hi: "q * (pow2 k * pow2 k) < (of_int s + 1) * (of_int s + 1)" by (simp add: x_def sq)
  have r: "fl_sqrt q = fl ((if of_int (s * s) = x then of_int s else of_int s + 1 / 2) / pow2 k)"
    using q by (simp add: fl_sqrt_def Let_def s_def x_def k_def)
  show ?thesis
  proof (rule that [of s k])
    show "fl (of_int s / pow2 k) \<le> fl_sqrt q" unfolding r
      by (intro fl_mono divide_right_mono) (auto simp: less_imp_le)
    show "fl_sqrt q \<le> fl ((of_int s + 1) / pow2 k)" unfolding r
      by (intro fl_mono divide_right_mono) (auto simp: less_imp_le)
    show "(of_int s / pow2 k) ^ 2 \<le> q" using lo
      by (simp add: power2_eq_square divide_le_eq)
    show "q < ((of_int s + 1) / pow2 k) ^ 2" using hi
      by (simp add: power2_eq_square less_divide_eq)
  qed
qed

lemma int_div_unit: "0 \<le> a \<Longrightarrow> a \<le> b \<Longrightarrow> 0 < b \<Longrightarrow> 0 \<le> int_div a b \<and> int_div a b \<le> 1"
  by (auto simp: int_div_def intro!: b64.rnd_nonneg b64.rnd_quotient_le_1)

lemma int_div_mono: "a \<le> b \<Longrightarrow> 0 < c \<Longrightarrow> int_div a c \<le> int_div b c"
  by (simp add: int_div_def fl_mono divide_right_mono)

end
