(* ===== verification/Statistics.thy ===== *)
theory Statistics
  imports Prelude PyFloat
begin

text \<open>
  \<open>src/yacht/reports/statistics.py\<close>: the evidence behind every comparison verdict. Wilson
  intervals, the exact two-sided sign test on discordant pairs and its power, the repetition
  budget, Student t-intervals and their grade, and the paired statistics of two vessels.

  Task ids are strings, counts are Python integers, every float operation is rounded by
  \<open>fl\<close>. The exceptions of the module are \<open>ValueError\<close> and the \<open>OverflowError\<close> that Python
  raises for an integer too large for a float, which the binomial sums do reach. Task counts
  themselves are taken to be far below \<open>2 ^ 511\<close>, so that no other operation overflows.
\<close>

datatype value_error = ValueError | OverflowError

definition to_float :: "int \<Rightarrow> value_error + rat" where
  "to_float n =
     (let x = fl (of_int n)
      in if x \<le> - FLOAT_LIMIT \<or> FLOAT_LIMIT \<le> x then Inl OverflowError else Inr x)"

section \<open>Constants\<close>

definition CONFIDENCE_LEVEL :: rat where
  "CONFIDENCE_LEVEL = fl (95 / 100)"

definition SIGNIFICANCE_LEVEL :: rat where
  "SIGNIFICANCE_LEVEL = fl (5 / 100)"

definition Z_95 :: rat where
  "Z_95 = fl (1959963984540054 / 10 ^ 15)"

definition POWER_TARGET :: rat where
  "POWER_TARGET = fl (8 / 10)"

definition PLANNING_SPLITS :: "rat list" where
  "PLANNING_SPLITS = [fl (9 / 10), fl (8 / 10), fl (7 / 10)]"

definition MAX_PLANNING_PAIRS :: int where
  "MAX_PLANNING_PAIRS = 400"

definition GRADE_INSUFFICIENT :: string where
  "GRADE_INSUFFICIENT = ''insufficient-evidence''"

definition GRADE_NOT_DISTINGUISHABLE :: string where
  "GRADE_NOT_DISTINGUISHABLE = ''not-distinguishable''"

definition GRADE_EVIDENCE :: string where
  "GRADE_EVIDENCE = ''evidence-of-difference''"

lemmas grade_defs = GRADE_INSUFFICIENT_def GRADE_NOT_DISTINGUISHABLE_def GRADE_EVIDENCE_def

definition T_CRITICAL_95 :: "rat list" where
  "T_CRITICAL_95 = map (\<lambda>n. fl (of_int n / 1000))
     [12706, 4303, 3182, 2776, 2571, 2447, 2365, 2306, 2262, 2228,
      2201, 2179, 2160, 2145, 2131, 2120, 2110, 2101, 2093, 2086,
      2080, 2074, 2069, 2064, 2060, 2056, 2052, 2048, 2045, 2042]"

section \<open>Wilson score interval\<close>

record interval =
  low :: rat
  high :: rat

definition wilson_center :: "int \<Rightarrow> int \<Rightarrow> rat" where
  "wilson_center successes tot =
     (let z_squared = fl (Z_95 * Z_95);
          rate = int_div successes tot;
          denominator = fl (1 + fl (z_squared / fl (of_int tot)))
      in fl (fl (rate + fl (z_squared / fl (2 * fl (of_int tot)))) / denominator))"

definition wilson_margin :: "int \<Rightarrow> int \<Rightarrow> rat" where
  "wilson_margin successes tot =
     (let z_squared = fl (Z_95 * Z_95);
          n = fl (of_int tot);
          rate = int_div successes tot;
          denominator = fl (1 + fl (z_squared / n));
          spread = fl (fl (fl (rate * fl (1 - rate)) / n)
                       + fl (z_squared / fl (fl (4 * n) * n)))
      in fl (fl (Z_95 * fl_sqrt spread) / denominator))"

definition wilson_interval :: "int \<Rightarrow> int \<Rightarrow> value_error + interval option" where
  "wilson_interval successes tot =
     (if tot \<le> 0 then Inr None
      else if successes < 0 \<or> tot < successes then Inl ValueError
      else
        let center = wilson_center successes tot; margin = wilson_margin successes tot
        in Inr (Some \<lparr>
             low = (if successes = 0 then 0 else max 0 (fl (center - margin))),
             high = (if successes = tot then 1 else min 1 (fl (center + margin))) \<rparr>))"

section \<open>Sign test\<close>

definition binomial_tail :: "int \<Rightarrow> int \<Rightarrow> int" where
  "binomial_tail extreme tot =
     sum_list (map (\<lambda>k. int (nat tot choose nat k)) [extreme..tot])"

text \<open>
  \<open>2.0 * tail\<close> may be infinite although \<open>tail\<close> converts; the product with \<open>0.5 ** total\<close> is then
  infinity or (once the power has underflowed) NaN, and \<open>min(1.0, ...)\<close> returns 1.0 for both.
\<close>

definition sign_test_p_value :: "int \<Rightarrow> int \<Rightarrow> value_error + rat" where
  "sign_test_p_value discordant_a discordant_b =
     (if discordant_a < 0 \<or> discordant_b < 0 then Inl ValueError
      else
        let tot = discordant_a + discordant_b
        in if tot = 0 then Inr 1
           else
             let extreme = max discordant_a discordant_b
             in bnd (to_float (binomial_tail extreme tot)) (\<lambda>tail.
                  let doubled = fl (2 * tail)
                  in Inr (if FLOAT_LIMIT \<le> doubled then 1
                          else min 1 (fl (doubled * fl_pow (1 / 2) (nat tot))))))"

lemma half_power_small: "6 \<le> t \<Longrightarrow> fl (2 * fl_pow (1 / 2) t) \<le> SIGNIFICANCE_LEVEL"
proof -
  assume t: "6 \<le> t"
  have "(1 / 2 :: rat) ^ t \<le> (1 / 2) ^ 6" by (rule power_decreasing) (use t in simp_all)
  also have "\<dots> = of_int 1 / 2 ^ 6" by (simp add: power_divide)
  finally have "fl_pow (1 / 2) t \<le> fl (of_int 1 / 2 ^ 6)" unfolding fl_pow_def by (rule fl_mono)
  also have "\<dots> = 1 / 64" using fl_of_representable [OF representable_fraction [of 1 6]] by simp
  finally have "2 * fl_pow (1 / 2) t \<le> 5 / 100" by simp
  then show ?thesis unfolding SIGNIFICANCE_LEVEL_def by (rule fl_mono)
qed

function significant_from :: "nat \<Rightarrow> nat" where
  "significant_from tot =
     (if fl (2 * fl_pow (1 / 2) tot) > SIGNIFICANCE_LEVEL then significant_from (tot + 1) else tot)"
  by pat_completeness auto
termination
proof (relation "measure (\<lambda>t. 6 - t)")
  fix t :: nat
  assume "SIGNIFICANCE_LEVEL < fl (2 * fl_pow (1 / 2) t)"
  then have "t < 6" using half_power_small [of t] by (meson not_le)
  then show "(t + 1, t) \<in> measure (\<lambda>t. 6 - t)" by simp
qed simp

declare significant_from.simps [simp del]

definition min_significant_discordant :: int where
  "min_significant_discordant = int (significant_from 1)"

record sign_grade =
  grade :: string
  p_value :: rat
  min_discordant :: "int option"

definition sign_test_grade :: "int \<Rightarrow> int \<Rightarrow> value_error + sign_grade" where
  "sign_test_grade discordant_a discordant_b =
     bnd (sign_test_p_value discordant_a discordant_b) (\<lambda>p.
       let tot = discordant_a + discordant_b; minimum = min_significant_discordant
       in Inr (if tot < minimum
               then \<lparr>grade = GRADE_INSUFFICIENT, p_value = p, min_discordant = Some minimum\<rparr>
               else if SIGNIFICANCE_LEVEL \<le> p
               then \<lparr>grade = GRADE_NOT_DISTINGUISHABLE, p_value = p, min_discordant = None\<rparr>
               else \<lparr>grade = GRADE_EVIDENCE, p_value = p, min_discordant = None\<rparr>))"

section \<open>Power and planning\<close>

definition power_term :: "int \<Rightarrow> rat \<Rightarrow> int \<Rightarrow> value_error + rat" where
  "power_term tot favored_fraction favored =
     bnd (to_float (int (nat tot choose nat favored))) (\<lambda>ways.
       Inr (fl (fl (ways * fl_pow favored_fraction (nat favored))
                * fl_pow (fl (1 - favored_fraction)) (nat (tot - favored)))))"

fun power_loop :: "int \<Rightarrow> rat \<Rightarrow> rat \<Rightarrow> int list \<Rightarrow> value_error + rat" where
  "power_loop tot favored_fraction acc [] = Inr acc"
| "power_loop tot favored_fraction acc (favored # rest) =
     bnd (sign_test_p_value (tot - favored) favored) (\<lambda>p.
       if p < SIGNIFICANCE_LEVEL
       then bnd (power_term tot favored_fraction favored) (\<lambda>term.
              power_loop tot favored_fraction (fl (acc + term)) rest)
       else power_loop tot favored_fraction acc rest)"

definition sign_test_power :: "int \<Rightarrow> rat \<Rightarrow> value_error + rat" where
  "sign_test_power discordant_pairs favored_fraction =
     (if discordant_pairs \<le> 0 then Inr 0
      else if \<not> (0 \<le> favored_fraction \<and> favored_fraction \<le> 1) then Inl ValueError
      else bnd (power_loop discordant_pairs favored_fraction 0 [0..discordant_pairs])
             (\<lambda>power. Inr (min 1 power)))"

fun first_powered :: "rat \<Rightarrow> rat \<Rightarrow> int list \<Rightarrow> value_error + int option" where
  "first_powered favored_fraction power_target [] = Inr None"
| "first_powered favored_fraction power_target (pairs # rest) =
     bnd (sign_test_power pairs favored_fraction) (\<lambda>power.
       if power_target \<le> power then Inr (Some pairs)
       else first_powered favored_fraction power_target rest)"

definition min_discordant_for_power :: "rat \<Rightarrow> rat \<Rightarrow> value_error + int option" where
  "min_discordant_for_power favored_fraction power_target =
     first_powered favored_fraction power_target [min_significant_discordant..MAX_PLANNING_PAIRS]"

definition repetitions_for :: "int \<Rightarrow> rat \<Rightarrow> int \<Rightarrow> int option" where
  "repetitions_for pairs_needed rate shared_tasks =
     (let expected_per_run = fl (rate * fl (of_int shared_tasks))
      in if expected_per_run \<le> 0 then None
         else Some \<lceil>fl (fl (of_int pairs_needed) / expected_per_run)\<rceil>)"

text \<open>
  A plan has no \<open>repetitions\<close> key when the target is out of reach (\<open>None\<close>); the key's value may
  itself be \<open>None\<close>.
\<close>

record plan =
  assumed_favored_fraction :: rat
  discordant_pairs_needed :: "int option"
  repetitions :: "int option option"
  repetitions_range :: "(int option \<times> int option) option"

record guidance =
  power_target :: rat
  significance_level :: rat
  observed_discordance_rate :: rat
  shared_tasks_per_run :: int
  plans :: "plan list"
  rate_interval :: "interval option"

definition plan_for :: "rat \<Rightarrow> interval option \<Rightarrow> int \<Rightarrow> rat \<Rightarrow> rat \<Rightarrow> value_error + plan" where
  "plan_for rate rate_int shared_tasks target split =
     bnd (min_discordant_for_power split target) (\<lambda>needed.
       Inr (case needed of
         None \<Rightarrow> \<lparr>assumed_favored_fraction = split, discordant_pairs_needed = None,
                  repetitions = None, repetitions_range = None\<rparr>
       | Some pairs \<Rightarrow>
           \<lparr>assumed_favored_fraction = split, discordant_pairs_needed = Some pairs,
            repetitions = Some (repetitions_for pairs rate shared_tasks),
            repetitions_range = map_option (\<lambda>i.
              (repetitions_for pairs (high i) shared_tasks,
               repetitions_for pairs (low i) shared_tasks)) rate_int\<rparr>))"

definition repetition_budget ::
    "int \<Rightarrow> int \<Rightarrow> rat \<Rightarrow> rat list \<Rightarrow> value_error + guidance option" where
  "repetition_budget discordant_pairs shared_tasks target splits =
     (if shared_tasks \<le> 0 then Inr None
      else
        let rate = int_div discordant_pairs shared_tasks
        in bnd (wilson_interval discordant_pairs shared_tasks) (\<lambda>rate_int.
           bnd (mapR (plan_for rate rate_int shared_tasks target) splits) (\<lambda>ps.
           Inr (Some \<lparr>power_target = target, significance_level = SIGNIFICANCE_LEVEL,
                      observed_discordance_rate = rate, shared_tasks_per_run = shared_tasks,
                      plans = ps, rate_interval = rate_int\<rparr>))))"

section \<open>Student t-intervals\<close>

record mean_interval = interval +
  mean :: rat

definition sample_variance :: "rat \<Rightarrow> rat list \<Rightarrow> rat" where
  "sample_variance m values =
     fl (py_sum (map (\<lambda>v. fl_pow (fl (v - m)) 2) values) / fl (of_nat (length values - 1)))"

definition t_interval :: "rat list \<Rightarrow> mean_interval option" where
  "t_interval values =
     (let count = length values
      in if count < 2 then None
         else
           let m = fl (py_sum values / fl (of_nat count));
               variance = sample_variance m values;
               standard_error = fl_sqrt (fl (variance / fl (of_nat count)));
               degrees_of_freedom = count - 1;
               critical = (if degrees_of_freedom \<le> length T_CRITICAL_95
                           then T_CRITICAL_95 ! (degrees_of_freedom - 1) else Z_95);
               margin = fl (critical * standard_error)
           in Some \<lparr>low = fl (m - margin), high = fl (m + margin), mean = m\<rparr>)"

definition interval_grade :: "('a interval_scheme) option \<Rightarrow> string" where
  "interval_grade i = (case i of
     None \<Rightarrow> GRADE_INSUFFICIENT
   | Some v \<Rightarrow>
       if high v \<le> low v then GRADE_INSUFFICIENT
       else if low v \<le> 0 \<and> 0 \<le> high v then GRADE_NOT_DISTINGUISHABLE
       else GRADE_EVIDENCE)"

section \<open>Paired resolution statistics\<close>

record paired_statistics = sign_grade +
  shared_tasks :: int
  concordant_resolved :: int
  concordant_unresolved :: int
  discordant_baseline_only :: int
  discordant_challenger_only :: int
  discordant_baseline_only_ids :: "string list"
  discordant_challenger_only_ids :: "string list"

definition paired_resolution_statistics ::
    "string list \<Rightarrow> string list \<Rightarrow> string list \<Rightarrow> string list \<Rightarrow> value_error + paired_statistics" where
  "paired_resolution_statistics baseline_resolved_ids baseline_unresolved_ids
       challenger_resolved_ids challenger_unresolved_ids =
     (let baseline_resolved = set baseline_resolved_ids;
          baseline_attempted = baseline_resolved \<union> set baseline_unresolved_ids;
          challenger_resolved = set challenger_resolved_ids;
          challenger_attempted = challenger_resolved \<union> set challenger_unresolved_ids;
          shared = baseline_attempted \<inter> challenger_attempted;
          baseline_only = sorted_list_of_set
            (Set.filter (\<lambda>t. t \<in> baseline_resolved \<and> t \<notin> challenger_resolved) shared);
          challenger_only = sorted_list_of_set
            (Set.filter (\<lambda>t. t \<in> challenger_resolved \<and> t \<notin> baseline_resolved) shared);
          both = int (card
            (Set.filter (\<lambda>t. t \<in> baseline_resolved \<and> t \<in> challenger_resolved) shared));
          neither = int (card shared) - both - int (length baseline_only)
                    - int (length challenger_only)
      in bnd (sign_test_grade (int (length baseline_only)) (int (length challenger_only))) (\<lambda>g.
         Inr \<lparr>grade = grade g, p_value = p_value g, min_discordant = min_discordant g,
              shared_tasks = int (card shared),
              concordant_resolved = both, concordant_unresolved = neither,
              discordant_baseline_only = int (length baseline_only),
              discordant_challenger_only = int (length challenger_only),
              discordant_baseline_only_ids = baseline_only,
              discordant_challenger_only_ids = challenger_only\<rparr>))"

section \<open>Sign test: range, symmetry, monotonicity\<close>

lemma sign_test_p_value_nonneg_args: "sign_test_p_value a b = Inr p \<Longrightarrow> 0 \<le> a \<and> 0 \<le> b"
  by (auto simp: sign_test_p_value_def split: if_splits)

lemma sign_test_p_value_sym: "sign_test_p_value a b = sign_test_p_value b a"
  by (simp add: sign_test_p_value_def add.commute max.commute disj_commute Let_def)

lemma binomial_tail_nonneg: "0 \<le> binomial_tail e n"
  unfolding binomial_tail_def by (rule sum_list_nonneg) auto

lemma binomial_tail_sum: "0 \<le> n \<Longrightarrow> 0 \<le> e \<Longrightarrow> binomial_tail e n = (\<Sum>k\<in>{nat e..nat n}. int (nat n choose k))"
proof -
  assume *: "0 \<le> n" "0 \<le> e"
  have "binomial_tail e n = (\<Sum>k\<in>{e..n}. int (nat n choose nat k))"
    by (simp add: binomial_tail_def sum_list_distinct_conv_sum_set)
  also have "\<dots> = (\<Sum>k\<in>{nat e..nat n}. int (nat n choose k))"
    by (rule sum.reindex_bij_witness [of _ int nat]) (use * in auto)
  finally show ?thesis .
qed

lemma binomial_tail_antimono: "0 \<le> e \<Longrightarrow> e \<le> e' \<Longrightarrow> 0 \<le> n \<Longrightarrow> binomial_tail e' n \<le> binomial_tail e n"
  by (simp add: binomial_tail_sum) (rule sum_mono2, auto)

lemma binomial_tail_self: "0 \<le> n \<Longrightarrow> binomial_tail n n = 1"
  by (simp add: binomial_tail_sum)

lemma binomial_tail_ge_1: "0 \<le> e \<Longrightarrow> e \<le> n \<Longrightarrow> 1 \<le> binomial_tail e n"
  using binomial_tail_antimono [of e n n] by (simp add: binomial_tail_self)

lemma fl_pow_nonneg: "0 \<le> x \<Longrightarrow> 0 \<le> fl_pow x n"
  by (simp add: fl_pow_def b64.rnd_nonneg)

lemma fl_pow_unit: "0 \<le> x \<Longrightarrow> x \<le> 1 \<Longrightarrow> fl_pow x n \<le> 1"
  by (simp add: fl_pow_def b64.rnd_le_1 power_le_one)

lemma to_float_eq_Inr:
  "to_float n = Inr x \<longleftrightarrow> x = fl (of_int n) \<and> - FLOAT_LIMIT < x \<and> x < FLOAT_LIMIT"
  by (auto simp: to_float_def Let_def)

lemma to_float_ok:
  assumes "0 \<le> n" and "n \<le> 2 ^ k" and "k \<le> 1023"
  shows "to_float n = Inr (fl (of_int n))"
proof -
  have "fl (of_int n) \<le> fl (2 ^ k)" by (rule fl_mono [OF rat_of_int_le_power [OF assms(2)]])
  then have "fl (of_int n) < FLOAT_LIMIT"
    unfolding fl_power_two using power_two_less_FLOAT_LIMIT [OF assms(3)] by (rule le_less_trans)
  moreover have "0 \<le> fl (of_int n)" using assms(1) by (intro b64.rnd_nonneg) simp
  ultimately show ?thesis using FLOAT_LIMIT_pos unfolding to_float_eq_Inr by linarith
qed

lemma to_float_overflow:
  assumes "2 ^ k \<le> n" and "1024 \<le> k"
  shows "to_float n = Inl OverflowError"
proof -
  have "fl (2 ^ k) \<le> fl (of_int n)" by (rule fl_mono [OF rat_power_le_of_int [OF assms(1)]])
  then have "FLOAT_LIMIT \<le> fl (of_int n)"
    unfolding fl_power_two using FLOAT_LIMIT_le_power_two [OF assms(2)] by (rule order_trans [rotated])
  then show ?thesis by (simp only: to_float_def Let_def simp_thms if_True)
qed

lemma binomial_tail_le:
  assumes "0 \<le> e" and "0 \<le> n"
  shows "binomial_tail e n \<le> 2 ^ nat n"
proof -
  have "binomial_tail e n \<le> binomial_tail 0 n" using assms by (intro binomial_tail_antimono) simp_all
  also have "\<dots> = int (\<Sum>k\<le>nat n. nat n choose k)"
    using assms by (simp add: binomial_tail_sum atLeast0AtMost)
  also have "\<dots> = 2 ^ nat n" by (simp add: choose_row_sum)
  finally show ?thesis .
qed

lemma sign_test_p_value_eq_Inr:
  "sign_test_p_value a b = Inr p \<longleftrightarrow> 0 \<le> a \<and> 0 \<le> b \<and>
     (if a + b = 0 then p = 1
      else (\<exists>tail. to_float (binomial_tail (max a b) (a + b)) = Inr tail \<and>
        p = (if FLOAT_LIMIT \<le> fl (2 * tail) then 1
             else min 1 (fl (fl (2 * tail) * fl_pow (1 / 2) (nat (a + b)))))))"
proof (cases "a < 0 \<or> b < 0")
  case False
  then show ?thesis
    by (cases "a + b = 0"; simp only: sign_test_p_value_def Let_def bnd_eq_Inr if_False if_True not_less simp_thms)
      (simp_all only: sum.inject de_Morgan_disj not_less simp_thms, blast+)
qed (auto simp: sign_test_p_value_def)

lemma sign_test_p_value_ok:
  assumes "0 \<le> a" and "0 \<le> b" and "a + b \<le> 1023"
  shows "\<exists>p. sign_test_p_value a b = Inr p"
proof -
  have "binomial_tail (max a b) (a + b) \<le> 2 ^ nat (a + b)" using assms by (intro binomial_tail_le) simp_all
  from to_float_ok [OF binomial_tail_nonneg this] assms show ?thesis
    by (simp add: sign_test_p_value_def Let_def)
qed

lemma sign_test_p_value_error:
  "sign_test_p_value a b = Inl e \<Longrightarrow> 0 \<le> a \<Longrightarrow> 0 \<le> b \<Longrightarrow> e = OverflowError"
  by (auto simp: sign_test_p_value_def to_float_def Let_def bnd_eq_Inl split: if_splits)

lemma sign_test_p_value_unit:
  assumes "sign_test_p_value a b = Inr p"
  shows "0 \<le> p" and "p \<le> 1"
proof -
  have "0 \<le> fl (fl (2 * t) * fl_pow (1 / 2) n)" if "0 \<le> t" for t n
    using that by (intro b64.rnd_nonneg mult_nonneg_nonneg fl_pow_nonneg) simp_all
  moreover have "0 \<le> t" if "to_float (binomial_tail e n) = Inr t" for t e n
    using that b64.rnd_nonneg [of "of_int (binomial_tail e n)"] binomial_tail_nonneg
    by (auto simp: to_float_eq_Inr)
  ultimately show "0 \<le> p" and "p \<le> 1"
    using assms unfolding sign_test_p_value_eq_Inr by (auto split: if_splits)
qed

lemma sign_test_p_value_antimono:
  assumes "0 \<le> a" and "a \<le> a'" and "a' \<le> b'" and "a + b = a' + b'"
    and "sign_test_p_value a b = Inr p" and "sign_test_p_value a' b' = Inr p'"
  shows "p \<le> p'"
proof (cases "a + b = 0")
  case False
  have m: "max a b = b" "max a' b' = b'" using assms by simp_all
  define t t' where "t = fl (of_int (binomial_tail b (a + b)))"
    and "t' = fl (of_int (binomial_tail b' (a + b)))"
  define w w' where "w = fl (2 * t)" and "w' = fl (2 * t')"
  have "binomial_tail b (a + b) \<le> binomial_tail b' (a + b)"
    using assms by (intro binomial_tail_antimono) simp_all
  then have w: "w \<le> w'" unfolding t_def t'_def w_def w'_def by (intro fl_mono) (simp add: fl_mono)
  then have "fl (w * fl_pow (1 / 2) (nat (a + b))) \<le> fl (w' * fl_pow (1 / 2) (nat (a + b)))"
    by (rule fl_mono [OF mult_right_mono]) (simp add: fl_pow_nonneg)
  moreover have "p = (if FLOAT_LIMIT \<le> w then 1 else min 1 (fl (w * fl_pow (1 / 2) (nat (a + b)))))"
    using assms(5) False unfolding sign_test_p_value_eq_Inr to_float_eq_Inr m t_def [symmetric]
      w_def by presburger
  moreover have "p' = (if FLOAT_LIMIT \<le> w' then 1 else min 1 (fl (w' * fl_pow (1 / 2) (nat (a + b)))))"
    using assms(6) False unfolding sign_test_p_value_eq_Inr to_float_eq_Inr m assms(4) [symmetric]
      t'_def [symmetric] w'_def by presburger
  ultimately show ?thesis using w by (auto simp: min_def split: if_splits)
qed (use assms in \<open>auto simp: sign_test_p_value_def Let_def split: if_splits\<close>)

lemma central_tail_half:
  "2 ^ (2 * n) \<le> 2 * (\<Sum>k\<in>{n..2 * n}. (2 * n) choose k)"
proof -
  let ?c = "\<lambda>k. (2 * n) choose k"
  have sym: "?c (2 * n - k) = ?c k" if "k \<le> 2 * n" for k
    using binomial_symmetric [OF that] by simp
  have "(\<Sum>k\<in>{..<n}. ?c k) = (\<Sum>k\<in>{n<..2 * n}. ?c k)"
    by (rule sum.reindex_bij_witness [of _ "\<lambda>k. 2 * n - k" "\<lambda>k. 2 * n - k"]) (auto simp: sym)
  also have "\<dots> \<le> (\<Sum>k\<in>{n..2 * n}. ?c k)" by (rule sum_mono2) auto
  finally have "(\<Sum>k\<in>{..<n}. ?c k) \<le> (\<Sum>k\<in>{n..2 * n}. ?c k)" .
  moreover have "{..2 * n} = {..<n} \<union> {n..2 * n}" by auto
  then have "(\<Sum>k\<in>{..2 * n}. ?c k) = (\<Sum>k\<in>{..<n}. ?c k) + (\<Sum>k\<in>{n..2 * n}. ?c k)"
    by (simp only:) (rule sum.union_disjoint, auto)
  ultimately show ?thesis using choose_row_sum [of "2 * n"] by simp
qed

lemma balanced_tail:
  assumes "0 < m"
  shows "2 ^ (2 * m - 1) \<le> binomial_tail (int m) (int m + int m)"
proof -
  have n: "nat (int m + int m) = 2 * m" "nat (int m) = m" by simp_all
  have "binomial_tail (int m) (int m + int m) = (\<Sum>k\<in>{m..2 * m}. int ((2 * m) choose k))"
    using binomial_tail_sum [of "int m + int m" "int m"] unfolding n by simp
  then have "binomial_tail (int m) (int m + int m) = int (\<Sum>k\<in>{m..2 * m}. (2 * m) choose k)"
    by (simp only: of_nat_sum)
  moreover have "int (2 ^ (2 * m)) \<le> int (2 * (\<Sum>k\<in>{m..2 * m}. (2 * m) choose k))"
    by (rule of_nat_mono [OF central_tail_half])
  moreover have "2 * m = Suc (2 * m - 1)" using assms by simp
  then have "int (2 ^ (2 * m)) = 2 * 2 ^ (2 * m - 1)" by (metis of_nat_numeral of_nat_power power_Suc)
  ultimately show ?thesis by simp
qed

section \<open>The smallest significant discordant count\<close>

lemma fl_half_power: "t \<le> 1000 \<Longrightarrow> fl_pow (1 / 2) t = 1 / 2 ^ t"
  using fl_of_representable [OF representable_fraction [of 1 t]]
  by (simp add: fl_pow_def power_divide)

lemma fl_double_half_power: "Suc t \<le> 1000 \<Longrightarrow> fl (2 * fl_pow (1 / 2) (Suc t)) = 1 / 2 ^ t"
  using fl_of_representable [OF representable_fraction [of 1 t]] by (simp add: fl_half_power)

lemma significance_value: "SIGNIFICANCE_LEVEL < 1 / 16" "1 / 32 < SIGNIFICANCE_LEVEL"
  unfolding SIGNIFICANCE_LEVEL_def by code_simp+

lemma min_significant_discordant_6: "min_significant_discordant = 6"
proof -
  note step = significant_from.simps [of 1] significant_from.simps [of 2] significant_from.simps [of 3]
    significant_from.simps [of 4] significant_from.simps [of 5] significant_from.simps [of 6]
  note pw = fl_double_half_power [of 0] fl_double_half_power [of 1] fl_double_half_power [of 2]
    fl_double_half_power [of 3] fl_double_half_power [of 4] fl_double_half_power [of 5]
  have "significant_from 1 = 6"
    using step pw significance_value by (simp add: numeral_eq_Suc)
  then show ?thesis by (simp add: min_significant_discordant_def)
qed

lemma sign_test_p_value_small:
  assumes "0 \<le> a" and "0 \<le> b" and "a + b < 6" and "sign_test_p_value a b = Inr p"
  shows "SIGNIFICANCE_LEVEL \<le> p"
proof (cases "a + b = 0")
  case True
  then have "p = 1" using assms by (simp add: sign_test_p_value_eq_Inr)
  then show ?thesis using significance_value by simp
next
  case False
  define t where "t = nat (a + b - 1)"
  have t: "nat (a + b) = Suc t" "t \<le> 4" using False assms by (simp_all add: t_def)
  define k where "k = fl (2 * fl (of_int (binomial_tail (max a b) (a + b))))"
  have "(1 :: rat) \<le> fl (of_int (binomial_tail (max a b) (a + b)))"
    using binomial_tail_ge_1 [of "max a b" "a + b"] assms by (intro b64.rnd_ge_1) simp
  then have "fl (of_int 2) \<le> k" unfolding k_def by (intro fl_mono) simp
  then have k: "2 \<le> k" using fl_of_int [of 2] by simp
  have "(1 / 16 :: rat) \<le> 1 / 2 ^ t"
    using power_increasing [OF t(2), of "2 :: rat"] by (simp add: field_simps)
  also have "\<dots> = fl (1 / 2 ^ t)" using fl_of_representable [OF representable_fraction [of 1 t]] t by simp
  also have "\<dots> \<le> fl (k * fl_pow (1 / 2) (Suc t))"
    using k t by (intro fl_mono) (simp add: fl_half_power field_simps)
  finally have "1 / 16 \<le> fl (k * fl_pow (1 / 2) (Suc t))" .
  moreover have "p = (if FLOAT_LIMIT \<le> k then 1 else min 1 (fl (k * fl_pow (1 / 2) (Suc t))))"
    using assms(4) False unfolding sign_test_p_value_eq_Inr to_float_eq_Inr t(1) k_def by presburger
  ultimately show ?thesis using significance_value by (auto split: if_splits)
qed

lemma sign_test_p_value_unanimous:
  assumes n: "6 \<le> n"
  shows "\<exists>p. sign_test_p_value (int n) 0 = Inr p \<and> p < SIGNIFICANCE_LEVEL"
proof -
  have 2: "fl (2 :: rat) = 2" using fl_of_int [of 2] by simp
  have lim: "2 < FLOAT_LIMIT" by (simp add: FLOAT_LIMIT_def)
  have "to_float 1 = Inr 1" using to_float_ok [of 1 0] by simp
  then have p: "sign_test_p_value (int n) 0 = Inr (min 1 (fl (2 * fl_pow (1 / 2) n)))"
    using n 2 lim by (simp add: sign_test_p_value_def Let_def binomial_tail_self)
  have "(1 / 2 :: rat) ^ n \<le> (1 / 2) ^ 6" by (rule power_decreasing) (use n in simp_all)
  then have "fl_pow (1 / 2) n \<le> fl_pow (1 / 2) 6" unfolding fl_pow_def by (rule fl_mono)
  then have "fl (2 * fl_pow (1 / 2) n) \<le> fl (2 * fl_pow (1 / 2) 6)" by (intro fl_mono) simp
  also have "\<dots> = 1 / 32" using fl_double_half_power [of 5] by (simp add: numeral_eq_Suc)
  finally show ?thesis using p significance_value by simp
qed

section \<open>Wilson interval bounds\<close>

lemma Z_95_nonneg: "0 \<le> Z_95"
  unfolding Z_95_def by (rule b64.rnd_nonneg) simp

lemma fl_total_ge_1: "0 < n \<Longrightarrow> 1 \<le> fl (of_int n)"
  by (rule b64.rnd_ge_1) simp

lemma wilson_center_unit:
  assumes "0 < tot" and "0 \<le> successes" and "successes \<le> tot"
  shows "0 \<le> wilson_center successes tot \<and> wilson_center successes tot \<le> 1"
proof -
  define n where "n = fl (of_int tot)"
  define z where "z = fl (Z_95 * Z_95)"
  define d where "d = fl (1 + fl (z / n))"
  define num where "num = fl (int_div successes tot + fl (z / fl (2 * n)))"
  have n: "1 \<le> n" using assms fl_total_ge_1 by (simp add: n_def)
  have z: "0 \<le> z" unfolding z_def by (intro b64.rnd_nonneg mult_nonneg_nonneg Z_95_nonneg)
  have r: "0 \<le> int_div successes tot" "int_div successes tot \<le> 1"
    using int_div_unit assms by blast+
  have "0 \<le> fl (z / n)" using z n by (intro b64.rnd_nonneg) simp
  then have d: "1 \<le> d" unfolding d_def by (intro b64.rnd_ge_1) simp
  have n2: "n \<le> fl (2 * n)" using n fl_mono [of n "2 * n"] by (simp add: n_def)
  then have "fl (z / fl (2 * n)) \<le> fl (z / n)"
    using z n by (intro fl_mono divide_left_mono) auto
  then have "num \<le> d" unfolding num_def d_def using r by (intro fl_mono) simp
  moreover have "0 \<le> fl (z / fl (2 * n))" using z n n2 by (intro b64.rnd_nonneg) simp
  then have "0 \<le> num" unfolding num_def using r by (intro b64.rnd_nonneg) simp
  moreover have "wilson_center successes tot = fl (num / d)"
    by (simp add: wilson_center_def Let_def num_def d_def z_def n_def)
  ultimately show ?thesis using d
    by (auto intro!: b64.rnd_nonneg b64.rnd_quotient_le_1)
qed

lemma wilson_margin_nonneg:
  assumes "0 < tot"
  shows "0 \<le> wilson_margin successes tot"
proof -
  have "0 \<le> fl (of_int tot)" using fl_total_ge_1 [OF assms] by linarith
  then have "0 \<le> fl (fl (Z_95 * Z_95) / fl (of_int tot))"
    by (intro b64.rnd_nonneg [OF divide_nonneg_nonneg] b64.rnd_nonneg [OF mult_nonneg_nonneg] Z_95_nonneg)
  then have "0 \<le> 1 + fl (fl (Z_95 * Z_95) / fl (of_int tot))" by simp
  then show ?thesis unfolding wilson_margin_def Let_def
    by (intro b64.rnd_nonneg divide_nonneg_nonneg mult_nonneg_nonneg Z_95_nonneg fl_sqrt_nonneg)
qed

lemma fl_wilson_center [simp]: "fl (wilson_center s n) = wilson_center s n"
  by (simp add: wilson_center_def Let_def)

lemma wilson_interval_cases:
  assumes "wilson_interval s n = Inr (Some i)"
  shows "0 < n" and "0 \<le> s" and "s \<le> n"
    and "low i = (if s = 0 then 0 else max 0 (fl (wilson_center s n - wilson_margin s n)))"
    and "high i = (if s = n then 1 else min 1 (fl (wilson_center s n + wilson_margin s n)))"
  using assms by (auto simp: wilson_interval_def Let_def split: if_splits)

lemma wilson_interval_ordered:
  assumes "wilson_interval s n = Inr (Some i)"
  shows "0 \<le> low i" and "low i \<le> high i" and "high i \<le> 1"
    and "s \<noteq> 0 \<Longrightarrow> low i \<le> wilson_center s n" and "s \<noteq> n \<Longrightarrow> wilson_center s n \<le> high i"
proof -
  note w = wilson_interval_cases [OF assms]
  let ?c = "wilson_center s n" and ?m = "wilson_margin s n"
  have c: "0 \<le> ?c" "?c \<le> 1" using wilson_center_unit w by blast+
  have m: "0 \<le> ?m" using wilson_margin_nonneg w by blast
  have "fl (?c - ?m) \<le> ?c" "?c \<le> fl (?c + ?m)"
    using m by (simp_all add: b64.rnd_sub_le b64.rnd_add_ge)
  with c w show "0 \<le> low i" and "low i \<le> high i" and "high i \<le> 1"
    and "s \<noteq> 0 \<Longrightarrow> low i \<le> ?c" and "s \<noteq> n \<Longrightarrow> ?c \<le> high i"
    by auto
qed

section \<open>Power and planning\<close>

lemma power_term_ok:
  assumes "n \<le> 1023"
  shows "\<exists>w. power_term n f k = Inr w"
proof -
  have "(nat n choose nat k) \<le> 2 ^ nat n"
    by (cases "nat k \<le> nat n") (simp_all add: binomial_le_pow2 binomial_eq_0)
  then have "int (nat n choose nat k) \<le> 2 ^ nat n" by (metis of_nat_le_iff of_nat_numeral of_nat_power)
  from to_float_ok [OF _ this] assms show ?thesis by (simp add: power_term_def)
qed

lemma power_loop_ok:
  "n \<le> 1023 \<Longrightarrow> set ks \<subseteq> {0..n} \<Longrightarrow> \<exists>w. power_loop n f acc ks = Inr w"
proof (induction ks arbitrary: acc)
  case (Cons k ks)
  then obtain p where "sign_test_p_value (n - k) k = Inr p"
    using sign_test_p_value_ok [of "n - k" k] by auto
  moreover obtain w where "power_term n f k = Inr w" using power_term_ok Cons by blast
  ultimately show ?case using Cons by simp
qed simp

lemma sign_test_power_ok: "n \<le> 1023 \<Longrightarrow> 0 \<le> f \<Longrightarrow> f \<le> 1 \<Longrightarrow> \<exists>w. sign_test_power n f = Inr w"
  using power_loop_ok [of n "[0..n]" f 0] by (auto simp: sign_test_power_def)

lemma first_powered_ok:
  "set ns \<subseteq> {..1023} \<Longrightarrow> 0 \<le> f \<Longrightarrow> f \<le> 1 \<Longrightarrow> \<exists>r. first_powered f t ns = Inr r"
proof (induction ns)
  case (Cons n ns)
  then obtain w where "sign_test_power n f = Inr w" using sign_test_power_ok [of n f] by auto
  with Cons show ?case by simp
qed simp

lemma first_powered_Some:
  "first_powered f t ns = Inr (Some n) \<Longrightarrow>
     \<exists>before after. ns = before @ n # after
       \<and> (\<exists>w. sign_test_power n f = Inr w \<and> t \<le> w)
       \<and> (\<forall>k\<in>set before. \<exists>w. sign_test_power k f = Inr w \<and> w < t)"
proof (induction ns)
  case (Cons k ks)
  then obtain w where w: "sign_test_power k f = Inr w" by (auto simp: bnd_eq_Inr)
  show ?case
  proof (cases "t \<le> w")
    case True
    with Cons.prems w have "k = n" by simp
    with True w show ?thesis by (intro exI [of _ "[]"] exI [of _ ks]) auto
  next
    case False
    with Cons.prems w have "first_powered f t ks = Inr (Some n)" by simp
    from Cons.IH [OF this] obtain before after where
      "ks = before @ n # after" "\<exists>w. sign_test_power n f = Inr w \<and> t \<le> w"
      "\<forall>k\<in>set before. \<exists>w. sign_test_power k f = Inr w \<and> w < t" by blast
    with False w show ?thesis by (intro exI [of _ "k # before"] exI [of _ after]) auto
  qed
qed simp

lemma first_powered_None:
  "first_powered f t ns = Inr None \<Longrightarrow> n \<in> set ns \<Longrightarrow> \<exists>w. sign_test_power n f = Inr w \<and> w < t"
  by (induction ns) (auto simp: bnd_eq_Inr not_le split: if_splits)

lemma min_discordant_range:
  "min_discordant_for_power f t = Inr (Some n) \<Longrightarrow> 6 \<le> n \<and> n \<le> 400"
  unfolding min_discordant_for_power_def min_significant_discordant_6 MAX_PLANNING_PAIRS_def
  by (drule first_powered_Some) (metis atLeastAtMost_iff in_set_conv_decomp set_upto)

lemma repetitions_for_antimono:
  assumes "0 \<le> pairs" and "r \<le> r'" and "0 < s" and "repetitions_for pairs r s = Some h"
  shows "\<exists>l. repetitions_for pairs r' s = Some l \<and> l \<le> h"
proof -
  let ?e = "fl (r * fl (of_int s))" and ?e' = "fl (r' * fl (of_int s))"
  have e: "0 < ?e" and h: "h = \<lceil>fl (fl (of_int pairs) / ?e)\<rceil>"
    using assms(4) by (auto simp: repetitions_for_def Let_def split: if_splits)
  have ee: "?e \<le> ?e'" using assms fl_total_ge_1 [of s] by (intro fl_mono mult_right_mono) auto
  have "fl (of_int pairs) / ?e' \<le> fl (of_int pairs) / ?e"
    using e ee assms(1) by (intro divide_left_mono) (auto intro: b64.rnd_nonneg)
  then have "\<lceil>fl (fl (of_int pairs) / ?e')\<rceil> \<le> h" unfolding h by (intro ceiling_mono fl_mono)
  with e ee show ?thesis by (simp add: repetitions_for_def Let_def)
qed

lemma min_discordant_for_power_ok:
  assumes "0 \<le> f" and "f \<le> 1"
  shows "\<exists>r. min_discordant_for_power f t = Inr r"
  unfolding min_discordant_for_power_def min_significant_discordant_6 MAX_PLANNING_PAIRS_def
proof (rule first_powered_ok [OF _ assms])
  show "set [6..400] \<subseteq> {..(1023 :: int)}" by (simp only: set_upto) auto
qed

lemma plan_for_ok: "0 \<le> f \<Longrightarrow> f \<le> 1 \<Longrightarrow> \<exists>p. plan_for r i n target f = Inr p"
  using min_discordant_for_power_ok [of f target] by (auto simp: plan_for_def)

section \<open>T-intervals\<close>

lemma fl_list_nonneg: "\<forall>n\<in>set ns. 0 \<le> n \<Longrightarrow> \<forall>x\<in>set (map (\<lambda>n. fl (of_int n / 1000)) ns). 0 \<le> x"
  by (auto intro!: b64.rnd_nonneg)

lemma T_CRITICAL_nonneg: "i < length T_CRITICAL_95 \<Longrightarrow> 0 \<le> T_CRITICAL_95 ! i"
proof -
  have "\<forall>x\<in>set T_CRITICAL_95. 0 \<le> x"
    unfolding T_CRITICAL_95_def by (rule fl_list_nonneg) simp
  then show "i < length T_CRITICAL_95 \<Longrightarrow> 0 \<le> T_CRITICAL_95 ! i" by simp
qed

lemma t_interval_contains_mean:
  assumes "t_interval vs = Some i"
  shows "2 \<le> length vs" and "low i \<le> mean i" and "mean i \<le> high i"
proof -
  define critical where "critical =
    (if length vs - 1 \<le> length T_CRITICAL_95 then T_CRITICAL_95 ! (length vs - 1 - 1) else Z_95)"
  define m where "m = fl (py_sum vs / fl (of_nat (length vs)))"
  define margin where
    "margin = fl (critical * fl_sqrt (fl (sample_variance m vs / fl (of_nat (length vs)))))"
  have n: "2 \<le> length vs" and i: "i = \<lparr>low = fl (m - margin), high = fl (m + margin), mean = m\<rparr>"
    using assms by (auto simp: t_interval_def Let_def m_def margin_def critical_def split: if_splits)
  have "0 \<le> critical" unfolding critical_def using n
    by (cases "length vs - 1 \<le> length T_CRITICAL_95") (auto intro: T_CRITICAL_nonneg Z_95_nonneg)
  then have "0 \<le> margin" unfolding margin_def by (intro b64.rnd_nonneg mult_nonneg_nonneg fl_sqrt_nonneg)
  moreover have "fl m = m" by (simp add: m_def)
  ultimately show "2 \<le> length vs" and "low i \<le> mean i" and "mean i \<le> high i"
    using n by (simp_all add: i b64.rnd_sub_le b64.rnd_add_ge)
qed

lemma upto_prefix:
  assumes "[a..b] = before @ n # after"
  shows "{a..<n} \<subseteq> set before"
proof
  fix k :: int
  assume k: "k \<in> {a..<n}"
  have "sorted (before @ n # after)" using sorted_upto [of a b] assms by simp
  then have "\<forall>m\<in>set after. n \<le> m" by (simp add: sorted_append)
  moreover have "n \<le> b" using assms by (metis atLeastAtMost_iff in_set_conv_decomp set_upto)
  then have "k \<in> set [a..b]" using k by simp
  ultimately show "k \<in> set before" using assms k by auto
qed

lemma plan_for_range:
  assumes "wilson_interval d n = Inr i" and "0 < n" and "plan_for r i n target s = Inr p"
  shows "case repetitions_range p of
      Some (lo, Some h) \<Rightarrow> (case lo of None \<Rightarrow> False | Some l \<Rightarrow> l \<le> h) | _ \<Rightarrow> True"
proof (cases "\<exists>pairs w. min_discordant_for_power s target = Inr (Some pairs) \<and> i = Some w")
  case True
  then obtain pairs w where pw: "min_discordant_for_power s target = Inr (Some pairs)" "i = Some w"
    by blast
  have w: "low w \<le> high w" using wilson_interval_ordered(2) assms(1) unfolding pw(2) by blast
  have "repetitions_range p = Some (repetitions_for pairs (high w) n, repetitions_for pairs (low w) n)"
    using assms(3) by (simp add: plan_for_def pw) (drule sym, simp)
  moreover have "\<exists>l. repetitions_for pairs (high w) n = Some l \<and> l \<le> h"
    if "repetitions_for pairs (low w) n = Some h" for h
    using repetitions_for_antimono [OF _ w assms(2) that] min_discordant_range [OF pw(1)] by simp
  ultimately show ?thesis by (auto split: option.splits)
next
  case False
  obtain needed where n: "min_discordant_for_power s target = Inr needed"
    using assms(3) unfolding plan_for_def bnd_eq_Inr by blast
  then have "needed = None \<or> i = None" using False by (cases needed; cases i) simp_all
  then have "repetitions_range p = None"
    using assms(3) n by (cases needed) (simp_all add: plan_for_def, (drule sym, simp)+)
  then show ?thesis by simp
qed

section \<open>Paired statistics\<close>

lemma set_filter_eq: "Set.filter P A = {t \<in> A. P t}"
  by (rule Set.filter_eq)

lemma paired_shape:
  assumes "paired_resolution_statistics br bu cr cu = Inr s"
  defines "sh \<equiv> (set br \<union> set bu) \<inter> (set cr \<union> set cu)"
  defines "B \<equiv> {t \<in> sh. t \<in> set br \<and> t \<notin> set cr}" and "C \<equiv> {t \<in> sh. t \<in> set cr \<and> t \<notin> set br}"
    and "D \<equiv> {t \<in> sh. t \<in> set br \<and> t \<in> set cr}"
  shows "\<exists>g. sign_test_grade (int (card B)) (int (card C)) = Inr g \<and>
    s = \<lparr>grade = grade g, p_value = p_value g, min_discordant = min_discordant g,
      shared_tasks = int (card sh), concordant_resolved = int (card D),
      concordant_unresolved = int (card sh) - int (card D) - int (card B) - int (card C),
      discordant_baseline_only = int (card B), discordant_challenger_only = int (card C),
      discordant_baseline_only_ids = sorted_list_of_set B,
      discordant_challenger_only_ids = sorted_list_of_set C\<rparr>"
proof -
  have "finite B" "finite C" by (simp_all add: B_def C_def sh_def)
  note e = assms(1) [unfolded paired_resolution_statistics_def Let_def bnd_eq_Inr set_filter_eq,
      folded sh_def, folded B_def C_def D_def, unfolded sorted_list_of_set.length_sorted_key_list_of_set]
  then show ?thesis by (elim exE conjE) (rule exI, rule conjI, assumption, simp only: sum.inject)
qed

lemma paired_eq_Inr:
  assumes "paired_resolution_statistics br bu cr cu = Inr s"
  defines "sh \<equiv> (set br \<union> set bu) \<inter> (set cr \<union> set cu)"
  shows "shared_tasks s = int (card sh)"
    and "set (discordant_baseline_only_ids s) = {t \<in> sh. t \<in> set br \<and> t \<notin> set cr}"
    and "set (discordant_challenger_only_ids s) = {t \<in> sh. t \<in> set cr \<and> t \<notin> set br}"
    and "discordant_baseline_only s = int (card {t \<in> sh. t \<in> set br \<and> t \<notin> set cr})"
    and "discordant_challenger_only s = int (card {t \<in> sh. t \<in> set cr \<and> t \<notin> set br})"
    and "concordant_resolved s = int (card {t \<in> sh. t \<in> set br \<and> t \<in> set cr})"
    and "concordant_unresolved s = int (card sh) - concordant_resolved s
          - discordant_baseline_only s - discordant_challenger_only s"
    and "\<exists>g. sign_test_grade (discordant_baseline_only s) (discordant_challenger_only s) = Inr g
          \<and> grade s = grade g \<and> p_value s = p_value g"
    and "discordant_baseline_only_ids s = sorted_list_of_set {t \<in> sh. t \<in> set br \<and> t \<notin> set cr}"
    and "discordant_challenger_only_ids s = sorted_list_of_set {t \<in> sh. t \<in> set cr \<and> t \<notin> set br}"
proof -
  have "finite sh" by (simp add: sh_def)
  with paired_shape [OF assms(1), folded sh_def] show
    "shared_tasks s = int (card sh)"
    "set (discordant_baseline_only_ids s) = {t \<in> sh. t \<in> set br \<and> t \<notin> set cr}"
    "set (discordant_challenger_only_ids s) = {t \<in> sh. t \<in> set cr \<and> t \<notin> set br}"
    "discordant_baseline_only s = int (card {t \<in> sh. t \<in> set br \<and> t \<notin> set cr})"
    "discordant_challenger_only s = int (card {t \<in> sh. t \<in> set cr \<and> t \<notin> set br})"
    "concordant_resolved s = int (card {t \<in> sh. t \<in> set br \<and> t \<in> set cr})"
    "concordant_unresolved s = int (card sh) - concordant_resolved s
          - discordant_baseline_only s - discordant_challenger_only s"
    "\<exists>g. sign_test_grade (discordant_baseline_only s) (discordant_challenger_only s) = Inr g
          \<and> grade s = grade g \<and> p_value s = p_value g"
    "discordant_baseline_only_ids s = sorted_list_of_set {t \<in> sh. t \<in> set br \<and> t \<notin> set cr}"
    "discordant_challenger_only_ids s = sorted_list_of_set {t \<in> sh. t \<in> set cr \<and> t \<notin> set br}"
    by force+
qed

lemmas paired_ids = paired_eq_Inr(9,10)

lemma paired_neither:
  assumes "paired_resolution_statistics br bu cr cu = Inr s"
  shows "concordant_unresolved s =
    int (card {t \<in> (set br \<union> set bu) \<inter> (set cr \<union> set cu). t \<notin> set br \<and> t \<notin> set cr})"
proof -
  define sh where "sh = (set br \<union> set bu) \<inter> (set cr \<union> set cu)"
  define A B C D where "A = {t \<in> sh. t \<in> set br \<and> t \<in> set cr}"
    and "B = {t \<in> sh. t \<in> set br \<and> t \<notin> set cr}" and "C = {t \<in> sh. t \<in> set cr \<and> t \<notin> set br}"
    and "D = {t \<in> sh. t \<notin> set br \<and> t \<notin> set cr}"
  note defs = A_def B_def C_def D_def
  have fin: "finite A" "finite B" "finite C" "finite D" by (simp_all add: defs sh_def)
  have "sh = (A \<union> B) \<union> (C \<union> D)" by (auto simp: defs)
  moreover have "card ((A \<union> B) \<union> (C \<union> D)) = card (A \<union> B) + card (C \<union> D)"
    using fin by (intro card_Un_disjoint) (auto simp: defs)
  moreover have "card (A \<union> B) = card A + card B" "card (C \<union> D) = card C + card D"
    using fin by (intro card_Un_disjoint; auto simp: defs)+
  ultimately have "card sh = card A + card B + (card C + card D)" by simp
  then have "concordant_unresolved s = int (card D)"
    using paired_eq_Inr [OF assms, folded sh_def, folded defs] by simp
  then show ?thesis by (simp add: D_def sh_def)
qed

lemma paired_total:
  assumes "length br + length bu \<le> 1023"
  shows "\<exists>s. paired_resolution_statistics br bu cr cu = Inr s"
proof -
  define sh where "sh = (set br \<union> set bu) \<inter> (set cr \<union> set cu)"
  define B C where "B = {t \<in> sh. t \<in> set br \<and> t \<notin> set cr}" and "C = {t \<in> sh. t \<in> set cr \<and> t \<notin> set br}"
  have "B \<subseteq> set br" "C \<subseteq> set bu" by (auto simp: B_def C_def sh_def)
  then have "card B \<le> length br" "card C \<le> length bu"
    by (meson List.finite_set card_length card_mono order_trans)+
  then have "int (card B) + int (card C) \<le> 1023" using assms by linarith
  then obtain p where "sign_test_p_value (int (card B)) (int (card C)) = Inr p"
    using sign_test_p_value_ok by (metis of_nat_0_le_iff)
  then obtain g where "sign_test_grade (int (card B)) (int (card C)) = Inr g"
    by (auto simp: sign_test_grade_def Let_def)
  then show ?thesis
    by (auto simp: paired_resolution_statistics_def Let_def B_def C_def sh_def)
qed

lemma sign_test_grade_sym: "sign_test_grade a b = sign_test_grade b a"
  by (simp add: sign_test_grade_def sign_test_p_value_sym [of a] add.commute)

lemma paired_swap:
  assumes s: "paired_resolution_statistics br bu cr cu = Inr s"
    and s': "paired_resolution_statistics cr cu br bu = Inr s'"
  shows "discordant_baseline_only_ids s' = discordant_challenger_only_ids s"
    and "discordant_challenger_only_ids s' = discordant_baseline_only_ids s"
    and "shared_tasks s' = shared_tasks s" and "concordant_resolved s' = concordant_resolved s"
    and "concordant_unresolved s' = concordant_unresolved s"
    and "p_value s' = p_value s" and "grade s' = grade s"
proof -
  note e = paired_eq_Inr [OF s] and e' = paired_eq_Inr [OF s']
  have sh: "(set cr \<union> set cu) \<inter> (set br \<union> set bu) = (set br \<union> set bu) \<inter> (set cr \<union> set cu)"
    by (rule Int_commute)
  have both: "{t \<in> X. t \<in> set cr \<and> t \<in> set br} = {t \<in> X. t \<in> set br \<and> t \<in> set cr}" for X by auto
  show ids: "discordant_baseline_only_ids s' = discordant_challenger_only_ids s"
    "discordant_challenger_only_ids s' = discordant_baseline_only_ids s"
    using paired_ids [OF s] paired_ids [OF s'] by (simp_all add: sh)
  have d: "discordant_baseline_only s' = discordant_challenger_only s"
    "discordant_challenger_only s' = discordant_baseline_only s"
    using e(4,5) e'(4,5) [unfolded sh] by simp_all
  show st: "shared_tasks s' = shared_tasks s" using e(1) e'(1) by (simp add: sh)
  show cr: "concordant_resolved s' = concordant_resolved s"
    using e(6) e'(6) [unfolded sh both] by simp
  show "concordant_unresolved s' = concordant_unresolved s"
    using e(1,7) e'(1,7) d st cr by simp
  show "p_value s' = p_value s" and "grade s' = grade s"
    using e(8) e'(8) unfolding d sign_test_grade_sym [of "discordant_challenger_only s"] by auto
qed

lemma paired_swap_ok:
  assumes "paired_resolution_statistics br bu cr cu = Inr s"
  shows "\<exists>s'. paired_resolution_statistics cr cu br bu = Inr s'"
proof -
  obtain g where g: "sign_test_grade (discordant_challenger_only s) (discordant_baseline_only s) = Inr g"
    using paired_eq_Inr(8) [OF assms] sign_test_grade_sym by metis
  show ?thesis
    unfolding paired_resolution_statistics_def Let_def Int_commute [of "set cr \<union> set cu"]
    using g paired_ids [OF assms] paired_eq_Inr(4,5) [OF assms] by simp
qed

section \<open>Properties\<close>

text \<open>
  C28. The sign-test grade of two discordant counts of at most 1023 pairs is total and sound: the
  verdict is \<open>evidence-of-difference\<close> exactly when the (rounded) p-value is below the
  significance level, and \<open>insufficient-evidence\<close> exactly when there are fewer than six
  discordant pairs; so no count below the minimum could ever have been significant.
\<close>

theorem sign_test_grade_sound:
  assumes "a + b \<le> 1023"
  shows "\<exists>g. sign_test_grade (int a) (int b) = Inr g
     \<and> 0 \<le> p_value g \<and> p_value g \<le> 1
     \<and> (grade g = GRADE_EVIDENCE \<longleftrightarrow> p_value g < SIGNIFICANCE_LEVEL)
     \<and> (grade g = GRADE_INSUFFICIENT \<longleftrightarrow> a + b < 6)
     \<and> (grade g = GRADE_NOT_DISTINGUISHABLE \<longleftrightarrow> 6 \<le> a + b \<and> SIGNIFICANCE_LEVEL \<le> p_value g)"
proof -
  obtain p where p: "sign_test_p_value (int a) (int b) = Inr p"
    using sign_test_p_value_ok [of "int a" "int b"] assms by fastforce
  have "SIGNIFICANCE_LEVEL \<le> p" if small: "a + b < 6"
    using sign_test_p_value_small [OF _ _ _ p] small by simp
  with p sign_test_p_value_unit [OF p] show ?thesis
    by (auto simp: sign_test_grade_def min_significant_discordant_6 Let_def grade_defs)
qed

theorem sign_test_grade_sound_witness:
  "\<exists>g. sign_test_grade (int 7) (int 1) = Inr g \<and> p_value g \<le> 1"
  using sign_test_grade_sound [of 7 1] by auto

text \<open>
  Significance is attainable exactly from six discordant pairs on: some split of \<open>n\<close> pairs
  earns \<open>evidence-of-difference\<close> if and only if \<open>n >= 6\<close> (the unanimous split then does, for
  any number of pairs).
\<close>

theorem significance_reachable_iff:
  "(\<exists>a b g. a + b = n \<and> sign_test_grade (int a) (int b) = Inr g \<and> grade g = GRADE_EVIDENCE)
     \<longleftrightarrow> 6 \<le> n"
proof
  assume "\<exists>a b g. a + b = n \<and> sign_test_grade (int a) (int b) = Inr g \<and> grade g = GRADE_EVIDENCE"
  then show "6 \<le> n"
    by (auto simp: sign_test_grade_def min_significant_discordant_6 Let_def grade_defs bnd_eq_Inr
        split: if_splits)
next
  assume n: "6 \<le> n"
  from sign_test_p_value_unanimous [OF n] n
  have "\<exists>g. sign_test_grade (int n) (int 0) = Inr g \<and> grade g = GRADE_EVIDENCE"
    by (auto simp: sign_test_grade_def min_significant_discordant_6 Let_def)
  then show "\<exists>a b g. a + b = n \<and> sign_test_grade (int a) (int b) = Inr g \<and> grade g = GRADE_EVIDENCE"
    by (metis add.right_neutral)
qed

text \<open>
  Beyond 1023 pairs totality fails: from 513 against 513 on, the binomial sum of a balanced
  split does not convert to a float and the test raises \<open>OverflowError\<close>.
\<close>

theorem balanced_sign_test_overflows:
  "sign_test_p_value (int (513 + n)) (int (513 + n)) = Inl OverflowError"
proof -
  define m where "m = 513 + n"
  have m: "0 < m" "1024 \<le> 2 * m - 1" by (simp_all add: m_def)
  from to_float_overflow [OF balanced_tail [OF m(1)] m(2)] m(1)
  have "sign_test_p_value (int m) (int m) = Inl OverflowError"
    by (simp add: sign_test_p_value_def Let_def)
  then show ?thesis by (simp only: m_def)
qed
text \<open>
  The p-value is symmetric in the two sides and, for a fixed number of pairs, never smaller
  for a more balanced split.
\<close>

theorem sign_test_symmetric_monotone:
  assumes "a \<le> a'" and "a' \<le> b'" and "a + b = a' + b'"
    and "sign_test_p_value (int a) (int b) = Inr p" and "sign_test_p_value (int b') (int a') = Inr p'"
  shows "p \<le> p'"
  using sign_test_p_value_antimono [of "int a" "int a'" "int b'" "int b" p p'] assms
  by (simp add: sign_test_p_value_sym [of "int b'"])

theorem sign_test_symmetric_monotone_witness:
  "sign_test_p_value 1 7 = Inr (9 / 128) \<and> sign_test_p_value 5 3 = Inr (93 / 128) \<and> (9 / 128 :: rat) \<le> 93 / 128"
proof -
  have 1: "sign_test_p_value (int 1) (int 7) = Inr (9 / 128)" by code_simp
  have 2: "sign_test_p_value (int 5) (int 3) = Inr (93 / 128)" by code_simp
  from sign_test_symmetric_monotone [OF _ _ _ 1 2] 1 2 show ?thesis by simp
qed

text \<open>
  C33. A Wilson interval, computed in binary64, is always a sub-interval of \<open>[0, 1]\<close> with ordered
  endpoints that brackets its centre on each side that is not pinned to the boundary.
\<close>

theorem wilson_interval_sound:
  assumes "wilson_interval s n = Inr (Some i)"
  shows "0 \<le> low i \<and> low i \<le> high i \<and> high i \<le> 1
    \<and> (if s = 0 then low i = 0 else low i \<le> wilson_center s n)
    \<and> (if s = n then high i = 1 else wilson_center s n \<le> high i)"
proof -
  have "s = 0 \<Longrightarrow> low i = 0" and "s = n \<Longrightarrow> high i = 1"
    using wilson_interval_cases(4,5) [OF assms] by simp_all
  with wilson_interval_ordered [OF assms] show ?thesis by auto
qed

theorem wilson_interval_sound_witness:
  "\<exists>i. wilson_interval 7 10 = Inr (Some i) \<and> 0 \<le> low i \<and> low i \<le> high i \<and> high i \<le> 1"
proof -
  obtain i where i: "wilson_interval 7 10 = Inr (Some i)" by (simp add: wilson_interval_def Let_def)
  from wilson_interval_sound [OF i] i show ?thesis by blast
qed

text \<open>
  The planning search is a least-number search that cannot raise for a fraction in
  \<open>[0, 1]\<close>: a returned count lies in 6..400 and reaches the target power while no smaller count
  from 6 on does; \<open>None\<close> means that no count in the range reaches it.
\<close>

theorem min_discordant_for_power_least:
  assumes "0 \<le> f" and "f \<le> 1"
  shows "\<exists>r. min_discordant_for_power f t = Inr r \<and>
    (case r of
       Some n \<Rightarrow> n \<in> {6..400} \<and> (\<exists>w. sign_test_power n f = Inr w \<and> t \<le> w)
         \<and> (\<forall>k\<in>{6..<n}. \<exists>w. sign_test_power k f = Inr w \<and> w < t)
     | None \<Rightarrow> (\<forall>k\<in>{6..400}. \<exists>w. sign_test_power k f = Inr w \<and> w < t))"
proof -
  define ns where "ns = [6..(400 :: int)]"
  have ns: "set ns = {6..400}" by (simp only: ns_def set_upto)
  obtain r where r: "first_powered f t ns = Inr r" using first_powered_ok [OF _ assms] ns by fastforce
  have eq: "min_discordant_for_power f t = Inr r"
    by (simp only: min_discordant_for_power_def min_significant_discordant_6 MAX_PLANNING_PAIRS_def
        r flip: ns_def)
  show ?thesis
  proof (cases r)
    case None
    with first_powered_None [of f t ns] r eq ns show ?thesis by simp
  next
    case (Some n)
    from first_powered_Some [OF r [unfolded Some]] obtain before after where
      split: "ns = before @ n # after"
      and hit: "\<exists>w. sign_test_power n f = Inr w \<and> t \<le> w"
      and miss: "\<forall>k\<in>set before. \<exists>w. sign_test_power k f = Inr w \<and> w < t" by blast
    have "n \<in> {6..400}" using split by (metis in_set_conv_decomp ns)
    moreover have "{6..<n} \<subseteq> set before" by (rule upto_prefix [OF split [unfolded ns_def]])
    ultimately show ?thesis using eq Some hit miss by (auto simp: subset_iff)
  qed
qed

theorem min_discordant_for_power_least_witness:
  "\<exists>r. min_discordant_for_power 1 POWER_TARGET = Inr r"
  using min_discordant_for_power_least [of 1 POWER_TARGET] by auto

text \<open>
  In a repetition budget the Wilson bracket turns the right way round: the optimistic count
  (from the interval's high rate) never exceeds the pessimistic one, and is known whenever the
  pessimistic one is; every plan keeps its requested split, in order.
\<close>

theorem repetition_budget_bracket:
  assumes "repetition_budget d n target splits = Inr (Some g)"
  shows "map assumed_favored_fraction (plans g) = splits \<and>
    list_all (\<lambda>p. case repetitions_range p of
      Some (lo, Some h) \<Rightarrow> (case lo of None \<Rightarrow> False | Some l \<Rightarrow> l \<le> h)
    | _ \<Rightarrow> True) (plans g)"
proof -
  obtain i ps where i: "wilson_interval d n = Inr i" and n: "0 < n"
    and ps: "mapR (plan_for (int_div d n) i n target) splits = Inr ps" and g: "plans g = ps"
    using assms by (auto simp: repetition_budget_def Let_def bnd_eq_Inr split: if_splits)
  have all: "list_all2 (\<lambda>s p. plan_for (int_div d n) i n target s = Inr p) splits ps"
    using ps by (simp add: mapR_eq_Inr)
  have "map assumed_favored_fraction ps = splits"
    using all by (induction rule: list_all2_induct) (auto simp: plan_for_def bnd_eq_Inr split: option.splits)
  moreover have "list_all (\<lambda>p. case repetitions_range p of
      Some (lo, Some h) \<Rightarrow> (case lo of None \<Rightarrow> False | Some l \<Rightarrow> l \<le> h) | _ \<Rightarrow> True) ps"
    using all by (induction rule: list_all2_induct) (simp_all add: plan_for_range [OF i n])
  ultimately show ?thesis by (simp add: g)
qed

theorem repetition_budget_bracket_witness:
  "\<exists>g. repetition_budget 3 10 2 [1] = Inr (Some g) \<and> map assumed_favored_fraction (plans g) = [1]"
proof -
  obtain i where i: "wilson_interval 3 10 = Inr i"
    unfolding wilson_interval_def Let_def by simp
  obtain p where p: "plan_for (int_div 3 10) i 10 2 1 = Inr p"
    using plan_for_ok [of 1] by fastforce
  obtain g where g: "repetition_budget 3 10 2 [1] = Inr (Some g)"
    unfolding repetition_budget_def Let_def i by (simp add: p)
  from repetition_budget_bracket [OF g] have "map assumed_favored_fraction (plans g) = [1]"
    by (rule conjunct1)
  with g show ?thesis by (intro exI conjI)
qed

text \<open>
  Paired statistics partition the shared tasks: the four outcome counts are the sizes of the
  four outcome classes and add up to \<open>shared_tasks\<close>. Exchanging the two vessels exchanges the
  discordant sides and keeps the counts, the p-value and the grade. They cannot raise for a
  baseline of at most 1023 tasks.
\<close>

theorem paired_statistics_partition:
  assumes "length br + length bu \<le> 1023"
  shows "\<exists>s s'. paired_resolution_statistics br bu cr cu = Inr s
     \<and> paired_resolution_statistics cr cu br bu = Inr s'
     \<and> shared_tasks s = concordant_resolved s + concordant_unresolved s
         + discordant_baseline_only s + discordant_challenger_only s
     \<and> concordant_unresolved s
         = int (card {t \<in> (set br \<union> set bu) \<inter> (set cr \<union> set cu). t \<notin> set br \<and> t \<notin> set cr})
     \<and> set (discordant_baseline_only_ids s) \<inter> set (discordant_challenger_only_ids s) = {}
     \<and> discordant_baseline_only_ids s' = discordant_challenger_only_ids s
     \<and> discordant_challenger_only_ids s' = discordant_baseline_only_ids s
     \<and> shared_tasks s' = shared_tasks s \<and> concordant_resolved s' = concordant_resolved s
     \<and> concordant_unresolved s' = concordant_unresolved s
     \<and> p_value s' = p_value s \<and> grade s' = grade s"
proof -
  obtain s where s: "paired_resolution_statistics br bu cr cu = Inr s"
    using paired_total [OF assms] by blast
  obtain s' where s': "paired_resolution_statistics cr cu br bu = Inr s'"
    using paired_swap_ok [OF s] by blast
  note e = paired_eq_Inr [OF s] and swap = paired_swap [OF s s']
  moreover have "set (discordant_baseline_only_ids s) \<inter> set (discordant_challenger_only_ids s) = {}"
    using e(2,3) by auto
  ultimately show ?thesis using s s' paired_neither [OF s] e(1,7) by simp
qed

theorem paired_statistics_partition_witness:
  "\<exists>s. paired_resolution_statistics [''a''] [''b''] [''b''] [''a''] = Inr s
     \<and> shared_tasks s = concordant_resolved s + concordant_unresolved s
         + discordant_baseline_only s + discordant_challenger_only s"
  using paired_statistics_partition [of "[''a'']" "[''b'']" "[''b'']" "[''a'']"] by auto

text \<open>
  A sample earns \<open>evidence-of-difference\<close> only with at least two values and a t-interval of
  positive width whose mean lies inside and which excludes zero; \<open>insufficient-evidence\<close> covers
  samples below two values and intervals of no width.
\<close>

theorem interval_grade_evidence:
  "interval_grade (t_interval vs) = GRADE_EVIDENCE \<longleftrightarrow>
     (\<exists>i. t_interval vs = Some i \<and> 2 \<le> length vs \<and> low i < high i
        \<and> low i \<le> mean i \<and> mean i \<le> high i \<and> (0 < low i \<or> high i < 0))"
proof (cases "t_interval vs")
  case None
  then show ?thesis by (simp add: interval_grade_def grade_defs)
next
  case (Some i)
  with t_interval_contains_mean [OF Some] show ?thesis
    by (auto simp: interval_grade_def grade_defs not_le)
qed

text \<open>
  The guard against identical observations is not enough in binary64: three equal cost
  deltas of 0.000011 have a rounded mean different from the observations, so the interval has
  positive width and the sample is graded \<open>evidence-of-difference\<close>.
\<close>

theorem identical_observations_graded_evidence:
  "interval_grade (t_interval (replicate 3 (fl (11 / 1000000)))) = GRADE_EVIDENCE"
proof -
  define v m q s e :: rat where "v = 3246626956972881 / 295147905179352825856"
    and "m = 6493253913945763 / 590295810358705651712"
    and "q = 1 / 348449143727040986586495598010130648530944"
    and "s = 3 / 696898287454081973172991196020261297061888"
    and "e = 6369051672525773 / 5316911983139663491615228241121378304"
  have f0: "fl (11 / 1000000) = 3246626956972881 / 295147905179352825856"
    by (rule fl_eqI [of "6493253913945762" "-69"]) (simp_all add: pow2_def)
  have f1: "fl (3246626956972881 / 295147905179352825856) = 3246626956972881 / 295147905179352825856"
    by (rule fl_eqI [of "6493253913945762" "-69"]) (simp_all add: pow2_def)
  have f2: "fl (3246626956972881 / 147573952589676412928) = 3246626956972881 / 147573952589676412928"
    by (rule fl_eqI [of "6493253913945762" "-68"]) (simp_all add: pow2_def)
  have f3: "fl (9739880870918643 / 295147905179352825856) = 2434970217729661 / 73786976294838206464"
    by (rule fl_eqI [of "4869940435459322" "-67"]) (simp_all add: pow2_def)
  have f4: "fl (1623313478486441 / 147573952589676412928) = 1623313478486441 / 147573952589676412928"
    by (rule fl_eqI [of "6493253913945764" "-69"]) (simp_all add: pow2_def)
  have f5: "fl (1 / 295147905179352825856) = 1 / 295147905179352825856"
    by (rule fl_eqI [of "4503599627370496" "-120"]) (simp_all add: pow2_def)
  have f6: "fl (2434970217729661 / 221360928884514619392) = 6493253913945763 / 590295810358705651712"
    by (rule fl_eqI [of "6493253913945763" "-69"]) (simp_all add: pow2_def)
  have f7: "fl (1 / 590295810358705651712) = 1 / 590295810358705651712"
    by (rule fl_eqI [of "4503599627370496" "-121"]) (simp_all add: pow2_def)
  have f8: "fl (1 / 348449143727040986586495598010130648530944) = 1 / 348449143727040986586495598010130648530944"
    by (rule fl_eqI [of "4503599627370496" "-190"]) (simp_all add: pow2_def)
  have f9: "fl (1 / 174224571863520493293247799005065324265472) = 1 / 174224571863520493293247799005065324265472"
    by (rule fl_eqI [of "4503599627370496" "-189"]) (simp_all add: pow2_def)
  have f10: "fl (3 / 348449143727040986586495598010130648530944) = 3 / 348449143727040986586495598010130648530944"
    by (rule fl_eqI [of "6755399441055744" "-189"]) (simp_all add: pow2_def)
  have f11: "fl (3 / 696898287454081973172991196020261297061888) = 3 / 696898287454081973172991196020261297061888"
    by (rule fl_eqI [of "6755399441055744" "-190"]) (simp_all add: pow2_def)
  have f12: "fl (1 / 696898287454081973172991196020261297061888) = 1 / 696898287454081973172991196020261297061888"
    by (rule fl_eqI [of "4503599627370496" "-191"]) (simp_all add: pow2_def)
  have f13: "fl (3260954456333195553 / 2722258935367507707706996859454145691648) = 6369051672525773 / 5316911983139663491615228241121378304"
    by (rule fl_eqI [of "6369051672525773" "-122"]) (simp_all add: pow2_def)
  have f14: "fl (4303 / 1000) = 4844747299143811 / 1125899906842624"
    by (rule fl_eqI [of "4844747299143811" "-50"]) (simp_all add: pow2_def)
  have f15: "fl (30856445888576610939714730940903 / 5986310706507378352962293074805895248510699696029696) = 428219208544975 / 83076749736557242056487941267521536"
    by (rule fl_eqI [of "6851507336719600" "-120"]) (simp_all add: pow2_def)
  have f16: "fl (913844247102129351378655530289 / 83076749736557242056487941267521536) = 202914184810805 / 18446744073709551616"
    by (rule fl_eqI [of "6493253913945760" "-69"]) (simp_all add: pow2_def)
  have f17: "fl (913844247102130207817072620239 / 83076749736557242056487941267521536) = 3246626956972883 / 295147905179352825856"
    by (rule fl_eqI [of "6493253913945766" "-69"]) (simp_all add: pow2_def)
  have small: "fl 2 = 2" "fl 3 = 3" using fl_of_int [of 2] fl_of_int [of 3] by simp_all
  note f = small f0 f1 f2 f3 f4 f5 f6 f7 f8 f9 f10 f11 f12 f13 f14 f15 f16 f17
  have v: "fl (11 / 1000000) = v" by (simp add: v_def f)
  have m: "fl (py_sum [v, v, v] / fl (of_nat 3)) = m"
    by (simp add: py_sum_def two_sum_def Let_def v_def m_def f fl_minus)
  have q: "fl_pow (fl (v - m)) 2 = q"
    by (simp add: v_def m_def q_def f fl_minus fl_pow_def power2_eq_square)
  have s: "fl (py_sum [q, q, q] / fl (of_nat 2)) = s"
    by (simp add: py_sum_def two_sum_def Let_def q_def s_def f fl_minus)
  have r: "fl_sqrt (1 / 696898287454081973172991196020261297061888) = 6369051672525773 / 5316911983139663491615228241121378304"
    by (rule fl_sqrt_eqI [of "-139" _ "130" "2658455991569831745807614120560689152" "1630477228166597776"]) (simp_all add: pow2_def f)
  have e: "fl_sqrt (fl (s / fl (of_nat 3))) = e" by (simp add: s_def e_def f r)
  have c: "T_CRITICAL_95 ! 1 = fl (4303 / 1000)" and l: "length T_CRITICAL_95 = 30"
    by (simp_all add: T_CRITICAL_95_def)
  have sv: "sample_variance m [v, v, v] = s"
    using s by (simp add: sample_variance_def q)
  have "t_interval [v, v, v] = Some
      \<lparr>low = fl (m - fl (fl (4303 / 1000) * e)), high = fl (m + fl (fl (4303 / 1000) * e)), mean = m\<rparr>"
    using m sv e c l by (simp add: t_interval_def Let_def)
  then have "interval_grade (t_interval [v, v, v]) = GRADE_EVIDENCE"
    by (simp add: interval_grade_def m_def e_def f)
  then show ?thesis unfolding v by (simp add: numeral_3_eq_3)
qed

end
