(* ===== verification/PyValue.thy ===== *)
theory PyValue
  imports Prelude PyFloat
begin

text \<open>
  Python values that cross a parser or a serialiser (JSON, TOML), and the string functions the
  validators use.

  \<^item> \<open>json\<close>: \<open>None\<close>, \<open>bool\<close>, \<open>int\<close>, \<open>float\<close>, \<open>str\<close>, \<open>list\<close>, \<open>dict\<close>. Dictionary
    keys are strings, as both parsers produce them. \<open>bool\<close> is a constructor of its own, so a
    test \<open>isinstance(v, int) and not isinstance(v, bool)\<close> is a match on \<open>JInt\<close>.
  \<^item> \<open>exn\<close>: the exception classes the modelled code raises, with the message.
  \<^item> Strings are lists of characters (code points below 256).
\<close>

section \<open>Values\<close>

datatype pyfloat = Finite rat | PosInf | NegInf | NaN

datatype json =
    JNull
  | JBool bool
  | JInt int
  | JFloat pyfloat
  | JStr string
  | JList "json list"
  | JObj "(string \<times> json) list"

type_synonym json_obj = "(string \<times> json) list"

datatype exn =
    ConfigError string
  | ContractError string
  | SchemaError string
  | SkillError string
  | McpError string
  | DuplexError string
  | ControlError string
  | TimeoutError string
  | Cancelled
  | UnsafeMountError string
  | TypeError string
  | PyValueError string
  | PyOverflowError string
  | KeyError string
  | IndexError string
  | AttributeError string
  | OSError string

fun truthy :: "json \<Rightarrow> bool" where
  "truthy JNull = False"
| "truthy (JBool b) = b"
| "truthy (JInt n) = (n \<noteq> 0)"
| "truthy (JFloat f) = (f \<noteq> Finite 0)"
| "truthy (JStr s) = (s \<noteq> [])"
| "truthy (JList xs) = (xs \<noteq> [])"
| "truthy (JObj d) = (d \<noteq> [])"

text \<open>\<open>d.get(k)\<close> and \<open>k in d\<close>.\<close>

definition dget :: "json_obj \<Rightarrow> string \<Rightarrow> json" where
  "dget d k = (case map_of d k of None \<Rightarrow> JNull | Some v \<Rightarrow> v)"

definition has_key :: "json_obj \<Rightarrow> string \<Rightarrow> bool" where
  "has_key d k = (map_of d k \<noteq> None)"

text \<open>\<open>d.get(k, default)\<close>.\<close>

definition dget_default :: "json_obj \<Rightarrow> string \<Rightarrow> json \<Rightarrow> json" where
  "dget_default d k v = (if has_key d k then dget d k else v)"

text \<open>The entries of a value that was checked to be an object.\<close>

definition obj :: "json \<Rightarrow> json_obj" where
  "obj v = (case v of JObj d \<Rightarrow> d | _ \<Rightarrow> [])"

text \<open>\<open>sorted(set(d) - keys)\<close>.\<close>

definition unknown_keys :: "json_obj \<Rightarrow> string list \<Rightarrow> string list" where
  "unknown_keys d ks = sorted_set (filter (\<lambda>k. k \<notin> set ks) (map fst d))"

definition is_number :: "json \<Rightarrow> bool" where
  "is_number v = (case v of JInt _ \<Rightarrow> True | JFloat _ \<Rightarrow> True | _ \<Rightarrow> False)"

definition is_bool :: "json \<Rightarrow> bool" where
  "is_bool v = (case v of JBool _ \<Rightarrow> True | _ \<Rightarrow> False)"

definition is_non_empty_string :: "json \<Rightarrow> bool" where
  "is_non_empty_string v = (case v of JStr s \<Rightarrow> s \<noteq> [] | _ \<Rightarrow> False)"

text \<open>
  \<open>v in frozenset({...})\<close> over strings: a list or a dict is unhashable and the test itself raises.
\<close>

definition unhashable :: "string \<Rightarrow> exn" where
  "unhashable type = TypeError (''unhashable type: '' @ char_of (39 :: nat) # type @ [char_of (39 :: nat)])"

definition in_strings :: "json \<Rightarrow> string list \<Rightarrow> exn + bool" where
  "in_strings v names = (case v of
     JStr s \<Rightarrow> Inr (s \<in> set names)
   | JList _ \<Rightarrow> Inl (unhashable ''list'')
   | JObj _ \<Rightarrow> Inl (unhashable ''dict'')
   | _ \<Rightarrow> Inr False)"

text \<open>\<open>math.isfinite(v) and v >= 0\<close> on a number; a huge integer does not convert to a float.\<close>

definition finite_non_negative :: "json \<Rightarrow> exn + bool" where
  "finite_non_negative v = (case v of
     JInt n \<Rightarrow> if FLOAT_LIMIT \<le> \<bar>fl (of_int n)\<bar>
               then Inl (PyOverflowError ''int too large to convert to float'')
               else Inr (0 \<le> n)
   | JFloat (Finite q) \<Rightarrow> Inr (0 \<le> q)
   | _ \<Rightarrow> Inr False)"

section \<open>Strings\<close>

definition code_point :: "char \<Rightarrow> nat" where
  "code_point c = of_char c"

definition is_digit :: "char \<Rightarrow> bool" where
  "is_digit c = (48 \<le> code_point c \<and> code_point c \<le> 57)"

definition is_ascii_alnum :: "char \<Rightarrow> bool" where
  "is_ascii_alnum c = (is_digit c
     \<or> 65 \<le> code_point c \<and> code_point c \<le> 90 \<or> 97 \<le> code_point c \<and> code_point c \<le> 122)"

definition is_space :: "char \<Rightarrow> bool" where
  "is_space c = (let n = code_point c
     in 9 \<le> n \<and> n \<le> 13 \<or> 28 \<le> n \<and> n \<le> 32 \<or> n = 133 \<or> n = 160)"

definition strip :: "string \<Rightarrow> string" where
  "strip s = rev (dropWhile is_space (rev (dropWhile is_space s)))"

fun nat_str :: "nat \<Rightarrow> string" where
  "nat_str n =
     (if n < 10 then [char_of (48 + n)] else nat_str (n div 10) @ [char_of (48 + n mod 10)])"

declare nat_str.simps [simp del]

function pos_str :: "int \<Rightarrow> string" where
  "pos_str n =
     (if n < 10 then [char_of (48 + n)] else pos_str (n div 10) @ [char_of (48 + n mod 10)])"
  by pat_completeness auto
termination
  by (relation "measure nat") auto

declare pos_str.simps [simp del]

definition int_str :: "int \<Rightarrow> string" where
  "int_str n = (if n < 0 then ''-'' @ pos_str (- n) else pos_str n)"

fun join :: "string \<Rightarrow> string list \<Rightarrow> string" where
  "join sep [] = []"
| "join sep [s] = s"
| "join sep (s # ss) = s @ sep @ join sep ss"

fun split_on :: "char \<Rightarrow> string \<Rightarrow> string list" where
  "split_on c [] = [[]]"
| "split_on c (x # xs) =
     (if x = c then [] # split_on c xs
      else (case split_on c xs of [] \<Rightarrow> [[x]] | p # ps \<Rightarrow> (x # p) # ps))"

text \<open>\<open>f"{path}.{key}"\<close> and \<open>f"{path}[{index}]"\<close>.\<close>

definition at_key :: "string \<Rightarrow> string \<Rightarrow> string" where
  "at_key path k = path @ ''.'' @ k"

definition at_index :: "string \<Rightarrow> nat \<Rightarrow> string" where
  "at_index path i = path @ ''['' @ nat_str i @ '']''"

text \<open>\<open>repr\<close> of a string.\<close>

definition hex_digit :: "nat \<Rightarrow> char" where
  "hex_digit n = (if n < 10 then char_of (48 + n) else char_of (87 + n))"

definition repr_char :: "char \<Rightarrow> char \<Rightarrow> string" where
  "repr_char q c = (let n = code_point c in
     if c = q \<or> n = 92 then [char_of (92 :: nat), c]
     else if n = 9 then [char_of (92 :: nat), CHR ''t'']
     else if n = 10 then [char_of (92 :: nat), CHR ''n'']
     else if n = 13 then [char_of (92 :: nat), CHR ''r'']
     else if 32 \<le> n \<and> n \<le> 126 \<or> 161 \<le> n \<and> n \<noteq> 173 then [c]
     else [char_of (92 :: nat), CHR ''x'', hex_digit (n div 16), hex_digit (n mod 16)])"

definition py_repr :: "string \<Rightarrow> string" where
  "py_repr s = (let q = (if char_of (39 :: nat) \<in> set s \<and> char_of (34 :: nat) \<notin> set s
                         then char_of (34 :: nat) else char_of (39 :: nat))
     in [q] @ concat (map (repr_char q) s) @ [q])"

section \<open>Floats and iteration\<close>

definition float_round :: "rat \<Rightarrow> pyfloat" where
  "float_round q = (if FLOAT_LIMIT \<le> fl q then PosInf else if fl q \<le> - FLOAT_LIMIT then NegInf else Finite (fl q))"

fun float_add :: "pyfloat \<Rightarrow> pyfloat \<Rightarrow> pyfloat" where
  "float_add (Finite a) (Finite b) = float_round (a + b)"
| "float_add NaN y = NaN"
| "float_add x NaN = NaN"
| "float_add PosInf NegInf = NaN"
| "float_add NegInf PosInf = NaN"
| "float_add PosInf y = PosInf"
| "float_add x PosInf = PosInf"
| "float_add NegInf y = NegInf"
| "float_add x NegInf = NegInf"

definition type_name :: "json \<Rightarrow> string" where
  "type_name v = (case v of JNull \<Rightarrow> ''NoneType'' | JBool _ \<Rightarrow> ''bool'' | JInt _ \<Rightarrow> ''int'' | JFloat _ \<Rightarrow> ''float''
     | JStr _ \<Rightarrow> ''str'' | JList _ \<Rightarrow> ''list'' | JObj _ \<Rightarrow> ''dict'')"

text \<open>\<open>for item in v\<close>: the characters of a string, the keys of a dictionary.\<close>

definition iterate :: "json \<Rightarrow> exn + json list" where
  "iterate v = (case v of
     JList xs \<Rightarrow> Inr xs
   | JStr s \<Rightarrow> Inr (map (\<lambda>c. JStr [c]) s)
   | JObj d \<Rightarrow> Inr (map (JStr \<circ> fst) d)
   | _ \<Rightarrow> Inl (TypeError (py_repr (type_name v) @ '' object is not iterable'')))"

section \<open>Laws\<close>

lemma iterate_JList [simp]: "iterate (JList xs) = Inr xs"
  by (simp add: iterate_def)

lemma dget_Some [simp]: "map_of d k = Some v \<Longrightarrow> dget d k = v"
  by (simp add: dget_def)

lemma dget_None [simp]: "map_of d k = None \<Longrightarrow> dget d k = JNull"
  by (simp add: dget_def)

lemma dget_Nil [simp]: "dget [] k = JNull"
  by (simp add: dget_def)

lemma dget_Cons [simp]: "dget ((j, v) # d) k = (if j = k then v else dget d k)"
  by (simp add: dget_def)

lemma obj_JObj [simp]: "obj (JObj d) = d"
  by (simp add: obj_def)

lemma has_key_Nil [simp]: "\<not> has_key [] k"
  by (simp add: has_key_def)

lemma has_key_Cons [simp]: "has_key ((j, v) # d) k \<longleftrightarrow> j = k \<or> has_key d k"
  by (simp add: has_key_def)

lemma dget_append: "dget (xs @ ys) k = (if has_key xs k then dget xs k else dget ys k)"
  by (simp add: dget_def has_key_def map_add_def split: option.split)

lemma has_key_append: "has_key (xs @ ys) k \<longleftrightarrow> has_key xs k \<or> has_key ys k"
  by (auto simp: has_key_def map_add_def split: option.splits)

lemmas dict_simps = dget_append has_key_append

lemma has_key_iff: "has_key d k \<longleftrightarrow> k \<in> fst ` set d"
  unfolding has_key_def by (metis map_of_eq_None_iff)

lemma has_key_if_dget: "dget d k \<noteq> JNull \<Longrightarrow> has_key d k"
  by (auto simp: has_key_def dget_def split: option.splits)

lemma unknown_keys_empty: "unknown_keys d ks = [] \<longleftrightarrow> fst ` set d \<subseteq> set ks"
proof -
  have "unknown_keys d ks = [] \<longleftrightarrow> set (unknown_keys d ks) = {}" by simp
  also have "\<dots> \<longleftrightarrow> fst ` set d \<subseteq> set ks" by (auto simp: unknown_keys_def)
  finally show ?thesis .
qed

lemma set_unknown_keys [simp]: "set (unknown_keys d ks) = fst ` set d - set ks"
  by (auto simp: unknown_keys_def)

lemma unknown_keys_Nil [simp]: "unknown_keys [] ks = []"
  by (simp add: unknown_keys_empty)

lemma is_non_empty_string_iff [simp]: "is_non_empty_string v \<longleftrightarrow> (\<exists>s. v = JStr s \<and> s \<noteq> [])"
  by (cases v) (simp_all add: is_non_empty_string_def)

lemma is_bool_iff [simp]: "is_bool v \<longleftrightarrow> (\<exists>b. v = JBool b)"
  by (cases v) (simp_all add: is_bool_def)

lemma in_strings_True [result_simps]: "in_strings v names = Inr True \<longleftrightarrow> (\<exists>s. v = JStr s \<and> s \<in> set names)"
  by (cases v) (simp_all add: in_strings_def)

lemma in_strings_JStr [simp, result_simps]: "in_strings (JStr s) names = Inr (s \<in> set names)"
  by (simp add: in_strings_def)

lemma in_strings_ensure [result_simps]:
  "bnd (in_strings v names) (\<lambda>b. ensure b e) = Inr u \<longleftrightarrow> (\<exists>s. v = JStr s \<and> s \<in> set names)"
  by (cases v) (simp_all add: in_strings_def)

lemma case_JStr_iff [result_simps]:
  "(case v of JNull \<Rightarrow> False | JBool b \<Rightarrow> False | JInt n \<Rightarrow> False | JFloat f \<Rightarrow> False
     | JStr s \<Rightarrow> P s | JList xs \<Rightarrow> False | JObj d \<Rightarrow> False) \<longleftrightarrow> (\<exists>s. v = JStr s \<and> P s)"
  by (cases v) simp_all

lemma case_JList_Inr [result_simps]:
  "(case v of JNull \<Rightarrow> Inl e | JBool b \<Rightarrow> Inl e | JInt n \<Rightarrow> Inl e | JFloat f \<Rightarrow> Inl e
     | JStr s \<Rightarrow> Inl e | JList xs \<Rightarrow> g xs | JObj d \<Rightarrow> Inl e) = Inr ys
   \<longleftrightarrow> (\<exists>xs. v = JList xs \<and> g xs = Inr ys)"
  by (cases v) simp_all

lemma raises_only_json [raises]:
  "raises_only P a \<Longrightarrow> (\<And>b. v = JBool b \<Longrightarrow> raises_only P (f b)) \<Longrightarrow> (\<And>n. v = JInt n \<Longrightarrow> raises_only P (g n))
   \<Longrightarrow> (\<And>x. v = JFloat x \<Longrightarrow> raises_only P (h x)) \<Longrightarrow> (\<And>s. v = JStr s \<Longrightarrow> raises_only P (i s))
   \<Longrightarrow> (\<And>xs. v = JList xs \<Longrightarrow> raises_only P (j xs)) \<Longrightarrow> (\<And>d. v = JObj d \<Longrightarrow> raises_only P (k d))
   \<Longrightarrow> raises_only P (case v of JNull \<Rightarrow> a | JBool b \<Rightarrow> f b | JInt n \<Rightarrow> g n | JFloat x \<Rightarrow> h x
        | JStr s \<Rightarrow> i s | JList xs \<Rightarrow> j xs | JObj d \<Rightarrow> k d)"
  by (cases v) simp_all

lemma split_on_not_Nil [simp]: "split_on c s \<noteq> []"
  by (induction s) (auto split: list.splits)

lemma join_split_on: "join [c] (split_on c s) = s"
proof (induction s)
  case (Cons x xs)
  obtain p ps where p: "split_on c xs = p # ps" by (cases "split_on c xs") auto
  with Cons show ?case by (cases ps) auto
qed simp

lemma split_on_no_sep: "p \<in> set (split_on c s) \<Longrightarrow> c \<notin> set p"
proof (induction s arbitrary: p)
  case (Cons x xs)
  obtain q qs where q: "split_on c xs = q # qs" by (cases "split_on c xs") auto
  from Cons.prems q have "p = [] \<or> p \<in> set (split_on c xs) \<or> x \<noteq> c \<and> p = x # q"
    by (auto split: if_splits)
  then show ?case using Cons.IH [of p] Cons.IH [of q] q by auto
qed simp

lemma split_on_append: "c \<notin> set p \<Longrightarrow> split_on c (p @ c # xs) = p # split_on c xs"
  by (induction p) auto

lemma split_on_plain: "c \<notin> set p \<Longrightarrow> split_on c p = [p]"
  by (induction p) auto

lemma split_on_join: "ps \<noteq> [] \<Longrightarrow> \<forall>p\<in>set ps. c \<notin> set p \<Longrightarrow> split_on c (join [c] ps) = ps"
proof (induction ps)
  case (Cons p ps)
  then show ?case by (cases ps) (simp_all add: split_on_plain split_on_append)
qed simp

lemma nat_str_not_Nil [simp]: "nat_str n \<noteq> []"
  by (subst nat_str.simps) simp

lemma nat_str_digits: "c \<in> set (nat_str n) \<Longrightarrow> is_digit c"
proof (induction n rule: nat_str.induct)
  case (1 n)
  have d: "is_digit (char_of (48 + k :: nat))" if "k < 10" for k
    using that by (simp add: is_digit_def code_point_def)
  show ?case
  proof (cases "n < 10")
    case True
    with 1 d show ?thesis by (simp add: nat_str.simps [of n])
  next
    case False
    with 1 d [of "n mod 10"] show ?thesis by (auto simp: nat_str.simps [of n])
  qed
qed

lemma nat_str_inj: "nat_str a = nat_str b \<longleftrightarrow> a = b"
proof -
  define val where "val = (\<lambda>s :: string. foldl (\<lambda>acc c. 10 * acc + (of_char c - 48)) (0 :: nat) s)"
  have "val (nat_str n) = n" for n
  proof (induction n rule: nat_str.induct)
    case (1 n)
    have d: "of_char (char_of (48 + k :: nat)) = 48 + k" if "k < 10" for k :: nat
      using that by simp
    show ?case
    proof (cases "n < 10")
      case True
      then show ?thesis using d [of n] by (simp add: nat_str.simps [of n] val_def)
    next
      case False
      then show ?thesis using 1 d [of "n mod 10"] by (simp add: nat_str.simps [of n] val_def)
    qed
  qed
  then show ?thesis by metis
qed

lemma pos_str_inj:
  assumes "0 \<le> a" and "0 \<le> b"
  shows "pos_str a = pos_str b \<longleftrightarrow> a = b"
proof -
  define val where "val = (\<lambda>s :: string. foldl (\<lambda>acc c. 10 * acc + (of_char c - 48)) (0 :: int) s)"
  have d: "of_char (char_of (48 + k :: int)) = 48 + k" if "0 \<le> k" "k < 10" for k :: int
    using that by (simp add: take_bit_int_eq_self)
  have "0 \<le> n \<Longrightarrow> val (pos_str n) = n" for n
  proof (induction n rule: pos_str.induct)
    case (1 n)
    show ?case
    proof (cases "n < 10")
      case True
      then show ?thesis using d [of n] 1 by (simp add: pos_str.simps [of n] val_def)
    next
      case False
      then show ?thesis using 1 d [of "n mod 10"] by (simp add: pos_str.simps [of n] val_def)
    qed
  qed
  with assms show ?thesis by metis
qed

end
