(* ===== verification/ExecutionContract.thy ===== *)
theory ExecutionContract
  imports PyValue
begin

text \<open>
  \<open>src/yacht/_execution_contract.py\<close>: validation of execution plans and of execution summaries,
  shared by the host and the Harbor launcher. Every check raises \<open>ExecutionContractError\<close>
  with the message of the source; the checks that Python itself makes raise
  (membership of an unhashable value in a frozenset, \<open>math.isfinite\<close> of a huge integer) are
  \<open>TypeError\<close> and \<open>PyOverflowError\<close>.

  A loop over a frozenset of required keys visits them in the order listed here; the order only
  decides which message is raised.
\<close>

section \<open>Constants\<close>

definition CONTROLLED_OMP_VERSION :: string where
  "CONTROLLED_OMP_VERSION = ''18.2.6''"

definition CONTROLLED_EXECUTION_HARNESSES :: "string list" where
  "CONTROLLED_EXECUTION_HARNESSES = [''omp'']"

definition EXECUTION_SCHEMA :: string where
  "EXECUTION_SCHEMA = ''yacht.execution.v1''"

definition EXECUTION_MODES :: "string list" where
  "EXECUTION_MODES = [''single'', ''retained'']"

definition CAPTURE_MAX_BYTES :: int where
  "CAPTURE_MAX_BYTES = 16 * 1024 * 1024"

definition CAPTURE_TOTAL_MAX_BYTES :: int where
  "CAPTURE_TOTAL_MAX_BYTES = 64 * 1024 * 1024"

definition MESSAGE_ENDINGS :: "string list" where
  "MESSAGE_ENDINGS = [''natural'', ''cap'', ''timeout'', ''error'']"

definition CAPTURE_STATUSES :: "string list" where
  "CAPTURE_STATUSES = [''missing'', ''captured'', ''error'']"

definition SINGLE_KEYS :: "string list" where
  "SINGLE_KEYS = [''mode'', ''max_turns'', ''message_timeout_seconds'', ''timeout_seconds'', ''advisor'']"

definition RETAINED_KEYS :: "string list" where
  "RETAINED_KEYS = SINGLE_KEYS @ [''initial_turn_id'', ''turns'', ''captures'']"

definition TURN_KEYS :: "string list" where
  "TURN_KEYS = [''id'', ''instruction'']"

definition CAPTURE_KEYS :: "string list" where
  "CAPTURE_KEYS = [''id'', ''after'', ''path'', ''max_bytes'']"

definition ADVISOR_PLAN_KEYS :: "string list" where
  "ADVISOR_PLAN_KEYS = [''model'', ''tools'', ''instructions'']"

definition SUMMARY_REQUIRED :: "string list" where
  "SUMMARY_REQUIRED =
     [''schema'', ''mode'', ''max_turns'', ''message_timeout_seconds'', ''timeout_seconds'',
      ''session_ids'', ''messages'', ''captures'', ''valid'', ''model'', ''harness'',
      ''harness_version'', ''settings'', ''usage'', ''cost_usd'']"

definition SUMMARY_KEYS :: "string list" where
  "SUMMARY_KEYS = SUMMARY_REQUIRED @ [''error'', ''ended'', ''handoff'', ''advisor'']"

definition MESSAGE_REQUIRED :: "string list" where
  "MESSAGE_REQUIRED =
     [''id'', ''ended'', ''loops_started'', ''loops_completed'', ''continuation_possible'',
      ''started_at'', ''finished_at'']"

definition MESSAGE_KEYS :: "string list" where
  "MESSAGE_KEYS = MESSAGE_REQUIRED @ [''usage'', ''cost_usd'', ''advisor'']"

definition SUMMARY_CAPTURE_REQUIRED :: "string list" where
  "SUMMARY_CAPTURE_REQUIRED = [''after'', ''path'', ''status'']"

definition SUMMARY_CAPTURE_KEYS :: "string list" where
  "SUMMARY_CAPTURE_KEYS =
     SUMMARY_CAPTURE_REQUIRED @ [''id'', ''bytes'', ''sha256'', ''artifact'', ''error'']"

section \<open>Grammars\<close>

text \<open>\<open>[A-Za-z0-9][A-Za-z0-9_-]{0,63}\<close>, the whole string.\<close>

definition is_turn_char :: "char \<Rightarrow> bool" where
  "is_turn_char c = (is_ascii_alnum c \<or> c = CHR ''_'' \<or> c = CHR ''-'')"

definition TURN_ID_RE :: "string \<Rightarrow> bool" where
  "TURN_ID_RE s = (case s of [] \<Rightarrow> False
     | c # cs \<Rightarrow> is_ascii_alnum c \<and> list_all is_turn_char cs \<and> length cs \<le> 63)"

text \<open>\<open>0|[1-9][0-9]*\<close>.\<close>

definition is_index :: "string \<Rightarrow> bool" where
  "is_index s = (s = ''0'' \<or> s \<noteq> [] \<and> list_all is_digit s \<and> hd s \<noteq> CHR ''0'')"

definition CAPTURE_ID_RE :: "string \<Rightarrow> bool" where
  "CAPTURE_ID_RE s = list_ex (\<lambda>i. s ! i = CHR ''-'' \<and> TURN_ID_RE (take i s) \<and> is_index (drop (Suc i) s))
     [0..<length s]"

definition SHA256_HEX :: "string \<Rightarrow> bool" where
  "SHA256_HEX s = (length s = 64
     \<and> list_all (\<lambda>c. is_digit c \<or> 97 \<le> code_point c \<and> code_point c \<le> 102) s)"

section \<open>Value checks\<close>

definition require_object :: "json \<Rightarrow> string \<Rightarrow> exn + json_obj" where
  "require_object value path = (case value of
     JObj d \<Rightarrow> Inr d | _ \<Rightarrow> Inl (ContractError (path @ '' must be an object'')))"

definition require_positive_int :: "json \<Rightarrow> string \<Rightarrow> exn + int" where
  "require_positive_int value path = (case value of
     JInt n \<Rightarrow> if n < 1 then Inl (ContractError (path @ '' must be an integer >= 1'')) else Inr n
   | _ \<Rightarrow> Inl (ContractError (path @ '' must be an integer >= 1'')))"

definition require_non_negative_int :: "json \<Rightarrow> string \<Rightarrow> exn + int" where
  "require_non_negative_int value path = (case value of
     JInt n \<Rightarrow> if n < 0 then Inl (ContractError (path @ '' must be an integer >= 0'')) else Inr n
   | _ \<Rightarrow> Inl (ContractError (path @ '' must be an integer >= 0'')))"

definition require_non_empty_string :: "json \<Rightarrow> string \<Rightarrow> exn + string" where
  "require_non_empty_string value path = (case value of
     JStr s \<Rightarrow> if s = [] then Inl (ContractError (path @ '' must be a non-empty string'')) else Inr s
   | _ \<Rightarrow> Inl (ContractError (path @ '' must be a non-empty string'')))"

definition require_turn_id :: "json \<Rightarrow> string \<Rightarrow> exn + string" where
  "require_turn_id value path =
     (let e = ContractError (path @ '' must match [A-Za-z0-9][A-Za-z0-9_-]{0,63}'')
      in case value of JStr s \<Rightarrow> if TURN_ID_RE s then Inr s else Inl e | _ \<Rightarrow> Inl e)"

definition require_capture_id :: "json \<Rightarrow> string \<Rightarrow> exn + string" where
  "require_capture_id value path =
     (let e = ContractError (path @ '' must be a turn id followed by '' @ py_repr ''-''
                @ '' and the declaration index'')
      in case value of JStr s \<Rightarrow> if CAPTURE_ID_RE s then Inr s else Inl e | _ \<Rightarrow> Inl e)"

definition require_relative_posix_path :: "json \<Rightarrow> string \<Rightarrow> exn + string" where
  "require_relative_posix_path value path =
     (let e = ContractError (path @ '' must be a relative POSIX path'')
      in case value of
           JStr s \<Rightarrow>
             if s = [] then Inl e
             else if hd s = CHR ''/'' \<or> char_of (92 :: nat) \<in> set s \<or> char_of (0 :: nat) \<in> set s then Inl e
             else if list_ex (\<lambda>p. p \<in> {[], ''.'', ''..''}) (split_on CHR ''/'' s)
             then Inl (ContractError (path @ '' must not contain empty, '' @ py_repr ''.'' @ '', or ''
                         @ py_repr ''..'' @ '' components''))
             else Inr s
         | _ \<Rightarrow> Inl e)"

definition require_cost :: "json \<Rightarrow> string \<Rightarrow> exn + unit" where
  "require_cost value path = (if value = JNull then Inr () else
     bnd (finite_non_negative value) (\<lambda>ok.
       ensure ok (ContractError (path @ '' must be a finite number >= 0 or null''))))"

definition validate_numeric_map :: "json \<Rightarrow> string \<Rightarrow> exn + unit" where
  "validate_numeric_map value path =
     bnd (require_object value path) (\<lambda>payload.
       forR (\<lambda>(key, item).
         bnd (ensure (key \<noteq> []) (ContractError (path @ '' keys must be non-empty strings''))) (\<lambda>_.
         bnd (finite_non_negative item) (\<lambda>ok.
           ensure ok (ContractError (at_key path key @ '' must be a finite number >= 0'')))))
       payload)"

text \<open>\<open>unknown = sorted(set(d) - keys)\<close> and the loop over required keys.\<close>

definition check_unknown :: "json_obj \<Rightarrow> string list \<Rightarrow> string \<Rightarrow> exn + unit" where
  "check_unknown d keys prefix =
     ensure (unknown_keys d keys = []) (ContractError (prefix @ join '', '' (unknown_keys d keys)))"

definition check_required :: "json_obj \<Rightarrow> string list \<Rightarrow> string \<Rightarrow> exn + unit" where
  "check_required d keys path =
     forR (\<lambda>key. ensure (has_key d key) (ContractError (at_key path key @ '' is required''))) keys"

definition is_string_list :: "json \<Rightarrow> bool" where
  "is_string_list v = (case v of JList xs \<Rightarrow> list_all is_non_empty_string xs | _ \<Rightarrow> False)"

section \<open>Execution plans\<close>

definition supports_controlled_execution :: "string \<Rightarrow> string \<Rightarrow> bool" where
  "supports_controlled_execution harness version =
     (harness \<in> set CONTROLLED_EXECUTION_HARNESSES \<and> version = CONTROLLED_OMP_VERSION)"

definition validate_advisor_plan :: "json \<Rightarrow> exn + unit" where
  "validate_advisor_plan value = (if value = JNull then Inr () else
     bnd (require_object value ''advisor'') (\<lambda>advisor.
     bnd (check_unknown advisor ADVISOR_PLAN_KEYS ''advisor unknown keys: '') (\<lambda>_.
     bnd (require_non_empty_string (dget advisor ''model'') ''advisor.model'') (\<lambda>_.
     bnd (ensure (dget advisor ''tools'' = JNull \<or> is_string_list (dget advisor ''tools''))
            (ContractError ''advisor.tools must be a list of non-empty strings'')) (\<lambda>_.
     ensure (case dget advisor ''instructions'' of JNull \<Rightarrow> True | JStr _ \<Rightarrow> True | _ \<Rightarrow> False)
       (ContractError ''advisor.instructions must be a string''))))))"

definition validate_turn :: "nat \<Rightarrow> string list \<Rightarrow> json \<Rightarrow> exn + string list" where
  "validate_turn index seen item =
     (let path = at_index ''turns'' index in
     bnd (require_object item path) (\<lambda>turn.
     bnd (check_unknown turn TURN_KEYS (path @ '' unknown keys: '')) (\<lambda>_.
     bnd (check_required turn TURN_KEYS path) (\<lambda>_.
     bnd (require_turn_id (dget turn ''id'') (at_key path ''id'')) (\<lambda>turn_id.
     bnd (ensure (turn_id \<notin> set seen)
            (ContractError (at_key path ''id '' @ py_repr turn_id @ '' is not unique''))) (\<lambda>_.
     bnd (ensure (case dget turn ''instruction'' of JStr s \<Rightarrow> strip s \<noteq> [] | _ \<Rightarrow> False)
            (ContractError (at_key path ''instruction must be a non-empty string''))) (\<lambda>_.
     Inr (seen @ [turn_id]))))))))"

text \<open>The state of the capture loop: the pairs seen and the total of \<open>max_bytes\<close>.\<close>

definition validate_capture ::
    "string list \<Rightarrow> nat \<Rightarrow> (string \<times> string) list \<times> int \<Rightarrow> json
       \<Rightarrow> exn + (string \<times> string) list \<times> int" where
  "validate_capture seen index = (\<lambda>(pairs, acc) item.
     let path = at_index ''captures'' index in
     bnd (require_object item path) (\<lambda>capture.
     bnd (check_unknown capture CAPTURE_KEYS (path @ '' unknown keys: '')) (\<lambda>_.
     bnd (check_required capture CAPTURE_KEYS path) (\<lambda>_.
     bnd (require_turn_id (dget capture ''after'') (at_key path ''after'')) (\<lambda>after.
     bnd (ensure (after \<in> set seen)
            (ContractError (at_key path ''after '' @ py_repr after @ '' does not name a known turn''))) (\<lambda>_.
     bnd (require_relative_posix_path (dget capture ''path'') (at_key path ''path'')) (\<lambda>rel_path.
     bnd (ensure ((after, rel_path) \<notin> set pairs)
            (ContractError (path @ '' duplicates after '' @ py_repr after @ '' path '' @ py_repr rel_path))) (\<lambda>_.
     bnd (require_positive_int (dget capture ''max_bytes'') (at_key path ''max_bytes'')) (\<lambda>max_bytes.
     bnd (ensure (max_bytes \<le> CAPTURE_MAX_BYTES)
            (ContractError (at_key path ''max_bytes must be <= '' @ int_str CAPTURE_MAX_BYTES))) (\<lambda>_.
     bnd (require_non_empty_string (dget capture ''id'') (at_key path ''id'')) (\<lambda>capture_id.
     bnd (ensure (capture_id = after @ ''-'' @ nat_str index)
            (ContractError (at_key path ''id must be '' @ py_repr (after @ ''-'' @ nat_str index)))) (\<lambda>_.
     Inr (pairs @ [(after, rel_path)], acc + max_bytes)))))))))))))"

definition validate_retained_plan :: "json_obj \<Rightarrow> exn + unit" where
  "validate_retained_plan plan =
     bnd (require_turn_id (dget plan ''initial_turn_id'') ''initial_turn_id'') (\<lambda>initial.
     bnd (case dget plan ''turns'' of
            JList ts \<Rightarrow> Inr ts | _ \<Rightarrow> Inl (ContractError ''turns must be a list'')) (\<lambda>turns.
     bnd (foldR validate_turn 0 [initial] turns) (\<lambda>seen.
     bnd (case dget plan ''captures'' of
            JList cs \<Rightarrow> Inr cs | _ \<Rightarrow> Inl (ContractError ''captures must be a list'')) (\<lambda>captures.
     bnd (foldR (validate_capture seen) 0 ([], 0) captures) (\<lambda>(pairs, acc).
     ensure (acc \<le> CAPTURE_TOTAL_MAX_BYTES)
       (ContractError (''capture max_bytes total must be <= '' @ int_str CAPTURE_TOTAL_MAX_BYTES)))))))"

definition validate_execution_plan :: "json \<Rightarrow> exn + unit" where
  "validate_execution_plan value = (case value of
     JObj plan \<Rightarrow>
       bnd (check_unknown plan RETAINED_KEYS ''unknown keys: '') (\<lambda>_.
       bnd (in_strings (dget plan ''mode'') EXECUTION_MODES) (\<lambda>known.
       bnd (ensure known (ContractError ''mode must be single or retained'')) (\<lambda>_.
       bnd (forR (\<lambda>key. bnd (require_positive_int (dget plan key) key) (\<lambda>_. Inr ()))
              [''max_turns'', ''message_timeout_seconds'', ''timeout_seconds'']) (\<lambda>_.
       if dget plan ''mode'' = JStr ''single''
       then bnd (ensure (unknown_keys plan SINGLE_KEYS = [])
              (ContractError (''single mode does not accept '' @ join '', '' (unknown_keys plan SINGLE_KEYS)))) (\<lambda>_.
              validate_advisor_plan (dget plan ''advisor''))
       else bnd (validate_advisor_plan (dget plan ''advisor'')) (\<lambda>_. validate_retained_plan plan)))))
   | _ \<Rightarrow> Inl (ContractError ''execution plan must be an object''))"

section \<open>Execution summaries\<close>

text \<open>\<open>if v not in names: raise e\<close> over a frozenset of strings.\<close>

definition require_member :: "json \<Rightarrow> string list \<Rightarrow> exn \<Rightarrow> exn + unit" where
  "require_member v names e = bnd (in_strings v names) (\<lambda>b. ensure b e)"

definition ADVISOR_STATUSES :: "string list" where
  "ADVISOR_STATUSES = [''running'', ''paused'', ''quota_exhausted'', ''error'', ''no_model'']"

definition ADVISOR_ENTRY_KEYS :: "string list" where
  "ADVISOR_ENTRY_KEYS = [''name'', ''status'', ''model'', ''tokens'', ''cost'', ''messages'']"

definition validate_advisor_entry :: "nat \<Rightarrow> json \<Rightarrow> exn + unit" where
  "validate_advisor_entry index item =
     (let path = at_index ''execution summary.advisor.advisors'' index in
     bnd (require_object item path) (\<lambda>entry.
     bnd (check_unknown entry ADVISOR_ENTRY_KEYS (path @ '' unknown keys: '')) (\<lambda>_.
     bnd (check_required entry [''name'', ''status'', ''tokens'', ''cost'', ''messages''] path) (\<lambda>_.
     bnd (require_non_empty_string (dget entry ''name'') (at_key path ''name'')) (\<lambda>_.
     bnd (require_member (dget entry ''status'') ADVISOR_STATUSES
            (ContractError (at_key path ''status must be one of: '' @ join '', '' (sorted_set ADVISOR_STATUSES)))) (\<lambda>_.
     bnd (if has_key entry ''model''
          then bnd (require_non_empty_string (dget entry ''model'') (at_key path ''model'')) (\<lambda>_. Inr ())
          else Inr ()) (\<lambda>_.
     bnd (validate_numeric_map (dget entry ''tokens'') (at_key path ''tokens'')) (\<lambda>_.
     bnd (require_cost (dget entry ''cost'') (at_key path ''cost'')) (\<lambda>_.
     validate_numeric_map (dget entry ''messages'') (at_key path ''messages''))))))))))"

definition validate_summary_advisor :: "json \<Rightarrow> exn + unit" where
  "validate_summary_advisor value =
     bnd (require_object value ''execution summary.advisor'') (\<lambda>block.
     bnd (check_unknown block [''enabled'', ''advisors'', ''cost_usd'']
            ''execution summary.advisor unknown keys: '') (\<lambda>_.
     bnd (ensure (is_bool (dget block ''enabled''))
            (ContractError ''execution summary.advisor.enabled must be a boolean'')) (\<lambda>_.
     bnd (require_cost (dget block ''cost_usd'') ''execution summary.advisor.cost_usd'') (\<lambda>_.
     case dget block ''advisors'' of
       JList advisors \<Rightarrow> forI validate_advisor_entry 0 advisors
     | _ \<Rightarrow> Inl (ContractError ''execution summary.advisor.advisors must be a list'')))))"

function validate_setting_value :: "json \<Rightarrow> string \<Rightarrow> exn + unit" where
  "validate_setting_value value path =
     (let e = ContractError (path @ '' must be a boolean, non-empty string, list of strings, or object'')
      in case value of
           JBool _ \<Rightarrow> Inr ()
         | JStr s \<Rightarrow> ensure (s \<noteq> []) e
         | JList xs \<Rightarrow> ensure (list_all is_non_empty_string xs) e
         | JObj d \<Rightarrow>
             forR (\<lambda>kv.
               bnd (ensure (fst kv \<noteq> []) (ContractError (path @ '' keys must be non-empty strings''))) (\<lambda>_.
               validate_setting_value (snd kv) (at_key path (fst kv)))) d
         | _ \<Rightarrow> Inl e)"
  by pat_completeness auto
termination
proof (relation "measure (size \<circ> fst)")
  fix v :: json and path d kv
  assume v: "v = JObj d" and kv: "kv \<in> set d"
  have "size_prod (\<lambda>_. 0) size kv \<le> size_list (size_prod (\<lambda>_. 0) size) d"
    using kv by (rule size_list_estimation') simp
  then have "size (snd kv) < size v" by (cases kv) (simp add: v)
  then show "((snd kv, at_key path (fst kv)), v, path) \<in> measure (size \<circ> fst)" by simp
qed simp

declare validate_setting_value.simps [simp del]

definition validate_summary_settings :: "json \<Rightarrow> exn + unit" where
  "validate_summary_settings value =
     bnd (require_object value ''execution summary.settings'') (\<lambda>settings.
       forR (\<lambda>(key, item).
         bnd (ensure (key \<noteq> []) (ContractError ''execution summary.settings keys must be non-empty strings'')) (\<lambda>_.
         validate_setting_value item (at_key ''execution summary.settings'' key))) settings)"

definition validate_summary_handoff :: "json \<Rightarrow> exn + unit" where
  "validate_summary_handoff value =
     bnd (require_object value ''execution summary.handoff'') (\<lambda>handoff.
     bnd (ensure (handoff \<noteq> []) (ContractError ''execution summary.handoff must not be empty'')) (\<lambda>_.
       forR (\<lambda>(key, item).
         bnd (ensure (key \<noteq> []) (ContractError ''execution summary.handoff keys must be non-empty strings'')) (\<lambda>_.
         bnd (require_non_empty_string item (at_key ''execution summary.handoff'' key)) (\<lambda>_. Inr ())))
       handoff))"

text \<open>\<open>if key in item: check(item[key])\<close>.\<close>

definition if_present :: "json_obj \<Rightarrow> string \<Rightarrow> (json \<Rightarrow> exn + unit) \<Rightarrow> exn + unit" where
  "if_present d key check = (if has_key d key then check (dget d key) else Inr ())"

definition validate_summary_message :: "json \<Rightarrow> string \<Rightarrow> int \<Rightarrow> exn + string" where
  "validate_summary_message value path max_turns =
     bnd (require_object value path) (\<lambda>item.
     bnd (check_unknown item MESSAGE_KEYS (path @ '' unknown keys: '')) (\<lambda>_.
     bnd (check_required item MESSAGE_REQUIRED path) (\<lambda>_.
     bnd (require_turn_id (dget item ''id'') (at_key path ''id'')) (\<lambda>message_id.
     bnd (require_member (dget item ''ended'') MESSAGE_ENDINGS
            (ContractError (at_key path ''ended must be one of: '' @ join '', '' (sorted_set MESSAGE_ENDINGS)))) (\<lambda>_.
     bnd (require_non_negative_int (dget item ''loops_started'') (at_key path ''loops_started'')) (\<lambda>started.
     bnd (require_non_negative_int (dget item ''loops_completed'') (at_key path ''loops_completed'')) (\<lambda>completed.
     bnd (ensure (completed \<le> started)
            (ContractError (at_key path ''loops_completed must be <= loops_started''))) (\<lambda>_.
     bnd (ensure (started \<le> max_turns)
            (ContractError (at_key path ''loops_started must be <= max_turns''))) (\<lambda>_.
     bnd (ensure (is_bool (dget item ''continuation_possible''))
            (ContractError (at_key path ''continuation_possible must be a boolean''))) (\<lambda>_.
     bnd (require_non_empty_string (dget item ''started_at'') (at_key path ''started_at'')) (\<lambda>_.
     bnd (require_non_empty_string (dget item ''finished_at'') (at_key path ''finished_at'')) (\<lambda>_.
     bnd (if_present item ''usage'' (\<lambda>v. validate_numeric_map v (at_key path ''usage''))) (\<lambda>_.
     bnd (if_present item ''cost_usd'' (\<lambda>v. require_cost v (at_key path ''cost_usd''))) (\<lambda>_.
     Inr message_id))))))))))))))"

definition validate_summary_capture :: "string list \<Rightarrow> nat \<Rightarrow> json \<Rightarrow> exn + unit" where
  "validate_summary_capture delivered index value =
     (let path = at_index ''execution summary.captures'' index in
     bnd (require_object value path) (\<lambda>item.
     bnd (check_unknown item SUMMARY_CAPTURE_KEYS (path @ '' unknown keys: '')) (\<lambda>_.
     bnd (check_required item SUMMARY_CAPTURE_REQUIRED path) (\<lambda>_.
     bnd (if_present item ''id'' (\<lambda>v. bnd (require_capture_id v (at_key path ''id'')) (\<lambda>_. Inr ()))) (\<lambda>_.
     bnd (require_turn_id (dget item ''after'') (at_key path ''after'')) (\<lambda>after.
     bnd (ensure (after \<in> set delivered)
            (ContractError (at_key path ''after '' @ py_repr after @ '' does not name a delivered message''))) (\<lambda>_.
     bnd (require_relative_posix_path (dget item ''path'') (at_key path ''path'')) (\<lambda>_.
     bnd (require_member (dget item ''status'') CAPTURE_STATUSES
            (ContractError (at_key path ''status must be one of: '' @ join '', '' (sorted_set CAPTURE_STATUSES)))) (\<lambda>_.
     bnd (if dget item ''status'' = JStr ''captured'' then
            bnd (require_non_negative_int (dget item ''bytes'') (at_key path ''bytes'')) (\<lambda>_.
            bnd (ensure (case dget item ''sha256'' of JStr s \<Rightarrow> SHA256_HEX s | _ \<Rightarrow> False)
                   (ContractError (at_key path ''sha256 must be a 64-char hex digest''))) (\<lambda>_.
            bnd (require_non_empty_string (dget item ''artifact'') (at_key path ''artifact'')) (\<lambda>_. Inr ())))
          else Inr ()) (\<lambda>_.
     if dget item ''status'' = JStr ''error''
     then bnd (require_non_empty_string (dget item ''error'') (at_key path ''error'')) (\<lambda>_. Inr ())
     else Inr ()))))))))))"

text \<open>The two loops over messages and captures, after the checks of the other fields.\<close>

definition validate_summary_streams :: "json_obj \<Rightarrow> json list \<Rightarrow> int \<Rightarrow> exn + unit" where
  "validate_summary_streams payload session_ids max_turns =
     bnd (case dget payload ''messages'' of
            JList ms \<Rightarrow> Inr ms | _ \<Rightarrow> Inl (ContractError ''execution summary.messages must be a list'')) (\<lambda>messages.
     bnd (ensure (messages = [] \<or> session_ids \<noteq> [])
            (ContractError ''execution summary.session_ids must be non-empty when messages exist'')) (\<lambda>_.
     bnd (foldR (\<lambda>index delivered item.
            bnd (validate_summary_message item (at_index ''execution summary.messages'' index) max_turns)
              (\<lambda>message_id. Inr (delivered @ [message_id]))) 0 [] messages) (\<lambda>delivered.
     bnd (case dget payload ''captures'' of
            JList cs \<Rightarrow> Inr cs | _ \<Rightarrow> Inl (ContractError ''execution summary.captures must be a list'')) (\<lambda>captures.
     forI (validate_summary_capture delivered) 0 captures))))"

definition validate_execution_summary :: "json \<Rightarrow> exn + unit" where
  "validate_execution_summary summary =
     bnd (require_object summary ''execution summary'') (\<lambda>payload.
     bnd (check_unknown payload SUMMARY_KEYS ''execution summary unknown keys: '') (\<lambda>_.
     bnd (check_required payload SUMMARY_REQUIRED ''execution summary'') (\<lambda>_.
     bnd (ensure (dget payload ''schema'' = JStr EXECUTION_SCHEMA)
            (ContractError (''execution summary.schema must be '' @ EXECUTION_SCHEMA))) (\<lambda>_.
     bnd (require_member (dget payload ''mode'') EXECUTION_MODES
            (ContractError ''execution summary.mode must be single or retained'')) (\<lambda>_.
     bnd (require_positive_int (dget payload ''max_turns'') ''execution summary.max_turns'') (\<lambda>max_turns.
     bnd (require_positive_int (dget payload ''message_timeout_seconds'')
            ''execution summary.message_timeout_seconds'') (\<lambda>_.
     bnd (require_positive_int (dget payload ''timeout_seconds'') ''execution summary.timeout_seconds'') (\<lambda>_.
     bnd (case dget payload ''session_ids'' of
            JList xs \<Rightarrow> if list_all is_non_empty_string xs then Inr xs
              else Inl (ContractError ''execution summary.session_ids must be a list of non-empty strings'')
          | _ \<Rightarrow> Inl (ContractError ''execution summary.session_ids must be a list of non-empty strings'')) (\<lambda>session_ids.
     bnd (ensure (is_bool (dget payload ''valid''))
            (ContractError ''execution summary.valid must be a boolean'')) (\<lambda>_.
     bnd (forR (\<lambda>key. bnd (require_non_empty_string (dget payload key) (at_key ''execution summary'' key)) (\<lambda>_. Inr ()))
            [''model'', ''harness'', ''harness_version'']) (\<lambda>_.
     bnd (if_present payload ''error''
            (\<lambda>v. bnd (require_non_empty_string v ''execution summary.error'') (\<lambda>_. Inr ()))) (\<lambda>_.
     bnd (if_present payload ''ended'' (\<lambda>v. require_member v MESSAGE_ENDINGS
            (ContractError (''execution summary.ended must be one of: '' @ join '', '' (sorted_set MESSAGE_ENDINGS))))) (\<lambda>_.
     bnd (if_present payload ''handoff'' validate_summary_handoff) (\<lambda>_.
     bnd (if_present payload ''advisor'' validate_summary_advisor) (\<lambda>_.
     bnd (validate_summary_settings (dget payload ''settings'')) (\<lambda>_.
     bnd (validate_numeric_map (dget payload ''usage'') ''execution summary.usage'') (\<lambda>_.
     bnd (require_cost (dget payload ''cost_usd'') ''execution summary.cost_usd'') (\<lambda>_.
     validate_summary_streams payload session_ids max_turns))))))))))))))))))"

section \<open>What an accepted value looks like\<close>

lemma require_object_eq_Inr [result_simps]: "require_object v p = Inr d \<longleftrightarrow> v = JObj d"
  by (cases v) (auto simp: require_object_def)

lemma require_positive_int_eq_Inr [result_simps]: "require_positive_int v p = Inr n \<longleftrightarrow> v = JInt n \<and> 1 \<le> n"
  by (cases v) (auto simp: require_positive_int_def)

lemma require_non_negative_int_eq_Inr [result_simps]:
  "require_non_negative_int v p = Inr n \<longleftrightarrow> v = JInt n \<and> 0 \<le> n"
  by (cases v) (auto simp: require_non_negative_int_def)

lemma require_non_empty_string_eq_Inr [result_simps]:
  "require_non_empty_string v p = Inr s \<longleftrightarrow> v = JStr s \<and> s \<noteq> []"
  by (cases v) (auto simp: require_non_empty_string_def)

lemma require_turn_id_eq_Inr [result_simps]: "require_turn_id v p = Inr s \<longleftrightarrow> v = JStr s \<and> TURN_ID_RE s"
  by (cases v) (auto simp: require_turn_id_def Let_def)

lemma require_capture_id_eq_Inr [result_simps]:
  "require_capture_id v p = Inr s \<longleftrightarrow> v = JStr s \<and> CAPTURE_ID_RE s"
  by (cases v) (auto simp: require_capture_id_def Let_def)

definition safe_relative :: "string \<Rightarrow> bool" where
  "safe_relative s = (s \<noteq> [] \<and> hd s \<noteq> CHR ''/'' \<and> char_of (92 :: nat) \<notin> set s \<and> char_of (0 :: nat) \<notin> set s
     \<and> (\<forall>p\<in>set (split_on CHR ''/'' s). p \<notin> {[], ''.'', ''..''}))"

lemma require_relative_posix_path_eq_Inr [result_simps]:
  "require_relative_posix_path v p = Inr s \<longleftrightarrow> v = JStr s \<and> safe_relative s"
  by (cases v) (auto simp: require_relative_posix_path_def safe_relative_def Let_def list_ex_iff)

lemma check_unknown_eq_Inr [result_simps]: "check_unknown d ks p = Inr u \<longleftrightarrow> fst ` set d \<subseteq> set ks"
  by (simp add: check_unknown_def unknown_keys_empty)

lemma check_required_eq_Inr [result_simps]: "check_required d ks p = Inr u \<longleftrightarrow> (\<forall>k\<in>set ks. has_key d k)"
  by (simp add: check_required_def result_simps)

lemma require_member_eq_Inr [result_simps]:
  "require_member v names e = Inr u \<longleftrightarrow> (\<exists>s. v = JStr s \<and> s \<in> set names)"
  by (simp add: require_member_def in_strings_ensure)

text \<open>Fields of a list item.\<close>

definition field :: "json \<Rightarrow> string \<Rightarrow> json" where
  "field v k = (case v of JObj d \<Rightarrow> dget d k | _ \<Rightarrow> JNull)"

lemma validate_turn_eq_Inr:
  "validate_turn i seen item = Inr seen' \<longleftrightarrow>
     (\<exists>d t s. item = JObj d \<and> fst ` set d \<subseteq> set TURN_KEYS \<and> (\<forall>k\<in>set TURN_KEYS. has_key d k)
        \<and> dget d ''id'' = JStr t \<and> TURN_ID_RE t \<and> t \<notin> set seen
        \<and> dget d ''instruction'' = JStr s \<and> strip s \<noteq> [] \<and> seen' = seen @ [t])"
  by (auto simp: validate_turn_def Let_def result_simps)

definition capture_ok :: "string list \<Rightarrow> nat \<Rightarrow> json \<Rightarrow> string \<Rightarrow> string \<Rightarrow> int \<Rightarrow> bool" where
  "capture_ok seen i item after rel n = (\<exists>d. item = JObj d
     \<and> fst ` set d \<subseteq> set CAPTURE_KEYS \<and> (\<forall>k\<in>set CAPTURE_KEYS. has_key d k)
     \<and> dget d ''after'' = JStr after \<and> TURN_ID_RE after \<and> after \<in> set seen
     \<and> dget d ''path'' = JStr rel \<and> safe_relative rel
     \<and> dget d ''max_bytes'' = JInt n \<and> 1 \<le> n \<and> n \<le> CAPTURE_MAX_BYTES
     \<and> dget d ''id'' = JStr (after @ ''-'' @ nat_str i))"

lemma validate_capture_eq_Inr:
  "validate_capture seen i (pairs, acc) item = Inr r \<longleftrightarrow>
     (\<exists>after rel n. capture_ok seen i item after rel n \<and> (after, rel) \<notin> set pairs
        \<and> r = (pairs @ [(after, rel)], acc + n))"
  by (auto simp: validate_capture_def capture_ok_def Let_def result_simps)

lemma validate_turns_sound:
  "foldR validate_turn i seen ts = Inr seen' \<Longrightarrow> distinct seen \<Longrightarrow> list_all TURN_ID_RE seen \<Longrightarrow>
     \<exists>tids. seen' = seen @ tids \<and> distinct seen' \<and> list_all TURN_ID_RE seen'
       \<and> map (\<lambda>t. field t ''id'') ts = map JStr tids
       \<and> (\<forall>t\<in>set ts. \<exists>s. field t ''instruction'' = JStr s \<and> strip s \<noteq> [])"
proof (induction ts arbitrary: i seen)
  case (Cons t ts)
  from Cons.prems(1) obtain seen1 where v: "validate_turn i seen t = Inr seen1"
    and rest: "foldR validate_turn (Suc i) seen1 ts = Inr seen'"
    by (auto simp: bnd_eq_Inr)
  from v obtain d tid s where "t = JObj d" "dget d ''id'' = JStr tid" "TURN_ID_RE tid" "tid \<notin> set seen"
    "dget d ''instruction'' = JStr s" "strip s \<noteq> []" and seen1: "seen1 = seen @ [tid]"
    by (auto simp: validate_turn_eq_Inr)
  moreover from this obtain tids where "seen' = seen1 @ tids" "distinct seen'" "list_all TURN_ID_RE seen'"
    "map (\<lambda>t. field t ''id'') ts = map JStr tids"
    "\<forall>t\<in>set ts. \<exists>s. field t ''instruction'' = JStr s \<and> strip s \<noteq> []"
    using Cons.IH [OF rest] Cons.prems(2,3) by auto
  ultimately show ?case
    by (intro exI [of _ "tid # tids"]) (auto simp: field_def)
qed simp

lemma validate_captures_sound:
  "foldR (validate_capture seen) i (pairs, acc) cs = Inr (pairs', acc') \<Longrightarrow> distinct pairs \<Longrightarrow>
     \<exists>ks ns. pairs' = pairs @ ks \<and> distinct pairs' \<and> length ks = length cs \<and> length ns = length cs
       \<and> acc' = acc + sum_list ns
       \<and> (\<forall>j<length cs. capture_ok seen (i + j) (cs ! j) (fst (ks ! j)) (snd (ks ! j)) (ns ! j))"
proof (induction cs arbitrary: i pairs acc)
  case (Cons c cs)
  from Cons.prems(1) obtain s1 where v: "validate_capture seen i (pairs, acc) c = Inr s1"
    and rest: "foldR (validate_capture seen) (Suc i) s1 cs = Inr (pairs', acc')"
    by (auto simp: bnd_eq_Inr)
  from v obtain after rel n where ok: "capture_ok seen i c after rel n" and new: "(after, rel) \<notin> set pairs"
    and s1: "s1 = (pairs @ [(after, rel)], acc + n)" by (auto simp: validate_capture_eq_Inr)
  from Cons.IH [OF rest [unfolded s1]] new Cons.prems(2) obtain ks ns where
    r: "pairs' = (pairs @ [(after, rel)]) @ ks" "distinct pairs'" "length ks = length cs"
      "length ns = length cs" "acc' = acc + n + sum_list ns"
      "\<forall>j<length cs. capture_ok seen (Suc i + j) (cs ! j) (fst (ks ! j)) (snd (ks ! j)) (ns ! j)"
    by auto
  show ?case
    by (intro exI [of _ "(after, rel) # ks"] exI [of _ "n # ns"])
      (use ok r in \<open>auto simp: nth_Cons split: nat.splits\<close>)
qed simp


lemma single_plan_iff:
  "validate_execution_plan v = Inr () \<and> field v ''mode'' = JStr ''single'' \<longleftrightarrow>
     (\<exists>d. v = JObj d \<and> fst ` set d \<subseteq> set SINGLE_KEYS \<and> dget d ''mode'' = JStr ''single''
        \<and> (\<forall>k\<in>{''max_turns'', ''message_timeout_seconds'', ''timeout_seconds''}. \<exists>n\<ge>1. dget d k = JInt n)
        \<and> validate_advisor_plan (dget d ''advisor'') = Inr ())"
proof -
  have "set SINGLE_KEYS \<subseteq> set RETAINED_KEYS" by (auto simp: RETAINED_KEYS_def)
  then show ?thesis
    by (cases v) (auto simp: validate_execution_plan_def field_def result_simps EXECUTION_MODES_def
        unknown_keys_empty)
qed

lemma retained_plan_eq_Inr:
  assumes "validate_execution_plan v = Inr ()" and "field v ''mode'' \<noteq> JStr ''single''"
  obtains d where "v = JObj d" and "dget d ''mode'' = JStr ''retained''"
    and "\<forall>k\<in>{''max_turns'', ''message_timeout_seconds'', ''timeout_seconds''}. \<exists>n\<ge>1. dget d k = JInt n"
    and "validate_advisor_plan (dget d ''advisor'') = Inr ()" and "validate_retained_plan d = Inr ()"
  using assms
  by (cases v) (auto simp: validate_execution_plan_def field_def result_simps EXECUTION_MODES_def)

lemma retained_plan_sound:
  assumes "validate_execution_plan v = Inr ()" and "field v ''mode'' \<noteq> JStr ''single''"
  shows "\<exists>initial turns tids captures keys sizes.
     field v ''initial_turn_id'' = JStr initial \<and> field v ''turns'' = JList turns
   \<and> field v ''captures'' = JList captures
   \<and> map (\<lambda>t. field t ''id'') turns = map JStr tids
   \<and> distinct (initial # tids) \<and> list_all TURN_ID_RE (initial # tids)
   \<and> distinct keys \<and> length keys = length captures \<and> length sizes = length captures
   \<and> (\<forall>j<length captures.
        capture_ok (initial # tids) j (captures ! j) (fst (keys ! j)) (snd (keys ! j)) (sizes ! j))
   \<and> sum_list sizes \<le> CAPTURE_TOTAL_MAX_BYTES"
proof -
  obtain d where d: "v = JObj d" and r: "validate_retained_plan d = Inr ()"
    using retained_plan_eq_Inr [OF assms] by blast
  from r obtain initial turns seen captures pairs acc where
    i: "dget d ''initial_turn_id'' = JStr initial" "TURN_ID_RE initial"
    and t: "dget d ''turns'' = JList turns" "foldR validate_turn 0 [initial] turns = Inr seen"
    and c: "dget d ''captures'' = JList captures"
      "foldR (validate_capture seen) 0 ([], 0) captures = Inr (pairs, acc)"
    and acc: "acc \<le> CAPTURE_TOTAL_MAX_BYTES"
    by (auto simp: validate_retained_plan_def result_simps)
  obtain tids where tids: "seen = initial # tids" "distinct seen" "list_all TURN_ID_RE seen"
    "map (\<lambda>t. field t ''id'') turns = map JStr tids"
    using validate_turns_sound [OF t(2)] i(2) by auto
  obtain sizes where "distinct pairs" "length pairs = length captures" "length sizes = length captures"
    "acc = sum_list sizes"
    "\<forall>j<length captures. capture_ok seen j (captures ! j) (fst (pairs ! j)) (snd (pairs ! j)) (sizes ! j)"
    using validate_captures_sound [OF c(2)] by auto
  then show ?thesis using i t(1) c(1) tids acc
    by (intro exI [of _ initial] exI [of _ turns] exI [of _ tids] exI [of _ captures]
        exI [of _ pairs] exI [of _ sizes]) (simp add: field_def d)
qed

section \<open>Derived capture ids\<close>

lemma capture_id_inj:
  assumes "a @ ''-'' @ nat_str i = b @ ''-'' @ nat_str j"
  shows "i = j"
proof -
  have dash: "\<not> is_digit CHR ''-''" by (simp add: is_digit_def code_point_def)
  have tail: "takeWhile is_digit (rev (x @ ''-'' @ nat_str n)) = rev (nat_str n)" for x n
  proof -
    have "\<forall>c\<in>set (rev (nat_str n)). is_digit c" using nat_str_digits by auto
    then show ?thesis using dash by (simp add: takeWhile_append takeWhile_eq_all_conv)
  qed
  from assms have "rev (nat_str i) = rev (nat_str j)" using tail by metis
  then show ?thesis by (simp add: nat_str_inj)
qed

lemma is_index_nat_str: "is_index (nat_str n)"
proof (induction n rule: nat_str.induct)
  case (1 n)
  have all: "list_all is_digit (nat_str n)" by (simp add: list_all_iff nat_str_digits)
  show ?case
  proof (cases "n < 10")
    case True
    then have "n = 0 \<or> char_of (48 + n) \<noteq> CHR ''0''"
      by (cases "n = 0") (auto simp: take_bit_eq_mod dest: arg_cong [of _ _ "of_char :: char \<Rightarrow> nat"])
    then show ?thesis using True all by (auto simp: is_index_def nat_str.simps [of n])
  next
    case False
    then have "is_index (nat_str (n div 10))" using 1 by simp
    moreover have "nat_str 0 = ''0''" by code_simp
    then have "nat_str (n div 10) \<noteq> ''0''" using nat_str_inj [of "n div 10" 0] False by simp
    ultimately have "hd (nat_str (n div 10)) \<noteq> CHR ''0''" by (simp add: is_index_def)
    then show ?thesis using False all by (simp add: is_index_def nat_str.simps [of n])
  qed
qed

lemma capture_id_matches: "TURN_ID_RE a \<Longrightarrow> CAPTURE_ID_RE (a @ ''-'' @ nat_str i)"
  unfolding CAPTURE_ID_RE_def list_ex_iff
  by (rule bexI [of _ "length a"]) (simp_all add: is_index_nat_str nth_append)

text \<open>Joining an accepted path to a root walks through it component by component.\<close>

fun walk :: "string list \<Rightarrow> string list \<Rightarrow> string list option" where
  "walk stack [] = Some (rev stack)"
| "walk stack (p # ps) =
     (if p = [] \<or> p = ''.'' then walk stack ps
      else if p = ''..'' then (case stack of [] \<Rightarrow> None | _ # up \<Rightarrow> walk up ps)
      else walk (p # stack) ps)"

lemma walk_plain: "\<forall>p\<in>set ps. p \<notin> {[], ''.'', ''..''} \<Longrightarrow> walk stack ps = Some (rev stack @ ps)"
  by (induction ps arbitrary: stack) auto

section \<open>Which exceptions escape\<close>

abbreviation is_contract_error :: "exn \<Rightarrow> bool" where
  "is_contract_error e \<equiv> \<exists>m. e = ContractError m"

lemma contract_checks [raises]:
  "raises_only is_contract_error (require_object v p)"
  "raises_only is_contract_error (require_positive_int v p)"
  "raises_only is_contract_error (require_non_negative_int v p)"
  "raises_only is_contract_error (require_non_empty_string v p)"
  "raises_only is_contract_error (require_turn_id v p)"
  "raises_only is_contract_error (require_capture_id v p)"
  "raises_only is_contract_error (require_relative_posix_path v p)"
  "raises_only is_contract_error (check_unknown d ks p)"
  "raises_only is_contract_error (check_required d ks p)"
  by (simp_all add: require_object_def require_positive_int_def require_non_negative_int_def
      require_non_empty_string_def require_turn_id_def require_capture_id_def
      require_relative_posix_path_def check_unknown_def check_required_def Let_def; intro raises; simp)+

lemma plan_parts_raise [raises]:
  "raises_only is_contract_error (validate_advisor_plan v)"
  "raises_only is_contract_error (validate_retained_plan d)"
  unfolding validate_advisor_plan_def validate_retained_plan_def validate_turn_def validate_capture_def Let_def
  by (intro raises; simp)+

section \<open>Accepted summaries\<close>

lemma validate_summary_message_eq_Inr:
  assumes "validate_summary_message item path max_turns = Inr message_id"
  shows "field item ''id'' = JStr message_id \<and> TURN_ID_RE message_id
    \<and> (\<exists>started completed. field item ''loops_started'' = JInt started
        \<and> field item ''loops_completed'' = JInt completed
        \<and> 0 \<le> completed \<and> completed \<le> started \<and> started \<le> max_turns)
    \<and> (\<exists>ended. field item ''ended'' = JStr ended \<and> ended \<in> set MESSAGE_ENDINGS)"
  using assms by (auto simp: validate_summary_message_def field_def result_simps)

lemma validate_summary_capture_eq_Inr:
  assumes "validate_summary_capture delivered i item = Inr ()"
  shows "(\<exists>after. field item ''after'' = JStr after \<and> after \<in> set delivered)
    \<and> (\<exists>rel. field item ''path'' = JStr rel \<and> safe_relative rel)
    \<and> (field item ''status'' = JStr ''captured'' \<longrightarrow>
         (\<exists>n. field item ''bytes'' = JInt n \<and> 0 \<le> n) \<and> (\<exists>h. field item ''sha256'' = JStr h \<and> SHA256_HEX h))"
  using assms by (auto simp: validate_summary_capture_def field_def Let_def result_simps split: if_splits)

lemma delivered_ids:
  "foldR (\<lambda>index delivered item.
       bnd (validate_summary_message item (at_index p index) max_turns)
         (\<lambda>message_id. Inr (delivered @ [message_id]))) i delivered items = Inr delivered' \<Longrightarrow>
     \<exists>ids. delivered' = delivered @ ids
       \<and> list_all2 (\<lambda>item k. \<exists>path. validate_summary_message item path max_turns = Inr k) items ids"
proof (induction items arbitrary: i delivered)
  case (Cons item items)
  then obtain k where k: "validate_summary_message item (at_index p i) max_turns = Inr k"
    and rest: "foldR (\<lambda>index delivered item.
       bnd (validate_summary_message item (at_index p index) max_turns)
         (\<lambda>message_id. Inr (delivered @ [message_id]))) (Suc i) (delivered @ [k]) items = Inr delivered'"
    by (auto simp: bnd_eq_Inr)
  from Cons.IH [OF rest] obtain ids where "delivered' = (delivered @ [k]) @ ids"
    "list_all2 (\<lambda>item k. \<exists>path. validate_summary_message item path max_turns = Inr k) items ids" by blast
  with k show ?case by (intro exI [of _ "k # ids"]) auto
qed simp

lemma summary_streams:
  assumes "validate_execution_summary v = Inr ()"
  shows "\<exists>d session_ids max_turns. v = JObj d \<and> dget d ''max_turns'' = JInt max_turns
    \<and> validate_summary_streams d session_ids max_turns = Inr ()"
  using assms unfolding validate_execution_summary_def bnd_eq_Inr require_object_eq_Inr
    require_positive_int_eq_Inr by blast

section \<open>Properties\<close>


text \<open>
  C13. In an accepted retained plan the turn ids (the initial one included) are distinct, the
  derived capture ids are distinct and match the capture-id grammar, no two captures share a
  turn and a path, every capture follows a known turn, its path joined to any root never leaves
  that root, and the byte limits hold singly and in total.
\<close>

theorem accepted_captures_contained:
  assumes "validate_execution_plan v = Inr ()" and "field v ''mode'' \<noteq> JStr ''single''"
  shows "\<exists>turn_ids captures. field v ''captures'' = JList captures
   \<and> distinct turn_ids \<and> field v ''initial_turn_id'' = JStr (hd turn_ids)
   \<and> (\<exists>turns. field v ''turns'' = JList turns \<and> map (\<lambda>t. field t ''id'') turns = map JStr (tl turn_ids))
   \<and> distinct (map (\<lambda>c. field c ''id'') captures)
   \<and> distinct (map (\<lambda>c. (field c ''after'', field c ''path'')) captures)
   \<and> (\<forall>c\<in>set captures. \<exists>after rel n capture_id.
        field c ''after'' = JStr after \<and> after \<in> set turn_ids
      \<and> field c ''path'' = JStr rel
      \<and> (\<forall>root. walk root (split_on CHR ''/'' rel) = Some (rev root @ split_on CHR ''/'' rel))
      \<and> field c ''id'' = JStr capture_id \<and> CAPTURE_ID_RE capture_id
      \<and> field c ''max_bytes'' = JInt n \<and> 1 \<le> n \<and> n \<le> CAPTURE_MAX_BYTES)
   \<and> (\<exists>sizes. map (\<lambda>c. field c ''max_bytes'') captures = map JInt sizes
        \<and> sum_list sizes \<le> CAPTURE_TOTAL_MAX_BYTES)"
proof -
  obtain initial turns tids captures keys sizes where
    i: "field v ''initial_turn_id'' = JStr initial" and t: "field v ''turns'' = JList turns"
    and c: "field v ''captures'' = JList captures"
    and tid: "map (\<lambda>t. field t ''id'') turns = map JStr tids" "distinct (initial # tids)"
    and k: "distinct keys" "length keys = length captures" "length sizes = length captures"
    and ok: "\<And>j. j < length captures \<Longrightarrow>
        capture_ok (initial # tids) j (captures ! j) (fst (keys ! j)) (snd (keys ! j)) (sizes ! j)"
    and total_ok: "sum_list sizes \<le> CAPTURE_TOTAL_MAX_BYTES"
    using retained_plan_sound [OF assms] by metis
  have f: "field (captures ! j) ''after'' = JStr (fst (keys ! j))"
    "field (captures ! j) ''path'' = JStr (snd (keys ! j))"
    "field (captures ! j) ''max_bytes'' = JInt (sizes ! j)"
    "field (captures ! j) ''id'' = JStr (fst (keys ! j) @ ''-'' @ nat_str j)" if "j < length captures" for j
    using ok [OF that] by (auto simp: capture_ok_def field_def)
  have "distinct (map (\<lambda>c. field c ''id'') captures)"
    by (auto simp: distinct_conv_nth f dest: capture_id_inj [simplified])
  moreover have "distinct (map (\<lambda>c. (field c ''after'', field c ''path'')) captures)"
    using k by (auto simp: distinct_conv_nth f prod_eq_iff)
  moreover have "map (\<lambda>c. field c ''max_bytes'') captures = map JInt sizes"
    using k by (auto intro!: nth_equalityI simp: f)
  moreover have "\<exists>after rel n capture_id.
        field c ''after'' = JStr after \<and> after \<in> set (initial # tids)
      \<and> field c ''path'' = JStr rel
      \<and> (\<forall>root. walk root (split_on CHR ''/'' rel) = Some (rev root @ split_on CHR ''/'' rel))
      \<and> field c ''id'' = JStr capture_id \<and> CAPTURE_ID_RE capture_id
      \<and> field c ''max_bytes'' = JInt n \<and> 1 \<le> n \<and> n \<le> CAPTURE_MAX_BYTES"
    if "c \<in> set captures" for c
  proof -
    from that obtain j where j: "j < length captures" "c = captures ! j" by (auto simp: in_set_conv_nth)
    have "safe_relative (snd (keys ! j))" "TURN_ID_RE (fst (keys ! j))" "fst (keys ! j) \<in> set (initial # tids)"
      "1 \<le> sizes ! j" "sizes ! j \<le> CAPTURE_MAX_BYTES"
      using ok [OF j(1)] by (auto simp: capture_ok_def)
    then show ?thesis
      using f [OF j(1)] j(2) capture_id_matches by (auto simp: safe_relative_def walk_plain)
  qed
  ultimately show ?thesis
    using i t c tid total_ok by (intro exI [of _ "initial # tids"] exI [of _ captures]) auto
qed

definition sample_plan :: json where
  "sample_plan = JObj
     [(''mode'', JStr ''retained''), (''max_turns'', JInt 4), (''message_timeout_seconds'', JInt 60),
      (''timeout_seconds'', JInt 600), (''initial_turn_id'', JStr ''initial''),
      (''turns'', JList [JObj [(''id'', JStr ''fix''), (''instruction'', JStr ''go on'')]]),
      (''captures'', JList
        [JObj [(''id'', JStr ''fix-0''), (''after'', JStr ''fix''), (''path'', JStr ''out/log.txt''),
               (''max_bytes'', JInt 1024)]])]"

theorem accepted_captures_contained_witness:
  "validate_execution_plan sample_plan = Inr ()
     \<and> (\<exists>captures. field sample_plan ''captures'' = JList captures
          \<and> distinct (map (\<lambda>c. field c ''id'') captures))"
proof -
  have v: "validate_execution_plan sample_plan = Inr ()" by code_simp
  have m: "field sample_plan ''mode'' \<noteq> JStr ''single''" by code_simp
  from accepted_captures_contained [OF v m] v show ?thesis by blast
qed

text \<open>
  C14. An accepted execution summary is internally consistent: every message ran at most
  \<open>max_turns\<close> loops and completed no more than it started, and every capture follows a message
  that was delivered, at a path that stays inside its root.
\<close>

theorem accepted_summary_consistent:
  assumes "validate_execution_summary v = Inr ()"
  shows "\<exists>max_turns messages captures ids. field v ''max_turns'' = JInt max_turns
   \<and> field v ''messages'' = JList messages \<and> field v ''captures'' = JList captures
   \<and> map (\<lambda>m. field m ''id'') messages = map JStr ids
   \<and> (\<forall>m\<in>set messages. \<exists>started completed. field m ''loops_started'' = JInt started
        \<and> field m ''loops_completed'' = JInt completed
        \<and> 0 \<le> completed \<and> completed \<le> started \<and> started \<le> max_turns)
   \<and> (\<forall>c\<in>set captures. (\<exists>after. field c ''after'' = JStr after \<and> after \<in> set ids)
        \<and> (\<exists>rel. field c ''path'' = JStr rel
             \<and> (\<forall>root. walk root (split_on CHR ''/'' rel) = Some (rev root @ split_on CHR ''/'' rel))))"
proof -
  obtain d session_ids max_turns where d: "v = JObj d" "dget d ''max_turns'' = JInt max_turns"
    and s: "validate_summary_streams d session_ids max_turns = Inr ()"
    using summary_streams [OF assms] by blast
  from s obtain messages captures delivered where
    m: "dget d ''messages'' = JList messages" and c: "dget d ''captures'' = JList captures"
    and f: "foldR (\<lambda>index delivered item.
       bnd (validate_summary_message item (at_index ''execution summary.messages'' index) max_turns)
         (\<lambda>message_id. Inr (delivered @ [message_id]))) 0 [] messages = Inr delivered"
    and cs: "forI (validate_summary_capture delivered) 0 captures = Inr ()"
    by (auto simp: validate_summary_streams_def bnd_eq_Inr case_JList_Inr)
  from delivered_ids [OF f] have all:
    "list_all2 (\<lambda>item k. \<exists>path. validate_summary_message item path max_turns = Inr k) messages delivered"
    by simp
  have "map (\<lambda>m. field m ''id'') messages = map JStr delivered"
    using all by (induction rule: list_all2_induct) (auto dest: validate_summary_message_eq_Inr)
  moreover have "\<forall>m\<in>set messages. \<exists>started completed. field m ''loops_started'' = JInt started
        \<and> field m ''loops_completed'' = JInt completed
        \<and> 0 \<le> completed \<and> completed \<le> started \<and> started \<le> max_turns"
    using all by (induction rule: list_all2_induct) (auto dest: validate_summary_message_eq_Inr)
  moreover have "\<forall>x\<in>set captures. \<exists>i. validate_summary_capture delivered i x = Inr ()"
    using cs unfolding forI_eq_Inr by (metis add_0 in_set_conv_nth)
  then have "\<forall>x\<in>set captures. (\<exists>after. field x ''after'' = JStr after \<and> after \<in> set delivered)
        \<and> (\<exists>rel. field x ''path'' = JStr rel
             \<and> (\<forall>root. walk root (split_on CHR ''/'' rel) = Some (rev root @ split_on CHR ''/'' rel)))"
    by (metis safe_relative_def validate_summary_capture_eq_Inr walk_plain)
  ultimately show ?thesis using d m c
    by (intro exI [of _ max_turns] exI [of _ messages] exI [of _ captures] exI [of _ delivered])
      (simp add: field_def)
qed

definition sample_summary :: json where
  "sample_summary = JObj
     [(''schema'', JStr ''yacht.execution.v1''), (''mode'', JStr ''retained''), (''max_turns'', JInt 4),
      (''message_timeout_seconds'', JInt 60), (''timeout_seconds'', JInt 600),
      (''session_ids'', JList [JStr ''s1'']),
      (''messages'', JList [JObj [(''id'', JStr ''initial''), (''ended'', JStr ''natural''),
         (''loops_started'', JInt 2), (''loops_completed'', JInt 2),
         (''continuation_possible'', JBool True), (''started_at'', JStr ''t0''), (''finished_at'', JStr ''t1'')]]),
      (''captures'', JList [JObj [(''after'', JStr ''initial''), (''path'', JStr ''a/b''), (''status'', JStr ''missing'')]]),
      (''valid'', JBool True), (''model'', JStr ''m''), (''harness'', JStr ''omp''),
      (''harness_version'', JStr ''18.2.6''), (''settings'', JObj []), (''usage'', JObj []),
      (''cost_usd'', JNull)]"

theorem accepted_summary_consistent_witness:
  "validate_execution_summary sample_summary = Inr ()
     \<and> (\<exists>ms. field sample_summary ''messages'' = JList ms)"
proof -
  have v: "validate_execution_summary sample_summary = Inr ()" by code_simp
  from accepted_summary_consistent [OF v] v show ?thesis by blast
qed

end
