(* ===== verification/TaskPlans.thy ===== *)
theory TaskPlans
  imports ExecutionContract
begin

text \<open>
  Host-side rendering of the two per-task plans, \<open>src/yacht/courses/execution.py\<close> and
  \<open>src/yacht/courses/episodes.py\<close>.

  A task directory is what the code observes of it: the parse of \<open>task.toml\<close> (the TOML parser
  is not under \<open>src/\<close>: \<open>Inl\<close> its message, \<open>Inr\<close> the table), the entries of \<open>episodes/\<close> in
  directory order (\<open>None\<close> for an entry that is no file) and whether \<open>tests/test.sh\<close> exists.
  \<open>tomllib\<close> produces dates as well; the model's values do not include them.
\<close>

record task_directory =
  task_dir :: string
  task_toml :: "(string + json_obj) option"
  episode_files :: "(string \<times> string option) list option"
  has_test_script :: bool

definition config_path :: "task_directory \<Rightarrow> string" where
  "config_path t = task_dir t @ ''/task.toml''"

text \<open>The shared head of both renderers: the parsed \<open>task.toml\<close>.\<close>

definition load_task_toml :: "task_directory \<Rightarrow> exn + json_obj" where
  "load_task_toml t = (case task_toml t of
     None \<Rightarrow> Inl (ConfigError (''task directory '' @ task_dir t @ '' is missing task.toml''))
   | Some (Inl m) \<Rightarrow> Inl (ConfigError (config_path t @ '' is not valid TOML: '' @ m))
   | Some (Inr payload) \<Rightarrow> Inr payload)"

section \<open>Execution plans\<close>

definition EXECUTION_ALLOWED_KEYS :: "string list" where
  "EXECUTION_ALLOWED_KEYS =
     [''mode'', ''max_turns'', ''message_timeout_seconds'', ''timeout_seconds'', ''initial_turn_id'',
      ''turns'', ''captures'', ''advisor'']"

definition DECLARED_CAPTURE_KEYS :: "string list" where
  "DECLARED_CAPTURE_KEYS = [''after'', ''path'', ''max_bytes'']"

definition normalize_turn :: "nat \<Rightarrow> json list \<Rightarrow> json \<Rightarrow> exn + json list" where
  "normalize_turn index turns item =
     (let path = at_index ''turns'' index in case item of
        JObj d \<Rightarrow>
          bnd (check_unknown d TURN_KEYS (path @ '' unknown keys: '')) (\<lambda>_.
          Inr (turns @ [JObj [(''id'', dget d ''id''), (''instruction'', dget d ''instruction'')]]))
      | _ \<Rightarrow> Inl (ContractError (path @ '' must be a table'')))"

definition normalize_turns :: "json \<Rightarrow> exn + json" where
  "normalize_turns value = (case value of
     JList items \<Rightarrow> bnd (foldR normalize_turn 0 [] items) (\<lambda>turns. Inr (JList turns))
   | _ \<Rightarrow> Inl (ContractError ''turns must be a list''))"

text \<open>\<open>f"{after}-{index}"\<close>; \<open>str\<close> of a value that is not a string is a parameter.\<close>

definition derived_id :: "(json \<Rightarrow> string) \<Rightarrow> json \<Rightarrow> nat \<Rightarrow> string" where
  "derived_id str after index = (case after of JStr s \<Rightarrow> s | _ \<Rightarrow> str after) @ ''-'' @ nat_str index"

definition normalize_capture :: "(json \<Rightarrow> string) \<Rightarrow> nat \<Rightarrow> json list \<Rightarrow> json \<Rightarrow> exn + json list" where
  "normalize_capture str index captures item =
     (let path = at_index ''captures'' index in case item of
        JObj d \<Rightarrow>
          bnd (check_unknown d DECLARED_CAPTURE_KEYS (path @ '' unknown keys: '')) (\<lambda>_.
          Inr (captures @ [JObj [(''id'', JStr (derived_id str (dget d ''after'') index)),
                 (''after'', dget d ''after''), (''path'', dget d ''path''), (''max_bytes'', dget d ''max_bytes'')]]))
      | _ \<Rightarrow> Inl (ContractError (path @ '' must be a table'')))"

definition normalize_captures :: "(json \<Rightarrow> string) \<Rightarrow> json \<Rightarrow> exn + json" where
  "normalize_captures str value = (case value of
     JList items \<Rightarrow> bnd (foldR (normalize_capture str) 0 [] items) (\<lambda>captures. Inr (JList captures))
   | _ \<Rightarrow> Inl (ContractError ''captures must be a list''))"

definition normalize_execution_table :: "(json \<Rightarrow> string) \<Rightarrow> json_obj \<Rightarrow> exn + json_obj" where
  "normalize_execution_table str table =
     (let mode = dget table ''mode'';
          plan = [(''mode'', mode), (''max_turns'', dget table ''max_turns''),
                  (''message_timeout_seconds'', dget table ''message_timeout_seconds''),
                  (''timeout_seconds'', dget table ''timeout_seconds'')]
                 @ (if has_key table ''advisor'' then [(''advisor'', dget table ''advisor'')] else [])
      in if mode = JStr ''retained'' then
           bnd (normalize_turns (dget_default table ''turns'' (JList []))) (\<lambda>turns.
           bnd (normalize_captures str (dget_default table ''captures'' (JList []))) (\<lambda>captures.
           Inr (plan @ [(''initial_turn_id'', dget_default table ''initial_turn_id'' (JStr ''initial'')),
                        (''turns'', turns), (''captures'', captures)])))
         else if mode = JStr ''single'' then
           let extra = filter (has_key table) [''initial_turn_id'', ''turns'', ''captures'']
           in bnd (ensure (extra = []) (ContractError (''single mode does not accept '' @ join '', '' extra)))
                (\<lambda>_. Inr plan)
         else Inr plan)"

text \<open>\<open>except ExecutionContractError\<close>: re-raised as \<open>ConfigError\<close>; other exceptions pass.\<close>

definition as_config_error :: "string \<Rightarrow> exn + 'a \<Rightarrow> exn + 'a" where
  "as_config_error prefix r = (case r of
     Inl (ContractError m) \<Rightarrow> Inl (ConfigError (prefix @ m)) | _ \<Rightarrow> r)"

definition render_execution_plan :: "(json \<Rightarrow> string) \<Rightarrow> task_directory \<Rightarrow> exn + json option" where
  "render_execution_plan str t =
     bnd (load_task_toml t) (\<lambda>payload.
     bnd (ensure (\<not> (has_key payload ''execution'' \<and> has_key payload ''episodes''))
            (ConfigError (config_path t @ '' [execution] conflicts with [episodes]''))) (\<lambda>_.
     case dget payload ''execution'' of
       JNull \<Rightarrow> Inr None
     | JObj table \<Rightarrow>
         bnd (ensure (unknown_keys table EXECUTION_ALLOWED_KEYS = [])
                (ConfigError (config_path t @ '' [execution] has unknown keys: ''
                   @ join '', '' (unknown_keys table EXECUTION_ALLOWED_KEYS)))) (\<lambda>_.
         as_config_error (task_dir t @ '' [execution] '')
           (bnd (normalize_execution_table str table) (\<lambda>plan.
            bnd (validate_execution_plan (JObj plan)) (\<lambda>_. Inr (Some (JObj plan))))))
     | _ \<Rightarrow> Inl (ConfigError (config_path t @ '' [execution] must be a table''))))"

section \<open>Episode plans\<close>

definition DEFAULT_CONTINUE_INSTRUCTION :: string where
  "DEFAULT_CONTINUE_INSTRUCTION = ''Continue work on the project.''"

definition EPISODE_ALLOWED_KEYS :: "string list" where
  "EPISODE_ALLOWED_KEYS =
     [''max'', ''verify_between'', ''continue_instruction'', ''max_turns'', ''timeout_seconds'']"

text \<open>\<open>(\<d>{3})\.md$\<close> with \<open>match\<close>: \<open>$\<close> also accepts a final newline.\<close>

definition DELTA_NAME :: "string \<Rightarrow> nat option" where
  "DELTA_NAME name = (case name of
     a # b # c # rest \<Rightarrow>
       if is_digit a \<and> is_digit b \<and> is_digit c \<and> (rest = ''.md'' \<or> rest = ''.md'' @ [char_of (10 :: nat)])
       then Some (100 * (code_point a - 48) + 10 * (code_point b - 48) + (code_point c - 48))
       else None
   | _ \<Rightarrow> None)"

definition pad3 :: "int \<Rightarrow> string" where
  "pad3 n = (let s = int_str n in replicate (3 - length s) CHR ''0'' @ s)"

definition episodes_table :: "task_directory \<Rightarrow> exn + json_obj option" where
  "episodes_table t =
     bnd (load_task_toml t) (\<lambda>payload. case dget payload ''episodes'' of
       JNull \<Rightarrow> Inr None
     | JObj table \<Rightarrow>
         bnd (ensure (unknown_keys table EPISODE_ALLOWED_KEYS = [])
                (ConfigError (config_path t @ '' [episodes] has unknown keys: ''
                   @ join '', '' (unknown_keys table EPISODE_ALLOWED_KEYS)))) (\<lambda>_. Inr (Some table))
     | _ \<Rightarrow> Inl (ConfigError (config_path t @ '' [episodes] must be a table'')))"

definition delta_step ::
    "task_directory \<Rightarrow> nat \<Rightarrow> (int \<times> string) list \<Rightarrow> string \<times> string option \<Rightarrow> exn + (int \<times> string) list" where
  "delta_step t _ deltas = (\<lambda>(name, contents).
     let dir = task_dir t @ ''/episodes''
     in case (DELTA_NAME name, contents) of
          (Some index, Some text) \<Rightarrow>
            bnd (ensure (2 \<le> index)
                   (ConfigError (dir @ ''/'' @ name @ '': episode 1 uses instruction.md; delta numbering starts at 002''))) (\<lambda>_.
            bnd (ensure (strip text \<noteq> [])
                   (ConfigError (dir @ ''/'' @ name @ '' must not be empty''))) (\<lambda>_.
            Inr (AList.update (int index) text deltas)))
        | _ \<Rightarrow> Inl (ConfigError (dir @ '' entry '' @ name
                 @ '' must be a delta file named 00k.md (three digits, episode number >= 002)'')))"

definition delta_texts :: "task_directory \<Rightarrow> exn + (int \<times> string) list" where
  "delta_texts t = (case episode_files t of
     None \<Rightarrow> Inr []
   | Some items \<Rightarrow> foldR (delta_step t) 0 [] (sort_key fst items))"

definition require_contiguous :: "(int \<times> string) list \<Rightarrow> int \<Rightarrow> task_directory \<Rightarrow> exn + unit" where
  "require_contiguous deltas maximum t =
     (if deltas = [] then Inr ()
      else
        let top = Max (set (map fst deltas))
        in bnd (ensure (top \<le> maximum)
                  (ConfigError (task_dir t @ '' episodes/'' @ pad3 top @ ''.md exceeds [episodes] max = '' @ int_str maximum))) (\<lambda>_.
           forR (\<lambda>index. ensure (index \<in> set (map fst deltas))
             (ConfigError (task_dir t @ '' episodes/ is missing '' @ pad3 index
                @ ''.md; delta files must be contiguous from 002''))) [2..top]))"

definition positive_int :: "json_obj \<Rightarrow> string \<Rightarrow> task_directory \<Rightarrow> bool \<Rightarrow> exn + int option" where
  "positive_int table key t required = (case dget table key of
     JNull \<Rightarrow> if required then Inl (ConfigError (task_dir t @ '' [episodes] must set '' @ key)) else Inr None
   | JInt n \<Rightarrow> if n < 1 then Inl (ConfigError (task_dir t @ '' [episodes] '' @ key @ '' must be an integer >= 1''))
               else Inr (Some n)
   | _ \<Rightarrow> Inl (ConfigError (task_dir t @ '' [episodes] '' @ key @ '' must be an integer >= 1'')))"

definition episode_instructions :: "(int \<times> string) list \<Rightarrow> string \<Rightarrow> int \<Rightarrow> string list" where
  "episode_instructions deltas continue_instruction maximum =
     map (\<lambda>index. case map_of deltas index of None \<Rightarrow> continue_instruction | Some s \<Rightarrow> s) [2..maximum]"

definition render_relay ::
    "task_directory \<Rightarrow> json_obj \<Rightarrow> (int \<times> string) list \<Rightarrow> int \<Rightarrow> exn + json" where
  "render_relay t table deltas maximum =
     bnd (require_contiguous deltas maximum t) (\<lambda>_.
     bnd (case dget_default table ''verify_between'' (JBool False) of
            JBool b \<Rightarrow> Inr b
          | _ \<Rightarrow> Inl (ConfigError (task_dir t @ '' [episodes] verify_between must be a boolean''))) (\<lambda>verify_between.
     bnd (ensure (\<not> (verify_between \<and> \<not> has_test_script t))
            (ConfigError (task_dir t @ '' [episodes] verify_between requires tests/test.sh (the inter-episode verifier mirrors the harbor test script)''))) (\<lambda>_.
     bnd (case dget_default table ''continue_instruction'' (JStr DEFAULT_CONTINUE_INSTRUCTION) of
            JStr s \<Rightarrow> if strip s \<noteq> [] then Inr s
              else Inl (ConfigError (task_dir t @ '' [episodes] continue_instruction must be a non-empty string''))
          | _ \<Rightarrow> Inl (ConfigError (task_dir t @ '' [episodes] continue_instruction must be a non-empty string''))) (\<lambda>continue_instruction.
     bnd (positive_int table ''max_turns'' t False) (\<lambda>max_turns.
     bnd (positive_int table ''timeout_seconds'' t False) (\<lambda>timeout_seconds.
     Inr (JObj ([(''max'', JInt maximum), (''verify_between'', JBool verify_between),
                 (''instructions'', JList (map JStr (episode_instructions deltas continue_instruction maximum)))]
                @ (case max_turns of None \<Rightarrow> [] | Some n \<Rightarrow> [(''max_turns'', JInt n)])
                @ (case timeout_seconds of None \<Rightarrow> [] | Some n \<Rightarrow> [(''timeout_seconds'', JInt n)])))))))))"

definition render_episode_plan :: "task_directory \<Rightarrow> exn + json option" where
  "render_episode_plan t =
     bnd (episodes_table t) (\<lambda>table_or_none.
     bnd (delta_texts t) (\<lambda>deltas.
     case table_or_none of
       None \<Rightarrow>
         bnd (ensure (deltas = [])
                (ConfigError (task_dir t @ '' has episodes/ delta files but no [episodes] table in task.toml'')))
           (\<lambda>_. Inr None)
     | Some table \<Rightarrow>
         bnd (positive_int table ''max'' t True) (\<lambda>m.
         let maximum = (case m of None \<Rightarrow> 0 | Some n \<Rightarrow> n)
         in if maximum = 1
            then bnd (ensure (deltas = [])
                   (ConfigError (task_dir t @ '' [episodes] max = 1 cannot carry episodes/ deltas''))) (\<lambda>_. Inr None)
            else bnd (render_relay t table deltas maximum) (\<lambda>plan. Inr (Some plan)))))"

section \<open>Lemmas on episode plans\<close>

lemma delta_step_eq_Inr:
  "delta_step t i d item = Inr d' \<longleftrightarrow> (\<exists>name k text. item = (name, Some text) \<and> DELTA_NAME name = Some k
     \<and> 2 \<le> k \<and> strip text \<noteq> [] \<and> d' = AList.update (int k) text d)"
proof (cases item)
  case (Pair name contents)
  then show ?thesis
    by (cases "DELTA_NAME name"; cases contents) (auto simp: delta_step_def Let_def bnd_eq_Inr)
qed

lemma DELTA_NAME_range: "DELTA_NAME name = Some i \<Longrightarrow> i \<le> 999"
  by (auto simp: DELTA_NAME_def is_digit_def split: list.splits if_splits)

definition delta_ok :: "int \<times> string \<Rightarrow> bool" where
  "delta_ok e = (2 \<le> fst e \<and> fst e \<le> 999 \<and> strip (snd e) \<noteq> [])"

lemma delta_texts_sound:
  assumes "delta_texts t = Inr deltas"
  shows "\<forall>e\<in>set deltas. delta_ok e"
proof (cases "episode_files t")
  case None
  then show ?thesis using assms by (simp add: delta_texts_def)
next
  case (Some items)
  have "foldR (delta_step t) 0 [] (sort_key fst items) = Inr deltas"
    using assms by (simp add: delta_texts_def Some)
  then show ?thesis
  proof (rule foldR_invariant [where P = "\<lambda>_ d. \<forall>e\<in>set d. delta_ok e"])
    fix j d d'
    assume "\<forall>e\<in>set d. delta_ok e" "delta_step t (0 + j) d (sort_key fst items ! j) = Inr d'"
    then show "\<forall>e\<in>set d'. delta_ok e"
      using set_update_subset DELTA_NAME_range by (fastforce simp: delta_step_eq_Inr delta_ok_def)
  qed simp
qed

lemma case_JBool_Inr:
  "(case v of JNull \<Rightarrow> Inl e | JBool b \<Rightarrow> Inr b | JInt n \<Rightarrow> Inl e | JFloat f \<Rightarrow> Inl e
     | JStr s \<Rightarrow> Inl e | JList xs \<Rightarrow> Inl e | JObj d \<Rightarrow> Inl e) = Inr c \<longleftrightarrow> v = JBool c"
  by (cases v) auto

lemma case_JStr_Inr:
  "(case v of JNull \<Rightarrow> Inl e | JBool b \<Rightarrow> Inl e | JInt n \<Rightarrow> Inl e | JFloat f \<Rightarrow> Inl e
     | JStr s \<Rightarrow> g s | JList xs \<Rightarrow> Inl e | JObj d \<Rightarrow> Inl e) = Inr c \<longleftrightarrow> (\<exists>s. v = JStr s \<and> g s = Inr c)"
  by (cases v) auto

lemma positive_int_eq_Inr:
  "positive_int table key t required = Inr m \<longleftrightarrow>
     (m = None \<and> dget table key = JNull \<and> \<not> required) \<or> (\<exists>n\<ge>1. m = Some n \<and> dget table key = JInt n)"
  by (cases "dget table key") (auto simp: positive_int_def)

definition relay_payload :: "int \<Rightarrow> bool \<Rightarrow> string list \<Rightarrow> int option \<Rightarrow> int option \<Rightarrow> json_obj" where
  "relay_payload maximum vb instructions mt ts =
     [(''max'', JInt maximum), (''verify_between'', JBool vb), (''instructions'', JList (map JStr instructions))]
       @ (case mt of None \<Rightarrow> [] | Some n \<Rightarrow> [(''max_turns'', JInt n)])
       @ (case ts of None \<Rightarrow> [] | Some n \<Rightarrow> [(''timeout_seconds'', JInt n)])"

definition relay_shape ::
    "task_directory \<Rightarrow> json_obj \<Rightarrow> (int \<times> string) list \<Rightarrow> int \<Rightarrow> json
       \<Rightarrow> bool \<Rightarrow> string \<Rightarrow> int option \<Rightarrow> int option \<Rightarrow> bool" where
  "relay_shape t table deltas maximum plan vb ci mt ts =
     (plan = JObj (relay_payload maximum vb (episode_instructions deltas ci maximum) mt ts)
    \<and> require_contiguous deltas maximum t = Inr () \<and> (vb \<longrightarrow> has_test_script t) \<and> strip ci \<noteq> []
    \<and> dget_default table ''continue_instruction'' (JStr DEFAULT_CONTINUE_INSTRUCTION) = JStr ci
    \<and> (\<forall>n. mt = Some n \<longrightarrow> 1 \<le> n) \<and> (\<forall>n. ts = Some n \<longrightarrow> 1 \<le> n))"

lemma render_relay_eq_Inr:
  assumes "render_relay t table deltas maximum = Inr plan"
  shows "\<exists>vb ci mt ts. relay_shape t table deltas maximum plan vb ci mt ts"
proof -
  from assms obtain vb ci mt ts where
    1: "require_contiguous deltas maximum t = Inr ()" "\<not> (vb \<and> \<not> has_test_script t)"
      "dget_default table ''continue_instruction'' (JStr DEFAULT_CONTINUE_INSTRUCTION) = JStr ci" "strip ci \<noteq> []"
    and 2: "positive_int table ''max_turns'' t False = Inr mt" "positive_int table ''timeout_seconds'' t False = Inr ts"
    and 3: "plan = JObj ([(''max'', JInt maximum), (''verify_between'', JBool vb),
                 (''instructions'', JList (map JStr (episode_instructions deltas ci maximum)))]
                @ (case mt of None \<Rightarrow> [] | Some n \<Rightarrow> [(''max_turns'', JInt n)])
                @ (case ts of None \<Rightarrow> [] | Some n \<Rightarrow> [(''timeout_seconds'', JInt n)]))"
    unfolding render_relay_def bnd_eq_Inr case_JBool_Inr case_JStr_Inr ensure_eq_Inr
    by (auto split: if_splits)
  from 2 have "\<And>n. mt = Some n \<Longrightarrow> 1 \<le> n" "\<And>n. ts = Some n \<Longrightarrow> 1 \<le> n"
    by (auto simp: positive_int_eq_Inr)
  with 1 3 show ?thesis unfolding relay_shape_def relay_payload_def by blast
qed

lemma render_episode_plan_Some:
  assumes "render_episode_plan t = Inr (Some plan)"
  shows "\<exists>table deltas maximum. episodes_table t = Inr (Some table) \<and> delta_texts t = Inr deltas
    \<and> dget table ''max'' = JInt maximum \<and> 2 \<le> maximum \<and> render_relay t table deltas maximum = Inr plan"
proof -
  from assms obtain tbl deltas where e: "episodes_table t = Inr tbl" "delta_texts t = Inr deltas"
    unfolding render_episode_plan_def bnd_eq_Inr by blast
  with assms obtain table where tbl: "tbl = Some table"
    by (cases tbl) (auto simp: render_episode_plan_def bnd_eq_Inr)
  from assms e tbl obtain m where m: "positive_int table ''max'' t True = Inr m"
    by (auto simp: render_episode_plan_def bnd_eq_Inr)
  then obtain n where n: "m = Some n" "1 \<le> n" "dget table ''max'' = JInt n"
    by (auto simp: positive_int_eq_Inr)
  have "n \<noteq> 1 \<and> render_relay t table deltas n = Inr plan"
    using assms e tbl m n by (auto simp: render_episode_plan_def bnd_eq_Inr Let_def split: if_splits)
  with e tbl n show ?thesis by fastforce
qed

lemma require_contiguous_sound:
  assumes "require_contiguous deltas maximum t = Inr ()" and "\<forall>e\<in>set deltas. delta_ok e"
  shows "\<exists>top\<le>max 1 maximum. fst ` set deltas = {2..top}"
proof (cases "deltas = []")
  case True
  then show ?thesis by (intro exI [of _ 1]) auto
next
  case False
  define top where "top = Max (set (map fst deltas))"
  have top: "top \<le> maximum" and all: "\<forall>k\<in>{2..top}. k \<in> set (map fst deltas)"
    using assms(1) False unfolding require_contiguous_def Let_def top_def [symmetric]
    by (simp_all add: bnd_eq_Inr forR_eq_Inr)
  have "k \<in> {2..top}" if "k \<in> set (map fst deltas)" for k
  proof -
    have "k \<le> top" unfolding top_def by (rule Max_ge [OF _ that]) simp
    moreover have "2 \<le> k" using that assms(2) by (force simp: delta_ok_def)
    ultimately show ?thesis by simp
  qed
  with all have "set (map fst deltas) = {2..top}" by blast
  then have "fst ` set deltas = {2..top}" by (simp only: set_map)
  then show ?thesis using top by (intro exI [of _ top]) simp
qed

section \<open>Properties\<close>

text \<open>
  A rendered episode plan loses no declaration: it has one non-blank instruction for each
  episode from 2 to \<open>max\<close>, the delta file's text where one exists and the continue instruction
  elsewhere, and the delta files are exactly those numbered 2 to some \<open>top <= max\<close>.
\<close>

theorem episode_plan_instructions:
  assumes "render_episode_plan t = Inr (Some plan)"
  shows "\<exists>deltas maximum instructions continue_with top. delta_texts t = Inr deltas
    \<and> field plan ''max'' = JInt maximum \<and> 2 \<le> maximum
    \<and> field plan ''instructions'' = JList (map JStr instructions)
    \<and> int (length instructions) = maximum - 1
    \<and> fst ` set deltas = {2..top} \<and> top \<le> maximum
    \<and> (\<forall>k\<in>{2..maximum}. strip (instructions ! nat (k - 2)) \<noteq> []
         \<and> (if k \<le> top then map_of deltas k = Some (instructions ! nat (k - 2))
            else instructions ! nat (k - 2) = continue_with))"
proof -
  obtain table deltas maximum where d: "delta_texts t = Inr deltas" and m: "2 \<le> maximum"
    and r: "render_relay t table deltas maximum = Inr plan"
    using render_episode_plan_Some [OF assms] by metis
  obtain vb ci mt ts where shape: "relay_shape t table deltas maximum plan vb ci mt ts"
    using render_relay_eq_Inr [OF r] by blast
  then have plan: "plan = JObj (relay_payload maximum vb (episode_instructions deltas ci maximum) mt ts)"
    and ci: "strip ci \<noteq> []" and cont: "require_contiguous deltas maximum t = Inr ()"
    by (simp_all add: relay_shape_def)
  note ok = delta_texts_sound [OF d]
  obtain top where top: "top \<le> max 1 maximum" "fst ` set deltas = {2..top}"
    using require_contiguous_sound [OF cont ok] by blast
  have "strip (episode_instructions deltas ci maximum ! nat (k - 2)) \<noteq> []
      \<and> (if k \<le> top then map_of deltas k = Some (episode_instructions deltas ci maximum ! nat (k - 2))
         else episode_instructions deltas ci maximum ! nat (k - 2) = ci)" if k: "k \<in> {2..maximum}" for k
  proof -
    have i: "episode_instructions deltas ci maximum ! nat (k - 2)
        = (case map_of deltas k of None \<Rightarrow> ci | Some s \<Rightarrow> s)"
      using k by (simp add: episode_instructions_def)
    show ?thesis
    proof (cases "map_of deltas k")
      case None
      then have "k \<notin> {2..top}" using top(2) by (metis map_of_eq_None_iff)
      then show ?thesis using None i ci k by auto
    next
      case (Some s)
      then have "(k, s) \<in> set deltas" by (rule map_of_SomeD)
      then have "k \<in> {2..top}" "strip s \<noteq> []" using top(2) ok by (force simp: delta_ok_def)+
      then show ?thesis using Some i by simp
    qed
  qed
  moreover have "field plan ''max'' = JInt maximum"
    and "field plan ''instructions'' = JList (map JStr (episode_instructions deltas ci maximum))"
    by (simp_all add: plan relay_payload_def field_def)
  moreover have "int (length (episode_instructions deltas ci maximum)) = maximum - 1"
    using m by (simp add: episode_instructions_def)
  moreover have "top \<le> maximum" using top(1) m by simp
  ultimately show ?thesis using d m top(2) by blast
qed

definition sample_task :: task_directory where
  "sample_task = \<lparr>task_dir = ''t'', task_toml = Some (Inr [(''episodes'', JObj [(''max'', JInt 3)])]),
     episode_files = Some [(''002.md'', Some ''go on'')], has_test_script = False\<rparr>"

definition sample_relay :: json where
  "sample_relay = JObj [(''max'', JInt 3), (''verify_between'', JBool False),
     (''instructions'', JList [JStr ''go on'', JStr DEFAULT_CONTINUE_INSTRUCTION])]"

theorem episode_plan_instructions_witness:
  "render_episode_plan sample_task = Inr (Some sample_relay)
     \<and> (\<exists>instructions. field sample_relay ''instructions'' = JList (map JStr instructions))"
proof -
  have r: "render_episode_plan sample_task = Inr (Some sample_relay)" by code_simp
  from episode_plan_instructions [OF r] r show ?thesis by blast
qed

end
