(* ===== verification/Relay.thy ===== *)
theory Relay
  imports TaskPlans
begin

text \<open>
  The launcher's side of an episodic trial,
  \<open>containers/harbor-launcher/yacht_harbor_agents/episodes.py\<close>: re-validation of the plan, the
  parsers of the harness streams, the classification of endings and the merging of usage, cost
  and evidence. A stream arrives as its lines, each already parsed (\<open>None\<close>: not JSON); blank
  lines are dropped by the caller of the parameter. Token counts are integers, costs floats.
\<close>

definition ENDED_NATURAL :: string where "ENDED_NATURAL = ''natural''"
definition ENDED_CAP :: string where "ENDED_CAP = ''cap''"
definition ENDED_TIMEOUT :: string where "ENDED_TIMEOUT = ''timeout''"
definition ENDED_ERROR :: string where "ENDED_ERROR = ''error''"

lemmas ended_defs = ENDED_NATURAL_def ENDED_CAP_def ENDED_TIMEOUT_def ENDED_ERROR_def

definition USAGE_KEYS :: "string list" where
  "USAGE_KEYS = [''input_tokens'', ''output_tokens'', ''cache_read_input_tokens'', ''cache_creation_input_tokens'']"

section \<open>The plan of a task\<close>

definition plan_error :: "string \<Rightarrow> string \<Rightarrow> exn" where
  "plan_error task_name m = PyValueError (''episode plan for '' @ task_name @ m)"

definition plan_for_task :: "json_obj \<Rightarrow> string \<Rightarrow> exn + json_obj option" where
  "plan_for_task episodes_kwarg task_name =
     (if episodes_kwarg = [] \<or> \<not> has_key episodes_kwarg task_name then Inr None
      else case dget episodes_kwarg task_name of
        JObj plan \<Rightarrow>
          bnd (case dget plan ''max'' of
                 JInt n \<Rightarrow> if n < 2 then Inl (plan_error task_name '': max must be an integer >= 2'') else Inr n
               | _ \<Rightarrow> Inl (plan_error task_name '': max must be an integer >= 2'')) (\<lambda>maximum.
          bnd (ensure (is_bool (dget plan ''verify_between''))
                 (plan_error task_name '': verify_between must be a boolean'')) (\<lambda>_.
          bnd (case dget plan ''instructions'' of
                 JList xs \<Rightarrow> if int (length xs) = maximum - 1 then Inr xs
                   else Inl (plan_error task_name '': instructions must contain max - 1 entries'')
               | _ \<Rightarrow> Inl (plan_error task_name '': instructions must contain max - 1 entries'')) (\<lambda>instructions.
          bnd (forR (\<lambda>entry. ensure (case entry of JStr s \<Rightarrow> strip s \<noteq> [] | _ \<Rightarrow> False)
                 (plan_error task_name '': instructions entries must be non-empty strings'')) instructions) (\<lambda>_.
          bnd (mapR (\<lambda>key. if has_key plan key
                 then (case dget plan key of
                         JInt n \<Rightarrow> if n < 1 then Inl (plan_error task_name ('': '' @ key @ '' must be an integer >= 1''))
                                   else Inr [(key, JInt n)]
                       | _ \<Rightarrow> Inl (plan_error task_name ('': '' @ key @ '' must be an integer >= 1'')))
                 else Inr []) [''max_turns'', ''timeout_seconds'']) (\<lambda>limits.
          Inr (Some ([(''max'', JInt maximum), (''verify_between'', dget plan ''verify_between''),
                      (''instructions'', JList instructions)] @ concat limits)))))))
      | _ \<Rightarrow> Inl (plan_error task_name '' must be an object''))"

section \<open>Endings\<close>

definition claude_episode_ended :: "string option \<Rightarrow> bool \<Rightarrow> bool \<Rightarrow> string" where
  "claude_episode_ended subtype timed_out errored =
     (if timed_out then ENDED_TIMEOUT
      else if subtype = Some ''error_max_turns'' then ENDED_CAP
      else if subtype = Some ''success'' \<and> \<not> errored then ENDED_NATURAL
      else ENDED_ERROR)"

definition jsonl_episode_ended :: "string option \<Rightarrow> bool \<Rightarrow> bool \<Rightarrow> string" where
  "jsonl_episode_ended stream_ended timed_out errored =
     (if timed_out then ENDED_TIMEOUT
      else if errored \<or> stream_ended = Some ENDED_ERROR then ENDED_ERROR
      else if stream_ended = Some ENDED_NATURAL then ENDED_NATURAL
      else ENDED_ERROR)"

section \<open>Usage and cost of a stream\<close>

type_synonym tokens = "(string \<times> int) list"

definition token_count :: "json \<Rightarrow> int option" where
  "token_count v = (case v of JInt n \<Rightarrow> if 0 \<le> n then Some n else None | _ \<Rightarrow> None)"

text \<open>\<open>float(v)\<close> for an int or a float that is not a bool; a huge integer raises.\<close>

definition number_as_float :: "json \<Rightarrow> exn + pyfloat option" where
  "number_as_float v = (case v of
     JInt n \<Rightarrow> if FLOAT_LIMIT \<le> \<bar>fl (of_int n)\<bar>
               then Inl (PyOverflowError ''int too large to convert to float'')
               else Inr (Some (Finite (fl (of_int n))))
   | JFloat f \<Rightarrow> Inr (Some f)
   | _ \<Rightarrow> Inr None)"

definition picked_tokens :: "(string \<times> string) list \<Rightarrow> json_obj \<Rightarrow> tokens" where
  "picked_tokens keys usage = concat (map (\<lambda>(src, dest). case token_count (dget usage src) of
     None \<Rightarrow> [] | Some n \<Rightarrow> [(dest, n)]) keys)"

definition or_none :: "'a list \<Rightarrow> 'a list option" where
  "or_none xs = (if xs = [] then None else Some xs)"

definition field_str :: "json_obj \<Rightarrow> string \<Rightarrow> string option" where
  "field_str d k = (case dget d k of JStr s \<Rightarrow> Some s | _ \<Rightarrow> None)"

record stream_result =
  stream_status :: "string option"
  stream_usage :: "tokens option"
  stream_cost :: "pyfloat option"

definition unmeasured :: stream_result where
  "unmeasured = \<lparr>stream_status = None, stream_usage = None, stream_cost = None\<rparr>"

fun last_result :: "json option list \<Rightarrow> json_obj option \<Rightarrow> json_obj option" where
  "last_result [] acc = acc"
| "last_result (line # rest) acc = last_result rest (case line of
     Some (JObj d) \<Rightarrow> if dget d ''type'' = JStr ''result'' then Some d else acc
   | _ \<Rightarrow> acc)"

definition parse_claude_stream_result :: "json option list \<Rightarrow> exn + stream_result" where
  "parse_claude_stream_result stream = (case last_result stream None of
     None \<Rightarrow> Inr unmeasured
   | Some d \<Rightarrow>
       bnd (number_as_float (dget d ''total_cost_usd'')) (\<lambda>cost.
       Inr \<lparr>stream_status = field_str d ''subtype'',
            stream_usage = (case dget d ''usage'' of
              JObj u \<Rightarrow> or_none (picked_tokens (map (\<lambda>k. (k, k)) USAGE_KEYS) u) | _ \<Rightarrow> None),
            stream_cost = cost\<rparr>))"

text \<open>\<open>_jsonl_objects\<close>: one line that is no object spoils the stream.\<close>

fun jsonl_objects :: "json option list \<Rightarrow> json_obj list option" where
  "jsonl_objects [] = Some []"
| "jsonl_objects (line # rest) = (case line of
     Some (JObj d) \<Rightarrow> (case jsonl_objects rest of None \<Rightarrow> None | Some ds \<Rightarrow> Some (d # ds))
   | _ \<Rightarrow> None)"

definition omp_usage :: "json \<Rightarrow> exn + tokens option \<times> pyfloat option" where
  "omp_usage v = (case v of
     JObj usage \<Rightarrow>
       bnd (case dget usage ''cost'' of
              JObj cost \<Rightarrow> number_as_float (dget cost ''total'') | _ \<Rightarrow> Inr None) (\<lambda>cost_usd.
       Inr (or_none (picked_tokens [(''input'', ''input_tokens''), (''output'', ''output_tokens''),
              (''cacheRead'', ''cache_read_tokens''), (''cacheWrite'', ''cache_write_tokens'')] usage), cost_usd))
   | _ \<Rightarrow> Inr (None, None))"

definition codex_usage :: "json \<Rightarrow> tokens option" where
  "codex_usage v = (case v of
     JObj usage \<Rightarrow> or_none (picked_tokens [(''input_tokens'', ''input_tokens''), (''output_tokens'', ''output_tokens''),
        (''cached_input_tokens'', ''cache_read_tokens''), (''cache_write_input_tokens'', ''cache_write_tokens'')] usage)
   | _ \<Rightarrow> None)"

definition MERGED_KEYS :: "string list" where
  "MERGED_KEYS = [''input_tokens'', ''output_tokens'', ''cache_read_tokens'', ''cache_write_tokens'']"

fun all_some :: "'a option list \<Rightarrow> 'a list option" where
  "all_some [] = Some []"
| "all_some (x # xs) = (case x of None \<Rightarrow> None | Some y \<Rightarrow>
     (case all_some xs of None \<Rightarrow> None | Some ys \<Rightarrow> Some (y # ys)))"

definition merge_stream_usages :: "tokens option list \<Rightarrow> tokens option" where
  "merge_stream_usages usages = (case all_some usages of
     None \<Rightarrow> None
   | Some us \<Rightarrow> if us = [] then None else
       or_none (concat (map (\<lambda>key.
         case all_some (map (\<lambda>u. map_of u key) us) of
           None \<Rightarrow> []
         | Some values \<Rightarrow> if list_all (\<lambda>v. 0 \<le> v) values then [(key, sum_list values)] else []) MERGED_KEYS)))"

text \<open>
  \<open>float(sum(costs))\<close>; a finite total. When a cost is not finite the sum is computed by the
  parameter \<open>nonfinite_sum\<close>.
\<close>

fun finite_value :: "pyfloat \<Rightarrow> rat option" where
  "finite_value (Finite q) = Some q"
| "finite_value _ = None"

definition merge_stream_costs :: "(pyfloat list \<Rightarrow> pyfloat) \<Rightarrow> pyfloat option list \<Rightarrow> pyfloat option" where
  "merge_stream_costs nonfinite_sum costs = (case all_some costs of
     None \<Rightarrow> None
   | Some cs \<Rightarrow> if cs = [] then None else
       Some (case all_some (map finite_value cs) of
         Some qs \<Rightarrow> Finite (py_sum qs) | None \<Rightarrow> nonfinite_sum cs))"

definition is_type :: "string \<Rightarrow> json_obj \<Rightarrow> bool" where
  "is_type t d = (dget d ''type'' = JStr t)"

text \<open>\<open>event.get("type") in {...}\<close> raises for a list or a dict.\<close>

definition type_in :: "string list \<Rightarrow> json_obj \<Rightarrow> exn + bool" where
  "type_in names d = in_strings (dget d ''type'') names"

fun any_type_in :: "string list \<Rightarrow> json_obj list \<Rightarrow> exn + bool" where
  "any_type_in names [] = Inr False"
| "any_type_in names (d # ds) = bnd (type_in names d) (\<lambda>b. if b then Inr True else any_type_in names ds)"

definition assistant_usage :: "json_obj \<Rightarrow> json option" where
  "assistant_usage d = (if is_type ''message_end'' d then
     (case dget d ''message'' of
        JObj m \<Rightarrow> if dget m ''role'' = JStr ''assistant'' then Some (dget m ''usage'') else None
      | _ \<Rightarrow> None) else None)"

definition parse_omp_stream_result ::
    "(pyfloat list \<Rightarrow> pyfloat) \<Rightarrow> json option list \<Rightarrow> exn + stream_result" where
  "parse_omp_stream_result nonfinite_sum stream = (case jsonl_objects stream of
     None \<Rightarrow> Inr unmeasured
   | Some events \<Rightarrow>
       if \<not> list_ex (is_type ''agent_start'') events then Inr unmeasured
       else bnd (mapR omp_usage (concat (map (\<lambda>d. case assistant_usage d of None \<Rightarrow> [] | Some u \<Rightarrow> [u]) events)))
         (\<lambda>measured.
         Inr \<lparr>stream_status = (if list_ex (is_type ''agent_end'') events then Some ENDED_NATURAL else None),
              stream_usage = merge_stream_usages (map fst measured),
              stream_cost = merge_stream_costs nonfinite_sum (map snd measured)\<rparr>))"

definition codex_step :: "nat \<Rightarrow> string option \<times> tokens option \<Rightarrow> json_obj \<Rightarrow> exn + string option \<times> tokens option" where
  "codex_step _ = (\<lambda>(ended, usage) event.
     bnd (type_in [''turn.failed'', ''error''] event) (\<lambda>failed.
     Inr (if failed then (Some ENDED_ERROR, usage)
          else if is_type ''turn.completed'' event
          then (Some ENDED_NATURAL,
                case codex_usage (dget event ''usage'') of None \<Rightarrow> usage | Some u \<Rightarrow> Some u)
          else (ended, usage))))"

definition parse_codex_stream_result :: "json option list \<Rightarrow> exn + stream_result" where
  "parse_codex_stream_result stream = (case jsonl_objects stream of
     None \<Rightarrow> Inr unmeasured
   | Some events \<Rightarrow>
       if \<not> list_ex (is_type ''turn.started'') events then Inr unmeasured
       else bnd (any_type_in [''turn.completed'', ''turn.failed''] events) (\<lambda>turned.
         if \<not> turned then Inr unmeasured
         else bnd (foldR codex_step 0 (None, None) events) (\<lambda>(ended, usage).
           Inr \<lparr>stream_status = ended, stream_usage = usage, stream_cost = None\<rparr>)))"

section \<open>The agent context\<close>

record agent_context =
  n_input_tokens :: "json option"
  n_output_tokens :: "json option"
  n_cache_tokens :: "json option"
  context_cost_usd :: "pyfloat option"

definition context_input_tokens :: "bool \<Rightarrow> json_obj \<Rightarrow> json option" where
  "context_input_tokens input_includes_cache usage = (case dget usage ''input_tokens'' of
     JInt n \<Rightarrow> Some (JInt (case dget usage ''cache_read_tokens'' of
       JInt c \<Rightarrow> if \<not> input_includes_cache \<and> 0 \<le> c then n + c else n | _ \<Rightarrow> n))
   | _ \<Rightarrow> None)"

definition set_if :: "'a option \<Rightarrow> 'a option \<Rightarrow> 'a option" where
  "set_if new old = (case new of None \<Rightarrow> old | Some _ \<Rightarrow> new)"

definition apply_usage_to_context ::
    "agent_context \<Rightarrow> json_obj option \<Rightarrow> pyfloat option \<Rightarrow> bool \<Rightarrow> agent_context" where
  "apply_usage_to_context context usage cost_usd input_includes_cache =
     (let c = (case usage of
        None \<Rightarrow> context
      | Some u \<Rightarrow> context
          \<lparr>n_input_tokens := set_if (context_input_tokens input_includes_cache u) (n_input_tokens context),
           n_output_tokens := set_if (map_of u ''output_tokens'') (n_output_tokens context),
           n_cache_tokens := set_if (map_of u ''cache_read_tokens'') (n_cache_tokens context)\<rparr>)
      in c\<lparr>context_cost_usd := set_if cost_usd (context_cost_usd c)\<rparr>)"

section \<open>Rewards\<close>

text \<open>
  \<open>reward.json\<close> as its parse (\<open>None\<close>: missing, unreadable or no JSON), \<open>reward.txt\<close> as the
  float it parses to.
\<close>

definition read_reward_json :: "json option \<Rightarrow> exn + pyfloat option" where
  "read_reward_json document = (case document of
     Some (JObj payload) \<Rightarrow>
       if payload = [] then Inr None
       else if has_key payload ''reward'' then number_as_float (dget payload ''reward'')
       else if length payload = 1 then number_as_float (snd (hd payload))
       else Inr None
   | _ \<Rightarrow> Inr None)"

definition read_reward :: "json option \<Rightarrow> pyfloat option \<Rightarrow> exn + pyfloat option" where
  "read_reward document reward_txt =
     bnd (read_reward_json document) (\<lambda>v. case v of None \<Rightarrow> Inr reward_txt | Some _ \<Rightarrow> Inr v)"

section \<open>Merging declared evidence\<close>

text \<open>\<open>v[k]\<close>.\<close>

definition subscript :: "json \<Rightarrow> string \<Rightarrow> exn + json" where
  "subscript v k = (case v of
     JObj d \<Rightarrow> (case map_of d k of None \<Rightarrow> Inl (KeyError k) | Some w \<Rightarrow> Inr w)
   | _ \<Rightarrow> Inl (TypeError ''object is not subscriptable by a string''))"

text \<open>\<open>int(v)\<close>; the conversion of a string is a parameter.\<close>

definition py_int :: "(string \<Rightarrow> exn + int) \<Rightarrow> json \<Rightarrow> exn + int" where
  "py_int parse v = (case v of
     JInt n \<Rightarrow> Inr n
   | JBool b \<Rightarrow> Inr (if b then 1 else 0)
   | JFloat (Finite q) \<Rightarrow> Inr (if q < 0 then \<lceil>q\<rceil> else \<lfloor>q\<rfloor>)
   | JFloat NaN \<Rightarrow> Inl (PyValueError ''cannot convert float NaN to integer'')
   | JFloat _ \<Rightarrow> Inl (PyOverflowError ''cannot convert float infinity to integer'')
   | JStr s \<Rightarrow> parse s
   | _ \<Rightarrow> Inl (TypeError ''int() argument must be a string, a bytes-like object or a real number''))"

definition usage_sum :: "(string \<Rightarrow> exn + int) \<Rightarrow> string \<Rightarrow> json_obj list \<Rightarrow> exn + int" where
  "usage_sum parse key per_episode =
     bnd (mapR (\<lambda>episode. bnd (subscript (JObj episode) ''usage'') (\<lambda>u. bnd (subscript u key) (py_int parse)))
            per_episode) (\<lambda>ns. Inr (sum_list ns))"

definition has_valid_cache_read_tokens :: "json_obj \<Rightarrow> bool" where
  "has_valid_cache_read_tokens episode = (case dget episode ''usage'' of
     JObj usage \<Rightarrow> token_count (dget usage ''cache_read_tokens'') \<noteq> None | _ \<Rightarrow> False)"

text \<open>\<open>episode.get("tool_calls") or []\<close>, iterated; an element without \<open>get\<close> raises.\<close>

definition tool_call_items :: "json \<Rightarrow> exn + json_obj list" where
  "tool_call_items v =
     (let no_get = AttributeError ''object has no attribute get''
      in if \<not> truthy v then Inr []
         else case v of
           JList items \<Rightarrow> mapR (\<lambda>c. case c of JObj d \<Rightarrow> Inr d | _ \<Rightarrow> Inl no_get) items
         | JStr _ \<Rightarrow> Inl no_get
         | JObj _ \<Rightarrow> Inl no_get
         | _ \<Rightarrow> Inl (TypeError ''object is not iterable''))"

definition add_call :: "(string \<times> int) list \<Rightarrow> json_obj \<Rightarrow> (string \<times> int) list" where
  "add_call calls call = (case (dget call ''name'', dget call ''count'') of
     (JStr name, JInt n) \<Rightarrow> count_add name n calls | _ \<Rightarrow> calls)"

definition merge_tool_calls :: "json_obj list list \<Rightarrow> (string \<times> int) list" where
  "merge_tool_calls per_episode = foldl add_call [] (concat per_episode)"

definition last_model :: "json_obj list \<Rightarrow> string option" where
  "last_model per_episode = foldl (\<lambda>model episode. case dget episode ''model'' of
     JStr s \<Rightarrow> if s \<noteq> [] then Some s else model | _ \<Rightarrow> model) None per_episode"

definition episode_cost :: "json_obj \<Rightarrow> json option" where
  "episode_cost episode = (case dget episode ''cost'' of
     JObj cost \<Rightarrow> if is_number (dget cost ''total_usd'') then Some (dget cost ''total_usd'') else None
   | _ \<Rightarrow> None)"

definition merged_cost ::
    "(pyfloat list \<Rightarrow> pyfloat) \<Rightarrow> json_obj list \<Rightarrow> exn + pyfloat option" where
  "merged_cost nonfinite_sum per_episode = (case all_some (map episode_cost per_episode) of
     None \<Rightarrow> Inr None
   | Some vs \<Rightarrow> bnd (mapR number_as_float vs) (\<lambda>cs. Inr (merge_stream_costs nonfinite_sum cs)))"

definition EVIDENCE_SCHEMA :: string where
  "EVIDENCE_SCHEMA = ''yacht.harness-evidence.v1''"

definition merged_declared_evidence ::
    "(json \<Rightarrow> string) \<Rightarrow> (string \<Rightarrow> exn + int) \<Rightarrow> (pyfloat list \<Rightarrow> pyfloat) \<Rightarrow> json_obj list \<Rightarrow> exn + json_obj" where
  "merged_declared_evidence str parse nonfinite_sum per_episode =
     (if per_episode = [] then Inl (PyValueError ''merged_declared_evidence requires at least one episode'')
      else
        let response = (if has_key (last per_episode) ''response''
                        then str (dget (last per_episode) ''response'') else [])
        in bnd (usage_sum parse ''input_tokens'' per_episode) (\<lambda>total_input.
           bnd (usage_sum parse ''output_tokens'' per_episode) (\<lambda>total_output.
           bnd (if list_all has_valid_cache_read_tokens per_episode
                then bnd (usage_sum parse ''cache_read_tokens'' per_episode) (\<lambda>n. Inr [(''cache_read_tokens'', JInt n)])
                else Inr []) (\<lambda>cache.
           bnd (mapR (\<lambda>episode. tool_call_items (dget episode ''tool_calls'')) per_episode) (\<lambda>calls.
           bnd (merged_cost nonfinite_sum per_episode) (\<lambda>cost.
           let tool_calls = merge_tool_calls calls
           in Inr ([(''schema'', JStr EVIDENCE_SCHEMA), (''response'', JStr response),
                 (''usage'', JObj ([(''input_tokens'', JInt total_input), (''output_tokens'', JInt total_output)] @ cache))]
                @ (if tool_calls = [] then [] else
                     [(''tool_calls'', JList (map (\<lambda>(name, n). JObj [(''name'', JStr name), (''count'', JInt n)]) tool_calls))])
                @ (case last_model per_episode of None \<Rightarrow> [] | Some m \<Rightarrow> [(''model'', JStr m)])
                @ (case cost of None \<Rightarrow> [] | Some c \<Rightarrow> [(''cost'', JObj [(''total_usd'', JFloat c)])]))))))))"

definition episode_record ::
    "int \<Rightarrow> string \<Rightarrow> string \<Rightarrow> string \<Rightarrow> json option \<Rightarrow> pyfloat option \<Rightarrow> pyfloat option \<Rightarrow> json_obj" where
  "episode_record index ended started_at finished_at usage cost_usd reward =
     [(''index'', JInt index), (''ended'', JStr ended), (''started_at'', JStr started_at),
      (''finished_at'', JStr finished_at)]
     @ (case usage of None \<Rightarrow> [] | Some u \<Rightarrow> [(''usage'', u)])
     @ (case cost_usd of None \<Rightarrow> [] | Some c \<Rightarrow> [(''cost_usd'', JFloat c)])
     @ (case reward of None \<Rightarrow> [] | Some r \<Rightarrow> [(''reward'', JFloat r)])"

definition relay_summary :: "json_obj list \<Rightarrow> int option \<Rightarrow> json_obj" where
  "relay_summary records to_resolution =
     [(''count'', JInt (int (length records))), (''items'', JList (map JObj records))]
     @ (case to_resolution of None \<Rightarrow> [] | Some n \<Rightarrow> [(''to_resolution'', JInt n)])"

section \<open>Lemmas\<close>

lemma all_some_map [simp]: "all_some (map Some ys) = Some ys"
  by (induction ys) simp_all

lemma all_some_eq: "all_some xs = Some ys \<longleftrightarrow> xs = map Some ys"
proof
  show "all_some xs = Some ys \<Longrightarrow> xs = map Some ys"
    by (induction xs arbitrary: ys) (auto split: option.splits)
qed simp

lemma strip_non_empty_ok: "forR (\<lambda>entry. ensure (case entry of JStr s \<Rightarrow> strip s \<noteq> [] | _ \<Rightarrow> False) e) (map JStr xs)
    = Inr () \<longleftrightarrow> (\<forall>s\<in>set xs. strip s \<noteq> [])"
  by (simp add: forR_eq_Inr)

definition calls_of :: "string \<Rightarrow> json_obj list \<Rightarrow> int" where
  "calls_of name calls = sum_list (map (\<lambda>c. case (dget c ''name'', dget c ''count'') of
     (JStr m, JInt n) \<Rightarrow> if m = name then n else 0 | _ \<Rightarrow> 0) calls)"

lemma foldl_add_call:
  "(case map_of (foldl add_call d calls) name of None \<Rightarrow> 0 | Some n \<Rightarrow> n)
     = (case map_of d name of None \<Rightarrow> 0 | Some n \<Rightarrow> n) + calls_of name calls"
proof (induction calls arbitrary: d)
  case (Cons c calls)
  then show ?case
    by (simp add: calls_of_def add_call_def map_of_count_add split: json.splits option.splits)
qed (simp add: calls_of_def)

section \<open>Properties\<close>

text \<open>
  C15. Render-time and run-time validation cannot drift: every episode plan the host renders is
  accepted by the launcher, which hands the relay exactly the rendered fields.
\<close>

theorem rendered_episode_plan_accepted_by_launcher:
  assumes "render_episode_plan t = Inr (Some plan)"
  shows "\<exists>d. plan = JObj d \<and> plan_for_task [(task, plan)] task = Inr (Some d)"
proof -
  obtain table deltas maximum where d: "delta_texts t = Inr deltas" and m: "2 \<le> maximum"
    and r: "render_relay t table deltas maximum = Inr plan"
    using render_episode_plan_Some [OF assms] by metis
  obtain vb ci mt ts where shape: "relay_shape t table deltas maximum plan vb ci mt ts"
    using render_relay_eq_Inr [OF r] by blast
  then have plan: "plan = JObj (relay_payload maximum vb (episode_instructions deltas ci maximum) mt ts)"
    and ci: "strip ci \<noteq> []" and mt: "\<forall>n. mt = Some n \<longrightarrow> 1 \<le> n" and ts: "\<forall>n. ts = Some n \<longrightarrow> 1 \<le> n"
    by (simp_all add: relay_shape_def)
  have len: "int (length (episode_instructions deltas ci maximum)) = maximum - 1"
    using m by (simp add: episode_instructions_def)
  have "\<forall>s\<in>set (episode_instructions deltas ci maximum). strip s \<noteq> []"
    using delta_texts_sound [OF d] ci
    by (auto simp: episode_instructions_def delta_ok_def split: option.splits dest!: map_of_SomeD)
  then have instr: "forR (\<lambda>entry. ensure (case entry of JStr s \<Rightarrow> strip s \<noteq> [] | _ \<Rightarrow> False) e)
      (map JStr (episode_instructions deltas ci maximum)) = Inr ()" for e :: exn
    by (simp only: strip_non_empty_ok)
  show ?thesis
    unfolding plan plan_for_task_def using m len instr mt ts
    by (cases mt; cases ts) (simp_all add: relay_payload_def not_less)
qed


theorem rendered_episode_plan_accepted_by_launcher_witness:
  "render_episode_plan sample_task = Inr (Some sample_relay)
     \<and> (\<exists>d. plan_for_task [(''t'', sample_relay)] ''t'' = Inr (Some d))"
proof -
  have r: "render_episode_plan sample_task = Inr (Some sample_relay)" by code_simp
  from rendered_episode_plan_accepted_by_launcher [OF r, of "''t''"] r show ?thesis by blast
qed

text \<open>
  C32. Stream usages are merged without understatement: a token key is present in the merged
  usage exactly when every episode reported it (with a non-negative count), and its value is
  then the sum over the episodes.
\<close>

theorem merged_usage_exact:
  assumes "key \<in> set MERGED_KEYS" and "usages \<noteq> []"
  shows "(case merge_stream_usages usages of None \<Rightarrow> None | Some u \<Rightarrow> map_of u key) =
    (if \<forall>u\<in>set usages. \<exists>d v. u = Some d \<and> map_of d key = Some v \<and> 0 \<le> v
     then Some (sum_list (map (\<lambda>u. the (map_of (the u) key)) usages)) else None)"
proof (cases "all_some usages")
  case None
  then have "\<not> (\<forall>u\<in>set usages. u \<noteq> None)" by (induction usages) (auto split: option.splits)
  then show ?thesis using None by (auto simp: merge_stream_usages_def)
next
  case (Some us)
  define pick where "pick k = (case all_some (map (\<lambda>u. map_of u k) us) of
      None \<Rightarrow> [] | Some values \<Rightarrow> if list_all (\<lambda>v. 0 \<le> v) values then [(k, sum_list values)] else [])" for k
  have us: "usages = map Some us" "us \<noteq> []" using Some assms(2) by (auto simp: all_some_eq)
  have merge_eq: "merge_stream_usages usages = or_none (concat (map pick MERGED_KEYS))"
    using us by (simp add: merge_stream_usages_def pick_def [abs_def])
  have keys: "map_of (pick k) j = None" if "j \<noteq> k" for j k
    using that by (auto simp: pick_def split: option.splits)
  have "map_of (concat (map pick ks)) key = map_of (pick key) key" if "key \<in> set ks" for ks
    using that
  proof (induction ks)
    case (Cons k ks)
    show ?case
    proof (cases "k = key")
      case True
      then show ?thesis using keys Cons
        by (cases "map_of (pick key) key"; cases "key \<in> set ks")
          (auto simp: map_add_def map_of_eq_None_iff pick_def split: option.splits if_splits)
    qed (use Cons keys in \<open>auto simp: map_add_def\<close>)
  qed simp
  from this [OF assms(1)] have "(case merge_stream_usages usages of None \<Rightarrow> None | Some u \<Rightarrow> map_of u key)
      = map_of (pick key) key"
    unfolding merge_eq using assms(1) by (auto simp: or_none_def)
  moreover have "map_of (pick key) key =
    (if \<forall>u\<in>set us. \<exists>v. map_of u key = Some v \<and> 0 \<le> v
     then Some (sum_list (map (\<lambda>u. the (map_of u key)) us)) else None)"
  proof (cases "all_some (map (\<lambda>u. map_of u key) us)")
    case None
    then have "\<not> (\<forall>u\<in>set us. map_of u key \<noteq> None)" by (induction us) (auto split: option.splits)
    then have "\<not> (\<forall>u\<in>set us. \<exists>v. map_of u key = Some v \<and> 0 \<le> v)" by blast
    then show ?thesis using None by (simp add: pick_def)
  next
    case (Some vs)
    then have eq: "map (\<lambda>u. map_of u key) us = map Some vs" by (simp add: all_some_eq)
    then have "vs = map (\<lambda>u. the (map_of u key)) us" and "\<forall>u\<in>set us. map_of u key \<noteq> None"
      by (induction us arbitrary: vs) auto
    moreover from this have "list_all (\<lambda>v. 0 \<le> v) vs \<longleftrightarrow> (\<forall>u\<in>set us. \<exists>v. map_of u key = Some v \<and> 0 \<le> v)"
      by (fastforce simp: list_all_iff)
    ultimately show ?thesis using Some by (simp add: pick_def)
  qed
  ultimately show ?thesis by (simp add: us comp_def)
qed

theorem merged_usage_exact_witness:
  "merge_stream_usages [Some [(''input_tokens'', 3)], Some [(''input_tokens'', 4), (''output_tokens'', 1)]]
     = Some [(''input_tokens'', 7)]
   \<and> ''output_tokens'' \<in> set MERGED_KEYS"
proof -
  let ?us = "[Some [(''input_tokens'', 3)], Some [(''input_tokens'', 4), (''output_tokens'', 1)]]"
  have k: "''input_tokens'' \<in> set MERGED_KEYS" "?us \<noteq> []" by (simp_all add: MERGED_KEYS_def)
  have "merge_stream_usages ?us = Some [(''input_tokens'', 7)]" by code_simp
  with merged_usage_exact [OF k] show ?thesis by (simp add: MERGED_KEYS_def)
qed

text \<open>
  Tool calls are merged by name without loss: the merged count of a name is the sum of its
  counts over all calls of all episodes, and every name occurs once.
\<close>

theorem merge_tool_calls_exact:
  "(case map_of (merge_tool_calls per_episode) name of None \<Rightarrow> 0 | Some n \<Rightarrow> n)
      = sum_list (map (calls_of name) per_episode)
   \<and> distinct (map fst (merge_tool_calls per_episode))"
proof -
  have "distinct (map fst (foldl add_call d calls))" if "distinct (map fst d)" for d calls
    using that by (induction calls arbitrary: d) (auto simp: add_call_def split: json.splits)
  moreover have "calls_of name (concat per_episode) = sum_list (map (calls_of name) per_episode)"
    by (induction per_episode) (simp_all add: calls_of_def)
  ultimately show ?thesis
    using foldl_add_call [of "[]" "concat per_episode" name] by (simp add: merge_tool_calls_def)
qed

end
