(* ===== verification/Bytes.thy ===== *)
theory Bytes
  imports PyValue "HOL-Library.Product_Lexorder"
begin

text \<open>
  Byte strings, as lists of natural numbers below 256, and \<open>str.encode("utf-8")\<close>.
\<close>

type_synonym bytes = "nat list"

definition utf8_char :: "char \<Rightarrow> bytes" where
  "utf8_char c = (let n = code_point c in if n < 128 then [n] else [192 + n div 64, 128 + n mod 64])"

definition utf8 :: "string \<Rightarrow> bytes" where
  "utf8 s = concat (map utf8_char s)"

lemma utf8_char_inj: "utf8_char c @ xs = utf8_char d @ ys \<Longrightarrow> c = d \<and> xs = ys"
proof -
  assume eq: "utf8_char c @ xs = utf8_char d @ ys"
  have c: "code_point c < 256" "code_point d < 256"
    by (simp_all add: code_point_def)
  have "code_point c = code_point d \<and> xs = ys"
  proof (cases "code_point c < 128"; cases "code_point d < 128")
    assume "\<not> code_point c < 128" "\<not> code_point d < 128"
    then have "code_point c div 64 = code_point d div 64" "code_point c mod 64 = code_point d mod 64" "xs = ys"
      using eq by (simp_all add: utf8_char_def Let_def)
    then show ?thesis by (metis div_mult_mod_eq)
  qed (use eq c in \<open>auto simp: utf8_char_def Let_def\<close>)
  then show ?thesis by (simp add: code_point_def)
qed

lemma utf8_inj: "utf8 s = utf8 t \<Longrightarrow> s = t"
proof (induction s arbitrary: t)
  case Nil
  then show ?case by (cases t) (auto simp: utf8_def utf8_char_def Let_def split: if_splits)
next
  case (Cons c s)
  then obtain d t' where t: "t = d # t'"
    by (cases t) (auto simp: utf8_def utf8_char_def Let_def split: if_splits)
  have "utf8_char c @ utf8 s = utf8_char d @ utf8 t'" using Cons.prems by (simp add: t utf8_def)
  from utf8_char_inj [OF this] Cons.IH t show ?case by blast
qed

end
