(* ===== verification/Selection.thy ===== *)
theory Selection
  imports Bytes "HOL-Library.Multiset"
begin

text \<open>
  \<open>src/yacht/courses/selection.py\<close>: seeded, order-independent selection of task instances by
  hash rank. \<open>sha256\<close> is not under \<open>src/\<close>: the digest of a byte string is the parameter \<open>sha\<close>
  and its hexadecimal form the parameter \<open>hex\<close>. Bytes are natural numbers below 256. Arguments
  of unchecked type (\<open>object\<close>, or a string that may not be one) are \<open>json\<close> values.
\<close>

definition SELECTION_ALGORITHM :: string where
  "SELECTION_ALGORITHM = ''sha256-rank-v1''"

definition MAX_SELECTION_SEED :: int where
  "MAX_SELECTION_SEED = 9223372036854775807"

definition RANK_DOMAIN :: string where
  "RANK_DOMAIN = ''yacht.instance-selection.rank.v1''"

definition POPULATION_DOMAIN :: string where
  "POPULATION_DOMAIN = ''yacht.instance-selection.population.v1''"

text \<open>\<open>n.to_bytes(k, "big")\<close>.\<close>

fun to_bytes :: "nat \<Rightarrow> nat \<Rightarrow> bytes" where
  "to_bytes 0 n = []"
| "to_bytes (Suc k) n = to_bytes k (n div 256) @ [n mod 256]"

definition update_text_field :: "bytes \<Rightarrow> string \<Rightarrow> bytes" where
  "update_text_field digest s = digest @ to_bytes 8 (length (utf8 s)) @ utf8 s"

definition rank_preimage :: "string \<Rightarrow> int \<Rightarrow> bytes" where
  "rank_preimage instance_id seed =
     update_text_field (update_text_field (update_text_field [] RANK_DOMAIN) (int_str seed)) instance_id"

definition instance_rank :: "(bytes \<Rightarrow> bytes) \<Rightarrow> string \<Rightarrow> int \<Rightarrow> bytes" where
  "instance_rank sha instance_id seed = sha (rank_preimage instance_id seed)"

definition population_preimage :: "string list \<Rightarrow> bytes" where
  "population_preimage population =
     foldl update_text_field
       (update_text_field (update_text_field [] POPULATION_DOMAIN) (nat_str (length population)))
       (sort_key utf8 population)"

definition instance_population_digest :: "(bytes \<Rightarrow> string) \<Rightarrow> string list \<Rightarrow> string" where
  "instance_population_digest hex population = ''sha256:'' @ hex (population_preimage population)"

definition population_step :: "nat \<Rightarrow> string list \<Rightarrow> json \<Rightarrow> exn + string list" where
  "population_step index seen item = (case item of
     JStr s \<Rightarrow>
       if s = [] then Inl (ConfigError (at_index ''random selection instance_ids'' index @ '' must be a non-empty string''))
       else if s \<in> set seen then Inl (ConfigError (at_index ''random selection instance_ids'' index @ '' is duplicated''))
       else Inr (seen @ [s])
   | _ \<Rightarrow> Inl (ConfigError (at_index ''random selection instance_ids'' index @ '' must be a non-empty string'')))"

definition validated_population :: "json list \<Rightarrow> exn + string list" where
  "validated_population instance_ids =
     (if instance_ids = [] then Inl (ConfigError ''random selection requires at least one instance ID'')
      else foldR population_step 0 [] instance_ids)"

definition validated_seed :: "json \<Rightarrow> exn + int" where
  "validated_seed seed = (case seed of
     JInt n \<Rightarrow> if n < 0 \<or> MAX_SELECTION_SEED < n
               then Inl (ConfigError (''random selection seed must be between 0 and '' @ int_str MAX_SELECTION_SEED))
               else Inr n
   | _ \<Rightarrow> Inl (ConfigError ''random selection seed must be an integer''))"

record instance_selection =
  selection_method :: string
  selection_algorithm :: string
  selection_seed :: int
  requested_instances :: int
  population_count :: int
  population_digest :: string

definition ranked :: "(bytes \<Rightarrow> bytes) \<Rightarrow> int \<Rightarrow> string list \<Rightarrow> (bytes \<times> bytes \<times> string) list" where
  "ranked sha seed population = sort (map (\<lambda>i. (instance_rank sha i seed, utf8 i, i)) population)"

definition select_random_instances ::
    "(bytes \<Rightarrow> bytes) \<Rightarrow> (bytes \<Rightarrow> string) \<Rightarrow> json list \<Rightarrow> json \<Rightarrow> json
       \<Rightarrow> exn + string list \<times> instance_selection" where
  "select_random_instances sha hex instance_ids max_instances seed =
     bnd (validated_population instance_ids) (\<lambda>population.
     bnd (case max_instances of
            JInt m \<Rightarrow>
              if m < 1 then Inl (ConfigError ''random selection max_instances must be at least 1'')
              else if int (length population) < m
              then Inl (ConfigError (''random selection max_instances must not exceed the population size of ''
                     @ nat_str (length population)))
              else Inr m
          | _ \<Rightarrow> Inl (ConfigError ''random selection max_instances must be an integer'')) (\<lambda>m.
     bnd (validated_seed seed) (\<lambda>s.
     Inr (map (\<lambda>(_, _, i). i) (take (nat m) (ranked sha s population)),
          \<lparr>selection_method = ''random'', selection_algorithm = SELECTION_ALGORITHM,
           selection_seed = s, requested_instances = m,
           population_count = int (length population),
           population_digest = instance_population_digest hex population\<rparr>))))"

section \<open>Validation\<close>

lemma population_step_eq_Inr:
  "population_step i seen item = Inr r \<longleftrightarrow> (\<exists>s. item = JStr s \<and> s \<noteq> [] \<and> s \<notin> set seen \<and> r = seen @ [s])"
  by (cases item) (auto simp: population_step_def)

lemma population_loop:
  "foldR population_step i seen items = Inr population \<longleftrightarrow>
     (\<exists>ids. items = map JStr ids \<and> population = seen @ ids \<and> [] \<notin> set ids \<and> distinct ids \<and> set ids \<inter> set seen = {})"
proof (induction items arbitrary: i seen)
  case (Cons item items)
  then show ?case
    by (auto simp: bnd_eq_Inr population_step_eq_Inr Cons_eq_map_conv)
qed auto

lemma validated_population_eq_Inr:
  "validated_population items = Inr population \<longleftrightarrow>
     items = map JStr population \<and> population \<noteq> [] \<and> [] \<notin> set population \<and> distinct population"
  by (auto simp: validated_population_def population_loop)

lemma validated_seed_eq_Inr:
  "validated_seed v = Inr n \<longleftrightarrow> v = JInt n \<and> 0 \<le> n \<and> n \<le> MAX_SELECTION_SEED"
  by (cases v) (auto simp: validated_seed_def)

lemma select_random_eq_Inr:
  "select_random_instances sha hex items mx seed = Inr r \<longleftrightarrow>
     (\<exists>population m s. validated_population items = Inr population \<and> mx = JInt m
        \<and> 1 \<le> m \<and> m \<le> int (length population) \<and> validated_seed seed = Inr s
        \<and> r = (map (\<lambda>(_, _, i). i) (take (nat m) (ranked sha s population)),
          \<lparr>selection_method = ''random'', selection_algorithm = SELECTION_ALGORITHM,
           selection_seed = s, requested_instances = m,
           population_count = int (length population),
           population_digest = instance_population_digest hex population\<rparr>))"
  by (cases mx) (auto simp: select_random_instances_def bnd_eq_Inr not_less)

section \<open>Ranking\<close>

lemma ranked_ids: "mset (map (\<lambda>(_, _, i). i) (ranked sha seed population)) = mset population"
  unfolding ranked_def by (simp add: mset_map image_mset.compositionality comp_def)

lemma ranked_length [simp]: "length (ranked sha seed population) = length population"
  by (simp add: ranked_def)

lemma sort_cong_mset: "mset xs = mset ys \<Longrightarrow> sort xs = sort (ys :: 'c::linorder list)"
  unfolding sorted_list_of_multiset_mset [symmetric] by simp

lemma ranked_cong: "mset population = mset population' \<Longrightarrow> ranked sha seed population = ranked sha seed population'"
  unfolding ranked_def by (rule sort_cong_mset) (simp only: mset_map)

section \<open>Framing of the hashed fields\<close>

text \<open>\<open>fields fs\<close> is what a digest has absorbed after the fields \<open>fs\<close>.\<close>

definition field_bytes :: "string \<Rightarrow> bytes" where
  "field_bytes s = to_bytes 8 (length (utf8 s)) @ utf8 s"

definition fields :: "string list \<Rightarrow> bytes" where
  "fields fs = concat (map field_bytes fs)"

lemma update_text_field_fields: "update_text_field (fields fs) s = fields (fs @ [s])"
  by (simp add: update_text_field_def fields_def field_bytes_def)

lemma foldl_fields: "foldl update_text_field (fields fs) ss = fields (fs @ ss)"
  by (induction ss arbitrary: fs) (simp_all add: update_text_field_fields)

lemma rank_preimage_fields: "rank_preimage i seed = fields [RANK_DOMAIN, int_str seed, i]"
  using update_text_field_fields [of "[]"] update_text_field_fields [of "[RANK_DOMAIN]"]
    update_text_field_fields [of "[RANK_DOMAIN, int_str seed]"]
  by (simp add: rank_preimage_def) (simp add: fields_def)

lemma population_preimage_fields:
  "population_preimage p = fields ([POPULATION_DOMAIN, nat_str (length p)] @ sort_key utf8 p)"
proof -
  have "update_text_field (update_text_field [] POPULATION_DOMAIN) (nat_str (length p))
      = fields [POPULATION_DOMAIN, nat_str (length p)]"
    by (simp add: update_text_field_def fields_def field_bytes_def)
  then show ?thesis by (simp only: population_preimage_def foldl_fields)
qed

lemma length_to_bytes [simp]: "length (to_bytes k n) = k"
  by (induction k arbitrary: n) auto

lemma to_bytes_inj: "to_bytes k a = to_bytes k b \<Longrightarrow> a < 256 ^ k \<Longrightarrow> b < 256 ^ k \<Longrightarrow> a = b"
proof (induction k arbitrary: a b)
  case (Suc k)
  then have "to_bytes k (a div 256) = to_bytes k (b div 256)" and m: "a mod 256 = b mod 256" by auto
  moreover have "a div 256 < 256 ^ k" "b div 256 < 256 ^ k"
    using Suc.prems by (simp_all add: less_mult_imp_div_less mult.commute)
  ultimately have "a div 256 = b div 256" using Suc.IH by blast
  with m show ?case by (metis div_mult_mod_eq)
qed simp

definition short :: "string \<Rightarrow> bool" where
  "short s = (length (utf8 s) < 256 ^ 8)"

lemma short_if_short_string: "length s \<le> 1000 \<Longrightarrow> short s"
proof -
  assume s: "length s \<le> 1000"
  have "length (utf8 s) \<le> 2 * length s"
    by (induction s) (auto simp: utf8_def utf8_char_def Let_def)
  then show ?thesis using s by (simp add: short_def)
qed

lemma field_bytes_inj:
  assumes "field_bytes s @ xs = field_bytes t @ ys" and "short s" and "short t"
  shows "s = t \<and> xs = ys"
proof -
  have "to_bytes 8 (length (utf8 s)) = to_bytes 8 (length (utf8 t))"
    and rest: "utf8 s @ xs = utf8 t @ ys"
    using assms(1) by (simp_all only: field_bytes_def append_assoc append_eq_append_conv length_to_bytes simp_thms)
  then have "length (utf8 s) = length (utf8 t)" using to_bytes_inj assms(2,3) unfolding short_def by blast
  with rest have "utf8 s = utf8 t" "xs = ys" by simp_all
  then show ?thesis using utf8_inj by blast
qed

lemma fields_inj:
  "fields fs = fields gs \<Longrightarrow> length fs = length gs \<Longrightarrow> list_all short fs \<Longrightarrow> list_all short gs \<Longrightarrow> fs = gs"
proof (induction fs arbitrary: gs)
  case (Cons f fs)
  then obtain g gs' where gs: "gs = g # gs'" by (cases gs) auto
  have "field_bytes f @ fields fs = field_bytes g @ fields gs'" using Cons.prems by (simp add: gs fields_def)
  from field_bytes_inj [OF this] Cons gs show ?case by auto
qed simp

section \<open>Properties\<close>

text \<open>
  C16. Random selection is a function of the set of instances: permuting the ids changes neither
  the selected instances nor the recorded provenance (nor whether an error is raised).
\<close>

theorem selection_order_independent:
  assumes "mset ids = mset ids'" and "[] \<notin> set ids" and "distinct ids" and "ids \<noteq> []"
  shows "select_random_instances sha hex (map JStr ids) m seed
    = select_random_instances sha hex (map JStr ids') m seed"
proof -
  have v: "validated_population (map JStr ids) = Inr ids"
    using assms by (simp add: validated_population_eq_Inr)
  have "set ids = set ids'" "length ids = length ids'" "distinct ids'" "ids' \<noteq> []"
    using assms by (auto dest: mset_eq_setD mset_eq_length mset_eq_imp_distinct_iff)
  then have v': "validated_population (map JStr ids') = Inr ids'"
    using assms by (simp add: validated_population_eq_Inr)
  have "sort_key utf8 ids = sort_key utf8 ids'"
    using assms(1) by (intro sort_key_inj_key_eq inj_onI) (auto dest: utf8_inj)
  then have "population_preimage ids = population_preimage ids'"
    using \<open>length ids = length ids'\<close> by (simp add: population_preimage_def)
  then show ?thesis
    unfolding select_random_instances_def v v' bnd_Inr instance_population_digest_def
      ranked_cong [OF assms(1)] \<open>length ids = length ids'\<close> by simp
qed

theorem selection_order_independent_witness:
  "select_random_instances (\<lambda>b. b) (\<lambda>_. []) (map JStr [''b'', ''a'']) (JInt 1) (JInt 7)
     = select_random_instances (\<lambda>b. b) (\<lambda>_. []) (map JStr [''a'', ''b'']) (JInt 1) (JInt 7)"
  by (rule selection_order_independent) simp_all

text \<open>
  C17. A selection has exactly the requested number of instances, without repetition, all from
  the population; and a larger request with the same seed extends the smaller one (the smaller
  selection is a prefix of the larger).
\<close>

theorem selection_prefix_monotone:
  assumes "select_random_instances sha hex items (JInt m) seed = Inr (xs, p)"
    and "select_random_instances sha hex items (JInt n) seed = Inr (ys, q)" and "m \<le> n"
  shows "length xs = nat m \<and> distinct xs \<and> JStr ` set xs \<subseteq> set items \<and> xs = take (nat m) ys"
proof -
  obtain population s where v: "validated_population items = Inr population"
    and m: "1 \<le> m" "m \<le> int (length population)" and s: "validated_seed seed = Inr s"
    and xs: "xs = map (\<lambda>(_, _, i). i) (take (nat m) (ranked sha s population))"
    using assms(1) by (auto simp: select_random_eq_Inr)
  have ys: "ys = map (\<lambda>(_, _, i). i) (take (nat n) (ranked sha s population))"
    using assms(2) v s by (auto simp: select_random_eq_Inr)
  let ?ids = "map (\<lambda>(_, _, i). i) (ranked sha s population)"
  have "distinct ?ids" "set ?ids = set population"
    using v ranked_ids [of sha s population]
    by (metis mset_eq_imp_distinct_iff validated_population_eq_Inr, metis mset_eq_setD)
  then have "distinct (take (nat m) ?ids)" "set (take (nat m) ?ids) \<subseteq> set population"
    by (auto dest: in_set_takeD)
  moreover have "xs = take (nat m) ?ids" by (simp add: xs take_map)
  moreover have "set items = JStr ` set population" using v by (simp add: validated_population_eq_Inr)
  moreover have "xs = take (nat m) ys" using assms(3) by (simp add: xs ys take_map min_def)
  moreover have "length xs = nat m" using m by (simp add: xs)
  ultimately show ?thesis by auto
qed

theorem selection_prefix_monotone_witness:
  "\<exists>xs p ys q. select_random_instances (\<lambda>b. b) (\<lambda>_. []) [JStr ''b'', JStr ''a''] (JInt 1) (JInt 0) = Inr (xs, p)
     \<and> select_random_instances (\<lambda>b. b) (\<lambda>_. []) [JStr ''b'', JStr ''a''] (JInt 2) (JInt 0) = Inr (ys, q)
     \<and> xs = take 1 ys"
proof -
  have v: "validated_population [JStr ''b'', JStr ''a''] = Inr [''b'', ''a'']"
    by (simp add: validated_population_eq_Inr)
  have s: "validated_seed (JInt 0) = Inr 0" by (simp add: validated_seed_eq_Inr MAX_SELECTION_SEED_def)
  obtain xs p where x: "select_random_instances (\<lambda>b. b) (\<lambda>_. []) [JStr ''b'', JStr ''a''] (JInt 1) (JInt 0) = Inr (xs, p)"
    by (simp add: select_random_instances_def v s)
  obtain ys q where y: "select_random_instances (\<lambda>b. b) (\<lambda>_. []) [JStr ''b'', JStr ''a''] (JInt 2) (JInt 0) = Inr (ys, q)"
    by (simp add: select_random_instances_def v s)
  from selection_prefix_monotone [OF x y] x y show ?thesis by auto
qed



end
