(* ===== verification/Secrets.thy ===== *)
theory Secrets
  imports PyValue
begin

text \<open>
  \<open>src/yacht/secret_resolution.py\<close>: resolution of \<open>--secret\<close> arguments against the ambient
  environment. The environment is the state: a dictionary of variables that
  \<open>resolve_secret_arguments\<close> returns updated, together with its result or exception.
\<close>

definition ENV_REFERENCE_PREFIX :: string where
  "ENV_REFERENCE_PREFIX = ''@env:''"

record secret_entry =
  entry_name :: string
  literal :: string
  env_name :: "string option"

record resolved_secrets =
  secret_values :: "(string \<times> string) list"
  blocked_env_names :: "string list"

type_synonym environ = "(string \<times> string) list"

definition parse_entry :: "string \<Rightarrow> exn + secret_entry" where
  "parse_entry v =
     (if CHR ''='' \<notin> set v then Inl (ConfigError ''secrets must use NAME=VALUE format'')
      else
        let name = takeWhile (\<lambda>c. c \<noteq> CHR ''='') v;
            secret_value = tl (dropWhile (\<lambda>c. c \<noteq> CHR ''='') v)
        in if name = [] then Inl (ConfigError ''secret names must be non-empty'')
           else if secret_value = [] then Inl (ConfigError (''secret '' @ name @ '' must be non-empty''))
           else if take (length ENV_REFERENCE_PREFIX) secret_value \<noteq> ENV_REFERENCE_PREFIX
           then Inr \<lparr>entry_name = name, literal = secret_value, env_name = None\<rparr>
           else
             let env = drop (length ENV_REFERENCE_PREFIX) secret_value
             in if env = [] then Inl (ConfigError (''secret '' @ name @ '' @env reference must name an env var''))
                else Inr \<lparr>entry_name = name, literal = [], env_name = Some env\<rparr>)"

definition read_step :: "environ \<Rightarrow> nat \<Rightarrow> environ \<Rightarrow> secret_entry \<Rightarrow> exn + environ" where
  "read_step source _ resolved entry = (case env_name entry of
     None \<Rightarrow> Inr resolved
   | Some env \<Rightarrow>
       if map_of resolved env \<noteq> None then Inr resolved
       else (case map_of source env of
         None \<Rightarrow> Inl (ConfigError (''environment variable '' @ env @ '' is not set for secret '' @ entry_name entry))
       | Some v \<Rightarrow>
           if v = [] then Inl (ConfigError (''environment variable '' @ env @ '' is empty for secret '' @ entry_name entry))
           else Inr (AList.update env v resolved)))"

definition read_referenced_variables :: "secret_entry list \<Rightarrow> environ \<Rightarrow> exn + environ" where
  "read_referenced_variables entries source = foldR (read_step source) 0 [] entries"

definition referenced_names :: "secret_entry list \<Rightarrow> string list" where
  "referenced_names entries =
     dedup (concat (map (\<lambda>e. case env_name e of None \<Rightarrow> [] | Some env \<Rightarrow> [env]) entries))"

definition store_secret :: "environ \<Rightarrow> (string \<times> string) list \<Rightarrow> secret_entry \<Rightarrow> (string \<times> string) list" where
  "store_secret resolved secrets entry = AList.update (entry_name entry)
     (case env_name entry of None \<Rightarrow> literal entry | Some env \<Rightarrow> the (map_of resolved env)) secrets"

definition resolve_secret_arguments :: "string list \<Rightarrow> environ \<Rightarrow> (exn + resolved_secrets) \<times> environ" where
  "resolve_secret_arguments args source =
     (case bnd (mapR parse_entry args) (\<lambda>entries.
             bnd (read_referenced_variables entries source) (\<lambda>resolved. Inr (entries, resolved))) of
        Inl e \<Rightarrow> (Inl e, source)
      | Inr (entries, resolved) \<Rightarrow>
          (Inr \<lparr>secret_values = foldl (store_secret resolved) [] entries,
                blocked_env_names = referenced_names entries\<rparr>,
           foldl (\<lambda>env k. AList.delete k env) source (referenced_names entries)))"

section \<open>Lemmas\<close>

lemma set_referenced_names:
  "set (referenced_names entries) = {env. \<exists>e\<in>set entries. env_name e = Some env}"
  by (auto simp: referenced_names_def split: option.splits)

lemma delete_all: "foldl (\<lambda>env k. AList.delete k env) source ks = filter (\<lambda>(k, _). k \<notin> set ks) source"
  by (induction ks arbitrary: source) (auto simp: AList.delete_eq filter_filter intro!: filter_cong)

lemma read_step_sound:
  assumes "foldR (read_step source) i resolved entries = Inr resolved'"
    and "\<forall>k v. map_of resolved k = Some v \<longrightarrow> map_of source k = Some v \<and> v \<noteq> []"
  shows "(\<forall>k v. map_of resolved' k = Some v \<longrightarrow> map_of source k = Some v \<and> v \<noteq> [])
    \<and> (\<forall>k. map_of resolved k \<noteq> None \<longrightarrow> map_of resolved' k = map_of resolved k)
    \<and> (\<forall>e\<in>set entries. \<forall>env. env_name e = Some env \<longrightarrow> map_of resolved' env \<noteq> None)"
  using assms
proof (induction entries arbitrary: i resolved)
  case (Cons e entries)
  obtain r where r: "read_step source i resolved e = Inr r"
    and rest: "foldR (read_step source) (Suc i) r entries = Inr resolved'"
    using Cons.prems(1) by (auto simp: bnd_eq_Inr)
  have step: "(\<forall>k v. map_of r k = Some v \<longrightarrow> map_of source k = Some v \<and> v \<noteq> [])
      \<and> (\<forall>k. map_of resolved k \<noteq> None \<longrightarrow> map_of r k = map_of resolved k)
      \<and> (\<forall>env. env_name e = Some env \<longrightarrow> map_of r env \<noteq> None)"
    using r Cons.prems(2) by (auto simp: read_step_def split: option.splits if_splits) blast
  from Cons.IH [OF rest] step show ?case by (auto; metis)
qed simp

lemma parse_entry_literal: "parse_entry v = Inr e \<Longrightarrow> env_name e = None \<Longrightarrow> literal e \<noteq> []"
  by (auto simp: parse_entry_def Let_def split: if_splits)

text \<open>The entry that decides a name: the last one.\<close>

definition last_entry :: "secret_entry list \<Rightarrow> string \<Rightarrow> secret_entry option" where
  "last_entry entries name = find (\<lambda>e. entry_name e = name) (rev entries)"

lemma find_append: "find P (xs @ ys) = (case find P xs of None \<Rightarrow> find P ys | Some x \<Rightarrow> Some x)"
  by (induction xs) auto

lemma stored_values:
  "map_of (foldl (store_secret resolved) secrets entries) name =
     (case last_entry entries name of
        None \<Rightarrow> map_of secrets name
      | Some e \<Rightarrow> Some (case env_name e of None \<Rightarrow> literal e | Some env \<Rightarrow> the (map_of resolved env)))"
proof (induction entries arbitrary: secrets)
  case (Cons e entries)
  then show ?case by (auto simp: last_entry_def find_append store_secret_def split: option.splits)
qed (simp add: last_entry_def)

section \<open>Properties\<close>

text \<open>
  C18. A failed resolution leaves the environment exactly as it was.
\<close>

theorem failed_resolution_leaves_environment:
  assumes "resolve_secret_arguments args env = (Inl e, env')"
  shows "env' = env \<and> (\<exists>m. e = ConfigError m)"
proof -
  have "raises_only (\<lambda>e. \<exists>m. e = ConfigError m)
    (bnd (mapR parse_entry args) (\<lambda>entries.
       bnd (read_referenced_variables entries env) (\<lambda>resolved. Inr (entries, resolved))))"
    unfolding parse_entry_def read_referenced_variables_def read_step_def Let_def
    by (intro raises; simp)
  with assms show ?thesis
    by (auto simp: resolve_secret_arguments_def raises_only_def split: sum.splits prod.splits)
qed

theorem failed_resolution_leaves_environment_witness:
  "resolve_secret_arguments [''A=@env:X'', ''B=@env:Y''] [(''X'', ''1'')]
     = (Inl (ConfigError ''environment variable Y is not set for secret B''), [(''X'', ''1'')])
   \<and> [(''X'', ''1'')] = [(''X'', ''1'')]"
proof -
  have r: "resolve_secret_arguments [''A=@env:X'', ''B=@env:Y''] [(''X'', ''1'')]
     = (Inl (ConfigError ''environment variable Y is not set for secret B''), [(''X'', ''1'')])"
    by code_simp
  from failed_resolution_leaves_environment [OF r] r show ?thesis by blast
qed

text \<open>
  C19. A successful resolution removes exactly the referenced variables from the environment,
  overridden references included, and keeps every other variable and the order; each logical
  name has the value of its last argument, read from the environment before the removal, and no
  value is empty.
\<close>

theorem successful_resolution:
  assumes "resolve_secret_arguments args env = (Inr r, env')"
  shows "\<exists>entries. mapR parse_entry args = Inr entries
    \<and> set (blocked_env_names r) = {k. \<exists>e\<in>set entries. env_name e = Some k}
    \<and> env' = filter (\<lambda>(k, _). k \<notin> set (blocked_env_names r)) env
    \<and> (\<forall>name. map_of (secret_values r) name = (case last_entry entries name of
          None \<Rightarrow> None
        | Some e \<Rightarrow> (case env_name e of None \<Rightarrow> Some (literal e) | Some k \<Rightarrow> map_of env k)))
    \<and> (\<forall>name v. map_of (secret_values r) name = Some v \<longrightarrow> v \<noteq> [])"
proof -
  obtain entries resolved where e: "mapR parse_entry args = Inr entries"
    and rd: "read_referenced_variables entries env = Inr resolved"
    and r: "r = \<lparr>secret_values = foldl (store_secret resolved) [] entries,
                blocked_env_names = referenced_names entries\<rparr>"
    and env': "env' = foldl (\<lambda>env k. AList.delete k env) env (referenced_names entries)"
    using assms by (auto simp: resolve_secret_arguments_def bnd_eq_Inr split: sum.splits)
  have sound: "\<forall>k v. map_of resolved k = Some v \<longrightarrow> map_of env k = Some v \<and> v \<noteq> []"
    "\<forall>e\<in>set entries. \<forall>k. env_name e = Some k \<longrightarrow> map_of resolved k \<noteq> None"
    using read_step_sound [OF rd [unfolded read_referenced_variables_def]] by auto
  have lst: "last_entry entries name = Some x \<Longrightarrow> x \<in> set entries" for name x
    by (auto simp: last_entry_def find_Some_iff in_set_conv_nth rev_nth) (metis length_rev nth_mem rev_nth set_rev in_set_conv_nth)
  have lit: "x \<in> set entries \<Longrightarrow> env_name x = None \<Longrightarrow> literal x \<noteq> []" for x
    using e parse_entry_literal by (auto simp: mapR_eq_Inr list_all2_conv_all_nth in_set_conv_nth)
  have val: "map_of (secret_values r) name = (case last_entry entries name of
          None \<Rightarrow> None
        | Some e \<Rightarrow> (case env_name e of None \<Rightarrow> Some (literal e) | Some k \<Rightarrow> map_of env k))" for name
  proof (cases "last_entry entries name")
    case (Some x)
    show ?thesis
    proof (cases "env_name x")
      case (Some k)
      then obtain v where "map_of resolved k = Some v"
        using sound(2) lst [OF \<open>last_entry entries name = Some x\<close>] by auto
      then show ?thesis using sound(1) Some \<open>last_entry entries name = Some x\<close>
        by (simp add: r stored_values)
    qed (simp add: r stored_values Some)
  qed (simp add: r stored_values)
  moreover have "v \<noteq> []" if "map_of (secret_values r) name = Some v" for name v
    using that lst lit sound unfolding val
    by (auto split: option.splits) (metis option.exhaust option.sel)+
  ultimately show ?thesis
    using e by (simp add: r env' delete_all set_referenced_names)
qed

theorem successful_resolution_witness:
  "\<exists>r. resolve_secret_arguments [''K=@env:X'', ''K=@env:Y''] [(''X'', ''1''), (''P'', ''2''), (''Y'', ''3'')]
      = (Inr r, [(''P'', ''2'')])
    \<and> map_of (secret_values r) ''K'' = Some ''3'' \<and> set (blocked_env_names r) = {''X'', ''Y''}"
proof -
  have r: "resolve_secret_arguments [''K=@env:X'', ''K=@env:Y''] [(''X'', ''1''), (''P'', ''2''), (''Y'', ''3'')]
      = (Inr \<lparr>secret_values = [(''K'', ''3'')], blocked_env_names = [''X'', ''Y'']\<rparr>, [(''P'', ''2'')])"
    by code_simp
  from successful_resolution [OF r] r show ?thesis by auto
qed

end
