(* ===== verification/Paths.thy ===== *)
theory Paths
  imports PyValue
begin

text \<open>
  \<open>pathlib\<close> paths as the flag \<open>is_absolute()\<close> and the named parts: empty and \<open>.\<close> components
  are dropped when a string is parsed, \<open>..\<close> is kept.
\<close>

record path =
  absolute :: bool
  parts :: "string list"

definition plain_parts :: "string list \<Rightarrow> string list" where
  "plain_parts = filter (\<lambda>p. p \<noteq> [] \<and> p \<noteq> ''.'')"

definition posix_path :: "string \<Rightarrow> path" where
  "posix_path s = \<lparr>absolute = (s \<noteq> [] \<and> hd s = CHR ''/''), parts = plain_parts (split_on CHR ''/'' s)\<rparr>"

definition as_posix :: "string list \<Rightarrow> string" where
  "as_posix ps = (if ps = [] then ''.'' else join ''/'' ps)"

text \<open>\<open>str(Path(s))\<close>; exactly two leading slashes are kept.\<close>

definition path_root :: "string \<Rightarrow> string" where
  "path_root s = (if take 1 s \<noteq> ''/'' then [] else if take 2 s = ''//'' \<and> take 3 s \<noteq> ''///'' then ''//'' else ''/'')"

definition str_path :: "string \<Rightarrow> string" where
  "str_path s = (if path_root s = [] then as_posix (parts (posix_path s)) else path_root s @ join ''/'' (parts (posix_path s)))"

text \<open>\<open>str(Path(directory) / p)\<close>.\<close>

definition join_path :: "string \<Rightarrow> string \<Rightarrow> string" where
  "join_path directory p = (if take 1 p = ''/'' then str_path p
     else str_path (directory @ (if directory = [] \<or> last directory = CHR ''/'' then [] else ''/'') @ p))"

lemma as_posix_plain: "as_posix (plain_parts ps) \<noteq> []"
proof (cases "plain_parts ps")
  case (Cons q qs)
  then have "q \<in> set (plain_parts ps)" by simp
  then have "q \<noteq> []" by (simp add: plain_parts_def)
  with Cons show ?thesis by (cases qs) (simp_all add: as_posix_def)
qed (simp add: as_posix_def)

lemma str_path_nonempty [simp]: "str_path s \<noteq> []"
  by (simp add: str_path_def posix_path_def as_posix_plain)

definition is_prefix :: "'a list \<Rightarrow> 'a list \<Rightarrow> bool" where
  "is_prefix base ps = (take (length base) ps = base)"

definition backslash :: char where
  "backslash = char_of (92 :: nat)"

end
