(* ===== verification/Logbook.thy ===== *)
theory Logbook
  imports Paths
begin

text \<open>
  \<open>src/yacht/logbook/index.py\<close> and \<open>src/yacht/logbook/io.py\<close>: the run index of a Logbook, its
  life cycle, its atomic persistence and its reader.

  A path is a flag (absolute) and its parts, as \<open>pathlib\<close> keeps them. Symbolic links are the
  parameter \<open>resolve\<close> on absolute part lists (\<open>Path.resolve\<close>). The JSON Schema of the index is
  checked by a third-party library over a schema file: the parameter \<open>valid\<close>.
\<close>

section \<open>Paths inside a Logbook\<close>

type_synonym resolver = "string list \<Rightarrow> string list"

text \<open>\<open>_relative_logbook_path\<close>; \<open>base\<close> is \<open>logbook_dir.resolve()\<close>.\<close>

definition relative_logbook_path ::
    "resolver \<Rightarrow> string list \<Rightarrow> string \<Rightarrow> string \<Rightarrow> exn + string list" where
  "relative_logbook_path resolve base v label =
     (let raw_path = posix_path v;
          e = ConfigError (label @ '' path escapes the Logbook: '' @ v)
      in if backslash \<in> set v \<or> ''..'' \<in> set (parts raw_path) then Inl e
         else
           let resolved = (if absolute raw_path then resolve (parts raw_path)
                           else resolve (base @ parts raw_path))
           in if \<not> is_prefix base resolved \<or> resolved = base then Inl e
              else Inr (drop (length base) resolved))"

section \<open>The life cycle of a run index\<close>

definition RUN_INDEX_V1 :: string where
  "RUN_INDEX_V1 = ''yacht.run-index.v1''"

definition RUN_INDEX_V2 :: string where
  "RUN_INDEX_V2 = ''yacht.run-index.v2''"

record lifecycle =
  logbook_root :: "string list"
  artifact_paths :: "(string \<times> string list) list"
  child_statuses :: "(string list \<times> string) list option"
  document :: json_obj

text \<open>
  What an operation meets: the clock, which absolute paths exist, the schema validator, and how
  the atomic write ends (\<open>Sync_failed\<close>: the file was replaced, the directory sync raised).
\<close>

datatype write_outcome = Written | Write_failed | Sync_failed

record surroundings =
  now :: string
  exists_path :: "string list \<Rightarrow> bool"
  valid_index :: "json_obj \<Rightarrow> bool"
  outcome :: write_outcome

record run_state =
  memory :: lifecycle
  disk :: "json_obj option"

type_synonym 'a op = "run_state \<Rightarrow> (exn + 'a) \<times> run_state"

text \<open>\<open>{**d, **updates}\<close>.\<close>

definition merged :: "json_obj \<Rightarrow> json_obj \<Rightarrow> json_obj" where
  "merged d updates = foldl (\<lambda>acc (k, v). AList.update k v acc) d updates"

definition index_document :: "surroundings \<Rightarrow> json_obj \<Rightarrow> lifecycle \<Rightarrow> json_obj" where
  "index_document env updates l =
     (let artifacts = JObj (map (\<lambda>(name, ps). (name, JObj
            [(''path'', JStr (as_posix ps)), (''present'', JBool (exists_path env (logbook_root l @ ps)))]))
            (artifact_paths l));
          with_artifacts = AList.update ''artifacts'' artifacts (merged (document l) updates)
      in case child_statuses l of
           None \<Rightarrow> with_artifacts
         | Some children \<Rightarrow> AList.update ''children''
             (JList (map (\<lambda>(ps, status). JObj [(''path'', JStr (as_posix ps)), (''status'', JStr status)]) children))
             with_artifacts)"

definition persist :: "surroundings \<Rightarrow> json_obj \<Rightarrow> unit op" where
  "persist env updates s =
     (let d = index_document env updates (memory s)
      in if \<not> valid_index env d then (Inl (SchemaError ''run index''), s)
         else case outcome env of
           Write_failed \<Rightarrow> (Inl (OSError ''write''), s)
         | Sync_failed \<Rightarrow> (Inl (OSError ''sync''), s\<lparr>disk := Some d\<rparr>)
         | Written \<Rightarrow> (Inr (), s\<lparr>memory := (memory s)\<lparr>document := d\<rparr>, disk := Some d\<rparr>))"

definition status_of :: "run_state \<Rightarrow> json" where
  "status_of s = dget (document (memory s)) ''status''"

definition advance :: "surroundings \<Rightarrow> string \<Rightarrow> unit op" where
  "advance env stage s =
     (if status_of s \<noteq> JStr ''running'' then (Inl (ConfigError ''cannot advance a terminal run index''), s)
      else persist env [(''stage'', JStr stage), (''updated_at'', JStr (now env))] s)"

definition CHILD_STATES :: "string list" where
  "CHILD_STATES = [''running'', ''complete'', ''blocked'', ''failed'']"

definition TERMINAL_STATES :: "string list" where
  "TERMINAL_STATES = [''complete'', ''blocked'', ''failed'']"

definition record_child :: "resolver \<Rightarrow> surroundings \<Rightarrow> string \<Rightarrow> string \<Rightarrow> unit op" where
  "record_child resolve env child_path status s = (case child_statuses (memory s) of
     None \<Rightarrow> (Inl (ConfigError ''only a repetition index can record child Logbooks''), s)
   | Some children \<Rightarrow>
       if status \<notin> set CHILD_STATES
       then (Inl (ConfigError (''invalid child Logbook status: '' @ status)), s)
       else (case relative_logbook_path resolve (logbook_root (memory s)) child_path ''child Logbook'' of
         Inl e \<Rightarrow> (Inl e, s)
       | Inr rel \<Rightarrow> persist env [(''updated_at'', JStr (now env))]
           (s\<lparr>memory := (memory s)\<lparr>child_statuses := Some (AList.update rel status children)\<rparr>\<rparr>)))"

definition finish :: "surroundings \<Rightarrow> string \<Rightarrow> string option \<Rightarrow> unit op" where
  "finish env status stage s =
     (if status_of s \<noteq> JStr ''running'' then (Inl (ConfigError ''cannot finish a terminal run index''), s)
      else if status \<notin> set TERMINAL_STATES
      then (Inl (ConfigError (''invalid terminal run-index status: '' @ status)), s)
      else persist env ([(''status'', JStr status), (''updated_at'', JStr (now env)), (''terminal_at'', JStr (now env))]
             @ (case stage of None \<Rightarrow> [] | Some st \<Rightarrow> [(''stage'', JStr st)])) s)"

text \<open>The exception of a failed recording becomes a note on the error being handled.\<close>

definition record_failure :: "surroundings \<Rightarrow> run_state \<Rightarrow> exn option \<times> run_state" where
  "record_failure env s =
     (if status_of s \<noteq> JStr ''running'' then (None, s)
      else case finish env ''failed'' None s of
        (Inl note, s') \<Rightarrow> (Some note, s') | (Inr _, s') \<Rightarrow> (None, s'))"

record comparison_reference =
  comparison_name :: string
  comparison_course :: string
  comparison_vessels :: "string list"

definition comparison_to_json :: "comparison_reference \<Rightarrow> json" where
  "comparison_to_json c = JObj [(''name'', JStr (comparison_name c)), (''course'', JStr (comparison_course c)),
     (''vessels'', JList (map JStr (comparison_vessels c)))]"

definition start_run_index ::
    "resolver \<Rightarrow> surroundings \<Rightarrow> string list \<Rightarrow> string \<Rightarrow> string \<Rightarrow> string \<Rightarrow> string \<Rightarrow> comparison_reference list
       \<Rightarrow> (string \<times> string) list \<Rightarrow> json_obj option \<Rightarrow> (exn + unit) \<times> json_obj option \<times> run_state option" where
  "start_run_index resolve env base config_path run_kind regatta course comparisons artifacts old =
     (case mapR (\<lambda>(name, v). bnd (relative_logbook_path resolve base v ''artifact'') (\<lambda>ps. Inr (name, ps))) artifacts of
        Inl e \<Rightarrow> (Inl e, old, None)
      | Inr paths \<Rightarrow>
          let children = (if run_kind = ''benchmark-repetitions'' then Some [] else None);
              d = [(''schema'', JStr RUN_INDEX_V2), (''run_kind'', JStr run_kind), (''status'', JStr ''running''),
                   (''stage'', JStr ''starting''), (''started_at'', JStr (now env)), (''updated_at'', JStr (now env)),
                   (''config_path'', JStr config_path), (''regatta'', JStr regatta), (''course'', JStr course),
                   (''comparisons'', JList (map comparison_to_json comparisons)), (''artifacts'', JObj [])]
                  @ (if children = None then [] else [(''children'', JList [])]);
              s0 = \<lparr>memory = \<lparr>logbook_root = base, artifact_paths = paths, child_statuses = children, document = d\<rparr>,
                    disk = old\<rparr>
          in case persist env [] s0 of
               (Inl e, s) \<Rightarrow> (Inl e, disk s, None)
             | (Inr u, s) \<Rightarrow> (Inr u, disk s, Some s))"

section \<open>Atomic writes\<close>

text \<open>
  \<open>write_json_atomic\<close> as a step relation over the target file, the temporary file and a program
  counter; a crash may leave any reachable state behind. \<open>text\<close> is the serialised payload, the
  temporary file grows towards it. \<open>Raise\<close> is the \<open>except BaseException\<close> block: it unlinks the
  temporary file, which may itself fail.
\<close>

datatype write_pc = Creating | Writing | Synced | Replaced | Finished | Cleaning | Raised

record file_state =
  target :: "string option"
  temporary :: "string option"
  pc :: write_pc

inductive write_step :: "string \<Rightarrow> file_state \<Rightarrow> file_state \<Rightarrow> bool" for contents :: string where
  do_create: "pc s = Creating \<Longrightarrow> write_step contents s (s\<lparr>temporary := Some [], pc := Writing\<rparr>)"
| create_fails_step: "pc s = Creating \<Longrightarrow> write_step contents s (s\<lparr>pc := Raised\<rparr>)"
| do_write: "pc s = Writing \<Longrightarrow> temporary s = Some (take m contents) \<Longrightarrow> m \<le> n \<Longrightarrow>
    write_step contents s (s\<lparr>temporary := Some (take n contents)\<rparr>)"
| do_sync: "pc s = Writing \<Longrightarrow> temporary s = Some contents \<Longrightarrow> write_step contents s (s\<lparr>pc := Synced\<rparr>)"
| do_replace: "pc s = Synced \<Longrightarrow>
    write_step contents s (s\<lparr>target := temporary s, temporary := None, pc := Replaced\<rparr>)"
| sync_directory_step: "pc s = Replaced \<Longrightarrow> write_step contents s (s\<lparr>pc := Finished\<rparr>)"
| do_fails: "pc s \<in> {Writing, Synced, Replaced} \<Longrightarrow> write_step contents s (s\<lparr>pc := Cleaning\<rparr>)"
| do_unlink: "pc s = Cleaning \<Longrightarrow> write_step contents s (s\<lparr>temporary := None, pc := Raised\<rparr>)"
| unlink_fails_step: "pc s = Cleaning \<Longrightarrow> write_step contents s (s\<lparr>pc := Raised\<rparr>)"

inductive write_reach :: "string \<Rightarrow> string option \<Rightarrow> file_state \<Rightarrow> bool" for contents :: string and old :: "string option" where
  at_start: "write_reach contents old \<lparr>target = old, temporary = None, pc = Creating\<rparr>"
| more: "write_reach contents old s \<Longrightarrow> write_step contents s s' \<Longrightarrow> write_reach contents old s'"

inductive_cases write_stepE: "write_step contents s s'"

section \<open>Reading a Logbook\<close>

text \<open>\<open>PureWindowsPath\<close> with drive letters; UNC drives are not modelled.\<close>

definition has_drive :: "string \<Rightarrow> bool" where
  "has_drive s = (2 \<le> length s \<and> s ! 1 = CHR '':'')"

definition windows_path :: "string \<Rightarrow> path" where
  "windows_path s =
     (let t = map (\<lambda>c. if c = CHR ''/'' then backslash else c) s;
          drive = (if has_drive t then take 2 t else []);
          rest = drop (length drive) t;
          rooted = (rest \<noteq> [] \<and> hd rest = backslash);
          anchor = drive @ (if rooted then [backslash] else [])
      in \<lparr>absolute = (drive \<noteq> [] \<and> rooted),
          parts = (if anchor = [] then [] else [anchor]) @ plain_parts (split_on backslash rest)\<rparr>)"

definition lower :: "char \<Rightarrow> char" where
  "lower c = (if 65 \<le> code_point c \<and> code_point c \<le> 90 then char_of (code_point c + 32) else c)"

definition relative_to :: "bool \<Rightarrow> path \<Rightarrow> path \<Rightarrow> bool" where
  "relative_to windows p q =
     (let f = (if windows then map (map lower) else id)
      in absolute p = absolute q \<and> is_prefix (f (parts q)) (f (parts p)))"

definition normalize_v1_reference :: "string \<Rightarrow> string \<Rightarrow> exn + string list" where
  "normalize_v1_reference v recorded_root =
     (let windows = (backslash \<in> set v \<or> backslash \<in> set recorded_root \<or> has_drive v \<or> has_drive recorded_root);
          mk = (if windows then windows_path else posix_path);
          reference = mk v; base = mk recorded_root
      in if absolute reference then
           (if \<not> absolute base \<or> \<not> relative_to windows reference base
            then Inl (ConfigError (''historical index reference is outside its Logbook: '' @ v))
            else Inr (drop (length (parts base)) (parts reference)))
         else if \<not> absolute base \<and> relative_to windows reference base
         then Inr (drop (length (parts base)) (parts reference))
         else Inr (parts reference))"

definition escapes :: "string \<Rightarrow> exn" where
  "escapes v = ConfigError (''index reference escapes the Logbook: '' @ py_repr v)"

definition resolve_index_reference ::
    "resolver \<Rightarrow> string list \<Rightarrow> string \<Rightarrow> string option \<Rightarrow> exn + string list" where
  "resolve_index_reference resolve base v recorded_root =
     bnd (case recorded_root of
            Some r \<Rightarrow> normalize_v1_reference v r
          | None \<Rightarrow>
              if backslash \<in> set v
              then Inl (ConfigError (''index reference must use forward slashes: '' @ py_repr v))
              else if absolute (posix_path v)
              then Inl (ConfigError (''index reference must be relative: '' @ py_repr v))
              else Inr (parts (posix_path v))) (\<lambda>reference.
       if reference = [] \<or> ''..'' \<in> set reference then Inl (escapes v)
       else
         let resolved = resolve (base @ reference)
         in if \<not> is_prefix base resolved \<or> resolved = base then Inl (escapes v) else Inr resolved)"

datatype logbook_state = CURRENT_INDEXED | HISTORICAL_V1 | LEGACY_SCORECARD_ONLY | BROKEN

record artifact_reference =
  artifact_name :: string
  artifact_path :: "string list"
  recorded_present :: bool

record child_reference =
  child_path :: "string list"
  recorded_status :: string

record logbook_snapshot =
  snapshot_state :: logbook_state
  snapshot_schema :: "string option"
  snapshot_run_kind :: "string option"
  snapshot_status :: "string option"
  snapshot_stage :: "string option"
  snapshot_started_at :: "string option"
  snapshot_updated_at :: "string option"
  snapshot_terminal_at :: "string option"
  snapshot_config_path :: "string option"
  snapshot_regatta :: "string option"
  snapshot_course :: "string option"
  snapshot_comparisons :: "comparison_reference list"
  snapshot_artifacts :: "artifact_reference list"
  snapshot_children :: "child_reference list"
  snapshot_error :: "string option"

definition broken_logbook :: "string \<Rightarrow> logbook_snapshot" where
  "broken_logbook m =
     \<lparr>snapshot_state = BROKEN, snapshot_schema = None, snapshot_run_kind = None, snapshot_status = None,
      snapshot_stage = None, snapshot_started_at = None, snapshot_updated_at = None,
      snapshot_terminal_at = None, snapshot_config_path = None, snapshot_regatta = None,
      snapshot_course = None, snapshot_comparisons = [], snapshot_artifacts = [],
      snapshot_children = [], snapshot_error = Some m\<rparr>"

text \<open>\<open>d[k]\<close>, \<open>str(d[k])\<close> and iteration over a value the schema has checked to be a list or dict.\<close>

definition item :: "json \<Rightarrow> string \<Rightarrow> exn + json" where
  "item v k = (case v of
     JObj d \<Rightarrow> (case map_of d k of None \<Rightarrow> Inl (KeyError k) | Some w \<Rightarrow> Inr w)
   | _ \<Rightarrow> Inl (TypeError ''object is not subscriptable by a string''))"

definition py_str :: "(json \<Rightarrow> string) \<Rightarrow> json \<Rightarrow> string" where
  "py_str str v = (case v of JStr s \<Rightarrow> s | _ \<Rightarrow> str v)"

definition str_item :: "(json \<Rightarrow> string) \<Rightarrow> json \<Rightarrow> string \<Rightarrow> exn + string" where
  "str_item str v k = bnd (item v k) (\<lambda>w. Inr (py_str str w))"

definition optional_string :: "(json \<Rightarrow> string) \<Rightarrow> json \<Rightarrow> string option" where
  "optional_string str v = (if v = JNull then None else Some (py_str str v))"

definition elements :: "json \<Rightarrow> exn + json list" where
  "elements v = (case v of JList xs \<Rightarrow> Inr xs | _ \<Rightarrow> Inl (TypeError ''object is not a list''))"

definition dict_items :: "json \<Rightarrow> exn + json_obj" where
  "dict_items v = (case v of JObj d \<Rightarrow> Inr d | _ \<Rightarrow> Inl (AttributeError ''object has no attribute items''))"

definition read_artifact ::
    "resolver \<Rightarrow> (json \<Rightarrow> string) \<Rightarrow> string list \<Rightarrow> string option \<Rightarrow> string \<times> json \<Rightarrow> exn + artifact_reference" where
  "read_artifact resolve str base recorded_root = (\<lambda>(name, v).
     bnd (str_item str v ''path'') (\<lambda>p.
     bnd (resolve_index_reference resolve base p recorded_root) (\<lambda>resolved.
     bnd (item v ''present'') (\<lambda>present.
     Inr \<lparr>artifact_name = name, artifact_path = resolved, recorded_present = truthy present\<rparr>))))"

definition read_child :: "resolver \<Rightarrow> (json \<Rightarrow> string) \<Rightarrow> string list \<Rightarrow> json \<Rightarrow> exn + child_reference" where
  "read_child resolve str base v =
     bnd (str_item str v ''path'') (\<lambda>p.
     bnd (resolve_index_reference resolve base p None) (\<lambda>resolved.
     bnd (str_item str v ''status'') (\<lambda>status.
     Inr \<lparr>child_path = resolved, recorded_status = status\<rparr>)))"

definition read_comparison :: "(json \<Rightarrow> string) \<Rightarrow> json \<Rightarrow> exn + comparison_reference" where
  "read_comparison str v =
     bnd (str_item str v ''name'') (\<lambda>name.
     bnd (str_item str v ''course'') (\<lambda>course.
     bnd (item v ''vessels'') (\<lambda>w. bnd (elements w) (\<lambda>vessels.
     Inr \<lparr>comparison_name = name, comparison_course = course, comparison_vessels = map (py_str str) vessels\<rparr>))))"

definition indexed_logbook ::
    "resolver \<Rightarrow> (json \<Rightarrow> string) \<Rightarrow> string list \<Rightarrow> json_obj \<Rightarrow> exn + logbook_snapshot" where
  "indexed_logbook resolve str base d =
     (let doc = JObj d in
     bnd (str_item str doc ''schema'') (\<lambda>schema_name.
     bnd (if schema_name = RUN_INDEX_V2 then Inr None
          else bnd (str_item str doc ''logbook'') (\<lambda>r. Inr (Some r))) (\<lambda>recorded_root.
     bnd (item doc ''artifacts'') (\<lambda>a. bnd (dict_items a) (\<lambda>arts.
     bnd (mapR (read_artifact resolve str base recorded_root) arts) (\<lambda>artifact_refs.
     bnd (if has_key d ''children'' then elements (dget d ''children'') else Inr []) (\<lambda>kids.
     bnd (mapR (read_child resolve str base) kids) (\<lambda>child_refs.
     bnd (str_item str doc ''run_kind'') (\<lambda>run_kind.
     bnd (str_item str doc ''status'') (\<lambda>status.
     bnd (str_item str doc ''updated_at'') (\<lambda>updated_at.
     bnd (str_item str doc ''config_path'') (\<lambda>config_path.
     bnd (str_item str doc ''regatta'') (\<lambda>regatta.
     bnd (str_item str doc ''course'') (\<lambda>course.
     bnd (item doc ''comparisons'') (\<lambda>c. bnd (elements c) (\<lambda>comps.
     bnd (mapR (read_comparison str) comps) (\<lambda>comparison_refs.
     Inr \<lparr>snapshot_state = (if schema_name = RUN_INDEX_V2 then CURRENT_INDEXED else HISTORICAL_V1),
          snapshot_schema = Some schema_name, snapshot_run_kind = Some run_kind, snapshot_status = Some status,
          snapshot_stage = optional_string str (dget d ''stage''),
          snapshot_started_at = optional_string str (dget d ''started_at''),
          snapshot_updated_at = Some updated_at,
          snapshot_terminal_at = optional_string str (dget d ''terminal_at''),
          snapshot_config_path = Some config_path, snapshot_regatta = Some regatta,
          snapshot_course = Some course, snapshot_comparisons = comparison_refs,
          snapshot_artifacts = artifact_refs, snapshot_children = child_refs, snapshot_error = None\<rparr>)))))))))))))))))"

definition LEGACY_ARTIFACT_PATHS :: "(string \<times> string) list" where
  "LEGACY_ARTIFACT_PATHS =
     [(''course_handoff'', ''course-handoff.json''), (''benchmark_scorecard'', ''benchmark-scorecard.json''),
      (''task_attempt_scorecard'', ''task-attempt-scorecard.json''), (''scorecard'', ''scorecard.json''),
      (''smoke_readiness_report'', ''smoke-readiness-report.json''),
      (''benchmark_aggregate'', ''benchmark-aggregate.json''),
      (''real_benchmark_repetitions'', ''real-benchmark-repetitions.json''),
      (''benchmark_grading_collection'', ''benchmark-grading-collection.json''),
      (''benchmark_launch_result'', ''benchmark-launch-result.json''),
      (''real_benchmark_eval'', ''real-benchmark-eval.json''), (''real_smoke_runbook'', ''real-smoke-runbook.json''),
      (''smoke_report'', ''smoke-report.txt'')]"

text \<open>
  What the reader observes of a directory: the index file (whether it exists or is a link, whether
  it resolves inside the Logbook, the outcome of \<open>load_json_object\<close>) and, for a Logbook
  without index, the modification times of the files that exist.
\<close>

record logbook_files =
  is_directory :: bool
  index_exists :: bool
  index_inside :: bool
  index_content :: "exn + json_obj"
  modified :: "string \<Rightarrow> rat option"

text \<open>\<open>is_logbook_candidate\<close>; \<open>_is_file\<close> is \<open>modified \<dots> \<noteq> None\<close>.\<close>

definition is_logbook_candidate :: "logbook_files \<Rightarrow> bool" where
  "is_logbook_candidate files =
     (index_exists files \<or> list_ex (\<lambda>(_, p). modified files p \<noteq> None) LEGACY_ARTIFACT_PATHS)"

definition validate_run_index :: "(string \<Rightarrow> json_obj \<Rightarrow> bool) \<Rightarrow> json_obj \<Rightarrow> exn + unit" where
  "validate_run_index structure d =
     bnd (in_strings (dget d ''schema'') [RUN_INDEX_V1, RUN_INDEX_V2]) (\<lambda>known.
     bnd (ensure known (SchemaError ''run index.schema must be one of the run index schemas'')) (\<lambda>_.
     ensure (structure (py_str (\<lambda>_. []) (dget d ''schema'')) d) (SchemaError ''run index'')))"

definition legacy_snapshot :: "(rat \<Rightarrow> string) \<Rightarrow> logbook_files \<Rightarrow> artifact_reference list \<Rightarrow> logbook_snapshot" where
  "legacy_snapshot isoformat files refs =
     (let found = filter (\<lambda>(_, p). modified files p \<noteq> None) LEGACY_ARTIFACT_PATHS;
          names = map artifact_name refs;
          smoke = (''smoke_readiness_report'' \<in> set names \<and> ''benchmark_scorecard'' \<notin> set names)
       in (broken_logbook [])
            \<lparr>snapshot_state := LEGACY_SCORECARD_ONLY, snapshot_error := None,
             snapshot_run_kind := Some (if smoke then ''real-smoke'' else ''real-benchmark''),
             snapshot_status := Some ''unknown'',
             snapshot_updated_at := Some (isoformat (Max (set (map (\<lambda>(_, p). the (modified files p)) found)))),
             snapshot_artifacts := refs\<rparr>)"

definition legacy_logbook ::
    "resolver \<Rightarrow> (rat \<Rightarrow> string) \<Rightarrow> string list \<Rightarrow> logbook_files \<Rightarrow> exn + logbook_snapshot" where
  "legacy_logbook resolve isoformat base files =
     bnd (mapR (\<lambda>(name, p). bnd (resolve_index_reference resolve base p None) (\<lambda>resolved.
            Inr \<lparr>artifact_name = name, artifact_path = resolved, recorded_present = True\<rparr>))
            (filter (\<lambda>(_, p). modified files p \<noteq> None) LEGACY_ARTIFACT_PATHS)) (\<lambda>refs.
     if refs = [] then Inr (broken_logbook ''no run index or legacy Scorecard artifacts found'')
     else Inr (legacy_snapshot isoformat files refs))"

text \<open>\<open>except (ConfigError, OSError, SchemaValidationError)\<close>: those become a broken snapshot.\<close>

definition catch_broken :: "string \<Rightarrow> bool \<Rightarrow> exn + logbook_snapshot \<Rightarrow> exn + logbook_snapshot" where
  "catch_broken prefix schema_errors r = (case r of
     Inl (ConfigError m) \<Rightarrow> Inr (broken_logbook (prefix @ m))
   | Inl (OSError m) \<Rightarrow> Inr (broken_logbook (prefix @ m))
   | Inl (SchemaError m) \<Rightarrow> if schema_errors then Inr (broken_logbook (prefix @ m)) else r
   | _ \<Rightarrow> r)"

definition read_logbook ::
    "resolver \<Rightarrow> (json \<Rightarrow> string) \<Rightarrow> (rat \<Rightarrow> string) \<Rightarrow> (string \<Rightarrow> json_obj \<Rightarrow> bool) \<Rightarrow> string list
       \<Rightarrow> logbook_files \<Rightarrow> exn + logbook_snapshot" where
  "read_logbook resolve str isoformat structure base files =
     (if \<not> is_directory files then Inr (broken_logbook ''logbook directory not found'')
      else if index_exists files then
        catch_broken ''run index artifact '' True
          (bnd (ensure (index_inside files) (ConfigError ''run index artifact escapes the Logbook'')) (\<lambda>_.
           bnd (index_content files) (\<lambda>d.
           bnd (validate_run_index structure d) (\<lambda>_.
           indexed_logbook resolve str base d))))
      else catch_broken ''could not inspect legacy Logbook '' False (legacy_logbook resolve isoformat base files))"

definition require_logbook :: "exn + logbook_snapshot \<Rightarrow> exn + logbook_snapshot" where
  "require_logbook r = bnd r (\<lambda>snapshot.
     if snapshot_state snapshot = BROKEN
     then Inl (ConfigError (case snapshot_error snapshot of Some m \<Rightarrow> m | None \<Rightarrow> ''broken Logbook''))
     else Inr snapshot)"

section \<open>Commands\<close>

datatype index_command =
    Advance surroundings string
  | Record_child surroundings string string
  | Finish surroundings string "string option"
  | Record_failure surroundings

fun exec_index :: "resolver \<Rightarrow> index_command \<Rightarrow> run_state \<Rightarrow> run_state" where
  "exec_index resolve (Advance env stage) s = snd (advance env stage s)"
| "exec_index resolve (Record_child env p status) s = snd (record_child resolve env p status s)"
| "exec_index resolve (Finish env status stage) s = snd (finish env status stage s)"
| "exec_index resolve (Record_failure env) s = snd (record_failure env s)"

definition run_index :: "resolver \<Rightarrow> run_state \<Rightarrow> index_command list \<Rightarrow> run_state" where
  "run_index resolve s cs = foldl (\<lambda>s c. exec_index resolve c s) s cs"

section \<open>Documents\<close>

lemma dget_update [simp]: "dget (AList.update k v d) j = (if j = k then v else dget d j)"
  by (simp add: dget_def)

lemma dget_merged: "dget (merged d updates) k = (case map_of (rev updates) k of None \<Rightarrow> dget d k | Some v \<Rightarrow> v)"
  unfolding merged_def
proof (induction updates arbitrary: d)
  case (Cons u updates)
  then show ?case by (cases u) (auto simp: map_add_def split: option.splits)
qed simp

lemma dget_index_document:
  assumes "k \<noteq> ''artifacts''" and "k \<noteq> ''children''"
  shows "dget (index_document env updates l) k
    = (case map_of (rev updates) k of None \<Rightarrow> dget (document l) k | Some v \<Rightarrow> v)"
  using assms by (simp add: index_document_def Let_def dget_merged split: option.splits)

lemma index_document_artifacts:
  "dget (index_document env updates l) ''artifacts'' = JObj (map (\<lambda>(name, ps). (name, JObj
      [(''path'', JStr (as_posix ps)), (''present'', JBool (exists_path env (logbook_root l @ ps)))])) (artifact_paths l))"
  by (simp add: index_document_def Let_def split: option.splits)

lemma index_document_children:
  "child_statuses l = Some children \<Longrightarrow> dget (index_document env updates l) ''children''
    = JList (map (\<lambda>(ps, status). JObj [(''path'', JStr (as_posix ps)), (''status'', JStr status)]) children)"
  by (simp add: index_document_def Let_def)

lemma persist_cases:
  obtains (invalid) e where "persist env updates s = (Inl e, s)"
  | (sync_failed) d e where "persist env updates s = (Inl e, s\<lparr>disk := Some d\<rparr>)"
      "d = index_document env updates (memory s)" "valid_index env d"
  | (written) d where "persist env updates s = (Inr (), s\<lparr>memory := (memory s)\<lparr>document := d\<rparr>, disk := Some d\<rparr>)"
      "d = index_document env updates (memory s)" "valid_index env d"
  by (cases "valid_index env (index_document env updates (memory s))"; cases "outcome env")
    (auto simp: persist_def Let_def)

section \<open>A terminal index is final\<close>

definition terminal_as :: "json \<Rightarrow> json \<Rightarrow> run_state \<Rightarrow> bool" where
  "terminal_as status stage s \<longleftrightarrow> status \<noteq> JStr ''running'' \<and> status_of s = status
     \<and> dget (document (memory s)) ''stage'' = stage
     \<and> (\<exists>d. disk s = Some d \<and> dget d ''status'' = status \<and> dget d ''stage'' = stage)"

lemma terminal_step: "terminal_as status stage s \<Longrightarrow> terminal_as status stage (exec_index resolve c s)"
proof (cases c)
  case (Record_child env p st)
  assume t: "terminal_as status stage s"
  show ?thesis
  proof (cases "\<exists>children r. child_statuses (memory s) = Some children \<and> st \<in> set CHILD_STATES
      \<and> relative_logbook_path resolve (logbook_root (memory s)) p ''child Logbook'' = Inr r")
    case True
    then obtain children r where "child_statuses (memory s) = Some children" "st \<in> set CHILD_STATES"
      "relative_logbook_path resolve (logbook_root (memory s)) p ''child Logbook'' = Inr r" by blast
    then have eq: "exec_index resolve c s = snd (persist env [(''updated_at'', JStr (now env))]
       (s\<lparr>memory := (memory s)\<lparr>child_statuses := Some (AList.update r st children)\<rparr>\<rparr>))"
      by (simp add: Record_child record_child_def)
    show ?thesis unfolding eq using t
      by (cases rule: persist_cases [of env "[(''updated_at'', JStr (now env))]"
            "s\<lparr>memory := (memory s)\<lparr>child_statuses := Some (AList.update r st children)\<rparr>\<rparr>"])
        (auto simp: terminal_as_def status_of_def dget_index_document)
  next
    case False
    then have "exec_index resolve c s = s"
      by (auto simp: Record_child record_child_def split: option.splits sum.splits)
    then show ?thesis using t by simp
  qed
qed (auto simp: terminal_as_def status_of_def advance_def finish_def record_failure_def)

interpretation terminal: invariant_machine "exec_index resolve" "terminal_as status stage"
  for resolve status stage
  by unfold_locales (rule terminal_step)

section \<open>The index on disk is always valid\<close>

definition disk_ok :: "(json_obj \<Rightarrow> bool) \<Rightarrow> run_state \<Rightarrow> bool" where
  "disk_ok valid s \<longleftrightarrow> (\<exists>d. disk s = Some d \<and> valid d)"

fun command_valid :: "index_command \<Rightarrow> json_obj \<Rightarrow> bool" where
  "command_valid (Advance env _) = valid_index env"
| "command_valid (Record_child env _ _) = valid_index env"
| "command_valid (Finish env _ _) = valid_index env"
| "command_valid (Record_failure env) = valid_index env"

lemma persist_disk_ok: "disk_ok (valid_index env) s \<Longrightarrow> disk_ok (valid_index env) (snd (persist env updates s))"
  by (cases rule: persist_cases [of env updates s]) (auto simp: disk_ok_def)

lemma disk_step: "command_valid c = valid \<Longrightarrow> disk_ok valid s \<Longrightarrow> disk_ok valid (exec_index resolve c s)"
proof (cases c)
  case (Record_child env p st)
  assume "command_valid c = valid" "disk_ok valid s"
  moreover from this have "disk_ok valid (s\<lparr>memory := (memory s)\<lparr>child_statuses := x\<rparr>\<rparr>)" for x
    by (simp add: disk_ok_def)
  ultimately show ?thesis using Record_child
    by (auto simp: record_child_def intro!: persist_disk_ok split: option.splits sum.splits)
next
  case (Record_failure env)
  assume c: "command_valid c = valid" "disk_ok valid s"
  have "disk_ok valid (snd (finish env ''failed'' None s))"
    using c Record_failure by (auto simp: finish_def intro!: persist_disk_ok)
  then show ?thesis using c Record_failure
    by (auto simp: record_failure_def split: prod.splits sum.splits)
qed (auto simp: advance_def finish_def intro!: persist_disk_ok)

text \<open>Commands that share one validator, as all operations of a process do.\<close>

interpretation valid_disk: invariant_machine
    "\<lambda>c s. if command_valid c = valid then exec_index resolve c s else s" "disk_ok valid" for resolve valid
  by unfold_locales (simp add: disk_step)


section \<open>Crash safety of the atomic write\<close>

definition write_inv :: "string \<Rightarrow> string option \<Rightarrow> file_state \<Rightarrow> bool" where
  "write_inv contents old s \<longleftrightarrow>
     (pc s \<in> {Creating, Writing, Synced} \<longrightarrow> target s = old)
   \<and> (pc s \<in> {Replaced, Finished} \<longrightarrow> target s = Some contents)
   \<and> (target s = old \<or> target s = Some contents)
   \<and> (pc s = Synced \<longrightarrow> temporary s = Some contents)
   \<and> (pc s \<in> {Replaced, Finished} \<longrightarrow> temporary s = None)
   \<and> (case temporary s of None \<Rightarrow> True | Some t \<Rightarrow> \<exists>n. t = take n contents)"

lemma write_inv_step: "write_step contents s s' \<Longrightarrow> write_inv contents old s \<Longrightarrow> write_inv contents old s'"
  by (induction rule: write_step.induct) (auto simp: write_inv_def split: option.splits)

lemma write_reach_inv: "write_reach contents old s \<Longrightarrow> write_inv contents old s"
proof (induction rule: write_reach.induct)
  case at_start
  then show ?case by (simp add: write_inv_def)
next
  case (more s s')
  then show ?case using write_inv_step by blast
qed

section \<open>References stay inside\<close>

definition inside :: "string list \<Rightarrow> string list \<Rightarrow> bool" where
  "inside base p \<longleftrightarrow> is_prefix base p \<and> p \<noteq> base"

lemma resolve_index_reference_inside:
  "resolve_index_reference resolve base v r = Inr p \<Longrightarrow> inside base p"
  by (auto simp: resolve_index_reference_def bnd_eq_Inr Let_def inside_def split: if_splits)

lemma read_artifact_inside: "read_artifact resolve str base r nv = Inr a \<Longrightarrow> inside base (artifact_path a)"
  by (cases nv) (auto simp: read_artifact_def bnd_eq_Inr dest: resolve_index_reference_inside)

lemma read_child_inside: "read_child resolve str base v = Inr c \<Longrightarrow> inside base (child_path c)"
  by (auto simp: read_child_def bnd_eq_Inr dest: resolve_index_reference_inside)

lemma mapR_all: "mapR f xs = Inr ys \<Longrightarrow> (\<And>x y. f x = Inr y \<Longrightarrow> P y) \<Longrightarrow> \<forall>y\<in>set ys. P y"
proof -
  assume "mapR f xs = Inr ys" and P: "\<And>x y. f x = Inr y \<Longrightarrow> P y"
  then have "list_all2 (\<lambda>x y. f x = Inr y) xs ys" by (simp add: mapR_eq_Inr)
  then show ?thesis by (induction rule: list_all2_induct) (auto dest: P)
qed

definition snapshot_inside :: "string list \<Rightarrow> logbook_snapshot \<Rightarrow> bool" where
  "snapshot_inside base s \<longleftrightarrow> (\<forall>a\<in>set (snapshot_artifacts s). inside base (artifact_path a))
     \<and> (\<forall>c\<in>set (snapshot_children s). inside base (child_path c))"

lemma broken_inside [simp]: "snapshot_inside base (broken_logbook m)"
  by (simp add: snapshot_inside_def broken_logbook_def)

lemma indexed_inside: "indexed_logbook resolve str base d = Inr s \<Longrightarrow> snapshot_inside base s"
  unfolding indexed_logbook_def Let_def bnd_eq_Inr snapshot_inside_def
  by (elim exE conjE) (auto dest: mapR_all [where P = "\<lambda>a. inside base (artifact_path a)"]
      mapR_all [where P = "\<lambda>c. inside base (child_path c)"] read_artifact_inside read_child_inside)

lemma broken_fields [simp]: "snapshot_children (broken_logbook m) = []" "snapshot_state (broken_logbook m) = BROKEN"
    "snapshot_error (broken_logbook m) = Some m" "snapshot_artifacts (broken_logbook m) = []"
  by (simp_all add: broken_logbook_def)

lemma legacy_artifact_inside:
  assumes "bnd (resolve_index_reference resolve base p None) (\<lambda>resolved.
            Inr \<lparr>artifact_name = name, artifact_path = resolved, recorded_present = True\<rparr>) = Inr a"
  shows "inside base (artifact_path a)"
proof -
  obtain x where x: "resolve_index_reference resolve base p None = Inr x"
    and a: "a = \<lparr>artifact_name = name, artifact_path = x, recorded_present = True\<rparr>"
    using assms by (auto simp: bnd_eq_Inr)
  show ?thesis using resolve_index_reference_inside [OF x] by (simp add: a)
qed

lemma legacy_inside:
  assumes "legacy_logbook resolve isoformat base files = Inr s"
  shows "snapshot_inside base s"
proof -
  define f where "f = (\<lambda>(name, p). bnd (resolve_index_reference resolve base p None) (\<lambda>resolved.
            Inr \<lparr>artifact_name = name, artifact_path = resolved, recorded_present = True\<rparr>))"
  have f: "f nv = Inr a \<Longrightarrow> inside base (artifact_path a)" for nv a
    by (cases nv) (simp add: f_def legacy_artifact_inside)
  obtain refs where refs: "mapR f (filter (\<lambda>(_, p). modified files p \<noteq> None) LEGACY_ARTIFACT_PATHS) = Inr refs"
    and s: "snapshot_artifacts s = refs \<and> snapshot_children s = [] \<or> (\<exists>m. s = broken_logbook m)"
  proof -
    from assms obtain refs where r: "mapR f (filter (\<lambda>(_, p). modified files p \<noteq> None) LEGACY_ARTIFACT_PATHS) = Inr refs"
      and k: "(if refs = [] then Inr (broken_logbook ''no run index or legacy Scorecard artifacts found'')
        else Inr (legacy_snapshot isoformat files refs)) = (Inr s :: exn + logbook_snapshot)"
      unfolding legacy_logbook_def Let_def f_def [symmetric] bnd_eq_Inr
      by (elim exE conjE) (rule that)
    show thesis
    proof (cases "refs = []")
      case True
      with k r show ?thesis by (intro that [of refs]) auto
    next
      case False
      with k have "s = legacy_snapshot isoformat files refs" by simp
      then show ?thesis
        by (intro that [OF r] disjI1) (simp add: legacy_snapshot_def broken_logbook_def)
    qed
  qed
  have i: "\<forall>a\<in>set refs. inside base (artifact_path a)"
    by (rule mapR_all [OF refs]) (rule f)
  from s show ?thesis
  proof
    assume "snapshot_artifacts s = refs \<and> snapshot_children s = []"
    with i show ?thesis by (simp add: snapshot_inside_def)
  next
    assume "\<exists>m. s = broken_logbook m"
    then show ?thesis by (elim exE) (simp add: snapshot_inside_def broken_logbook_def)
  qed
qed

lemma catch_broken_eq_Inr:
  "catch_broken prefix se r = Inr s \<Longrightarrow> r = Inr s \<or> (\<exists>m. s = broken_logbook m)"
  by (cases r; cases "projl r") (auto simp: catch_broken_def split: if_splits)

section \<open>Written references are readable\<close>

definition plain_part :: "string \<Rightarrow> bool" where
  "plain_part p \<longleftrightarrow> p \<noteq> [] \<and> p \<noteq> ''.'' \<and> p \<noteq> ''..'' \<and> CHR ''/'' \<notin> set p \<and> backslash \<notin> set p"

text \<open>What \<open>Path.resolve\<close> promises (and that no link leads to a name with a backslash).\<close>

definition resolver_ok :: "resolver \<Rightarrow> bool" where
  "resolver_ok resolve \<longleftrightarrow> (\<forall>p. resolve (resolve p) = resolve p \<and> (\<forall>x\<in>set (resolve p). plain_part x))"

lemma relative_logbook_path_sound:
  assumes "resolver_ok resolve" and "relative_logbook_path resolve base v label = Inr ps"
  shows "ps \<noteq> [] \<and> (\<forall>p\<in>set ps. plain_part p) \<and> resolve (base @ ps) = base @ ps"
proof -
  obtain q where "is_prefix base (resolve q)" "resolve q \<noteq> base" "ps = drop (length base) (resolve q)"
    using assms(2) by (auto simp: relative_logbook_path_def Let_def split: if_splits)
  moreover from this have "resolve q = base @ ps"
    by (metis append_take_drop_id is_prefix_def)
  ultimately show ?thesis using assms(1) unfolding resolver_ok_def by (metis Un_iff append_Nil2 set_append)
qed

lemma posix_path_as_posix:
  assumes "ps \<noteq> []" and "\<forall>p\<in>set ps. plain_part p"
  shows "posix_path (as_posix ps) = \<lparr>absolute = False, parts = ps\<rparr>" and "backslash \<notin> set (as_posix ps)"
proof -
  have s: "split_on CHR ''/'' (join ''/'' ps) = ps"
    using assms by (intro split_on_join) (auto simp: plain_part_def)
  obtain p qs where ps: "ps = p # qs" using assms(1) by (cases ps) auto
  have p: "p \<noteq> []" "CHR ''/'' \<notin> set p" using assms(2) by (auto simp: ps plain_part_def)
  have "hd (join ''/'' ps) = hd p" using p by (cases qs) (auto simp: ps)
  moreover have "hd p \<noteq> CHR ''/''" using p by (metis hd_in_set)
  moreover have "plain_parts ps = ps" using assms(2) by (auto simp: plain_parts_def plain_part_def filter_id_conv)
  ultimately show "posix_path (as_posix ps) = \<lparr>absolute = False, parts = ps\<rparr>"
    using assms(1) s by (simp add: posix_path_def as_posix_def)
  have "set (join ''/'' qs) \<subseteq> insert CHR ''/'' (\<Union>(set ` set qs))" for qs
    by (induction "''/''" qs rule: join.induct) auto
  moreover have "backslash \<noteq> CHR ''/''" unfolding backslash_def by code_simp
  ultimately show "backslash \<notin> set (as_posix ps)"
    using assms by (auto simp: as_posix_def plain_part_def dest!: subsetD)
qed

lemma resolve_written:
  assumes "ps \<noteq> []" and "\<forall>p\<in>set ps. plain_part p" and "resolve (base @ ps) = base @ ps"
  shows "resolve_index_reference resolve base (as_posix ps) None = Inr (base @ ps)"
proof -
  have "''..'' \<notin> set ps" using assms(2) by (auto simp: plain_part_def)
  then show ?thesis using assms posix_path_as_posix [OF assms(1,2)]
    by (simp add: resolve_index_reference_def Let_def is_prefix_def)
qed


section \<open>Properties\<close>

text \<open>
  C10. A terminal run index is final: once its status is not \<open>running\<close> (in memory and on disk),
  no sequence of operations, whatever fails in between, changes the status or the stage, neither
  in memory nor on disk.
\<close>

theorem terminal_index_is_final:
  assumes "status_of s = JStr status" and "status \<noteq> ''running''" and "disk s = Some (document (memory s))"
  shows "\<exists>d. disk (run_index resolve s cs) = Some d
    \<and> dget d ''status'' = JStr status \<and> status_of (run_index resolve s cs) = JStr status
    \<and> dget d ''stage'' = dget (document (memory s)) ''stage''
    \<and> dget (document (memory (run_index resolve s cs))) ''stage'' = dget (document (memory s)) ''stage''"
proof -
  have "terminal_as (JStr status) (dget (document (memory s)) ''stage'') s"
    using assms by (simp add: terminal_as_def status_of_def)
  then have "terminal_as (JStr status) (dget (document (memory s)) ''stage'') (run_index resolve s cs)"
    unfolding run_index_def by (rule terminal.run_inv)
  then show ?thesis by (auto simp: terminal_as_def)
qed

definition sample_surroundings :: surroundings where
  "sample_surroundings = \<lparr>now = ''t'', exists_path = (\<lambda>_. False), valid_index = (\<lambda>_. True), outcome = Written\<rparr>"

definition sample_run :: run_state where
  "sample_run =
     (let d = [(''status'', JStr ''complete''), (''stage'', JStr ''done'')]
      in \<lparr>memory = \<lparr>logbook_root = [''l''], artifact_paths = [], child_statuses = None, document = d\<rparr>, disk = Some d\<rparr>)"

theorem terminal_index_is_final_witness:
  "status_of sample_run = JStr ''complete''
     \<and> (\<exists>d. disk (run_index (\<lambda>p. p) sample_run
          [Advance sample_surroundings ''again'', Finish sample_surroundings ''failed'' None]) = Some d
        \<and> dget d ''status'' = JStr ''complete'')"
proof -
  have s: "status_of sample_run = JStr ''complete''" "disk sample_run = Some (document (memory sample_run))"
    by (simp_all add: sample_run_def status_of_def Let_def)
  from terminal_index_is_final [OF s(1) _ s(2)] s(1) show ?thesis by simp blast
qed

text \<open>
  C11. The index on disk is schema-valid at all times: whatever operations run under one validator,
  and wherever they fail, the file is absent or holds a document the validator accepted.
\<close>

theorem disk_index_always_valid:
  assumes "start_run_index resolve env base config_path kind regatta course comparisons arts old
      = (Inr (), d, Some s)"
    and "\<forall>c\<in>set cs. command_valid c = valid_index env"
  shows "\<exists>d. disk (run_index resolve s cs) = Some d \<and> valid_index env d"
proof -
  let ?exec = "\<lambda>s c. if command_valid c = valid_index env then exec_index resolve c s else s"
  have "disk_ok (valid_index env) s"
    using assms(1) by (auto simp: start_run_index_def Let_def persist_def disk_ok_def
        split: sum.splits prod.splits if_splits write_outcome.splits)
  then have "disk_ok (valid_index env) (foldl ?exec s cs)" by (rule valid_disk.run_inv)
  moreover have "foldl ?exec s cs = run_index resolve s cs"
    unfolding run_index_def using assms(2) by (intro foldl_cong) auto
  ultimately show ?thesis by (simp add: disk_ok_def)
qed

theorem disk_index_always_valid_witness:
  "\<exists>d s. start_run_index (\<lambda>p. p) sample_surroundings [''l''] ''c'' ''real-smoke'' ''r'' ''c'' [] [] None = (Inr (), d, Some s)
     \<and> disk (run_index (\<lambda>p. p) s [Finish sample_surroundings ''complete'' None]) \<noteq> None"
proof -
  obtain d s where s: "start_run_index (\<lambda>p. p) sample_surroundings [''l''] ''c'' ''real-smoke'' ''r'' ''c'' [] [] None
      = (Inr (), d, Some s)"
    by (simp add: start_run_index_def persist_def sample_surroundings_def Let_def)
  have "\<forall>c\<in>set [Finish sample_surroundings ''complete'' None]. command_valid c = valid_index sample_surroundings"
    by simp
  from disk_index_always_valid [OF s this] s show ?thesis by auto
qed

text \<open>
  C21. The atomic write is crash-safe: in every reachable state, hence wherever it is interrupted,
  the target is the old file or the complete new contents, never a part of it; it finishes only
  with the new contents in place and no temporary file.
\<close>

theorem atomic_write_crash_safe:
  assumes "write_reach contents old s"
  shows "(target s = old \<or> target s = Some contents)
    \<and> (pc s = Finished \<longrightarrow> target s = Some contents \<and> temporary s = None)
    \<and> (\<forall>t. temporary s = Some t \<longrightarrow> (\<exists>n. t = take n contents))"
  using write_reach_inv [OF assms] by (auto simp: write_inv_def)

theorem atomic_write_crash_safe_witness:
  "write_reach ''ab'' None \<lparr>target = None, temporary = Some ''a'', pc = Writing\<rparr>
     \<and> (None = (None :: string option) \<or> None = Some ''ab'')"
proof -
  have 0: "write_reach ''ab'' None \<lparr>target = None, temporary = None, pc = Creating\<rparr>" by (rule at_start)
  have 1: "write_reach ''ab'' None \<lparr>target = None, temporary = Some (take 0 ''ab''), pc = Writing\<rparr>"
    using more [OF 0 do_create] by simp
  have 2: "write_reach ''ab'' None \<lparr>target = None, temporary = Some (take 1 ''ab''), pc = Writing\<rparr>"
    using more [OF 1 do_write [of _ 0 _ 1]] by simp
  from atomic_write_crash_safe [OF 2] 2 show ?thesis by simp
qed

text \<open>
  C20. No reference leaves the Logbook: every artifact and child path of a snapshot, read from a
  current, a historical or a legacy Logbook and with symbolic links resolved, lies strictly
  below the Logbook's directory.
\<close>

theorem read_references_inside:
  assumes "read_logbook resolve str isoformat structure base files = Inr s"
  shows "(\<forall>a\<in>set (snapshot_artifacts s). is_prefix base (artifact_path a) \<and> artifact_path a \<noteq> base)
    \<and> (\<forall>c\<in>set (snapshot_children s). is_prefix base (child_path c) \<and> child_path c \<noteq> base)"
proof -
  have "snapshot_inside base s"
    using assms unfolding read_logbook_def
    by (auto simp: bnd_eq_Inr split: if_splits dest!: catch_broken_eq_Inr indexed_inside legacy_inside)
  then show ?thesis by (simp add: snapshot_inside_def inside_def)
qed

definition sample_files :: logbook_files where
  "sample_files = \<lparr>is_directory = True, index_exists = False, index_inside = True,
     index_content = Inl (OSError []), modified = (\<lambda>p. if p = ''scorecard.json'' then Some 1 else None)\<rparr>"

theorem read_references_inside_witness:
  "\<exists>s. read_logbook (\<lambda>p. p) (\<lambda>_. []) (\<lambda>_. ''t'') (\<lambda>_ _. True) [''l''] sample_files = Inr s
     \<and> map artifact_path (snapshot_artifacts s) = [[''l'', ''scorecard.json'']]
     \<and> (\<forall>a\<in>set (snapshot_artifacts s). is_prefix [''l''] (artifact_path a))"
proof -
  have p: "posix_path ''scorecard.json'' = \<lparr>absolute = False, parts = [''scorecard.json'']\<rparr>"
    by code_simp
  have b: "(backslash \<in> set ''scorecard.json'') = False" by code_simp
  have r: "resolve_index_reference (\<lambda>p. p) [''l''] ''scorecard.json'' None = Inr [''l'', ''scorecard.json'']"
    unfolding resolve_index_reference_def b by (simp add: p is_prefix_def escapes_def Let_def)
  obtain s where s: "read_logbook (\<lambda>p. p) (\<lambda>_. []) (\<lambda>_. ''t'') (\<lambda>_ _. True) [''l''] sample_files = Inr s"
    and a: "map artifact_path (snapshot_artifacts s) = [[''l'', ''scorecard.json'']]"
    by (simp add: read_logbook_def sample_files_def legacy_logbook_def LEGACY_ARTIFACT_PATHS_def
        r catch_broken_def Let_def legacy_snapshot_def broken_logbook_def)
  have i: "\<forall>a\<in>set (snapshot_artifacts s). is_prefix [''l''] (artifact_path a)"
    using read_references_inside [OF s] by simp
  show ?thesis by (intro exI [of _ s] conjI s a i)
qed

text \<open>
  A run index whose \<open>schema\<close> is a list or an object makes \<open>read_logbook\<close> raise \<open>TypeError\<close>
  instead of returning a broken snapshot: the value is looked up in a set before its type is
  checked, and \<open>TypeError\<close> is not among the exceptions caught.
\<close>

theorem unhashable_schema_escapes:
  "read_logbook resolve str isoformat structure base
     \<lparr>is_directory = True, index_exists = True, index_inside = True,
      index_content = Inr ((''schema'', JList xs) # d), modified = m\<rparr> = Inl (unhashable ''list'')"
  by (simp add: read_logbook_def validate_run_index_def in_strings_def unhashable_def catch_broken_def)

end
