(* ===== verification/CourseRegistry.thy ===== *)
theory CourseRegistry
  imports Selection
begin

text \<open>
  \<open>src/yacht/courses/registry.py\<close>: the tables of course and evaluator adapters and their lookups.
  Every entry is a frozen dataclass; the fields and the pure methods are modelled, the methods
  that write files delegate to other modules.
\<close>

record course_entry =
  course_kind :: string
  course_display_name :: string
  course_harnesses :: "string list"
  course_native_rollout :: bool

definition swe_bench_course :: course_entry where
  "swe_bench_course = \<lparr>course_kind = ''swe-bench'', course_display_name = ''SWE-bench'',
     course_harnesses = [''docker''], course_native_rollout = False\<rparr>"

definition terminal_bench_course :: course_entry where
  "terminal_bench_course = \<lparr>course_kind = ''terminal-bench'', course_display_name = ''Terminal-Bench'',
     course_harnesses = [''harbor''], course_native_rollout = True\<rparr>"

definition livecodebench_course :: course_entry where
  "livecodebench_course = \<lparr>course_kind = ''livecodebench'', course_display_name = ''LiveCodeBench'',
     course_harnesses = [''docker''], course_native_rollout = False\<rparr>"

definition COURSE_ADAPTERS :: "(string \<times> course_entry) list" where
  "COURSE_ADAPTERS =
     [(''aider-polyglot'', terminal_bench_course\<lparr>course_kind := ''aider-polyglot'', course_display_name := ''Aider Polyglot''\<rparr>),
      (''custom-eval'', terminal_bench_course\<lparr>course_kind := ''custom-eval'', course_display_name := ''Custom eval''\<rparr>),
      (''livecodebench'', livecodebench_course),
      (''swe-bench'', swe_bench_course),
      (''terminal-bench'', terminal_bench_course)]"

record evaluator_entry =
  evaluator_kind :: string
  evaluator_display_name :: string
  grading_schema :: string

definition EVALUATOR_ADAPTERS :: "(string \<times> evaluator_entry) list" where
  "EVALUATOR_ADAPTERS =
     [(''aider-polyglot'', \<lparr>evaluator_kind = ''aider-polyglot'', evaluator_display_name = ''Aider Polyglot'',
         grading_schema = ''yacht.aider-polyglot-grading.v1''\<rparr>),
      (''custom-eval'', \<lparr>evaluator_kind = ''custom-eval'', evaluator_display_name = ''Custom eval'',
         grading_schema = ''yacht.custom-eval-grading.v1''\<rparr>),
      (''livecodebench'', \<lparr>evaluator_kind = ''livecodebench'', evaluator_display_name = ''LiveCodeBench'',
         grading_schema = ''yacht.livecodebench-grading.v1''\<rparr>),
      (''swe-bench'', \<lparr>evaluator_kind = ''swe-bench'', evaluator_display_name = ''SWE-bench'',
         grading_schema = ''yacht.swe-bench-grading.v1''\<rparr>),
      (''terminal-bench'', \<lparr>evaluator_kind = ''terminal-bench'', evaluator_display_name = ''Terminal-Bench'',
         grading_schema = ''yacht.terminal-bench-grading.v1''\<rparr>)]"

text \<open>\<open>_BENCHMARK_ADAPTERS\<close>: a comprehension over the courses that subscripts the evaluators.\<close>

definition BENCHMARK_ADAPTERS :: "exn + (string \<times> course_entry \<times> evaluator_entry) list" where
  "BENCHMARK_ADAPTERS = mapR (\<lambda>(kind, course). case map_of EVALUATOR_ADAPTERS kind of
       None \<Rightarrow> Inl (KeyError kind) | Some e \<Rightarrow> Inr (kind, course, e)) COURSE_ADAPTERS"

definition benchmark_adapter :: "string \<Rightarrow> exn + course_entry \<times> evaluator_entry" where
  "benchmark_adapter kind = bnd BENCHMARK_ADAPTERS (\<lambda>adapters. case map_of adapters kind of
       None \<Rightarrow> Inl (ConfigError (''unsupported benchmark adapter '' @ kind)) | Some a \<Rightarrow> Inr a)"

definition course_adapter :: "string \<Rightarrow> exn + course_entry" where
  "course_adapter kind = (case map_of COURSE_ADAPTERS kind of
       None \<Rightarrow> Inl (ConfigError (''unsupported course adapter '' @ kind)) | Some a \<Rightarrow> Inr a)"

definition evaluator_adapter :: "string \<Rightarrow> exn + evaluator_entry" where
  "evaluator_adapter kind = (case map_of EVALUATOR_ADAPTERS kind of
       None \<Rightarrow> Inl (ConfigError (''unsupported evaluator adapter '' @ kind)) | Some a \<Rightarrow> Inr a)"

definition supported_benchmark_adapter_kinds :: "string list" where
  "supported_benchmark_adapter_kinds =
     (case BENCHMARK_ADAPTERS of Inr adapters \<Rightarrow> sorted_set (map fst adapters) | Inl _ \<Rightarrow> [])"

definition supported_course_adapter_harnesses :: "string option \<Rightarrow> exn + string list" where
  "supported_course_adapter_harnesses kind = (case kind of
       Some k \<Rightarrow> bnd (course_adapter k) (\<lambda>a. Inr (course_harnesses a))
     | None \<Rightarrow> Inr (sorted_set (concat (map (course_harnesses \<circ> snd) COURSE_ADAPTERS))))"

definition grading :: "evaluator_entry \<Rightarrow> string \<Rightarrow> json_obj" where
  "grading e harness =
     [(''delegated_to'', JStr (evaluator_kind e)), (''execution'', JStr (harness @ ''-harness'')),
      (''status'', JStr ''planned'')]"

section \<open>Adapter blocks\<close>

definition selection_to_json :: "instance_selection \<Rightarrow> json_obj" where
  "selection_to_json s =
     [(''method'', JStr (selection_method s)), (''algorithm'', JStr (selection_algorithm s)),
      (''seed'', JInt (selection_seed s)), (''requested_instances'', JInt (requested_instances s)),
      (''population_count'', JInt (population_count s)), (''population_digest'', JStr (population_digest s))]"

record adapter =
  adapter_kind :: string
  adapter_dataset :: string
  adapter_split :: string
  adapter_harness :: string
  adapter_instance_ids :: "string list"
  adapter_selection :: "instance_selection option"
  adapter_start_date :: "string option"
  adapter_end_date :: "string option"

definition course_adapter_summary :: "adapter \<Rightarrow> json_obj" where
  "course_adapter_summary a =
     [(''kind'', JStr (adapter_kind a)), (''dataset'', JStr (adapter_dataset a)),
      (''split'', JStr (adapter_split a)), (''harness'', JStr (adapter_harness a))]"

definition course_adapter_to_json :: "adapter \<Rightarrow> json_obj" where
  "course_adapter_to_json a =
     course_adapter_summary a
     @ (if adapter_instance_ids a = [] then [] else [(''instance_ids'', JList (map JStr (adapter_instance_ids a)))])
     @ (case adapter_selection a of None \<Rightarrow> [] | Some s \<Rightarrow> [(''instance_selection'', JObj (selection_to_json s))])
     @ (case adapter_start_date a of None \<Rightarrow> [] | Some s \<Rightarrow> [(''start_date'', JStr s)])
     @ (case adapter_end_date a of None \<Rightarrow> [] | Some s \<Rightarrow> [(''end_date'', JStr s)])"

text \<open>\<open>str\<close> of a value that is not a string is a parameter.\<close>

definition course_adapter_block :: "(json \<Rightarrow> string) \<Rightarrow> json_obj \<Rightarrow> exn + json_obj" where
  "course_adapter_block str adapter_json =
     bnd (mapR (\<lambda>key. case map_of adapter_json key of
            None \<Rightarrow> Inl (KeyError key)
          | Some (JStr s) \<Rightarrow> Inr (key, JStr s)
          | Some v \<Rightarrow> Inr (key, JStr (str v))) [''kind'', ''dataset'', ''split'', ''harness'']) (\<lambda>block.
     Inr (block @ concat (map (\<lambda>key. case dget adapter_json key of
            JStr s \<Rightarrow> if s = [] then [] else [(key, JStr s)] | _ \<Rightarrow> [])
          [''start_date'', ''end_date'', ''content_digest''])))"

section \<open>Laws\<close>

lemma BENCHMARK_ADAPTERS_kinds: "\<exists>as. BENCHMARK_ADAPTERS = Inr as \<and> map fst as = map fst COURSE_ADAPTERS
    \<and> (\<forall>(k, c, e) \<in> set as. map_of COURSE_ADAPTERS k = Some c \<and> map_of EVALUATOR_ADAPTERS k = Some e)"
  by (simp add: BENCHMARK_ADAPTERS_def COURSE_ADAPTERS_def EVALUATOR_ADAPTERS_def)

lemma kinds_are_course_keys: "set supported_benchmark_adapter_kinds = fst ` set COURSE_ADAPTERS"
proof -
  obtain as where a: "BENCHMARK_ADAPTERS = Inr as" and k: "map fst as = map fst COURSE_ADAPTERS"
    using BENCHMARK_ADAPTERS_kinds by blast
  have "fst ` set as = fst ` set COURSE_ADAPTERS" using arg_cong [OF k, of set] by simp
  then show ?thesis by (simp add: supported_benchmark_adapter_kinds_def a)
qed

lemma course_adapter_supported:
  "kind \<in> set supported_benchmark_adapter_kinds \<longleftrightarrow> (\<exists>a. course_adapter kind = Inr a)"
proof (cases "map_of COURSE_ADAPTERS kind")
  case None
  then have "kind \<notin> fst ` set COURSE_ADAPTERS" by (simp add: map_of_eq_None_iff)
  with None show ?thesis by (simp add: kinds_are_course_keys course_adapter_def)
next
  case (Some a)
  then have "kind \<in> fst ` set COURSE_ADAPTERS" by (metis map_of_eq_None_iff option.distinct(1))
  with Some show ?thesis by (simp add: kinds_are_course_keys course_adapter_def)
qed

lemma supported_harnesses_supported:
  "kind \<in> set supported_benchmark_adapter_kinds \<Longrightarrow> \<exists>hs. supported_course_adapter_harnesses (Some kind) = Inr hs"
  by (auto simp: course_adapter_supported supported_course_adapter_harnesses_def)

section \<open>Properties\<close>

text \<open>
  The three lookups agree: a kind that has a course has an evaluator and a benchmark adapter
  and conversely, all of that kind; every other kind is refused with \<open>ConfigError\<close> by all three;
  and no two kinds share a grading schema, so a grading report identifies its course.
\<close>

theorem registry_lookups_agree:
  "((\<exists>c e. course_adapter kind = Inr c \<and> course_kind c = kind \<and> evaluator_adapter kind = Inr e
        \<and> evaluator_kind e = kind \<and> benchmark_adapter kind = Inr (c, e))
   \<or> (\<exists>m1 m2 m3. course_adapter kind = Inl (ConfigError m1) \<and> evaluator_adapter kind = Inl (ConfigError m2)
        \<and> benchmark_adapter kind = Inl (ConfigError m3)))
   \<and> distinct (map (grading_schema \<circ> snd) EVALUATOR_ADAPTERS)"
  by (auto simp: course_adapter_def evaluator_adapter_def benchmark_adapter_def BENCHMARK_ADAPTERS_def
      COURSE_ADAPTERS_def EVALUATOR_ADAPTERS_def terminal_bench_course_def livecodebench_course_def
      swe_bench_course_def split: if_splits)

end
