(* ===== verification/InstallRenderers.thy ===== *)
theory InstallRenderers
  imports Paths Bytes "HOL-Library.Multiset"
begin

text \<open>
  \<open>src/yacht/harnesses/mcp_config.py\<close>, \<open>src/yacht/harnesses/skill_config.py\<close> and
  \<open>src/yacht/runtimes/tool_capabilities.py\<close>: the files a rigging installs into a harness.

  A rendered configuration file is kept as the JSON document before \<open>json.dumps\<close>. The
  hexadecimal SHA-256 of a byte string is the parameter \<open>sha\<close>.
\<close>

record install_step =
  step_target :: string
  step_command :: "string list"
  step_content :: "string option"
  step_resources :: "(string \<times> string) list"

section \<open>MCP servers\<close>

definition CLAUDE_CODE_MCP_CONFIG_TARGET :: string where
  "CLAUDE_CODE_MCP_CONFIG_TARGET = ''.claude.json''"

definition PI_MCP_ADAPTER_CONFIG_TARGET :: string where
  "PI_MCP_ADAPTER_CONFIG_TARGET = ''.pi/agent/mcp.json''"

record mcp_config_render =
  render_target :: string
  render_content :: json
  render_entries :: "(string \<times> string) list"

text \<open>One step: the servers by name and the entries (origin, server) so far.\<close>

definition mcp_step ::
    "nat \<Rightarrow> json_obj \<times> (string \<times> string) list \<Rightarrow> string \<times> install_step
       \<Rightarrow> exn + json_obj \<times> (string \<times> string) list" where
  "mcp_step _ = (\<lambda>(servers, entries) (origin_name, step).
     bnd (ensure (step_command step \<noteq> [])
            (McpError (''mcp-server install '' @ step_target step @ '' requires command''))) (\<lambda>_.
     bnd (ensure (\<not> has_key servers (step_target step))
            (McpError (''mcp-server install declares duplicate server name '' @ step_target step))) (\<lambda>_.
     Inr (servers @ [(step_target step, JObj [(''command'', JStr (hd (step_command step))),
                        (''args'', JList (map JStr (tl (step_command step))))])],
          entries @ [(origin_name, step_target step)]))))"

definition mcp_servers_from_steps ::
    "(string \<times> install_step) list \<Rightarrow> exn + json_obj \<times> (string \<times> string) list" where
  "mcp_servers_from_steps steps = foldR mcp_step 0 ([], []) steps"

definition render_claude_code_mcp_config :: "(string \<times> install_step) list \<Rightarrow> exn + mcp_config_render" where
  "render_claude_code_mcp_config steps =
     bnd (mcp_servers_from_steps steps) (\<lambda>(servers, entries).
     Inr \<lparr>render_target = CLAUDE_CODE_MCP_CONFIG_TARGET,
          render_content = JObj [(''mcpServers'', JObj servers)], render_entries = entries\<rparr>)"

definition MCP_CONFIG_RENDERERS ::
    "(string \<times> ((string \<times> install_step) list \<Rightarrow> exn + mcp_config_render)) list" where
  "MCP_CONFIG_RENDERERS = [(''claude-code'', render_claude_code_mcp_config)]"

definition supports_mcp_server_installs :: "string option \<Rightarrow> bool" where
  "supports_mcp_server_installs harness =
     (case harness of None \<Rightarrow> False | Some h \<Rightarrow> map_of MCP_CONFIG_RENDERERS h \<noteq> None)"

definition render_mcp_config ::
    "string option \<Rightarrow> (string \<times> install_step) list \<Rightarrow> exn + mcp_config_render option" where
  "render_mcp_config harness steps = (case harness of
     None \<Rightarrow> Inr None
   | Some h \<Rightarrow> (case map_of MCP_CONFIG_RENDERERS h of
       None \<Rightarrow> Inr None
     | Some renderer \<Rightarrow> bnd (renderer steps) (\<lambda>r. Inr (Some r))))"

record mcp_install_provider =
  provider_tool_name :: string
  provider_harness :: string
  provider_config_target :: string
  pins_namespace :: bool
  namespace_format :: string

definition MCP_INSTALL_PROVIDERS :: "((string \<times> string) \<times> mcp_install_provider) list" where
  "MCP_INSTALL_PROVIDERS =
     [((''pi-mcp-adapter'', ''pi''),
       \<lparr>provider_tool_name = ''pi-mcp-adapter'', provider_harness = ''pi'',
        provider_config_target = PI_MCP_ADAPTER_CONFIG_TARGET, pins_namespace = True,
        namespace_format = ''mcp__{server}_''\<rparr>)]"

definition supported_mcp_install_provider :: "string \<Rightarrow> string \<Rightarrow> bool" where
  "supported_mcp_install_provider tool_name harness = (map_of MCP_INSTALL_PROVIDERS (tool_name, harness) \<noteq> None)"

text \<open>\<open>fmt.format(server=server)\<close> for a format whose only field is \<open>{server}\<close>.\<close>

fun format_server :: "string \<Rightarrow> string \<Rightarrow> string" where
  "format_server server [] = []"
| "format_server server (c # cs) =
     (if take 8 (c # cs) = ''{server}'' then server @ format_server server (drop 7 cs)
      else c # format_server server cs)"

definition provider_mcp_namespace :: "mcp_install_provider \<Rightarrow> string \<Rightarrow> string" where
  "provider_mcp_namespace provider server =
     format_server (map (\<lambda>c. if c = CHR ''-'' then CHR ''_'' else c) server) (namespace_format provider)"

definition render_provider_mcp_config ::
    "mcp_install_provider \<Rightarrow> (string \<times> install_step) list \<Rightarrow> exn + mcp_config_render" where
  "render_provider_mcp_config provider steps =
     bnd (mcp_servers_from_steps steps) (\<lambda>(servers, entries).
     Inr \<lparr>render_target = provider_config_target provider,
          render_content = JObj [(''mcpServers'', JObj servers),
             (''settings'', JObj [(''directTools'', JBool True), (''toolPrefix'', JStr ''mcp'')])],
          render_entries = entries\<rparr>)"

section \<open>Tool capabilities\<close>

record tool_capability =
  capability_name :: string
  capability_kind :: string
  capability_description :: string
  capability_interfaces :: "string list"
  capability_install_methods :: "string list"
  capability_expected_tool_calls :: "string list"
  capability_provides :: "(string \<times> string) list"

definition capability_to_json :: "tool_capability \<Rightarrow> json_obj" where
  "capability_to_json c =
     [(''name'', JStr (capability_name c)), (''kind'', JStr (capability_kind c))]
     @ (if capability_description c = [] then [] else [(''description'', JStr (capability_description c))])
     @ (if capability_interfaces c = [] then [] else [(''interfaces'', JList (map JStr (capability_interfaces c)))])
     @ (if capability_install_methods c = [] then []
        else [(''install_methods'', JList (map JStr (capability_install_methods c)))])
     @ (if capability_expected_tool_calls c = [] then []
        else [(''expected_tool_calls'', JList (map JStr (capability_expected_tool_calls c)))])
     @ (if capability_provides c = [] then []
        else [(''provides'', JList (map (\<lambda>(m, h). JObj [(''method'', JStr m), (''harness'', JStr h)])
                (capability_provides c)))])"

definition BUILT_IN_TOOL_CAPABILITIES :: "(string \<times> tool_capability) list" where
  "BUILT_IN_TOOL_CAPABILITIES =
     [(''fff'', \<lparr>capability_name = ''fff'', capability_kind = ''code-navigation'',
         capability_description = ''Codebase memory and navigation tool.'',
         capability_interfaces = [''agent-tool''], capability_install_methods = [''agent-extension''],
         capability_expected_tool_calls = [''fffind'', ''ffgrep''], capability_provides = []\<rparr>),
      (''local-smoke'', \<lparr>capability_name = ''local-smoke'', capability_kind = ''test-fixture'',
         capability_description = ''Local smoke tool fixture used by YACHT examples and tests.'',
         capability_interfaces = [''agent-tool''], capability_install_methods = [''preinstalled''],
         capability_expected_tool_calls = [''local-smoke''], capability_provides = []\<rparr>)]"

text \<open>The first provider a rigged tool declares for the harness; \<open>riggings\<close> are their tool lists.\<close>

fun first_provided :: "string \<Rightarrow> string \<Rightarrow> (string \<times> string) list \<Rightarrow> mcp_install_provider option" where
  "first_provided harness tool_name [] = None"
| "first_provided harness tool_name ((method, h) # rest) =
     (if method \<noteq> ''mcp-server'' \<or> h \<noteq> harness then first_provided harness tool_name rest
      else (case map_of MCP_INSTALL_PROVIDERS (tool_name, harness) of
              Some p \<Rightarrow> Some p | None \<Rightarrow> first_provided harness tool_name rest))"

fun first_provider :: "string \<Rightarrow> (string \<times> tool_capability) list \<Rightarrow> string list \<Rightarrow> mcp_install_provider option" where
  "first_provider harness capabilities [] = None"
| "first_provider harness capabilities (tool # rest) =
     (case (case map_of capabilities tool of None \<Rightarrow> None | Some c \<Rightarrow> first_provided harness tool (capability_provides c)) of
        Some p \<Rightarrow> Some p | None \<Rightarrow> first_provider harness capabilities rest)"

definition provided_mcp_install_provider ::
    "string option \<Rightarrow> string list list \<Rightarrow> (string \<times> tool_capability) list option \<Rightarrow> mcp_install_provider option" where
  "provided_mcp_install_provider harness riggings capabilities = (case (harness, capabilities) of
     (Some h, Some cs) \<Rightarrow> first_provider h cs (concat riggings) | _ \<Rightarrow> None)"

definition tool_capabilities_to_json :: "string list \<Rightarrow> (string \<times> tool_capability) list \<Rightarrow> json_obj list" where
  "tool_capabilities_to_json tool_names capabilities =
     concat (map (\<lambda>name. case map_of capabilities name of None \<Rightarrow> [] | Some c \<Rightarrow> [capability_to_json c])
       (sorted_set tool_names))"

section \<open>Skills\<close>

definition SKILL_BODY_FILENAME :: string where
  "SKILL_BODY_FILENAME = ''SKILL.md''"

definition normalized_resource_path :: "string \<Rightarrow> exn + string" where
  "normalized_resource_path p =
     bnd (ensure (p \<noteq> [] \<and> hd p \<noteq> CHR ''/'')
            (SkillError (''skill install resource path '' @ py_repr p @ '' must be relative''))) (\<lambda>_.
     let ps = parts (posix_path p)
     in bnd (ensure (\<not> absolute (posix_path p) \<and> ''..'' \<notin> set ps)
            (SkillError (''skill install resource path '' @ py_repr p @ '' must be relative without ''
               @ py_repr ''..''))) (\<lambda>_.
        bnd (ensure (ps \<noteq> []) (SkillError (''skill install resource path '' @ py_repr p @ '' names no file''))) (\<lambda>_.
        bnd (ensure (join ''/'' ps \<noteq> SKILL_BODY_FILENAME)
            (SkillError (''skill install resource path '' @ py_repr p
               @ '' is reserved for the skill body; give the resource its own name''))) (\<lambda>_.
        Inr (join ''/'' ps)))))"

definition resource_step :: "nat \<Rightarrow> (string \<times> string) list \<Rightarrow> string \<Rightarrow> exn + (string \<times> string) list" where
  "resource_step _ seen p =
     bnd (normalized_resource_path p) (\<lambda>canonical.
     case map_of seen canonical of
       Some q \<Rightarrow> Inl (SkillError (''skill install resource '' @ p @ '' and '' @ q @ '' both name '' @ canonical))
     | None \<Rightarrow> Inr (seen @ [(canonical, p)]))"

definition normalized_resource_paths :: "string list \<Rightarrow> exn + string list" where
  "normalized_resource_paths ps = bnd (foldR resource_step 0 [] ps) (\<lambda>seen. Inr (map fst seen))"

record skill_install_render =
  skill_origin_name :: string
  skill_name :: string
  skill_target :: string
  skill_content :: string
  skill_resources :: "(string \<times> string) list"
  skill_digest :: string

text \<open>The bytes fed to the digest: every sorted entry with NUL terminators.\<close>

definition digest_input :: "(string \<times> string) list \<Rightarrow> bytes" where
  "digest_input payload =
     concat (map (\<lambda>(p, content). utf8 p @ [0] @ utf8 content @ [0]) (sort payload))"

definition payload_digest :: "(bytes \<Rightarrow> string) \<Rightarrow> (string \<times> string) list \<Rightarrow> string" where
  "payload_digest sha payload = ''sha256:'' @ sha (digest_input payload)"

definition render_skill_step ::
    "(bytes \<Rightarrow> string) \<Rightarrow> string \<Rightarrow> string \<times> install_step \<Rightarrow> exn + skill_install_render" where
  "render_skill_step sha base_directory = (\<lambda>(origin_name, step).
     case step_content step of
       None \<Rightarrow> Inl (SkillError (''skill install '' @ step_target step @ '' is missing content''))
     | Some content \<Rightarrow>
         let skill_directory = base_directory @ ''/'' @ step_target step
         in bnd (normalized_resource_paths (map fst (step_resources step))) (\<lambda>ps.
            let payload = (SKILL_BODY_FILENAME, content) # zip ps (map snd (step_resources step))
            in Inr \<lparr>skill_origin_name = origin_name, skill_name = step_target step,
                    skill_target = skill_directory @ ''/'' @ SKILL_BODY_FILENAME, skill_content = content,
                    skill_resources = map (\<lambda>(p, c). (skill_directory @ ''/'' @ p, c)) (tl payload),
                    skill_digest = payload_digest sha payload\<rparr>))"

definition SKILL_DIRECTORIES :: "(string \<times> string) list" where
  "SKILL_DIRECTORIES = [(''claude-code'', ''.claude/skills''), (''codex'', ''.agents/skills''), (''omp'', ''.agents/skills'')]"

definition supports_skill_installs :: "string option \<Rightarrow> bool" where
  "supports_skill_installs harness =
     (case harness of None \<Rightarrow> False | Some h \<Rightarrow> map_of SKILL_DIRECTORIES h \<noteq> None)"

definition render_skill_installs ::
    "(bytes \<Rightarrow> string) \<Rightarrow> string option \<Rightarrow> (string \<times> install_step) list \<Rightarrow> exn + skill_install_render list" where
  "render_skill_installs sha harness steps =
     (case (case harness of None \<Rightarrow> None | Some h \<Rightarrow> map_of SKILL_DIRECTORIES h) of
        None \<Rightarrow> Inl (SkillError (''runtime harness '' @ (case harness of None \<Rightarrow> ''None'' | Some h \<Rightarrow> h)
                 @ '' does not support rigging install method skill''))
      | Some base \<Rightarrow> mapR (render_skill_step sha base) steps)"

section \<open>Laws\<close>

lemma mcp_step_eq_Inr:
  "mcp_step i (servers, entries) (origin, s) = Inr r \<longleftrightarrow>
     step_command s \<noteq> [] \<and> step_target s \<notin> fst ` set servers
     \<and> r = (servers @ [(step_target s, JObj [(''command'', JStr (hd (step_command s))),
              (''args'', JList (map JStr (tl (step_command s))))])], entries @ [(origin, step_target s)])"
  by (auto simp: mcp_step_def bnd_eq_Inr has_key_iff)

lemma mcp_loop:
  "foldR mcp_step i (servers, entries) steps = Inr r \<longleftrightarrow>
     (\<forall>(_, s)\<in>set steps. step_command s \<noteq> [] \<and> step_target s \<notin> fst ` set servers)
     \<and> distinct (map (step_target \<circ> snd) steps)
     \<and> r = (servers @ map (\<lambda>(_, s). (step_target s, JObj [(''command'', JStr (hd (step_command s))),
               (''args'', JList (map JStr (tl (step_command s))))])) steps,
            entries @ map (\<lambda>(origin, s). (origin, step_target s)) steps)"
proof (induction steps arbitrary: i servers entries)
  case (Cons x steps)
  obtain origin s where x: "x = (origin, s)" by (cases x)
  show ?case
    by (auto simp: x bnd_eq_Inr mcp_step_eq_Inr Cons.IH image_iff)
qed auto

lemma normalized_resource_path_eq_Inr:
  "normalized_resource_path p = Inr q \<longleftrightarrow>
     p \<noteq> [] \<and> hd p \<noteq> CHR ''/'' \<and> ''..'' \<notin> set (parts (posix_path p)) \<and> parts (posix_path p) \<noteq> []
     \<and> q = join ''/'' (parts (posix_path p)) \<and> q \<noteq> SKILL_BODY_FILENAME"
proof (cases "p \<noteq> [] \<and> hd p \<noteq> CHR ''/''")
  case True
  then have "\<not> absolute (posix_path p)" by (simp add: posix_path_def)
  with True show ?thesis
    by (cases "''..'' \<in> set (parts (posix_path p))"; cases "parts (posix_path p) = []";
        cases "join ''/'' (parts (posix_path p)) = SKILL_BODY_FILENAME")
      (auto simp: normalized_resource_path_def Let_def)
next
  case False
  then show ?thesis by (auto simp: normalized_resource_path_def)
qed

definition contained_path :: "string \<Rightarrow> bool" where
  "contained_path q \<longleftrightarrow> q \<noteq> SKILL_BODY_FILENAME \<and> set (split_on CHR ''/'' q) \<inter> {[], ''.'', ''..''} = {}"

lemma normalized_resource_path_contained:
  assumes "normalized_resource_path p = Inr q"
  shows "contained_path q" and "normalized_resource_path q = Inr q"
proof -
  define ps where "ps = parts (posix_path p)"
  have ps: "ps \<noteq> []" "''..'' \<notin> set ps" "q = join ''/'' ps" "q \<noteq> SKILL_BODY_FILENAME"
    using assms [unfolded normalized_resource_path_eq_Inr] unfolding ps_def by blast+
  have plain: "CHR ''/'' \<notin> set x \<and> x \<noteq> [] \<and> x \<noteq> ''.''" if "x \<in> set ps" for x
    using that by (auto simp: ps_def posix_path_def plain_parts_def dest: split_on_no_sep)
  then have s: "split_on CHR ''/'' q = ps" unfolding ps(3) by (intro split_on_join ps(1)) blast
  then show c: "contained_path q" using ps plain unfolding contained_path_def by blast
  have pp: "plain_parts ps = ps" using plain by (auto simp: plain_parts_def filter_id_conv)
  obtain x xs where x: "ps = x # xs" using ps(1) by (cases ps) auto
  have "q \<noteq> [] \<and> hd q = hd x" using plain [of x] by (cases xs) (auto simp: ps(3) x)
  moreover have "hd x \<noteq> CHR ''/''" using plain [of x] by (metis hd_in_set list.set_intros(1) x)
  ultimately show "normalized_resource_path q = Inr q"
    using ps s pp by (simp add: normalized_resource_path_eq_Inr posix_path_def)
qed

lemma resource_loop:
  "foldR resource_step i seen ps = Inr seen' \<Longrightarrow> distinct (map fst seen)
     \<Longrightarrow> \<exists>new. seen' = seen @ new \<and> map snd new = ps \<and> distinct (map fst seen')
        \<and> (\<forall>(q, p)\<in>set new. normalized_resource_path p = Inr q)"
proof (induction ps arbitrary: i seen)
  case (Cons p ps)
  from Cons.prems(1) obtain s where step: "resource_step i seen p = Inr s"
      and loop: "foldR resource_step (Suc i) s ps = Inr seen'" by (auto simp: bnd_eq_Inr)
  from step obtain q where q: "normalized_resource_path p = Inr q" "map_of seen q = None"
      and s: "s = seen @ [(q, p)]"
    by (auto simp: bnd_eq_Inr resource_step_def split: option.splits)
  note rest = loop [unfolded s]
  have "distinct (map fst (seen @ [(q, p)]))"
    using Cons.prems(2) q(2) by (simp add: map_of_eq_None_iff)
  from Cons.IH [OF rest this] obtain new where "seen' = seen @ (q, p) # new" "map snd new = ps"
      "distinct (map fst seen')" "\<forall>(q, p)\<in>set new. normalized_resource_path p = Inr q" by auto
  with q(1) show ?case by (intro exI [of _ "(q, p) # new"]) auto
qed simp

lemma normalized_resource_paths_eq:
  assumes "normalized_resource_paths ps = Inr qs"
  shows "distinct qs \<and> list_all2 (\<lambda>p q. normalized_resource_path p = Inr q) ps qs"
proof -
  obtain seen where s: "foldR resource_step 0 [] ps = Inr seen" and q: "qs = map fst seen"
    using assms by (auto simp: normalized_resource_paths_def bnd_eq_Inr)
  from resource_loop [OF s] have "map snd seen = ps" "distinct qs"
    "\<forall>(q, p)\<in>set seen. normalized_resource_path p = Inr q" by (simp_all add: q)
  then show ?thesis by (auto simp: q list_all2_conv_all_nth)
qed

text \<open>The digest input of a bundle without NUL characters is uniquely parsed.\<close>

definition nul_free :: "string \<Rightarrow> bool" where
  "nul_free s \<longleftrightarrow> char_of (0 :: nat) \<notin> set s"

lemma nul_free_utf8: "nul_free s \<Longrightarrow> 0 \<notin> set (utf8 s)"
proof (induction s)
  case (Cons c s)
  then have "code_point c \<noteq> 0" unfolding nul_free_def code_point_def by (metis char_of_char list.set_intros(1))
  then show ?case using Cons by (auto simp: utf8_def utf8_char_def Let_def nul_free_def)
qed (simp add: utf8_def)

lemma terminated_inj: "z \<notin> set xs \<Longrightarrow> z \<notin> set ys \<Longrightarrow> xs @ z # us = ys @ z # vs \<longleftrightarrow> xs = ys \<and> us = vs"
proof (induction xs arbitrary: ys)
  case Nil
  then show ?case by (cases ys) auto
next
  case (Cons x xs)
  then show ?case by (cases ys) auto
qed

definition entry_bytes :: "string \<times> string \<Rightarrow> bytes" where
  "entry_bytes = (\<lambda>(p, content). utf8 p @ [0] @ utf8 content @ [0])"

lemma entries_inj:
  assumes "\<forall>(p, c)\<in>set xs. nul_free p \<and> nul_free c" and "\<forall>(p, c)\<in>set ys. nul_free p \<and> nul_free c"
    and "concat (map entry_bytes xs) = concat (map entry_bytes ys)"
  shows "xs = ys"
  using assms
proof (induction xs arbitrary: ys)
  case Nil
  then show ?case by (cases ys) (auto simp: entry_bytes_def)
next
  case (Cons x xs)
  obtain y ys' where ys: "ys = y # ys'" using Cons.prems(3) by (cases ys) (auto simp: entry_bytes_def split: prod.splits)
  obtain p c where x: "x = (p, c)" by (cases x)
  obtain q d where y: "y = (q, d)" by (cases y)
  have n: "0 \<notin> set (utf8 p)" "0 \<notin> set (utf8 c)" "0 \<notin> set (utf8 q)" "0 \<notin> set (utf8 d)"
    using Cons.prems(1,2) by (auto simp: ys x y nul_free_utf8)
  have "utf8 p @ 0 # utf8 c @ 0 # concat (map entry_bytes xs) = utf8 q @ 0 # utf8 d @ 0 # concat (map entry_bytes ys')"
    using Cons.prems(3) by (simp add: ys x y entry_bytes_def)
  then have "utf8 p = utf8 q" "utf8 c = utf8 d" "concat (map entry_bytes xs) = concat (map entry_bytes ys')"
    using n by (simp_all add: terminated_inj)
  moreover from this have "xs = ys'" using Cons by (auto simp: ys)
  ultimately show ?case by (simp add: ys x y utf8_inj)
qed

lemma digest_input_entries: "digest_input payload = concat (map entry_bytes (sort payload))"
  by (simp add: digest_input_def entry_bytes_def)

section \<open>Properties\<close>

text \<open>
  The MCP configuration loses no step: rendering succeeds exactly when every step has a
  command and no server name is used twice, and then the servers are the steps, in order, each
  with its command split into executable and arguments, and one entry per step.
\<close>

theorem mcp_servers_exact:
  "mcp_servers_from_steps steps = Inr r \<longleftrightarrow>
     list_all (\<lambda>(_, s). step_command s \<noteq> []) steps \<and> distinct (map (step_target \<circ> snd) steps)
     \<and> r = (map (\<lambda>(_, s). (step_target s, JObj [(''command'', JStr (hd (step_command s))),
               (''args'', JList (map JStr (tl (step_command s))))])) steps,
            map (\<lambda>(origin, s). (origin, step_target s)) steps)"
  by (auto simp: mcp_servers_from_steps_def mcp_loop list_all_iff)

text \<open>
  C29. The resource paths of a skill are normalised to distinct paths strictly inside the skill
  directory (no empty, \<open>.\<close> or \<open>..\<close> component, never the skill body itself), one for each
  resource, and normalising them again changes nothing.
\<close>

theorem resource_paths_contained:
  assumes "normalized_resource_paths ps = Inr qs"
  shows "length qs = length ps \<and> distinct qs \<and> list_all contained_path qs
    \<and> normalized_resource_paths qs = Inr qs"
proof -
  from normalized_resource_paths_eq [OF assms] have d: "distinct qs"
    and l: "list_all2 (\<lambda>p q. normalized_resource_path p = Inr q) ps qs" by simp_all
  have q: "contained_path q \<and> normalized_resource_path q = Inr q" if "q \<in> set qs" for q
    using l that by (auto simp: list_all2_conv_all_nth in_set_conv_nth dest: normalized_resource_path_contained)
  have "foldR resource_step i seen qs = Inr (seen @ map (\<lambda>q. (q, q)) qs)"
    if "distinct qs" "set qs \<inter> fst ` set seen = {}" "\<forall>q\<in>set qs. normalized_resource_path q = Inr q" for i seen qs
    using that
  proof (induction qs arbitrary: i seen)
    case (Cons q qs)
    then have "map_of seen q = None" by (simp add: map_of_eq_None_iff)
    with Cons show ?case by (simp add: resource_step_def)
  qed simp
  from this [of qs "[]" 0] d q have "normalized_resource_paths qs = Inr qs"
    by (simp add: normalized_resource_paths_def comp_def)
  with d q l show ?thesis by (simp add: list_all_iff list_all2_lengthD)
qed

theorem resource_paths_contained_witness:
  "normalized_resource_paths [''./a//b'', ''c''] = Inr [''a/b'', ''c''] \<and> list_all contained_path [''a/b'', ''c'']"
proof -
  have e: "normalized_resource_paths [''./a//b'', ''c''] = Inr [''a/b'', ''c'']" by code_simp
  from resource_paths_contained [OF e] e show ?thesis by blast
qed

text \<open>
  C30. The digest preimage of a skill identifies its bundle when no path and no content contains a
  NUL: two such payloads with the same preimage are the same collection of files, in any order.
\<close>

theorem skill_digest_identifies_bundle:
  assumes "\<forall>(p, c)\<in>set payload. nul_free p \<and> nul_free c" and "\<forall>(p, c)\<in>set payload'. nul_free p \<and> nul_free c"
  shows "digest_input payload = digest_input payload' \<longleftrightarrow> mset payload = mset payload'"
proof
  assume "digest_input payload = digest_input payload'"
  then have "sort payload = sort payload'"
    unfolding digest_input_entries by (intro entries_inj) (use assms in simp_all)
  then show "mset payload = mset payload'" by (metis mset_sort)
next
  assume "mset payload = mset payload'"
  then have "sort payload = sort payload'" by (metis mset_sort properties_for_sort sorted_sort)
  then show "digest_input payload = digest_input payload'" by (simp add: digest_input_def)
qed

theorem skill_digest_identifies_bundle_witness:
  "(digest_input [(''b'', ''y''), (''a'', ''x'')] = digest_input [(''a'', ''x''), (''b'', ''y'')])
     = (mset [(''b'', ''y''), (''a'', ''x'')] = mset [(''a'', ''x''), (''b'', ''y'')])"
  by (rule skill_digest_identifies_bundle) code_simp+

text \<open>
  A content with NUL characters breaks that: a skill with one resource and a skill with two
  get the same digest, whatever the hash function.
\<close>

definition one_resource :: install_step where
  "one_resource = \<lparr>step_target = ''s'', step_command = [], step_content = Some ''body'',
     step_resources = [(''a'', ''x'' @ [char_of (0 :: nat)] @ ''b'' @ [char_of (0 :: nat)] @ ''y'')]\<rparr>"

definition two_resources :: install_step where
  "two_resources = \<lparr>step_target = ''s'', step_command = [], step_content = Some ''body'',
     step_resources = [(''a'', ''x''), (''b'', ''y'')]\<rparr>"

theorem skill_digest_collides_on_nul:
  "\<exists>r r'. render_skill_step sha base (''o'', one_resource) = Inr r
     \<and> render_skill_step sha base (''o'', two_resources) = Inr r'
     \<and> skill_digest r = skill_digest r' \<and> length (skill_resources r) = 1 \<and> length (skill_resources r') = 2"
proof -
  have n: "normalized_resource_paths [''a''] = Inr [''a'']" "normalized_resource_paths [''a'', ''b''] = Inr [''a'', ''b'']"
    by code_simp+
  have d: "digest_input [(SKILL_BODY_FILENAME, ''body''), (''a'', ''x'' @ [char_of (0 :: nat)] @ ''b'' @ [char_of (0 :: nat)] @ ''y'')]
      = digest_input [(SKILL_BODY_FILENAME, ''body''), (''a'', ''x''), (''b'', ''y'')]" by code_simp
  show ?thesis
    unfolding render_skill_step_def one_resource_def two_resources_def payload_digest_def
    using n d by (simp add: Let_def)
qed

end
