(* ===== verification/SchemaChecks.thy ===== *)
theory SchemaChecks
  imports PyValue
begin

text \<open>
  The \<open>_require_*\<close> helpers of \<open>src/yacht/contracts/schemas.py\<close>. A validator is a sequence of
  checks, run in order until one raises: \<open>checks\<close>. Each helper raises
  \<open>SchemaValidationError\<close> (\<open>SchemaError\<close>) with the message of the source. As in the source, an
  integer test accepts a boolean (\<open>bool\<close> is a subclass of \<open>int\<close>) and \<open>value < 0\<close> is false for
  a NaN.
\<close>

section \<open>Sequences of checks\<close>

definition checks :: "('e + unit) list \<Rightarrow> 'e + unit" where
  "checks cs = forR (\<lambda>c. c) cs"

lemma checks_Nil [simp, result_simps]: "checks [] = Inr ()"
  by (simp add: checks_def)

lemma checks_Cons_eq_Inr [simp, result_simps]: "checks (c # cs) = Inr () \<longleftrightarrow> c = Inr () \<and> checks cs = Inr ()"
  by (simp add: checks_def bnd_eq_Inr)

lemma checks_Cons_Inr [simp]: "checks (Inr () # cs) = checks cs"
  by (simp add: checks_def)

lemma checks_Cons_Inl [simp]: "checks (Inl e # cs) = Inl e"
  by (simp add: checks_def)

lemma checks_Cons: "checks (c # cs) = bnd c (\<lambda>_. checks cs)"
  by (simp add: checks_def)

lemma raises_only_checks_Nil [raises]: "raises_only P (checks [])"
  by (simp add: raises_only_def)

lemma raises_only_checks_Cons [raises]:
  "raises_only P c \<Longrightarrow> (c = Inr () \<Longrightarrow> raises_only P (checks cs)) \<Longrightarrow> raises_only P (checks (c # cs))"
  unfolding checks_Cons by (rule raises_only_bnd) auto

definition run_if :: "bool \<Rightarrow> 'e + unit \<Rightarrow> 'e + unit" where
  "run_if c m = (if c then m else Inr ())"

lemma run_if_eq_Inr [simp, result_simps]: "run_if c m = Inr () \<longleftrightarrow> (c \<longrightarrow> m = Inr ())"
  by (simp add: run_if_def)

lemma raises_only_run_if [raises]: "(c \<Longrightarrow> raises_only P m) \<Longrightarrow> raises_only P (run_if c m)"
  by (simp add: run_if_def raises_only_Inr)

section \<open>Helpers\<close>

definition req_object :: "json \<Rightarrow> string \<Rightarrow> exn + json_obj" where
  "req_object value path = (case value of
     JObj d \<Rightarrow> Inr d | _ \<Rightarrow> Inl (SchemaError (path @ '' must be an object'')))"

definition req_keys :: "json_obj \<Rightarrow> string list \<Rightarrow> string \<Rightarrow> exn + unit" where
  "req_keys d keys path =
     forR (\<lambda>key. ensure (has_key d key) (SchemaError (at_key path key @ '' is required''))) keys"

definition req_str :: "json \<Rightarrow> string \<Rightarrow> exn + unit" where
  "req_str value path =
     ensure (is_non_empty_string value) (SchemaError (path @ '' must be a non-empty string''))"

definition req_string :: "json \<Rightarrow> string \<Rightarrow> exn + unit" where
  "req_string value path =
     ensure (case value of JStr _ \<Rightarrow> True | _ \<Rightarrow> False) (SchemaError (path @ '' must be a string''))"

definition req_list :: "json \<Rightarrow> string \<Rightarrow> exn + json list" where
  "req_list value path = (case value of
     JList xs \<Rightarrow> Inr xs | _ \<Rightarrow> Inl (SchemaError (path @ '' must be a list'')))"

definition is_str :: "json \<Rightarrow> bool" where
  "is_str v = (case v of JStr _ \<Rightarrow> True | _ \<Rightarrow> False)"

definition req_strings :: "json \<Rightarrow> string \<Rightarrow> exn + unit" where
  "req_strings value path =
     ensure (case value of JList xs \<Rightarrow> list_all is_str xs | _ \<Rightarrow> False)
       (SchemaError (path @ '' must be a list of strings''))"

text \<open>\<open>isinstance(v, int)\<close> and the integer it is.\<close>

definition as_int :: "json \<Rightarrow> int option" where
  "as_int v = (case v of JInt n \<Rightarrow> Some n | JBool b \<Rightarrow> Some (if b then 1 else 0) | _ \<Rightarrow> None)"

text \<open>The value of a count that was checked to be an integer.\<close>

definition int_of :: "json \<Rightarrow> int" where
  "int_of v = (case as_int v of Some n \<Rightarrow> n | None \<Rightarrow> 0)"

definition int_at_least :: "int \<Rightarrow> json \<Rightarrow> bool" where
  "int_at_least k v = (case as_int v of Some n \<Rightarrow> k \<le> n | None \<Rightarrow> False)"

definition req_nat :: "json \<Rightarrow> string \<Rightarrow> exn + unit" where
  "req_nat value path = ensure (int_at_least 0 value) (SchemaError (path @ '' must be an integer >= 0''))"

text \<open>\<open>isinstance(v, int | float)\<close> and not \<open>v < 0\<close>.\<close>

definition number_not_negative :: "json \<Rightarrow> bool" where
  "number_not_negative v = (case v of
     JInt n \<Rightarrow> 0 \<le> n | JBool _ \<Rightarrow> True
   | JFloat (Finite q) \<Rightarrow> 0 \<le> q | JFloat NegInf \<Rightarrow> False | JFloat _ \<Rightarrow> True | _ \<Rightarrow> False)"

definition req_number :: "json \<Rightarrow> string \<Rightarrow> exn + unit" where
  "req_number value path = ensure (number_not_negative value) (SchemaError (path @ '' must be a number >= 0''))"

definition req_schema :: "json_obj \<Rightarrow> string \<Rightarrow> string \<Rightarrow> exn + unit" where
  "req_schema d expected path =
     ensure (dget d ''schema'' = JStr expected) (SchemaError (path @ ''.schema must be '' @ expected))"

definition optional_named_table :: "json_obj \<Rightarrow> string \<Rightarrow> exn + json_obj" where
  "optional_named_table d key = (case dget_default d key (JObj []) of
     JObj t \<Rightarrow> bnd (ensure (list_all (\<lambda>kv. fst kv \<noteq> []) t)
                     (SchemaError (key @ '' names must be non-empty strings''))) (\<lambda>_. Inr t)
   | _ \<Rightarrow> Inl (SchemaError (key @ '' must be an object'')))"

definition req_mapping :: "json \<Rightarrow> string \<Rightarrow> exn + unit" where
  "req_mapping value path =
     ensure (case value of JObj d \<Rightarrow> list_all (\<lambda>kv. is_str (snd kv)) d | _ \<Rightarrow> False)
       (SchemaError (path @ '' must be an object with string values''))"

definition req_allowed :: "json \<Rightarrow> string list \<Rightarrow> string \<Rightarrow> exn + unit" where
  "req_allowed value allowed path =
     ensure (case value of JStr s \<Rightarrow> s \<in> set allowed | _ \<Rightarrow> False)
       (SchemaError (path @ '' must be one of: '' @ join '', '' (sorted_set allowed)))"

text \<open>\<open>if key in d: f(d[key])\<close> and \<open>if v is not None: f(v)\<close>.\<close>

definition when_key :: "json_obj \<Rightarrow> string \<Rightarrow> (json \<Rightarrow> exn + unit) \<Rightarrow> exn + unit" where
  "when_key d key f = (if has_key d key then f (dget d key) else Inr ())"

definition when_set :: "json \<Rightarrow> (json \<Rightarrow> exn + unit) \<Rightarrow> exn + unit" where
  "when_set v f = (if v = JNull then Inr () else f v)"

text \<open>A non-empty list of non-empty strings, as commands are.\<close>

definition req_command :: "json \<Rightarrow> string \<Rightarrow> exn + unit" where
  "req_command value path =
     bnd (req_list value path) (\<lambda>command.
     ensure (command \<noteq> [] \<and> list_all is_non_empty_string command)
       (SchemaError (path @ '' must contain non-empty strings'')))"

section \<open>Acceptance\<close>

lemma is_str_iff [simp]: "is_str v \<longleftrightarrow> (\<exists>s. v = JStr s)"
  by (cases v) (simp_all add: is_str_def)

lemma req_object_ok [result_simps]: "req_object v path = Inr d \<longleftrightarrow> v = JObj d"
  by (cases v) (simp_all add: req_object_def)

lemma req_keys_ok [result_simps]: "req_keys d keys path = Inr u \<longleftrightarrow> (\<forall>k\<in>set keys. has_key d k)"
  by (simp add: req_keys_def forR_eq_Inr)

lemma req_str_ok [result_simps]: "req_str v path = Inr u \<longleftrightarrow> (\<exists>s. v = JStr s \<and> s \<noteq> [])"
  by (simp add: req_str_def)

lemma req_string_ok [result_simps]: "req_string v path = Inr u \<longleftrightarrow> (\<exists>s. v = JStr s)"
  by (cases v) (simp_all add: req_string_def)

lemma req_list_ok [result_simps]: "req_list v path = Inr xs \<longleftrightarrow> v = JList xs"
  by (cases v) (simp_all add: req_list_def)

lemma req_strings_ok [result_simps]: "req_strings v path = Inr u \<longleftrightarrow> (\<exists>ss. v = JList (map JStr ss))"
proof (cases v)
  case (JList xs)
  have "list_all is_str xs \<longleftrightarrow> (\<exists>ss. xs = map JStr ss)"
  proof
    assume "list_all is_str xs"
    then show "\<exists>ss. xs = map JStr ss"
    proof (induction xs)
      case (Cons x xs)
      then obtain s ss where "x # xs = map JStr (s # ss)" by auto
      then show ?case ..
    qed simp
  qed (auto simp: list_all_iff)
  with JList show ?thesis by (simp add: req_strings_def)
qed (simp_all add: req_strings_def)

lemma req_nat_ok [result_simps]: "req_nat v path = Inr u \<longleftrightarrow> int_at_least 0 v"
  by (simp add: req_nat_def)

lemma req_number_ok [result_simps]: "req_number v path = Inr u \<longleftrightarrow> number_not_negative v"
  by (simp add: req_number_def)

lemma req_schema_ok [result_simps]: "req_schema d s path = Inr u \<longleftrightarrow> dget d ''schema'' = JStr s"
  by (simp add: req_schema_def)

lemma optional_named_table_ok [result_simps]:
  "optional_named_table d key = Inr t \<longleftrightarrow> dget_default d key (JObj []) = JObj t \<and> [] \<notin> fst ` set t"
  by (cases "dget_default d key (JObj [])")
    (auto simp: optional_named_table_def bnd_eq_Inr list_all_iff image_iff)

lemma req_mapping_ok [result_simps]:
  "req_mapping v path = Inr u \<longleftrightarrow> (\<exists>d. v = JObj d \<and> (\<forall>kv\<in>set d. is_str (snd kv)))"
  by (cases v) (simp_all add: req_mapping_def list_all_iff)

lemma req_allowed_ok [result_simps]:
  "req_allowed v allowed path = Inr u \<longleftrightarrow> (\<exists>s. v = JStr s \<and> s \<in> set allowed)"
  by (cases v) (simp_all add: req_allowed_def)

lemma when_key_ok [result_simps]:
  "when_key d key f = Inr () \<longleftrightarrow> (has_key d key \<longrightarrow> f (dget d key) = Inr ())"
  by (simp add: when_key_def)

lemma when_set_ok [result_simps]: "when_set v f = Inr () \<longleftrightarrow> (v \<noteq> JNull \<longrightarrow> f v = Inr ())"
  by (simp add: when_set_def)

lemma when_set_JNull [simp]: "when_set JNull f = Inr ()" by (simp add: when_set_def)

lemma req_command_ok [result_simps]:
  "req_command v path = Inr () \<longleftrightarrow> (\<exists>xs. v = JList xs \<and> xs \<noteq> [] \<and> list_all is_non_empty_string xs)"
  by (auto simp: req_command_def bnd_eq_Inr req_list_ok)

section \<open>Exceptions\<close>

definition is_schema_error :: "exn \<Rightarrow> bool" where
  "is_schema_error e = (case e of SchemaError _ \<Rightarrow> True | _ \<Rightarrow> False)"

lemma is_schema_error_SchemaError [simp]: "is_schema_error (SchemaError m)"
  by (simp add: is_schema_error_def)

lemma req_raises [raises]:
  "raises_only is_schema_error (req_object v path)" "raises_only is_schema_error (req_keys d keys path)"
  "raises_only is_schema_error (req_str v path)" "raises_only is_schema_error (req_string v path)"
  "raises_only is_schema_error (req_list v path)" "raises_only is_schema_error (req_strings v path)"
  "raises_only is_schema_error (req_nat v path)" "raises_only is_schema_error (req_number v path)"
  "raises_only is_schema_error (req_schema d s path)" "raises_only is_schema_error (optional_named_table d s)"
  "raises_only is_schema_error (req_mapping v path)" "raises_only is_schema_error (req_allowed v allowed path)"
  "raises_only is_schema_error (req_command v path)"
  unfolding req_object_def req_keys_def req_str_def req_string_def req_list_def req_strings_def req_nat_def
    req_number_def req_schema_def optional_named_table_def req_mapping_def req_allowed_def req_command_def
  by (intro raises; simp)+

lemma when_raises [raises]:
  "(\<And>v. raises_only P (f v)) \<Longrightarrow> raises_only P (when_key d key f)"
  "(\<And>v. raises_only P (f v)) \<Longrightarrow> raises_only P (when_set v f)"
  by (simp_all add: when_key_def when_set_def raises_only_Inr)

end
