(* ===== verification/Regatta.thy ===== *)
theory Regatta
  imports SchemaChecks CourseRegistry InstallRenderers
begin

text \<open>
  \<open>validate_regatta_document\<close> of \<open>src/yacht/contracts/schemas.py\<close> and everything it calls: the
  contract of a regatta file (preflight policy, secrets, harness declarations, runtimes, tools,
  riggings, course, vessels, comparisons, export attribution).

  The document is the parsed TOML as \<open>json\<close>. TOML's date and time values are not modelled.
  A loop over a Python set of error keys that only picks a message is not order-sensitive here.
\<close>

section \<open>Vocabularies\<close>

definition BUILT_IN_HARNESS_NAMES :: "string list" where
  "BUILT_IN_HARNESS_NAMES = [''claude-code'', ''codex'', ''local-smoke'', ''omp'', ''pi'']"

definition HARNESS_PROMPT_MODES :: "string list" where
  "HARNESS_PROMPT_MODES = [''argument'', ''stdin'']"

definition HARNESS_EVIDENCE_SOURCES :: "string list" where
  "HARNESS_EVIDENCE_SOURCES = [''stdout'', ''file'']"

definition EVALUATOR_RELATIONSHIPS :: "string list" where
  "EVALUATOR_RELATIONSHIPS = [''first_party'', ''third_party'', ''collaborative'', ''other'']"

definition PREFLIGHT_FAILURE_POLICIES :: "string list" where
  "PREFLIGHT_FAILURE_POLICIES = [''abort-group'', ''skip-vessel'', ''abort-regatta'', ''warn'']"

definition COURSE_ADAPTER_KINDS :: "string list" where
  "COURSE_ADAPTER_KINDS = supported_benchmark_adapter_kinds"

definition RIGGING_INSTALL_METHODS :: "string list" where
  "RIGGING_INSTALL_METHODS =
     [''agent-extension'', ''mcp-server'', ''package'', ''binary'', ''container-image'', ''config-file'',
      ''preinstalled'', ''custom-command'', ''skill'']"

definition PREFLIGHT_CHECK_KINDS :: "string list" where
  "PREFLIGHT_CHECK_KINDS =
     [''agent-prompt'', ''artifact'', ''command'', ''env'', ''install-only'', ''mcp-server'',
      ''path-isolation'', ''runtime-capability'', ''tool-call'']"

definition MAX_INSTANCE_SELECTION_SEED :: int where
  "MAX_INSTANCE_SELECTION_SEED = 9223372036854775807"

section \<open>Preflight, secrets, harnesses\<close>

definition validate_preflight_config :: "json_obj \<Rightarrow> exn + unit" where
  "validate_preflight_config document = (case dget_default document ''preflight'' (JObj []) of
     JObj preflight \<Rightarrow> req_allowed (dget_default preflight ''failure_policy'' (JStr ''abort-group''))
       PREFLIGHT_FAILURE_POLICIES ''preflight.failure_policy''
   | _ \<Rightarrow> Inl (SchemaError ''preflight must be an object''))"

definition validate_secret :: "string \<times> json \<Rightarrow> exn + unit" where
  "validate_secret = (\<lambda>(secret_name, secret_value).
     let path = at_key ''secrets'' secret_name in
     bnd (req_object secret_value path) (\<lambda>secret. checks [
       req_str (dget secret ''source'') (at_key path ''source''),
       if dget secret ''source'' = JStr ''env'' then req_str (dget secret ''name'') (at_key path ''name'')
       else if dget secret ''source'' = JStr ''file'' then req_str (dget secret ''path'') (at_key path ''path'')
       else Inl (SchemaError (at_key path ''source must be env or file''))]))"

definition validate_secret_references :: "json_obj \<Rightarrow> exn + string list" where
  "validate_secret_references document =
     bnd (optional_named_table document ''secrets'') (\<lambda>secrets.
     bnd (forR validate_secret secrets) (\<lambda>_. Inr (map fst secrets)))"

definition is_sha256_hex :: "string \<Rightarrow> bool" where
  "is_sha256_hex s = (length s = 64
     \<and> list_all (\<lambda>c. is_digit c \<or> 97 \<le> code_point c \<and> code_point c \<le> 102) s)"

definition validate_harness_install :: "json \<Rightarrow> string \<Rightarrow> exn + unit" where
  "validate_harness_install value path =
     bnd (req_object value path) (\<lambda>install. checks [
       ensure (case dget install ''sha256'' of JStr s \<Rightarrow> is_sha256_hex s | _ \<Rightarrow> False)
         (SchemaError (at_key path ''sha256 must be a 64-character lowercase hex digest'')),
       ensure (has_key install ''url'' \<noteq> has_key install ''path'')
         (SchemaError (path @ '' must set exactly one of url or path'')),
       when_key install ''url'' (\<lambda>v. req_str v (at_key path ''url'')),
       when_key install ''path'' (\<lambda>v. req_str v (at_key path ''path''))])"

definition EVIDENCE_MAP_REQUIRED :: "string list" where
  "EVIDENCE_MAP_REQUIRED = [''response'', ''input_tokens'', ''output_tokens'']"

definition EVIDENCE_MAP_ALLOWED :: "string list" where
  "EVIDENCE_MAP_ALLOWED = EVIDENCE_MAP_REQUIRED @ [''tool_calls'', ''model'', ''cost_usd'', ''usage_reported'']"

definition validate_evidence_map :: "json \<Rightarrow> string \<Rightarrow> exn + unit" where
  "validate_evidence_map value path =
     bnd (req_object value path) (\<lambda>mapping. checks [
       forR (\<lambda>key. req_str (dget mapping key) (at_key path key)) EVIDENCE_MAP_REQUIRED,
       forR (\<lambda>(key, mapped). checks [
         ensure (key \<in> set EVIDENCE_MAP_ALLOWED)
           (SchemaError (at_key path key @ '' is not a mappable evidence field; allowed: ''
              @ join '', '' (sorted_set EVIDENCE_MAP_ALLOWED))),
         req_str mapped (at_key path key)]) mapping])"

definition validate_harness_declaration :: "string \<times> json \<Rightarrow> exn + unit" where
  "validate_harness_declaration = (\<lambda>(name, declaration_value).
     let path = at_key ''harnesses'' name in checks [
       req_str (JStr name) ''harnesses key'',
       ensure (name \<notin> set BUILT_IN_HARNESS_NAMES)
         (SchemaError (path @ '' must not shadow the built-in harness '' @ name)),
       bnd (req_object declaration_value path) (\<lambda>declaration. checks [
         req_allowed (dget_default declaration ''prompt'' (JStr ''argument'')) HARNESS_PROMPT_MODES (at_key path ''prompt''),
         req_allowed (dget_default declaration ''evidence'' (JStr ''stdout'')) HARNESS_EVIDENCE_SOURCES (at_key path ''evidence''),
         when_key declaration ''command'' (\<lambda>v. req_command v (at_key path ''command'')),
         when_key declaration ''install'' (\<lambda>v. validate_harness_install v (at_key path ''install'')),
         when_key declaration ''evidence_map'' (\<lambda>v. validate_evidence_map v (at_key path ''evidence_map''))])])"

definition validate_harness_declarations :: "json_obj \<Rightarrow> exn + unit" where
  "validate_harness_declarations document =
     bnd (optional_named_table document ''harnesses'') (\<lambda>declarations.
     forR validate_harness_declaration declarations)"

definition validate_declared_evidence_backends :: "json_obj \<Rightarrow> exn + unit" where
  "validate_declared_evidence_backends document =
     bnd (optional_named_table document ''harnesses'') (\<lambda>declarations.
     if declarations = [] then Inr ()
     else bnd (optional_named_table document ''runtimes'') (\<lambda>runtimes.
       forR (\<lambda>(runtime_name, runtime_value). case runtime_value of
         JObj runtime \<Rightarrow> (case dget runtime ''harness'' of
           JStr harness \<Rightarrow> (case dget declarations harness of
             JObj declaration \<Rightarrow>
               ensure (\<not> (dget runtime ''backend'' = JStr ''container''
                          \<and> dget_default declaration ''evidence'' (JStr ''stdout'') = JStr ''file''))
                 (SchemaError (at_key ''runtimes'' runtime_name @ '' uses declared harness '' @ harness
                    @ '' with file evidence, which does not reach container runtimes yet''))
           | _ \<Rightarrow> Inr ())
         | _ \<Rightarrow> Inr ())
       | _ \<Rightarrow> Inr ()) runtimes))"

section \<open>Runtimes\<close>

definition req_absolute_container_path :: "json \<Rightarrow> string \<Rightarrow> exn + unit" where
  "req_absolute_container_path value path = checks [
     req_str value path,
     ensure (case value of JStr s \<Rightarrow> take 1 s = ''/'' | _ \<Rightarrow> False)
       (SchemaError (path @ '' must be an absolute container path''))]"

definition req_present :: "json_obj \<Rightarrow> string \<Rightarrow> string \<Rightarrow> exn + unit" where
  "req_present d key message = ensure (has_key d key) (SchemaError message)"

definition validate_runtime_backend_fields :: "json_obj \<Rightarrow> string \<Rightarrow> exn + unit" where
  "validate_runtime_backend_fields runtime path =
     (let backend = dget runtime ''backend'' in
      if backend = JStr ''host-nix'' then checks [
        req_present runtime ''command'' (at_key path ''command is required''),
        req_present runtime ''flake'' (at_key path ''flake is required''),
        req_str (dget runtime ''flake'') (at_key path ''flake''),
        when_key runtime ''image'' (\<lambda>v. req_str v (at_key path ''image''))]
      else if backend = JStr ''container'' then checks [
        req_present runtime ''command'' (at_key path ''command is required''),
        req_present runtime ''image'' (at_key path ''image is required''),
        req_str (dget runtime ''image'') (at_key path ''image''),
        when_key runtime ''flake'' (\<lambda>v. req_str v (at_key path ''flake'')),
        req_absolute_container_path (dget_default runtime ''container_home'' (JStr ''/home/yacht''))
          (at_key path ''container_home''),
        req_absolute_container_path (dget_default runtime ''container_workspace'' (JStr ''/workspace''))
          (at_key path ''container_workspace'')]
      else if backend = JStr ''harbor'' then checks [
        forR (\<lambda>key. ensure (\<not> has_key runtime key)
          (SchemaError (at_key path key @ '' must not be set for the harbor backend; the launcher image owns execution'')))
          [''command'', ''flake''],
        forR (\<lambda>key. req_present runtime key (at_key path key @ '' is required for the harbor backend''))
          [''image'', ''harness'', ''harness_version''],
        req_str (dget runtime ''image'') (at_key path ''image'')]
      else Inl (SchemaError (at_key path ''backend must be host-nix, container, or harbor'')))"

definition str_items :: "json \<Rightarrow> string list" where
  "str_items v = (case v of JList xs \<Rightarrow> concat (map (\<lambda>x. case x of JStr s \<Rightarrow> [s] | _ \<Rightarrow> []) xs) | _ \<Rightarrow> [])"

definition validate_check :: "string \<Rightarrow> nat \<Rightarrow> json \<Rightarrow> exn + unit" where
  "validate_check path index check_value =
     (let check_path = at_index (at_key path ''checks'') index in
      bnd (req_object check_value check_path) (\<lambda>check.
      let kind = dget check ''kind'' in checks [
        req_str (dget check ''name'') (at_key check_path ''name''),
        req_allowed kind PREFLIGHT_CHECK_KINDS (at_key check_path ''kind''),
        ensure (is_bool (dget_default check ''required'' (JBool True)))
          (SchemaError (at_key check_path ''required must be a boolean'')),
        run_if (kind = JStr ''command'')
          (req_command (dget_default check ''command'' (JList [])) (at_key check_path ''command'')),
        run_if (kind = JStr ''env'' \<or> kind = JStr ''path-isolation'') (checks [
          req_strings (dget check ''env'') (at_key check_path ''env''),
          ensure (truthy (dget check ''env''))
            (SchemaError (at_key check_path ''env must contain at least one env var''))]),
        run_if (kind = JStr ''agent-prompt'') (checks [
          req_str (dget check ''prompt'') (at_key check_path ''prompt''),
          req_strings (dget_default check ''expect_tool_calls'' (JList [])) (at_key check_path ''expect_tool_calls''),
          req_strings (dget_default check ''expect_response_contains'' (JList []))
            (at_key check_path ''expect_response_contains'')]),
        run_if (kind = JStr ''tool-call'') (checks [
          req_strings (dget check ''expect_tool_calls'') (at_key check_path ''expect_tool_calls''),
          ensure (truthy (dget check ''expect_tool_calls''))
            (SchemaError (at_key check_path ''expect_tool_calls must contain at least one tool''))])]))"

definition validate_preflight_recipe :: "json \<Rightarrow> string \<Rightarrow> exn + unit" where
  "validate_preflight_recipe value path =
     bnd (req_object value path) (\<lambda>preflight. checks [
       ensure (is_bool (dget_default preflight ''required'' (JBool True)))
         (SchemaError (at_key path ''required must be a boolean'')),
       bnd (req_list (dget_default preflight ''checks'' (JList [])) (at_key path ''checks''))
         (\<lambda>cs. forI (validate_check path) 0 cs)])"

text \<open>\<open>for secret in d.get("required_secrets", [])\<close>, after it was checked to be a list of strings.\<close>

definition validate_required_secrets :: "json_obj \<Rightarrow> string list \<Rightarrow> string \<Rightarrow> exn + unit" where
  "validate_required_secrets d secrets path =
     forR (\<lambda>secret. ensure (secret \<in> set secrets)
       (SchemaError (at_key path ''required_secrets references undefined secret '' @ secret)))
       (str_items (dget_default d ''required_secrets'' (JList [])))"

definition validate_runtime :: "string list \<Rightarrow> string \<times> json \<Rightarrow> exn + unit" where
  "validate_runtime secrets = (\<lambda>(runtime_name, runtime_value).
     let path = at_key ''runtimes'' runtime_name in
     bnd (req_object runtime_value path) (\<lambda>runtime. checks [
       req_keys runtime [''backend''] path,
       req_str (dget runtime ''backend'') (at_key path ''backend''),
       validate_runtime_backend_fields runtime path,
       forR (\<lambda>key. when_key runtime key (\<lambda>v. req_str v (at_key path key))) [''harness'', ''harness_version'', ''agent''],
       ensure (\<not> (has_key runtime ''harness'' \<and> has_key runtime ''agent''
                  \<and> dget runtime ''harness'' \<noteq> dget runtime ''agent''))
         (SchemaError (at_key path ''agent must match '' @ at_key path ''harness when both are set'')),
       when_key runtime ''command'' (\<lambda>v. req_command v (at_key path ''command'')),
       req_mapping (dget_default runtime ''env'' (JObj [])) (at_key path ''env''),
       req_strings (dget_default runtime ''required_secrets'' (JList [])) (at_key path ''required_secrets''),
       req_strings (dget_default runtime ''mounts'' (JList [])) (at_key path ''mounts''),
       validate_preflight_recipe (dget_default runtime ''preflight'' (JObj [])) (at_key path ''preflight''),
       validate_required_secrets runtime secrets path]))"

definition validate_runtime_recipes :: "json_obj \<Rightarrow> string list \<Rightarrow> exn + string list" where
  "validate_runtime_recipes document secrets =
     bnd (optional_named_table document ''runtimes'') (\<lambda>runtimes.
     bnd (forR (validate_runtime secrets) runtimes) (\<lambda>_. Inr (map fst runtimes)))"

section \<open>Tools and riggings\<close>

definition validate_provided :: "string \<Rightarrow> string \<Rightarrow> nat \<Rightarrow> json \<Rightarrow> exn + unit" where
  "validate_provided tool_name path index entry_value =
     (let entry_path = at_index (at_key path ''provides'') index in
      bnd (req_object entry_value entry_path) (\<lambda>entry. checks [
        req_allowed (dget entry ''method'') [''mcp-server''] (at_key entry_path ''method''),
        req_str (dget entry ''harness'') (at_key entry_path ''harness''),
        ensure (case dget entry ''harness'' of JStr h \<Rightarrow> supported_mcp_install_provider tool_name h | _ \<Rightarrow> False)
          (SchemaError (entry_path @ '' declares an unsupported provider: yacht does not ship a rendering for tool ''
             @ tool_name))]))"

definition validate_tool :: "string \<times> json \<Rightarrow> exn + unit" where
  "validate_tool = (\<lambda>(tool_name, tool_value).
     let path = at_key ''tools'' tool_name in
     bnd (req_object tool_value path) (\<lambda>tool. checks [
       req_str (dget tool ''kind'') (at_key path ''kind''),
       when_key tool ''description'' (\<lambda>v. req_string v (at_key path ''description'')),
       req_strings (dget_default tool ''interfaces'' (JList [])) (at_key path ''interfaces''),
       req_strings (dget_default tool ''install_methods'' (JList [])) (at_key path ''install_methods''),
       forR (\<lambda>m. req_allowed (JStr m) RIGGING_INSTALL_METHODS (at_key path ''install_methods''))
         (str_items (dget_default tool ''install_methods'' (JList []))),
       req_strings (dget_default tool ''expected_tool_calls'' (JList [])) (at_key path ''expected_tool_calls''),
       bnd (req_list (dget_default tool ''provides'' (JList [])) (at_key path ''provides''))
         (\<lambda>provides. forI (validate_provided tool_name path) 0 provides)]))"

definition validate_tool_capabilities :: "json_obj \<Rightarrow> exn + string list" where
  "validate_tool_capabilities document =
     bnd (optional_named_table document ''tools'') (\<lambda>tools.
     bnd (forR validate_tool tools) (\<lambda>_.
     Inr (map fst BUILT_IN_TOOL_CAPABILITIES @ map fst tools)))"

definition validate_resource :: "string \<Rightarrow> nat \<Rightarrow> json \<Rightarrow> exn + unit" where
  "validate_resource step_path index resource_value =
     (let resource_path = at_index (at_key step_path ''resources'') index in
      bnd (req_object resource_value resource_path) (\<lambda>resource. checks [
        req_keys resource [''path''] resource_path,
        req_str (dget resource ''path'') (at_key resource_path ''path''),
        ensure (case dget resource ''path'' of
                  JStr p \<Rightarrow> take 1 p \<noteq> ''/'' \<and> ''..'' \<notin> set (split_on CHR ''/'' p) | _ \<Rightarrow> False)
          (SchemaError (at_key resource_path ''path must be relative and must not contain '' @ py_repr ''..'')),
        ensure (has_key resource ''content'' \<noteq> has_key resource ''source'')
          (SchemaError (resource_path @ '' must define exactly one of content or source'')),
        when_key resource ''content'' (\<lambda>v. req_string v (at_key resource_path ''content'')),
        when_key resource ''source'' (\<lambda>v. req_str v (at_key resource_path ''source''))]))"

text \<open>\<open>str(resource["path"])\<close> of resources already checked.\<close>

definition resource_paths :: "json list \<Rightarrow> string list" where
  "resource_paths resources = concat (map (\<lambda>r. case r of
     JObj d \<Rightarrow> (case dget d ''path'' of JStr p \<Rightarrow> [p] | _ \<Rightarrow> []) | _ \<Rightarrow> []) resources)"

definition validate_step_resources :: "json_obj \<Rightarrow> string \<Rightarrow> json \<Rightarrow> exn + unit" where
  "validate_step_resources step step_path resources_value = checks [
     ensure (dget step ''method'' = JStr ''skill'')
       (SchemaError (at_key step_path ''resources is only valid for skill installs'')),
     bnd (req_list resources_value (at_key step_path ''resources'')) (\<lambda>resources. checks [
       forI (validate_resource step_path) 0 resources,
       (case normalized_resource_paths (resource_paths resources) of
          Inr _ \<Rightarrow> Inr ()
        | Inl (SkillError m) \<Rightarrow> Inl (SchemaError (at_key step_path ''resources: '' @ m))
        | Inl e \<Rightarrow> Inl e)])]"

definition validate_install_step :: "string \<Rightarrow> nat \<Rightarrow> json \<Rightarrow> exn + unit" where
  "validate_install_step path index step_value =
     (let step_path = at_index path index in case step_value of
        JStr s \<Rightarrow> ensure (s \<noteq> []) (SchemaError (step_path @ '' must be a non-empty string''))
      | _ \<Rightarrow> bnd (req_object step_value step_path) (\<lambda>step. checks [
          req_keys step [''method'', ''target''] step_path,
          req_allowed (dget step ''method'') RIGGING_INSTALL_METHODS (at_key step_path ''method''),
          req_str (dget step ''target'') (at_key step_path ''target''),
          forR (\<lambda>key. when_key step key (\<lambda>v. req_str v (at_key step_path key))) [''agent'', ''runtime'', ''package'', ''source''],
          when_key step ''content'' (\<lambda>v. req_string v (at_key step_path ''content'')),
          when_key step ''command'' (\<lambda>v. req_command v (at_key step_path ''command'')),
          when_key step ''resources'' (validate_step_resources step step_path)]))"

definition validate_rigging_install_steps :: "json \<Rightarrow> string \<Rightarrow> exn + unit" where
  "validate_rigging_install_steps value path =
     bnd (req_list value path) (\<lambda>steps. forI (validate_install_step path) 0 steps)"

definition validate_rigging :: "string list \<Rightarrow> string list \<Rightarrow> string \<times> json \<Rightarrow> exn + unit" where
  "validate_rigging secrets tools = (\<lambda>(rigging_name, rigging_value).
     let path = at_key ''riggings'' rigging_name in
     bnd (req_object rigging_value path) (\<lambda>rigging. checks [
       req_strings (dget_default rigging ''tools'' (JList [])) (at_key path ''tools''),
       forR (\<lambda>tool_name. ensure (tool_name \<in> set tools)
         (SchemaError (at_key path ''tools references undefined tool '' @ tool_name @ ''; define [tools.'' @ tool_name @ '']'')))
         (str_items (dget_default rigging ''tools'' (JList []))),
       validate_rigging_install_steps (dget_default rigging ''install'' (JList [])) (at_key path ''install''),
       req_mapping (dget_default rigging ''env'' (JObj [])) (at_key path ''env''),
       req_string (dget_default rigging ''instructions'' (JStr [])) (at_key path ''instructions''),
       req_strings (dget_default rigging ''required_secrets'' (JList [])) (at_key path ''required_secrets''),
       validate_preflight_recipe (dget_default rigging ''preflight'' (JObj [])) (at_key path ''preflight''),
       validate_required_secrets rigging secrets path]))"

definition validate_rigging_recipes :: "json_obj \<Rightarrow> string list \<Rightarrow> string list \<Rightarrow> exn + string list" where
  "validate_rigging_recipes document secrets tools =
     bnd (optional_named_table document ''riggings'') (\<lambda>riggings.
     bnd (forR (validate_rigging secrets tools) riggings) (\<lambda>_. Inr (map fst riggings)))"

section \<open>The course\<close>

text \<open>\<open>_CONTEST_DATE.fullmatch\<close>.\<close>

definition is_contest_date :: "string \<Rightarrow> bool" where
  "is_contest_date s = (length s = 10
     \<and> list_all (\<lambda>i. if i = 4 \<or> i = 7 then s ! i = CHR ''-'' else is_digit (s ! i)) [0..<10])"

definition validate_course_adapter_window :: "json_obj \<Rightarrow> string \<Rightarrow> exn + unit" where
  "validate_course_adapter_window adapter path = checks [
     forR (\<lambda>key. ensure (case dget adapter key of JNull \<Rightarrow> True | JStr s \<Rightarrow> is_contest_date s | _ \<Rightarrow> False)
       (SchemaError (at_key path key @ '' must be a YYYY-MM-DD date string''))) [''start_date'', ''end_date''],
     ensure (case (dget adapter ''start_date'', dget adapter ''end_date'') of
               (JStr a, JStr b) \<Rightarrow> \<not> b < a | _ \<Rightarrow> True)
       (SchemaError (at_key path ''start_date must not be after '' @ at_key path ''end_date'')),
     ensure (\<not> (dget adapter ''kind'' = JStr ''livecodebench''
                \<and> (dget adapter ''start_date'' = JNull \<or> dget adapter ''end_date'' = JNull)))
       (SchemaError (path @ '' requires start_date and end_date for the livecodebench contest-date window''))]"

definition validate_course_adapter_selection :: "json_obj \<Rightarrow> string \<Rightarrow> exn + unit" where
  "validate_course_adapter_selection adapter path =
     when_set (dget adapter ''selection'') (\<lambda>v.
       let selection_path = at_key path ''selection'' in
       bnd (req_object v selection_path) (\<lambda>selection. checks [
         req_keys selection [''method'', ''seed''] selection_path,
         req_allowed (dget selection ''method'') [''random''] (at_key selection_path ''method''),
         ensure (case dget selection ''seed'' of JInt n \<Rightarrow> 0 \<le> n | _ \<Rightarrow> False)
           (SchemaError (at_key selection_path ''seed must be an integer >= 0'')),
         ensure (case dget selection ''seed'' of JInt n \<Rightarrow> n \<le> MAX_INSTANCE_SELECTION_SEED | _ \<Rightarrow> True)
           (SchemaError (at_key selection_path ''seed must be <= '' @ int_str MAX_INSTANCE_SELECTION_SEED)),
         ensure (dget adapter ''max_instances'' \<noteq> JNull)
           (SchemaError (at_key path ''max_instances is required for random selection''))]))"

definition unique_step :: "string \<Rightarrow> nat \<Rightarrow> string list \<Rightarrow> json \<Rightarrow> exn + string list" where
  "unique_step path index seen item =
     bnd (req_str item (at_index path index)) (\<lambda>_. case item of
       JStr s \<Rightarrow> bnd (ensure (s \<notin> set seen) (SchemaError (at_index path index @ '' is duplicated''))) (\<lambda>_. Inr (seen @ [s]))
     | _ \<Rightarrow> Inr seen)"

definition validate_adapter_instance_ids :: "json \<Rightarrow> string \<Rightarrow> exn + unit" where
  "validate_adapter_instance_ids value path =
     bnd (req_list value path) (\<lambda>instance_ids.
     bnd (ensure (instance_ids \<noteq> []) (SchemaError (path @ '' must contain at least one instance ID''))) (\<lambda>_.
     bnd (foldR (unique_step path) 0 [] instance_ids) (\<lambda>_. Inr ())))"

definition req_files :: "json \<Rightarrow> string \<Rightarrow> exn + unit" where
  "req_files value path =
     bnd (req_list value path) (\<lambda>files. checks [
       ensure (files \<noteq> []) (SchemaError (path @ '' must contain at least one file'')),
       forI (\<lambda>index file. req_str file (at_index path index)) 0 files])"

definition not_both :: "json_obj \<Rightarrow> string \<Rightarrow> string \<Rightarrow> string \<Rightarrow> exn + unit" where
  "not_both d a b path = ensure (dget d a = JNull \<or> dget d b = JNull)
     (SchemaError (path @ '' must not define both '' @ a @ '' and '' @ b))"

definition validate_course_adapter_fields :: "json_obj \<Rightarrow> string \<Rightarrow> exn + unit" where
  "validate_course_adapter_fields adapter path = checks [
     req_keys adapter [''kind'', ''dataset'', ''split'', ''harness''] path,
     req_allowed (dget adapter ''kind'') COURSE_ADAPTER_KINDS (at_key path ''kind''),
     forR (\<lambda>key. req_str (dget adapter key) (at_key path key)) [''dataset'', ''split''],
     (case dget adapter ''kind'' of
        JStr kind \<Rightarrow> bnd (supported_course_adapter_harnesses (Some kind)) (\<lambda>harnesses.
          req_allowed (dget adapter ''harness'') harnesses (at_key path ''harness''))
      | _ \<Rightarrow> Inr ()),
     validate_course_adapter_window adapter path,
     validate_course_adapter_selection adapter path,
     when_set (dget adapter ''content_digest'') (\<lambda>v. req_str v (at_key path ''content_digest'')),
     when_set (dget adapter ''instance_ids'') (\<lambda>v. validate_adapter_instance_ids v (at_key path ''instance_ids'')),
     not_both adapter ''instance_ids'' ''instance_file'' path,
     not_both adapter ''instance_ids'' ''instance_files'' path,
     not_both adapter ''instance_file'' ''instance_files'' path,
     when_set (dget adapter ''instance_file'') (\<lambda>v. req_str v (at_key path ''instance_file'')),
     when_set (dget adapter ''instance_files'') (\<lambda>v. req_files v (at_key path ''instance_files'')),
     when_set (dget adapter ''max_instances'') (\<lambda>v. ensure (int_at_least 1 v)
       (SchemaError (at_key path ''max_instances must be an integer >= 1'')))]"

definition validate_course_adapter :: "json_obj \<Rightarrow> exn + unit" where
  "validate_course_adapter course = when_set (dget course ''adapter'') (\<lambda>v.
     bnd (req_object v ''course.adapter'') (\<lambda>adapter. validate_course_adapter_fields adapter ''course.adapter''))"

definition course_adapter_selects_instances :: "json \<Rightarrow> bool" where
  "course_adapter_selects_instances adapter = (case adapter of
     JObj d \<Rightarrow> list_ex (has_key d) [''instance_ids'', ''instance_file'', ''instance_files''] | _ \<Rightarrow> False)"

definition course_adapter_instance_ids :: "json \<Rightarrow> string list" where
  "course_adapter_instance_ids adapter = (case adapter of
     JObj d \<Rightarrow> str_items (dget d ''instance_ids'') | _ \<Rightarrow> [])"

definition adapter_native_rollout :: "json \<Rightarrow> bool" where
  "adapter_native_rollout kind = (case kind of
     JStr k \<Rightarrow> k \<in> set COURSE_ADAPTER_KINDS
       \<and> (case course_adapter k of Inr a \<Rightarrow> course_native_rollout a | Inl _ \<Rightarrow> False)
   | _ \<Rightarrow> False)"

definition validate_expect_response :: "json \<Rightarrow> string \<Rightarrow> exn + unit" where
  "validate_expect_response value path =
     bnd (req_object value path) (\<lambda>expectations. checks [
       ensure (expectations \<noteq> []) (SchemaError (path @ '' must contain at least one field'')),
       forR (\<lambda>(key, expected). checks [
         ensure (key \<noteq> []) (SchemaError (path @ '' keys must be non-empty strings'')),
         ensure (case expected of JStr _ \<Rightarrow> True | JBool _ \<Rightarrow> True | JInt _ \<Rightarrow> True | JFloat _ \<Rightarrow> True | _ \<Rightarrow> False)
           (SchemaError (at_key path key @ '' must be a string, boolean, integer, or number''))]) expectations])"

definition validate_expect_tool_calls :: "json \<Rightarrow> string \<Rightarrow> exn + unit" where
  "validate_expect_tool_calls value path =
     bnd (req_list value path) (\<lambda>tool_calls.
       forI (\<lambda>index c. ensure (is_non_empty_string c) (SchemaError (at_index path index @ '' must be non-empty'')))
         0 tool_calls)"

text \<open>One task: the ids seen so far grow by its id.\<close>

definition validate_course_task :: "nat \<Rightarrow> string list \<Rightarrow> json \<Rightarrow> exn + string list" where
  "validate_course_task index task_ids task_value =
     (let path = at_index ''course.tasks'' index in
      bnd (req_object task_value path) (\<lambda>task.
      bnd (req_str (dget task ''id'') (at_key path ''id'')) (\<lambda>_. case dget task ''id'' of
        JStr task_id \<Rightarrow> bnd (checks [
          ensure (task_id \<notin> set task_ids) (SchemaError (at_key path ''id is duplicated'')),
          req_str (dget task ''title'') (at_key path ''title''),
          ensure (int_at_least 1 (dget_default task ''difficulty'' (JInt 1)))
            (SchemaError (at_key path ''difficulty must be an integer >= 1'')),
          forR (\<lambda>f. when_key task f (\<lambda>v. req_str v (at_key path f)))
            [''repo'', ''repo_url'', ''base_commit'', ''problem_statement''],
          when_key task ''expect_response'' (\<lambda>v. validate_expect_response v (at_key path ''expect_response'')),
          when_key task ''expect_tool_calls'' (\<lambda>v. validate_expect_tool_calls v (at_key path ''expect_tool_calls''))])
          (\<lambda>_. Inr (task_ids @ [task_id]))
      | _ \<Rightarrow> Inr task_ids)))"

definition validate_course_tasks :: "json_obj \<Rightarrow> exn + string list" where
  "validate_course_tasks course =
     (let adapter = dget course ''adapter'';
          selects = course_adapter_selects_instances adapter
      in bnd (checks [
        ensure (\<not> (has_key course ''tasks'' \<and> has_key course ''task_file''))
          (SchemaError ''course must not define both tasks and task_file''),
        ensure (\<not> (has_key course ''tasks'' \<and> has_key course ''task_files''))
          (SchemaError ''course must not define both tasks and task_files''),
        ensure (\<not> (has_key course ''task_file'' \<and> has_key course ''task_files''))
          (SchemaError ''course must not define both task_file and task_files''),
        when_key course ''task_file'' (\<lambda>v. req_str v ''course.task_file''),
        when_key course ''task_files'' (\<lambda>v. req_files v ''course.task_files''),
        ensure (has_key course ''tasks'' \<or> has_key course ''task_file'' \<or> has_key course ''task_files'' \<or> selects)
          (SchemaError (''course.tasks, course.task_file, or course.task_files must define at ''
             @ ''least one task unless course.adapter selects benchmark tasks''))]) (\<lambda>_.
      bnd (req_list (dget_default course ''tasks'' (JList [])) ''course.tasks'') (\<lambda>tasks.
      bnd (ensure (tasks \<noteq> [] \<or> has_key course ''task_file'' \<or> has_key course ''task_files'' \<or> selects)
            (SchemaError ''course.tasks must contain at least one task'')) (\<lambda>_.
      bnd (foldR validate_course_task 0 [] tasks) (\<lambda>task_ids.
      bnd (ensure (course_adapter_instance_ids adapter = []
                   \<or> set task_ids \<subseteq> set (course_adapter_instance_ids adapter))
            (SchemaError ''course.tasks contains IDs not selected by course.adapter.instance_ids'')) (\<lambda>_.
      Inr task_ids))))))"

section \<open>Vessels and comparisons\<close>

text \<open>\<open>runtimes_table.get(runtime, {}).get("backend")\<close>.\<close>

definition runtime_backend :: "json_obj \<Rightarrow> string \<Rightarrow> exn + json" where
  "runtime_backend runtimes_table runtime = (case map_of runtimes_table runtime of
     None \<Rightarrow> Inr JNull
   | Some (JObj r) \<Rightarrow> Inr (dget r ''backend'')
   | Some _ \<Rightarrow> Inl (AttributeError ''object has no attribute get''))"

definition validate_vessel_runtime ::
    "json_obj \<Rightarrow> string list \<Rightarrow> json \<Rightarrow> string \<Rightarrow> json \<Rightarrow> exn + unit" where
  "validate_vessel_runtime runtimes_table runtime_names kind path runtime_value =
     bnd (req_str runtime_value (at_key path ''runtime'')) (\<lambda>_. case runtime_value of
       JStr runtime \<Rightarrow>
         bnd (ensure (runtime \<in> set runtime_names)
               (SchemaError (at_key path ''runtime references undefined runtime '' @ runtime))) (\<lambda>_.
         bnd (runtime_backend runtimes_table runtime) (\<lambda>backend. checks [
           ensure (\<not> (adapter_native_rollout kind \<and> backend \<noteq> JStr ''harbor''))
             (SchemaError (at_key path ''runtime '' @ runtime @ '' must use the harbor backend for the course'')),
           ensure (\<not> (\<not> adapter_native_rollout kind \<and> backend = JStr ''harbor''))
             (SchemaError (at_key path ''runtime '' @ runtime
                @ '' uses the harbor backend, which requires a native-rollout course''))]))
     | _ \<Rightarrow> Inr ())"

definition validate_vessel ::
    "json_obj \<Rightarrow> string list \<Rightarrow> string list \<Rightarrow> json \<Rightarrow> nat \<Rightarrow> string list \<Rightarrow> json \<Rightarrow> exn + string list" where
  "validate_vessel runtimes_table runtime_names rigging_names kind index vessel_names vessel_value =
     (let path = at_index ''vessels'' index in
      bnd (req_object vessel_value path) (\<lambda>vessel.
      bnd (checks [
        req_str (dget vessel ''name'') (at_key path ''name''),
        req_str (dget vessel ''model'') (at_key path ''model''),
        when_set (dget vessel ''runtime'') (validate_vessel_runtime runtimes_table runtime_names kind path),
        req_strings (dget_default vessel ''rigging'' (JList [])) (at_key path ''rigging''),
        run_if (rigging_names \<noteq> []) (forR (\<lambda>rigging_name. ensure (rigging_name \<in> set rigging_names)
          (SchemaError (at_key path ''rigging references undefined rigging '' @ rigging_name)))
          (str_items (dget_default vessel ''rigging'' (JList []))))]) (\<lambda>_.
      Inr (case dget vessel ''name'' of JStr s \<Rightarrow> vessel_names @ [s] | _ \<Rightarrow> vessel_names))))"

definition validate_comparison_baseline ::
    "json list \<Rightarrow> string list \<Rightarrow> string \<Rightarrow> json \<Rightarrow> exn + unit" where
  "validate_comparison_baseline vessels vessel_names path baseline =
     bnd (req_object baseline path) (\<lambda>b. checks [
       req_keys b [''logbook'', ''vessel''] path,
       req_str (dget b ''logbook'') (at_key path ''logbook''),
       req_str (dget b ''vessel'') (at_key path ''vessel''),
       ensure (case dget b ''vessel'' of JStr s \<Rightarrow> s \<in> set vessel_names | _ \<Rightarrow> False)
         (SchemaError (at_key path ''vessel references undefined vessel'')),
       ensure (dget b ''vessel'' \<notin> set vessels)
         (SchemaError (at_key path ''vessel must differ from the live vessel''))])"

definition validate_comparison :: "string \<Rightarrow> string list \<Rightarrow> nat \<Rightarrow> json \<Rightarrow> exn + unit" where
  "validate_comparison course_name vessel_names index comparison_value =
     (let path = at_index ''comparisons'' index in
      bnd (req_object comparison_value path) (\<lambda>comparison.
      bnd (checks [
        req_str (dget comparison ''name'') (at_key path ''name''),
        req_str (dget_default comparison ''course'' (JStr course_name)) (at_key path ''course''),
        ensure (dget_default comparison ''course'' (JStr course_name) = JStr course_name)
          (SchemaError (at_key path ''course must match course.name '' @ course_name))]) (\<lambda>_.
      bnd (req_list (dget comparison ''vessels'') (at_key path ''vessels'')) (\<lambda>vessels. checks [
        (if dget comparison ''baseline'' = JNull
         then ensure (2 \<le> length vessels)
           (SchemaError (at_key path ''vessels must contain at least two vessels''))
         else ensure (length vessels = 1)
           (SchemaError (at_key path ''vessels must contain exactly one live vessel when comparisons.baseline is set''))),
        forR (\<lambda>vessel. checks [
          req_str vessel (at_key path ''vessels''),
          ensure (case vessel of JStr s \<Rightarrow> s \<in> set vessel_names | _ \<Rightarrow> False)
            (SchemaError (at_key path ''vessels references undefined vessel''))]) vessels,
        when_set (dget comparison ''baseline'')
          (validate_comparison_baseline vessels vessel_names (at_key path ''baseline''))]))))"

definition validate_comparisons :: "json_obj \<Rightarrow> string \<Rightarrow> string list \<Rightarrow> exn + unit" where
  "validate_comparisons document course_name vessel_names =
     (case dget_default document ''comparisons'' (JList []) of
        JList comparisons \<Rightarrow> forI (validate_comparison course_name vessel_names) 0 comparisons
      | _ \<Rightarrow> Inl (SchemaError ''comparisons must be a list''))"

definition validate_export_attribution :: "json \<Rightarrow> string \<Rightarrow> exn + unit" where
  "validate_export_attribution value path =
     bnd (req_object value path) (\<lambda>export. checks [
       req_keys export [''source_organization_name'', ''evaluator_relationship''] path,
       req_str (dget export ''source_organization_name'') (at_key path ''source_organization_name''),
       req_allowed (dget export ''evaluator_relationship'') EVALUATOR_RELATIONSHIPS (at_key path ''evaluator_relationship''),
       forR (\<lambda>key. when_key export key (\<lambda>v. req_str v (at_key path key))) [''source_organization_url'', ''source_name'']])"

section \<open>The document\<close>

definition validate_course :: "json_obj \<Rightarrow> exn + string" where
  "validate_course document =
     bnd (req_object (dget document ''regatta'') ''regatta'') (\<lambda>regatta.
     bnd (req_str (dget regatta ''name'') ''regatta.name'') (\<lambda>_.
     bnd (req_object (dget document ''course'') ''course'') (\<lambda>course.
     bnd (req_str (dget course ''name'') ''course.name'') (\<lambda>_.
     bnd (validate_course_adapter course) (\<lambda>_.
     bnd (validate_course_tasks course) (\<lambda>_.
     Inr (case dget course ''name'' of JStr s \<Rightarrow> s | _ \<Rightarrow> [])))))))"

definition course_of :: "json_obj \<Rightarrow> json_obj" where
  "course_of document = (case dget document ''course'' of JObj c \<Rightarrow> c | _ \<Rightarrow> [])"

definition adapter_kind_of :: "json_obj \<Rightarrow> json" where
  "adapter_kind_of document = (case dget (course_of document) ''adapter'' of JObj a \<Rightarrow> dget a ''kind'' | _ \<Rightarrow> JNull)"

definition validate_regatta_document :: "json \<Rightarrow> exn + unit" where
  "validate_regatta_document value =
     bnd (req_object value ''regatta document'') (\<lambda>document.
     bnd (req_keys document [''regatta'', ''course'', ''vessels''] ''regatta document'') (\<lambda>_.
     bnd (validate_preflight_config document) (\<lambda>_.
     bnd (validate_secret_references document) (\<lambda>secrets.
     bnd (validate_harness_declarations document) (\<lambda>_.
     bnd (validate_declared_evidence_backends document) (\<lambda>_.
     bnd (validate_runtime_recipes document secrets) (\<lambda>runtime_names.
     bnd (validate_tool_capabilities document) (\<lambda>tool_names.
     bnd (validate_rigging_recipes document secrets tool_names) (\<lambda>rigging_names.
     bnd (validate_course document) (\<lambda>course_name.
     bnd (req_list (dget document ''vessels'') ''vessels'') (\<lambda>vessels.
     bnd (ensure (vessels \<noteq> []) (SchemaError ''vessels must contain at least one vessel'')) (\<lambda>_.
     bnd (optional_named_table document ''runtimes'') (\<lambda>runtimes_table.
     bnd (foldR (validate_vessel runtimes_table runtime_names rigging_names (adapter_kind_of document)) 0 [] vessels)
       (\<lambda>vessel_names. checks [
          validate_comparisons document course_name vessel_names,
          when_key document ''export'' (\<lambda>v. validate_export_attribution v ''export'')]))))))))))))))"


section \<open>Exceptions\<close>

lemma leaf_raises [raises]:
  "raises_only is_schema_error (validate_preflight_config d)"
  "raises_only is_schema_error (validate_secret kv)"
  "raises_only is_schema_error (validate_harness_install v path)"
  "raises_only is_schema_error (validate_evidence_map v path)"
  "raises_only is_schema_error (req_absolute_container_path v path)"
  "raises_only is_schema_error (req_present d key m)"
  "raises_only is_schema_error (validate_check path i v)"
  "raises_only is_schema_error (validate_required_secrets d secrets path)"
  "raises_only is_schema_error (validate_provided t path i v)"
  "raises_only is_schema_error (validate_resource path i v)"
  "raises_only is_schema_error (validate_course_adapter_window d path)"
  "raises_only is_schema_error (validate_course_adapter_selection d path)"
  "raises_only is_schema_error (unique_step path i seen v)"
  "raises_only is_schema_error (req_files v path)"
  "raises_only is_schema_error (not_both d a b path)"
  "raises_only is_schema_error (validate_expect_response v path)"
  "raises_only is_schema_error (validate_expect_tool_calls v path)"
  "raises_only is_schema_error (validate_comparison_baseline vs ns path v)"
  "raises_only is_schema_error (validate_export_attribution v path)"
  unfolding validate_preflight_config_def validate_secret_def validate_harness_install_def
    validate_evidence_map_def req_absolute_container_path_def req_present_def validate_check_def
    validate_required_secrets_def validate_provided_def validate_resource_def
    validate_course_adapter_window_def validate_course_adapter_selection_def unique_step_def
    req_files_def not_both_def validate_expect_response_def validate_expect_tool_calls_def
    validate_comparison_baseline_def validate_export_attribution_def Let_def
  by (intro raises; simp)+

lemma composite_raises [raises]:
  "raises_only is_schema_error (validate_secret_references d)"
  "raises_only is_schema_error (validate_harness_declaration kv)"
  "raises_only is_schema_error (validate_declared_evidence_backends d)"
  "raises_only is_schema_error (validate_runtime_backend_fields d path)"
  "raises_only is_schema_error (validate_preflight_recipe v path)"
  "raises_only is_schema_error (validate_tool kv)"
  "raises_only is_schema_error (validate_adapter_instance_ids v path)"
  "raises_only is_schema_error (validate_course_task i ids v)"
  "raises_only is_schema_error (validate_comparison cn vs i v)"
  unfolding validate_secret_references_def validate_harness_declaration_def validate_declared_evidence_backends_def
    validate_runtime_backend_fields_def validate_preflight_recipe_def validate_tool_def
    validate_adapter_instance_ids_def validate_course_task_def validate_comparison_def Let_def
  by (intro raises; simp)+


lemma resource_paths_raise: "raises_only (\<lambda>e. \<exists>m. e = SkillError m) (normalized_resource_paths ps)"
  unfolding normalized_resource_paths_def resource_step_def normalized_resource_path_def Let_def
  by (intro raises; simp)

lemma step_resources_raises [raises]:
  "raises_only is_schema_error (validate_step_resources step path v)"
proof -
  have "raises_only is_schema_error (case normalized_resource_paths ps of Inr _ \<Rightarrow> Inr ()
      | Inl (SkillError m) \<Rightarrow> Inl (SchemaError (q @ m)) | Inl e \<Rightarrow> Inl e)" for ps q
    using resource_paths_raise [of ps] by (auto simp: raises_only_def split: sum.splits)
  then show ?thesis
    unfolding validate_step_resources_def by (intro raises) simp_all
qed

lemma adapter_fields_raises [raises]:
  "raises_only is_schema_error (validate_course_adapter_fields d path)"
proof -
  have "raises_only is_schema_error (supported_course_adapter_harnesses (Some k))"
    if "req_allowed (JStr k) COURSE_ADAPTER_KINDS p = Inr ()" for k p
    using that supported_harnesses_supported [of k]
    by (auto simp: req_allowed_ok COURSE_ADAPTER_KINDS_def raises_only_def)
  note harnesses = this
  show ?thesis
    unfolding validate_course_adapter_fields_def
    by (intro raises harnesses; simp)
qed

lemma table_raises [raises]:
  "raises_only is_schema_error (validate_install_step path i v)"
  "raises_only is_schema_error (validate_runtime secrets kv)"
  "raises_only is_schema_error (validate_course_adapter c)"
  unfolding validate_install_step_def validate_runtime_def validate_course_adapter_def Let_def
  by (intro raises; simp)+

lemma rigging_raises [raises]:
  "raises_only is_schema_error (validate_rigging secrets tools kv)"
  "raises_only is_schema_error (validate_course_tasks c)"
  unfolding validate_rigging_def validate_rigging_install_steps_def validate_course_tasks_def Let_def
  by (intro raises; simp)+

lemma sections_raise [raises]:
  "raises_only is_schema_error (validate_harness_declarations d)"
  "raises_only is_schema_error (validate_runtime_recipes d secrets)"
  "raises_only is_schema_error (validate_tool_capabilities d)"
  "raises_only is_schema_error (validate_rigging_recipes d secrets tools)"
  "raises_only is_schema_error (validate_course d)"
  "raises_only is_schema_error (validate_comparisons d cn vs)"
  unfolding validate_harness_declarations_def validate_runtime_recipes_def validate_tool_capabilities_def
    validate_rigging_recipes_def validate_course_def validate_comparisons_def
  by (intro raises; simp)+

lemma runtime_is_object: "validate_runtime secrets (n, v) = Inr () \<Longrightarrow> \<exists>r. v = JObj r"
  by (cases v) (simp_all add: validate_runtime_def req_object_def Let_def)

lemma vessel_raises:
  assumes "\<forall>(n, v)\<in>set rt. validate_runtime secrets (n, v) = Inr ()"
  shows "raises_only is_schema_error (validate_vessel rt rn gn k i vs v)"
proof -
  have "raises_only is_schema_error (runtime_backend rt r)" for r
  proof (cases "map_of rt r")
    case (Some v)
    then have "(r, v) \<in> set rt" by (rule map_of_SomeD)
    with assms runtime_is_object obtain o' where "v = JObj o'" by blast
    with Some show ?thesis by (simp add: runtime_backend_def raises_only_Inr)
  qed (simp add: runtime_backend_def raises_only_Inr)
  then show ?thesis
    unfolding validate_vessel_def validate_vessel_runtime_def Let_def by (intro raises) simp_all
qed

lemma regatta_raises: "raises_only is_schema_error (validate_regatta_document v)"
proof -
  have "\<forall>(n, v)\<in>set rt. validate_runtime secrets (n, v) = Inr ()"
    if "validate_runtime_recipes d secrets = Inr rn" "optional_named_table d ''runtimes'' = Inr rt" for d secrets rn rt
    using that by (auto simp: validate_runtime_recipes_def bnd_eq_Inr forR_eq_Inr)
  note v = vessel_raises [OF this]
  show ?thesis unfolding validate_regatta_document_def by (intro raises v; simp)
qed


section \<open>What acceptance means\<close>

text \<open>Total readers of a document: the list and the table under a key, the object a value is.\<close>

definition elems :: "json_obj \<Rightarrow> string \<Rightarrow> json list" where
  "elems d k = (case dget_default d k (JList []) of JList xs \<Rightarrow> xs | _ \<Rightarrow> [])"

definition table_at :: "json_obj \<Rightarrow> string \<Rightarrow> json_obj" where
  "table_at d k = obj (dget_default d k (JObj []))"

lemma elems_JList: "dget_default d k (JList []) = JList xs \<Longrightarrow> elems d k = xs"
  by (simp add: elems_def)

definition vessel_names_of :: "json_obj \<Rightarrow> json set" where
  "vessel_names_of d = (\<lambda>w. dget (obj w) ''name'') ` set (elems d ''vessels'')"

definition comparison_closed :: "json_obj \<Rightarrow> json \<Rightarrow> bool" where
  "comparison_closed d c \<longleftrightarrow>
     set (elems (obj c) ''vessels'') \<subseteq> vessel_names_of d
     \<and> (case dget (obj c) ''baseline'' of
          JNull \<Rightarrow> 2 \<le> length (elems (obj c) ''vessels'')
        | b \<Rightarrow> length (elems (obj c) ''vessels'') = 1 \<and> dget (obj b) ''vessel'' \<in> vessel_names_of d
               \<and> dget (obj b) ''vessel'' \<notin> set (elems (obj c) ''vessels''))"

definition vessel_closed :: "json_obj \<Rightarrow> json \<Rightarrow> bool" where
  "vessel_closed d w \<longleftrightarrow>
     (case dget (obj w) ''runtime'' of
        JNull \<Rightarrow> True
      | JStr r \<Rightarrow> has_key (table_at d ''runtimes'') r
          \<and> (dget (obj (dget (table_at d ''runtimes'') r)) ''backend'' = JStr ''harbor'')
            = adapter_native_rollout (adapter_kind_of d)
      | _ \<Rightarrow> False)
     \<and> (table_at d ''riggings'' = [] \<or> set (str_items (dget_default (obj w) ''rigging'' (JList []))) \<subseteq> fst ` set (table_at d ''riggings''))"

definition secrets_closed :: "json_obj \<Rightarrow> string \<times> json \<Rightarrow> bool" where
  "secrets_closed d kv \<longleftrightarrow>
     set (str_items (dget_default (obj (snd kv)) ''required_secrets'' (JList []))) \<subseteq> fst ` set (table_at d ''secrets'')"

definition tools_closed :: "json_obj \<Rightarrow> string \<times> json \<Rightarrow> bool" where
  "tools_closed d kv \<longleftrightarrow> set (str_items (dget_default (obj (snd kv)) ''tools'' (JList [])))
     \<subseteq> fst ` set BUILT_IN_TOOL_CAPABILITIES \<union> fst ` set (table_at d ''tools'')"

definition regatta_closed :: "json_obj \<Rightarrow> bool" where
  "regatta_closed d \<longleftrightarrow>
     elems d ''vessels'' \<noteq> []
     \<and> list_all (vessel_closed d) (elems d ''vessels'')
     \<and> list_all (comparison_closed d) (elems d ''comparisons'')
     \<and> list_all (secrets_closed d) (table_at d ''runtimes'' @ table_at d ''riggings'')
     \<and> list_all (tools_closed d) (table_at d ''riggings'')"

lemma required_secrets_ok:
  "validate_required_secrets d secrets path = Inr () \<longleftrightarrow>
     set (str_items (dget_default d ''required_secrets'' (JList []))) \<subseteq> set secrets"
  by (auto simp: validate_required_secrets_def forR_eq_Inr)

lemma vessel_step:
  assumes "validate_vessel rt rn gn kind i vs w = Inr vs'"
    and "rn = map fst rt" and "rt = table_at d ''runtimes''" and "kind = adapter_kind_of d"
    and "gn = map fst (table_at d ''riggings'')"
  shows "\<exists>s. dget (obj w) ''name'' = JStr s \<and> vs' = vs @ [s] \<and> vessel_closed d w"
proof -
  obtain o' where w: "w = JObj o'" using assms(1) by (auto simp: validate_vessel_def bnd_eq_Inr req_object_ok Let_def)
  obtain s where s: "dget o' ''name'' = JStr s" and v: "vs' = vs @ [s]"
    using assms(1) by (auto simp: w validate_vessel_def bnd_eq_Inr req_object_ok Let_def req_str_ok)
  have r: "when_set (dget o' ''runtime'') (validate_vessel_runtime rt rn kind (at_index ''vessels'' i)) = Inr ()"
    and g: "gn \<noteq> [] \<longrightarrow> set (str_items (dget_default o' ''rigging'' (JList []))) \<subseteq> set gn"
    using assms(1) by (auto simp: w validate_vessel_def bnd_eq_Inr req_object_ok Let_def forR_eq_Inr)
  have "case dget o' ''runtime'' of JNull \<Rightarrow> True
      | JStr r \<Rightarrow> has_key rt r \<and> (dget (obj (dget rt r)) ''backend'' = JStr ''harbor'') = adapter_native_rollout kind
      | _ \<Rightarrow> False"
  proof (cases "dget o' ''runtime''")
    case (JStr x)
    with r have x: "has_key rt x" and b: "bnd (runtime_backend rt x) (\<lambda>backend. checks [
           ensure (\<not> (adapter_native_rollout kind \<and> backend \<noteq> JStr ''harbor''))
             (SchemaError (at_key (at_index ''vessels'' i) ''runtime '' @ x @ '' must use the harbor backend for the course'')),
           ensure (\<not> (\<not> adapter_native_rollout kind \<and> backend = JStr ''harbor''))
             (SchemaError (at_key (at_index ''vessels'' i) ''runtime '' @ x
                @ '' uses the harbor backend, which requires a native-rollout course''))]) = Inr ()"
      by (auto simp: when_set_def validate_vessel_runtime_def bnd_eq_Inr assms(2) has_key_iff)
    obtain v where v: "map_of rt x = Some v" using x by (auto simp: has_key_def)
    from b v show ?thesis
      by (cases v) (auto simp: JStr x runtime_backend_def bnd_eq_Inr)
  qed (use r in \<open>auto simp: when_set_def validate_vessel_runtime_def req_str_def\<close>)
  with s v g show ?thesis unfolding w vessel_closed_def obj_JObj assms(3-5) by auto
qed

lemma vessel_loop:
  assumes "foldR (validate_vessel rt rn gn kind) i vs ws = Inr vs'"
    and "rn = map fst rt" and "rt = table_at d ''runtimes''" and "kind = adapter_kind_of d"
    and "gn = map fst (table_at d ''riggings'')"
  shows "map JStr vs' = map JStr vs @ map (\<lambda>w. dget (obj w) ''name'') ws \<and> list_all (vessel_closed d) ws"
  using assms(1)
proof (induction ws arbitrary: i vs)
  case (Cons w ws)
  obtain u where u: "validate_vessel rt rn gn kind i vs w = Inr u"
      "foldR (validate_vessel rt rn gn kind) (Suc i) u ws = Inr vs'"
    using Cons.prems by (auto simp: bnd_eq_Inr)
  from vessel_step [OF u(1) assms(2-5)] Cons.IH [OF u(2)] show ?case by auto
qed simp


lemma validate_comparison_closed:
  assumes "validate_comparison cn vs i c = Inr ()" and "set (map JStr vs) = vessel_names_of d"
  shows "comparison_closed d c"
proof -
  obtain o' where c: "c = JObj o'" using assms(1) by (auto simp: validate_comparison_def bnd_eq_Inr req_object_ok Let_def)
  from assms(1) obtain xs where xs: "dget o' ''vessels'' = JList xs"
    and n: "if dget o' ''baseline'' = JNull then 2 \<le> length xs else length xs = 1"
    and m: "\<forall>x\<in>set xs. \<exists>s. x = JStr s \<and> s \<in> set vs"
    and b: "when_set (dget o' ''baseline'')
          (validate_comparison_baseline xs vs (at_key (at_index ''comparisons'' i) ''baseline'')) = Inr ()"
    by (auto simp: c validate_comparison_def bnd_eq_Inr req_object_ok Let_def req_list_ok forR_eq_Inr case_JStr_iff
        split: if_splits)
  have k: "has_key o' ''vessels''" using xs by (intro has_key_if_dget) simp
  have e: "elems o' ''vessels'' = xs" by (simp add: elems_def dget_default_def k xs)
  have sub: "set xs \<subseteq> vessel_names_of d" using m by (auto simp: assms(2) [symmetric])
  show ?thesis
  proof (cases "dget o' ''baseline'' = JNull")
    case True
    with n sub show ?thesis by (simp add: comparison_closed_def c e)
  next
    case False
    with b obtain bo s where bo: "dget o' ''baseline'' = JObj bo" "dget bo ''vessel'' = JStr s" "s \<in> set vs"
        "JStr s \<notin> set xs"
      by (auto simp: when_set_def validate_comparison_baseline_def bnd_eq_Inr req_object_ok case_JStr_iff)
    then have "JStr s \<in> vessel_names_of d" by (auto simp: assms(2) [symmetric])
    with bo n sub False show ?thesis by (simp add: comparison_closed_def c e)
  qed
qed

lemma validate_runtime_secrets:
  "validate_runtime secrets kv = Inr () \<Longrightarrow> set secrets = fst ` set (table_at d ''secrets'') \<Longrightarrow> secrets_closed d kv"
  by (cases kv) (auto simp: validate_runtime_def bnd_eq_Inr req_object_ok Let_def required_secrets_ok secrets_closed_def)

lemma validate_rigging_closed:
  "validate_rigging secrets tools kv = Inr () \<Longrightarrow> set secrets = fst ` set (table_at d ''secrets'')
     \<Longrightarrow> set tools = fst ` set BUILT_IN_TOOL_CAPABILITIES \<union> fst ` set (table_at d ''tools'')
     \<Longrightarrow> secrets_closed d kv \<and> tools_closed d kv"
  by (cases kv) (auto simp: validate_rigging_def bnd_eq_Inr req_object_ok Let_def required_secrets_ok secrets_closed_def
      tools_closed_def forR_eq_Inr)

lemma optional_table_at: "optional_named_table d k = Inr t \<Longrightarrow> table_at d k = t"
  by (simp add: optional_named_table_ok table_at_def)


lemma regatta_closed_if_accepted:
  assumes "validate_regatta_document (JObj d) = Inr ()"
  shows "regatta_closed d"
proof -
  from assms obtain secrets rn tn gn cn ws rt vs where
      sec: "validate_secret_references d = Inr secrets"
    and run: "validate_runtime_recipes d secrets = Inr rn"
    and tool: "validate_tool_capabilities d = Inr tn"
    and rig: "validate_rigging_recipes d secrets tn = Inr gn"
    and ves: "dget d ''vessels'' = JList ws" "ws \<noteq> []" "has_key d ''vessels''"
    and rt: "optional_named_table d ''runtimes'' = Inr rt"
    and loop: "foldR (validate_vessel rt rn gn (adapter_kind_of d)) 0 [] ws = Inr vs"
    and com: "validate_comparisons d cn vs = Inr ()"
    unfolding validate_regatta_document_def bnd_eq_Inr req_object_ok req_list_ok req_keys_ok ensure_eq_Inr
      checks_Cons_eq_Inr by (elim exE conjE) (rule that; simp)
  have s: "set secrets = fst ` set (table_at d ''secrets'')"
  proof -
    obtain t where "optional_named_table d ''secrets'' = Inr t" "secrets = map fst t"
      using sec by (auto simp: validate_secret_references_def bnd_eq_Inr)
    then show ?thesis by (simp add: optional_table_at)
  qed
  have r: "rn = map fst rt" "rt = table_at d ''runtimes''" "list_all (secrets_closed d) (table_at d ''runtimes'')"
    using run rt s by (auto simp: validate_runtime_recipes_def bnd_eq_Inr forR_eq_Inr list_all_iff
        dest!: optional_table_at intro: validate_runtime_secrets)
  have t: "set tn = fst ` set BUILT_IN_TOOL_CAPABILITIES \<union> fst ` set (table_at d ''tools'')"
  proof -
    obtain t where "optional_named_table d ''tools'' = Inr t" "tn = map fst BUILT_IN_TOOL_CAPABILITIES @ map fst t"
      using tool by (auto simp: validate_tool_capabilities_def bnd_eq_Inr)
    then show ?thesis by (simp add: optional_table_at)
  qed
  obtain g where g: "optional_named_table d ''riggings'' = Inr g" "gn = map fst g"
      "\<forall>kv\<in>set g. validate_rigging secrets tn kv = Inr ()"
    using rig by (auto simp: validate_rigging_recipes_def bnd_eq_Inr forR_eq_Inr)
  have gt: "table_at d ''riggings'' = g" by (rule optional_table_at [OF g(1)])
  have e: "elems d ''vessels'' = ws" using ves by (simp add: elems_def dget_default_def)
  from vessel_loop [OF loop r(1,2) refl] g(2) gt
  have v: "map JStr vs = map (\<lambda>w. dget (obj w) ''name'') ws" "list_all (vessel_closed d) ws" by simp_all
  have n: "set (map JStr vs) = vessel_names_of d" unfolding v(1) vessel_names_of_def e by simp
  have c: "list_all (comparison_closed d) (elems d ''comparisons'')"
    using com validate_comparison_closed [OF _ n]
    by (auto simp: validate_comparisons_def elems_def list_all_length forI_eq_Inr split: json.splits)
  show ?thesis
    unfolding regatta_closed_def e gt
    using ves(2) v(2) c r(3) validate_rigging_closed [OF _ s t] g(3) by (auto simp: list_all_iff)
qed

section \<open>Properties\<close>


text \<open>
  C1. An accepted regatta is closed under reference: every vessel of a comparison, live or
  baseline, is declared; a comparison has two live vessels or one live vessel and a different
  recorded one; every runtime a vessel names is declared, with the harbor backend exactly for
  native-rollout courses; every secret and every tool required by a runtime or rigging is
  declared; and riggings are declared as soon as the document declares any.
\<close>

theorem accepted_regatta_closed:
  assumes "validate_regatta_document (JObj d) = Inr ()"
  shows "regatta_closed d"
  by (rule regatta_closed_if_accepted [OF assms])

definition sample_regatta :: json_obj where
  "sample_regatta =
     [(''regatta'', JObj [(''name'', JStr ''r'')]),
      (''course'', JObj [(''name'', JStr ''c''), (''tasks'', JList [JObj [(''id'', JStr ''t''), (''title'', JStr ''T'')]])]),
      (''vessels'', JList [JObj [(''name'', JStr ''a''), (''model'', JStr ''m'')], JObj [(''name'', JStr ''b''), (''model'', JStr ''m'')]]),
      (''comparisons'', JList [JObj [(''name'', JStr ''x''), (''vessels'', JList [JStr ''a'', JStr ''b''])]])]"

theorem accepted_regatta_closed_witness:
  "validate_regatta_document (JObj sample_regatta) = Inr () \<and> regatta_closed sample_regatta"
proof -
  have e: "validate_regatta_document (JObj sample_regatta) = Inr ()" by code_simp
  from accepted_regatta_closed [OF e] e show ?thesis by blast
qed

end
