(* ===== verification/ScorecardSchema.thy ===== *)
theory ScorecardSchema
  imports SchemaChecks CourseRegistry
begin

text \<open>
  \<open>validate_benchmark_scorecard_document\<close> of \<open>src/yacht/contracts/schemas.py\<close> with the validators
  it calls: summaries, deltas, statistics, repetition guidance, delivery and vessels.

  Numbers are compared as Python compares them: integers, booleans and floats by value, and a
  subtraction with a float operand is a binary64 subtraction.
\<close>

section \<open>Python numbers\<close>

text \<open>The exact value of a finite number; \<open>None\<close> for other values and non-finite floats.\<close>

definition num_value :: "json \<Rightarrow> rat option" where
  "num_value v = (case v of
     JInt n \<Rightarrow> Some (of_int n) | JBool b \<Rightarrow> Some (if b then 1 else 0)
   | JFloat (Finite q) \<Rightarrow> Some q | _ \<Rightarrow> None)"

text \<open>\<open>float(n)\<close>.\<close>

definition int_to_float :: "int \<Rightarrow> exn + pyfloat" where
  "int_to_float n = (if FLOAT_LIMIT \<le> \<bar>fl (of_int n)\<bar>
     then Inl (PyOverflowError ''int too large to convert to float'') else Inr (Finite (fl (of_int n))))"

definition as_float :: "json \<Rightarrow> exn + pyfloat" where
  "as_float v = (case v of
     JFloat f \<Rightarrow> Inr f | JInt n \<Rightarrow> int_to_float n | JBool b \<Rightarrow> int_to_float (if b then 1 else 0)
   | _ \<Rightarrow> Inl (TypeError ''float() argument must be a string or a real number''))"

fun float_neg :: "pyfloat \<Rightarrow> pyfloat" where
  "float_neg (Finite q) = Finite (- q)"
| "float_neg PosInf = NegInf"
| "float_neg NegInf = PosInf"
| "float_neg NaN = NaN"

text \<open>\<open>x - y\<close> on numbers: exact between integers, in floats otherwise.\<close>

definition num_sub :: "json \<Rightarrow> json \<Rightarrow> exn + json" where
  "num_sub x y = (case (as_int x, as_int y) of
     (Some a, Some b) \<Rightarrow> Inr (JInt (a - b))
   | _ \<Rightarrow> bnd (as_float x) (\<lambda>f. bnd (as_float y) (\<lambda>g. Inr (JFloat (float_add f (float_neg g))))))"

text \<open>\<open>x == y\<close> on numbers, and \<open>abs(x) <= bound\<close>.\<close>

definition num_eq :: "json \<Rightarrow> json \<Rightarrow> bool" where
  "num_eq x y = (case (num_value x, num_value y) of
     (Some a, Some b) \<Rightarrow> a = b
   | (None, None) \<Rightarrow> (case (x, y) of (JFloat f, JFloat g) \<Rightarrow> f = g \<and> f \<noteq> NaN | _ \<Rightarrow> False)
   | _ \<Rightarrow> False)"

definition abs_at_most :: "json \<Rightarrow> rat \<Rightarrow> bool" where
  "abs_at_most x bound = (case num_value x of Some q \<Rightarrow> \<bar>q\<bar> \<le> bound | None \<Rightarrow> False)"

text \<open>\<open>isinstance(v, (int, float)) and not isinstance(v, bool) and low <= float(v) <= high\<close>.\<close>

definition req_unit_number :: "json \<Rightarrow> string \<Rightarrow> exn + unit" where
  "req_unit_number v path =
     (let e = SchemaError (path @ '' must be between 0 and 1'')
      in if \<not> is_number v then Inl e
         else bnd (as_float v) (\<lambda>f. ensure (case f of Finite q \<Rightarrow> 0 \<le> q \<and> q \<le> 1 | _ \<Rightarrow> False) e))"

section \<open>Vocabularies\<close>

definition BENCHMARK_SCORECARD_SCHEMA :: string where
  "BENCHMARK_SCORECARD_SCHEMA = ''yacht.benchmark-scorecard.v1''"

definition BENCHMARK_SCORECARD_STATUSES :: "string list" where
  "BENCHMARK_SCORECARD_STATUSES = [''complete'', ''partial'', ''empty'']"

definition BENCHMARK_SCORECARD_VESSEL_STATUSES :: "string list" where
  "BENCHMARK_SCORECARD_VESSEL_STATUSES = [''measured'', ''missing'', ''recorded'']"

definition BENCHMARK_SCORECARD_SUMMARY_KEYS :: "string list" where
  "BENCHMARK_SCORECARD_SUMMARY_KEYS =
     [''total_vessels'', ''eligible_vessels'', ''blocked_vessels'', ''measured_vessels'', ''missing_result_vessels'']"

definition VERDICT_GRADES :: "string list" where
  "VERDICT_GRADES = [''evidence-of-difference'', ''insufficient-evidence'', ''not-distinguishable'']"

section \<open>Statistics\<close>

definition validate_rate_interval :: "json \<Rightarrow> string \<Rightarrow> exn + unit" where
  "validate_rate_interval value path = when_set value (\<lambda>v.
     bnd (req_object v path) (\<lambda>interval. checks [
       req_keys interval [''low'', ''high''] path,
       forR (\<lambda>key. req_unit_number (dget interval key) (at_key path key)) [''low'', ''high'']]))"

definition validate_plan :: "string \<Rightarrow> nat \<Rightarrow> json \<Rightarrow> exn + unit" where
  "validate_plan path index plan_value =
     (let plan_path = at_index (at_key path ''plans'') index in
      bnd (req_object plan_value plan_path) (\<lambda>plan. checks [
        req_keys plan [''assumed_favored_fraction'', ''discordant_pairs_needed''] plan_path,
        req_unit_number (dget plan ''assumed_favored_fraction'') (at_key plan_path ''assumed_favored_fraction''),
        when_set (dget plan ''discordant_pairs_needed'') (\<lambda>v. req_nat v (at_key plan_path ''discordant_pairs_needed'')),
        when_set (dget plan ''repetitions'') (\<lambda>v. req_nat v (at_key plan_path ''repetitions'')),
        when_key plan ''repetitions_range'' (\<lambda>v. let range_path = at_key plan_path ''repetitions_range'' in
          bnd (req_object v range_path) (\<lambda>bounds.
            forR (\<lambda>key. when_set (dget bounds key) (\<lambda>b. req_nat b (at_key range_path key))) [''low'', ''high'']))]))"

definition validate_repetition_guidance :: "json \<Rightarrow> string \<Rightarrow> exn + unit" where
  "validate_repetition_guidance value path =
     bnd (req_object value path) (\<lambda>guidance. checks [
       req_keys guidance [''power_target'', ''significance_level'', ''observed_discordance_rate'',
         ''shared_tasks_per_run'', ''plans'', ''applies_to''] path,
       forR (\<lambda>key. req_unit_number (dget guidance key) (at_key path key))
         [''power_target'', ''significance_level'', ''observed_discordance_rate''],
       req_nat (dget guidance ''shared_tasks_per_run'') (at_key path ''shared_tasks_per_run''),
       req_str (dget guidance ''applies_to'') (at_key path ''applies_to''),
       when_key guidance ''observed_discordance_rate_interval''
         (\<lambda>v. validate_rate_interval v (at_key path ''observed_discordance_rate_interval'')),
       bnd (req_list (dget guidance ''plans'') (at_key path ''plans'')) (\<lambda>plans. checks [
         ensure (plans \<noteq> []) (SchemaError (at_key path ''plans must contain at least one plan'')),
         forI (validate_plan path) 0 plans])])"

definition validate_rate :: "string \<Rightarrow> string \<times> json \<Rightarrow> exn + unit" where
  "validate_rate path = (\<lambda>(vessel_name, rate_value).
     let rate_path = at_key (at_key path ''rates'') vessel_name in
     bnd (req_object rate_value rate_path) (\<lambda>rate. checks [
       req_keys rate [''resolved_instances'', ''submitted_instances'', ''interval''] rate_path,
       forR (\<lambda>key. req_nat (dget rate key) (at_key rate_path key)) [''resolved_instances'', ''submitted_instances''],
       validate_rate_interval (dget rate ''interval'') (at_key rate_path ''interval'')]))"

definition PAIRED_COUNTS :: "string list" where
  "PAIRED_COUNTS = [''shared_tasks'', ''concordant_resolved'', ''concordant_unresolved'',
     ''discordant_baseline_only'', ''discordant_challenger_only'']"

definition validate_paired :: "json \<Rightarrow> string \<Rightarrow> exn + unit" where
  "validate_paired value path =
     bnd (req_object value path) (\<lambda>paired. checks [
       req_keys paired (PAIRED_COUNTS @ [''p_value'', ''grade'']) path,
       forR (\<lambda>key. req_nat (dget paired key) (at_key path key)) PAIRED_COUNTS,
       req_unit_number (dget paired ''p_value'') (at_key path ''p_value''),
       req_allowed (dget paired ''grade'') VERDICT_GRADES (at_key path ''grade''),
       when_key paired ''min_significant_discordant'' (\<lambda>v. req_nat v (at_key path ''min_significant_discordant'')),
       forR (\<lambda>key. when_key paired key (\<lambda>v. req_strings v (at_key path key)))
         [''discordant_baseline_only_ids'', ''discordant_challenger_only_ids'']])"

definition validate_scorecard_statistics :: "json \<Rightarrow> string \<Rightarrow> exn + unit" where
  "validate_scorecard_statistics value path0 =
     (let path = at_key path0 ''statistics'' in
      bnd (req_object value path) (\<lambda>statistics. checks [
        req_keys statistics [''confidence_level'', ''rates'', ''paired''] path,
        (let e = SchemaError (at_key path ''confidence_level must be between 0 and 1'')
         in if \<not> is_number (dget statistics ''confidence_level'') then Inl e
            else bnd (as_float (dget statistics ''confidence_level''))
              (\<lambda>f. ensure (case f of Finite q \<Rightarrow> 0 < q \<and> q < 1 | _ \<Rightarrow> False) e)),
        bnd (req_object (dget statistics ''rates'') (at_key path ''rates'')) (\<lambda>rates. forR (validate_rate path) rates),
        validate_paired (dget statistics ''paired'') (at_key path ''paired''),
        when_key statistics ''repetition_guidance''
          (\<lambda>v. validate_repetition_guidance v (at_key path ''repetition_guidance''))]))"

section \<open>Tool invocations and delivery\<close>

definition validate_stage :: "json_obj \<Rightarrow> string \<Rightarrow> string \<Rightarrow> exn + unit" where
  "validate_stage stages path key =
     bnd (req_object (dget stages key) (at_key path key)) (\<lambda>counts. checks [
       req_keys counts [''observed_attempts'', ''measured_attempts''] (at_key path key),
       req_nat (dget counts ''observed_attempts'') (at_key (at_key path key) ''observed_attempts''),
       req_nat (dget counts ''measured_attempts'') (at_key (at_key path key) ''measured_attempts''),
       ensure (case (as_int (dget counts ''observed_attempts''), as_int (dget counts ''measured_attempts'')) of
                 (Some a, Some b) \<Rightarrow> a \<le> b | _ \<Rightarrow> False)
         (SchemaError (at_key (at_key path key) ''observed_attempts must be <= measured_attempts''))])"

definition validate_invocation_skill_stages :: "json \<Rightarrow> string \<Rightarrow> exn + unit" where
  "validate_invocation_skill_stages value path =
     bnd (req_object value path) (\<lambda>stages. checks [
       req_keys stages [''available'', ''selected'', ''loaded''] path,
       forR (validate_stage stages path) [''available'', ''selected'', ''loaded'']])"

definition validate_tool_invocation :: "string \<Rightarrow> nat \<Rightarrow> json \<Rightarrow> exn + unit" where
  "validate_tool_invocation path index entry_value =
     (let entry_path = at_index path index in
      bnd (req_object entry_value entry_path) (\<lambda>entry. checks [
        req_keys entry [''tool'', ''kind'', ''expected_calls'', ''status'', ''attempts'', ''measured_attempts''] entry_path,
        req_str (dget entry ''tool'') (at_key entry_path ''tool''),
        req_str (dget entry ''kind'') (at_key entry_path ''kind''),
        req_strings (dget entry ''expected_calls'') (at_key entry_path ''expected_calls''),
        req_allowed (dget entry ''status'') [''measured'', ''unmeasured''] (at_key entry_path ''status''),
        forR (\<lambda>key. req_nat (dget entry key) (at_key entry_path key)) [''attempts'', ''measured_attempts''],
        when_key entry ''observed_tools'' (\<lambda>v. req_strings v (at_key entry_path ''observed_tools'')),
        when_key entry ''skill_stages'' (\<lambda>v. validate_invocation_skill_stages v (at_key entry_path ''skill_stages'')),
        run_if (dget entry ''status'' \<noteq> JStr ''unmeasured'') (checks [
          req_nat (dget entry ''invoked_attempts'') (at_key entry_path ''invoked_attempts''),
          req_number (dget entry ''invocation_rate'') (at_key entry_path ''invocation_rate''),
          validate_rate_interval (dget entry ''invocation_interval'') (at_key entry_path ''invocation_interval''),
          run_if (has_key entry ''completed_attempts'') (checks [
            forR (\<lambda>key. req_nat (dget entry key) (at_key entry_path key)) [''completed_attempts'', ''invoked_completed_attempts''],
            req_number (dget entry ''completed_invocation_rate'') (at_key entry_path ''completed_invocation_rate''),
            validate_rate_interval (dget entry ''completed_invocation_interval'')
              (at_key entry_path ''completed_invocation_interval'')])])]))"

definition validate_tool_invocations :: "json \<Rightarrow> string \<Rightarrow> exn + unit" where
  "validate_tool_invocations value path =
     bnd (req_list value path) (\<lambda>entries. forI (validate_tool_invocation path) 0 entries)"

definition validate_delivery :: "json \<Rightarrow> string \<Rightarrow> exn + unit" where
  "validate_delivery value path0 =
     (let path = at_key path0 ''delivery'' in
      bnd (req_object value path) (\<lambda>delivery. checks [
        req_keys delivery [''vessel'', ''status'', ''tools''] path,
        req_str (dget delivery ''vessel'') (at_key path ''vessel''),
        req_allowed (dget delivery ''status'') [''delivered'', ''not-delivered'', ''unmeasured''] (at_key path ''status''),
        validate_tool_invocations (dget delivery ''tools'') (at_key path ''tools'')]))"

section \<open>Vessels\<close>

definition validate_baseline_source :: "json \<Rightarrow> string \<Rightarrow> exn + unit" where
  "validate_baseline_source value path =
     bnd (req_object value path) (\<lambda>src. checks [
       req_keys src [''logbook'', ''vessel''] path,
       req_str (dget src ''logbook'') (at_key path ''logbook''),
       req_str (dget src ''vessel'') (at_key path ''vessel''),
       when_key src ''run_date'' (\<lambda>v. req_str v (at_key path ''run_date'')),
       when_key src ''provenance'' (\<lambda>v. bnd (req_object v (at_key path ''provenance'')) (\<lambda>_. Inr ())),
       when_key src ''usage'' (\<lambda>v. bnd (req_object v (at_key path ''usage'')) (\<lambda>usage.
         forR (\<lambda>(key, usage_value). req_number usage_value (at_key (at_key path ''usage'') key)) usage))])"

definition validate_task_diagnostic :: "string \<Rightarrow> nat \<Rightarrow> json \<Rightarrow> exn + unit" where
  "validate_task_diagnostic path index diagnostic_value =
     (let diagnostic_path = at_index path index;
          lists = [''missing_response_fields'', ''mismatched_response_fields'', ''expected_tool_calls'',
                   ''observed_tool_calls'', ''missing_tool_calls'']
      in bnd (req_object diagnostic_value diagnostic_path) (\<lambda>diagnostic. checks [
        req_keys diagnostic ([''task'', ''result'', ''reason'', ''response_matched''] @ lists) diagnostic_path,
        req_str (dget diagnostic ''task'') (at_key diagnostic_path ''task''),
        req_allowed (dget diagnostic ''result'') [''resolved'', ''unresolved''] (at_key diagnostic_path ''result''),
        req_str (dget diagnostic ''reason'') (at_key diagnostic_path ''reason''),
        ensure (is_bool (dget diagnostic ''response_matched''))
          (SchemaError (at_key diagnostic_path ''response_matched must be a boolean'')),
        forR (\<lambda>key. req_strings (dget diagnostic key) (at_key diagnostic_path key)) lists]))"

definition validate_task_diagnostics :: "json \<Rightarrow> string \<Rightarrow> exn + unit" where
  "validate_task_diagnostics value path =
     bnd (req_list value path) (\<lambda>diagnostics. forI (validate_task_diagnostic path) 0 diagnostics)"

definition validate_scorecard_vessel :: "string \<Rightarrow> nat \<Rightarrow> json \<Rightarrow> exn + unit" where
  "validate_scorecard_vessel path index vessel_value =
     (let vessel_path = at_index (at_key path ''vessels'') index in
      bnd (req_object vessel_value vessel_path) (\<lambda>vessel. checks [
        req_keys vessel [''name'', ''status'', ''submitted_instances'', ''resolved_instances'', ''resolution_rate''] vessel_path,
        req_str (dget vessel ''name'') (at_key vessel_path ''name''),
        req_allowed (dget vessel ''status'') BENCHMARK_SCORECARD_VESSEL_STATUSES (at_key vessel_path ''status''),
        forR (\<lambda>key. req_nat (dget vessel key) (at_key vessel_path key)) [''submitted_instances'', ''resolved_instances''],
        req_number (dget vessel ''resolution_rate'') (at_key vessel_path ''resolution_rate''),
        forR (\<lambda>key. when_key vessel key (\<lambda>v. req_strings v (at_key vessel_path key))) [''resolved_ids'', ''unresolved_ids''],
        when_key vessel ''task_diagnostics'' (\<lambda>v. validate_task_diagnostics v (at_key vessel_path ''task_diagnostics'')),
        (if dget vessel ''status'' = JStr ''recorded''
         then validate_baseline_source (dget vessel ''baseline_source'') (at_key vessel_path ''baseline_source'')
         else checks [
           req_keys vessel [''eligible_for_benchmark'', ''preflight_status'', ''preflight_reason'', ''preflight_artifact_path''] vessel_path,
           ensure (is_bool (dget vessel ''eligible_for_benchmark''))
             (SchemaError (at_key vessel_path ''eligible_for_benchmark must be a boolean'')),
           forR (\<lambda>key. req_str (dget vessel key) (at_key vessel_path key))
             [''preflight_status'', ''preflight_reason'', ''preflight_artifact_path''],
           when_key vessel ''preflight_error'' (\<lambda>v. req_str v (at_key vessel_path ''preflight_error''))])]))"

section \<open>Summaries and deltas\<close>

definition validate_scorecard_summary :: "json \<Rightarrow> string \<Rightarrow> exn + unit" where
  "validate_scorecard_summary value path0 =
     (let path = at_key path0 ''summary'' in
      bnd (req_object value path) (\<lambda>summary. checks [
        req_keys summary BENCHMARK_SCORECARD_SUMMARY_KEYS path,
        forR (\<lambda>key. req_nat (dget summary key) (at_key path key)) BENCHMARK_SCORECARD_SUMMARY_KEYS]))"

definition validate_scorecard_delta :: "json \<Rightarrow> string \<Rightarrow> exn + unit" where
  "validate_scorecard_delta value path0 =
     (let path = at_key path0 ''delta'' in
      bnd (req_object value path) (\<lambda>delta. checks [
        req_keys delta [''baseline_vessel'', ''challenger_vessel'', ''resolved_instances_delta'', ''resolution_rate_delta''] path,
        forR (\<lambda>key. req_str (dget delta key) (at_key path key)) [''baseline_vessel'', ''challenger_vessel''],
        ensure (as_int (dget delta ''resolved_instances_delta'') \<noteq> None)
          (SchemaError (at_key path ''resolved_instances_delta must be an integer'')),
        ensure (is_number (dget delta ''resolution_rate_delta'') \<or> is_bool (dget delta ''resolution_rate_delta''))
          (SchemaError (at_key path ''resolution_rate_delta must be a number''))]))"

text \<open>\<open>summary[key] != expected\<close> over the expected integers.\<close>

definition summary_matches_expected :: "json_obj \<Rightarrow> (string \<times> int) list \<Rightarrow> string \<Rightarrow> exn + unit" where
  "summary_matches_expected summary expected path =
     forR (\<lambda>(key, expected_value). ensure (num_eq (dget summary key) (JInt expected_value))
       (SchemaError (at_key path key @ '' must equal '' @ int_str expected_value))) expected"

definition count_of :: "('a \<Rightarrow> bool) \<Rightarrow> 'a list \<Rightarrow> int" where
  "count_of P xs = int (length (filter P xs))"

definition has_status :: "string \<Rightarrow> json_obj \<Rightarrow> bool" where
  "has_status s vessel = (dget vessel ''status'' = JStr s)"

text \<open>\<open>expected\<close>: the counts recomputed from vessels that were already checked to be objects.\<close>

definition expected_summary :: "json_obj list \<Rightarrow> (string \<times> int) list" where
  "expected_summary vessels =
     (let live = filter (\<lambda>v. \<not> has_status ''recorded'' v) vessels in
      [(''total_vessels'', int (length vessels)),
       (''eligible_vessels'', count_of (\<lambda>v. truthy (dget v ''eligible_for_benchmark'')) live),
       (''blocked_vessels'', count_of (\<lambda>v. \<not> truthy (dget v ''eligible_for_benchmark'')) live),
       (''measured_vessels'', count_of (has_status ''measured'') vessels),
       (''missing_result_vessels'', count_of (has_status ''missing'') vessels)])"

definition recorded_count :: "json_obj list \<Rightarrow> int" where
  "recorded_count vessels =
     int (length vessels) - int (length (filter (\<lambda>v. \<not> has_status ''recorded'' v) vessels))"

definition summary_matches_vessels :: "json_obj \<Rightarrow> json_obj list \<Rightarrow> string \<Rightarrow> exn + unit" where
  "summary_matches_vessels summary vessels path = checks [
     ensure (num_eq (dget_default summary ''recorded_vessels'' (JInt 0)) (JInt (recorded_count vessels)))
       (SchemaError (at_key path ''summary.recorded_vessels must equal '' @ int_str (recorded_count vessels))),
     summary_matches_expected summary (expected_summary vessels) (at_key path ''summary'')]"

text \<open>The literal \<open>1e-9\<close> as a binary64 number.\<close>

definition RATE_TOLERANCE :: rat where
  "RATE_TOLERANCE = fl (1 / 10 ^ 9)"

definition delta_matches_vessels :: "json_obj \<Rightarrow> json_obj \<Rightarrow> json_obj \<Rightarrow> string \<Rightarrow> exn + unit" where
  "delta_matches_vessels delta baseline challenger path =
     bnd (num_sub (dget challenger ''resolved_instances'') (dget baseline ''resolved_instances'')) (\<lambda>resolved.
     bnd (num_sub (dget challenger ''resolution_rate'') (dget baseline ''resolution_rate'')) (\<lambda>rate. checks [
       ensure (dget delta ''baseline_vessel'' = dget baseline ''name'')
         (SchemaError (at_key path ''delta.baseline_vessel must equal the baseline'')),
       ensure (dget delta ''challenger_vessel'' = dget challenger ''name'')
         (SchemaError (at_key path ''delta.challenger_vessel must equal the challenger'')),
       ensure (num_eq (dget delta ''resolved_instances_delta'') resolved)
         (SchemaError (at_key path ''delta.resolved_instances_delta must equal the difference'')),
       bnd (num_sub (dget delta ''resolution_rate_delta'') rate) (\<lambda>difference.
       ensure (abs_at_most difference RATE_TOLERANCE \<or> num_eq (dget delta ''resolution_rate_delta'') rate)
         (SchemaError (at_key path ''delta.resolution_rate_delta must equal the difference'')))]))"

definition validate_scorecard_comparison :: "nat \<Rightarrow> json \<Rightarrow> exn + unit" where
  "validate_scorecard_comparison index comparison_value =
     (let path = at_index ''comparisons'' index in
      bnd (req_object comparison_value path) (\<lambda>comparison.
      bnd (checks [
        req_keys comparison [''name'', ''course'', ''summary'', ''delta'', ''vessels''] path,
        req_str (dget comparison ''name'') (at_key path ''name''),
        req_str (dget comparison ''course'') (at_key path ''course''),
        validate_scorecard_summary (dget comparison ''summary'') path,
        validate_scorecard_delta (dget comparison ''delta'') path,
        when_key comparison ''statistics'' (\<lambda>v. validate_scorecard_statistics v path),
        when_key comparison ''delivery'' (\<lambda>v. validate_delivery v path)]) (\<lambda>_.
      bnd (req_list (dget comparison ''vessels'') (at_key path ''vessels'')) (\<lambda>vessels. checks [
        ensure (2 \<le> length vessels) (SchemaError (at_key path ''vessels must contain at least two vessels'')),
        forI (validate_scorecard_vessel path) 0 vessels,
        summary_matches_vessels (obj (dget comparison ''summary'')) (map obj vessels) path,
        (case map obj vessels of
           baseline # challenger # _ \<Rightarrow>
             delta_matches_vessels (obj (dget comparison ''delta'')) baseline challenger path
         | _ \<Rightarrow> Inr ())]))))"

definition validate_scorecard_comparisons :: "json \<Rightarrow> exn + unit" where
  "validate_scorecard_comparisons value =
     bnd (req_list value ''comparisons'') (\<lambda>comparisons. checks [
       ensure (comparisons \<noteq> []) (SchemaError ''comparisons must contain at least one comparison''),
       forI validate_scorecard_comparison 0 comparisons])"

definition validate_top_level_summary :: "json \<Rightarrow> exn + unit" where
  "validate_top_level_summary value =
     (let path = ''benchmark scorecard.summary''; keys = ''total_comparisons'' # BENCHMARK_SCORECARD_SUMMARY_KEYS in
      bnd (req_object value path) (\<lambda>summary. checks [
        req_keys summary keys path,
        forR (\<lambda>key. req_nat (dget summary key) (at_key path key)) keys]))"

text \<open>\<open>sum(...)\<close> of values that were checked to be numbers equal to integers.\<close>

definition num_sum :: "json list \<Rightarrow> rat" where
  "num_sum vs = sum_list (map (\<lambda>v. case num_value v of Some q \<Rightarrow> q | None \<Rightarrow> 0) vs)"

definition equals_sum :: "json \<Rightarrow> json list \<Rightarrow> bool" where
  "equals_sum v vs = (num_value v = Some (num_sum vs))"

definition top_level_matches_comparisons :: "json_obj \<Rightarrow> json_obj list \<Rightarrow> exn + unit" where
  "top_level_matches_comparisons summary comparisons =
     (let path = ''benchmark scorecard.summary'';
          summaries = map (\<lambda>c. obj (dget c ''summary'')) comparisons
      in checks [
        ensure (equals_sum (dget_default summary ''recorded_vessels'' (JInt 0))
                  (map (\<lambda>s. dget_default s ''recorded_vessels'' (JInt 0)) summaries))
          (SchemaError (at_key path ''recorded_vessels must equal the sum'')),
        ensure (num_eq (dget summary ''total_comparisons'') (JInt (int (length comparisons))))
          (SchemaError (at_key path ''total_comparisons must equal the count'')),
        forR (\<lambda>key. ensure (equals_sum (dget summary key) (map (\<lambda>s. dget s key) summaries))
          (SchemaError (at_key path key @ '' must equal the sum''))) BENCHMARK_SCORECARD_SUMMARY_KEYS])"

definition validate_course_adapter_summary :: "json_obj \<Rightarrow> string \<Rightarrow> exn + unit" where
  "validate_course_adapter_summary adapter path = checks [
     req_keys adapter [''kind'', ''dataset'', ''split''] path,
     req_allowed (dget adapter ''kind'') supported_benchmark_adapter_kinds (at_key path ''kind''),
     forR (\<lambda>key. req_str (dget adapter key) (at_key path key)) [''dataset'', ''split'']]"

definition validate_benchmark_scorecard_document :: "json \<Rightarrow> exn + unit" where
  "validate_benchmark_scorecard_document value =
     bnd (req_object value ''benchmark scorecard'') (\<lambda>document. checks [
       req_keys document [''schema'', ''regatta'', ''course'', ''adapter'', ''status'', ''summary'', ''comparisons''] ''benchmark scorecard'',
       req_schema document BENCHMARK_SCORECARD_SCHEMA ''benchmark scorecard'',
       forR (\<lambda>key. req_str (dget document key) key) [''regatta'', ''course''],
       bnd (req_object (dget document ''adapter'') ''adapter'') (\<lambda>adapter. validate_course_adapter_summary adapter ''adapter''),
       req_allowed (dget document ''status'') BENCHMARK_SCORECARD_STATUSES ''status'',
       validate_top_level_summary (dget document ''summary''),
       validate_scorecard_comparisons (dget document ''comparisons''),
       (case dget document ''comparisons'' of
          JList comparisons \<Rightarrow> top_level_matches_comparisons (obj (dget document ''summary'')) (map obj comparisons)
        | _ \<Rightarrow> Inr ())])"


section \<open>Exceptions\<close>

definition schema_or_overflow :: "exn \<Rightarrow> bool" where
  "schema_or_overflow e = (case e of SchemaError _ \<Rightarrow> True | PyOverflowError _ \<Rightarrow> True | _ \<Rightarrow> False)"

lemma schema_or_overflow_simps [simp]:
  "schema_or_overflow (SchemaError m)" "schema_or_overflow (PyOverflowError m)"
  by (simp_all add: schema_or_overflow_def)

lemma schema_error_weaken: "is_schema_error e \<Longrightarrow> schema_or_overflow e"
  by (cases e) (simp_all add: is_schema_error_def schema_or_overflow_def)

lemma raises_weaken: "raises_only is_schema_error r \<Longrightarrow> raises_only schema_or_overflow r"
  using schema_error_weaken by (simp add: raises_only_def)

lemmas req_raises_overflow [raises] = req_raises [THEN raises_weaken]

lemma int_to_float_raises [raises]: "raises_only schema_or_overflow (int_to_float n)"
  unfolding int_to_float_def by (intro raises; simp)

lemma as_float_raises:
  "is_number v \<or> is_bool v \<Longrightarrow> raises_only schema_or_overflow (as_float v)"
  by (cases v) (auto simp: as_float_def is_number_def intro: raises)

lemma req_unit_number_raises [raises]: "raises_only schema_or_overflow (req_unit_number v path)"
  unfolding req_unit_number_def Let_def by (intro raises as_float_raises) simp_all

definition is_num :: "json \<Rightarrow> bool" where
  "is_num v \<longleftrightarrow> is_number v \<or> is_bool v"

lemma num_sub_raises: "is_num x \<Longrightarrow> is_num y \<Longrightarrow> raises_only schema_or_overflow (num_sub x y)"
  unfolding num_sub_def is_num_def by (auto intro!: raises as_float_raises split: prod.split option.split)

lemma num_sub_is_num: "num_sub x y = Inr z \<Longrightarrow> is_num z"
  by (auto simp: num_sub_def is_num_def is_number_def bnd_eq_Inr split: option.splits)

lemma stat_raises [raises]:
  "raises_only schema_or_overflow (validate_rate_interval v path)"
  "raises_only schema_or_overflow (validate_stage d path key)"
  "raises_only schema_or_overflow (validate_baseline_source v path)"
  "raises_only schema_or_overflow (validate_task_diagnostics v path)"
  "raises_only schema_or_overflow (validate_scorecard_summary v path)"
  "raises_only schema_or_overflow (validate_scorecard_delta v path)"
  "raises_only schema_or_overflow (summary_matches_vessels s vs path)"
  "raises_only schema_or_overflow (validate_top_level_summary v)"
  "raises_only schema_or_overflow (top_level_matches_comparisons s cs)"
  "raises_only schema_or_overflow (validate_course_adapter_summary a path)"
  "raises_only schema_or_overflow (validate_paired v path)"
  unfolding validate_rate_interval_def validate_stage_def validate_baseline_source_def validate_task_diagnostics_def
    validate_task_diagnostic_def validate_scorecard_summary_def validate_scorecard_delta_def
    summary_matches_vessels_def summary_matches_expected_def validate_top_level_summary_def
    top_level_matches_comparisons_def validate_course_adapter_summary_def validate_paired_def Let_def
  by (intro raises; simp)+

lemma block_raises [raises]:
  "raises_only schema_or_overflow (validate_plan path i v)"
  "raises_only schema_or_overflow (validate_rate path kv)"
  "raises_only schema_or_overflow (validate_tool_invocations v path)"
  "raises_only schema_or_overflow (validate_scorecard_vessel path i v)"
  unfolding validate_plan_def validate_rate_def validate_tool_invocations_def validate_tool_invocation_def
    validate_invocation_skill_stages_def validate_scorecard_vessel_def Let_def
  by (intro raises; simp)+

lemma statistics_raises [raises]:
  "raises_only schema_or_overflow (validate_repetition_guidance v path)"
  "raises_only schema_or_overflow (validate_scorecard_statistics v path)"
  "raises_only schema_or_overflow (validate_delivery v path)"
  unfolding validate_repetition_guidance_def validate_scorecard_statistics_def validate_delivery_def Let_def
  by (intro raises as_float_raises; simp)+

lemma not_negative_is_num: "number_not_negative v \<Longrightarrow> is_num v"
  by (cases v) (simp_all add: number_not_negative_def is_num_def is_number_def)

lemma int_is_num: "int_at_least k v \<Longrightarrow> is_num v"
  by (cases v) (simp_all add: int_at_least_def as_int_def is_num_def is_number_def)

lemma scorecard_vessel_numbers:
  "validate_scorecard_vessel path i v = Inr () \<Longrightarrow>
     is_num (dget (obj v) ''resolved_instances'') \<and> is_num (dget (obj v) ''resolution_rate'')"
  by (auto simp: validate_scorecard_vessel_def Let_def bnd_eq_Inr req_object_ok obj_def req_nat_ok req_number_ok
      forR_eq_Inr intro: not_negative_is_num int_is_num)

lemma delta_matches_raises:
  assumes "is_num (dget delta ''resolution_rate_delta'')"
    and "is_num (dget b ''resolved_instances'')" "is_num (dget c ''resolved_instances'')"
    and "is_num (dget b ''resolution_rate'')" "is_num (dget c ''resolution_rate'')"
  shows "raises_only schema_or_overflow (delta_matches_vessels delta b c path)"
  unfolding delta_matches_vessels_def
  by (intro raises num_sub_raises assms; (rule num_sub_is_num; assumption)?; simp)

lemma scorecard_delta_number:
  "validate_scorecard_delta v path = Inr () \<Longrightarrow> is_num (dget (obj v) ''resolution_rate_delta'')"
  by (auto simp: validate_scorecard_delta_def Let_def bnd_eq_Inr req_object_ok obj_def is_num_def)

lemma comparison_raises [raises]: "raises_only schema_or_overflow (validate_scorecard_comparison i v)"
proof -
  have *: "raises_only schema_or_overflow (case map obj vs of
        b # c # _ \<Rightarrow> delta_matches_vessels (obj delta) b c path | _ \<Rightarrow> Inr ())"
    if "validate_scorecard_delta delta path = Inr ()" "forI (validate_scorecard_vessel path) 0 vs = Inr ()" for vs delta path
  proof (cases vs)
    case (Cons b vs')
    show ?thesis
    proof (cases vs')
      case (Cons c ws)
      with \<open>vs = b # vs'\<close> that(2) have "validate_scorecard_vessel path 0 b = Inr ()" "validate_scorecard_vessel path 1 c = Inr ()"
        by (simp_all add: bnd_eq_Inr)
      then show ?thesis
        using Cons \<open>vs = b # vs'\<close> scorecard_delta_number [OF that(1)] scorecard_vessel_numbers
        by (simp add: delta_matches_raises)
    qed (simp add: Cons raises_only_Inr)
  qed (simp add: raises_only_Inr)
  show ?thesis
    unfolding validate_scorecard_comparison_def Let_def
    by (intro raises *; simp)
qed

lemma scorecard_raises: "raises_only schema_or_overflow (validate_benchmark_scorecard_document v)"
  unfolding validate_benchmark_scorecard_document_def validate_scorecard_comparisons_def
  by (intro raises; simp)


section \<open>What acceptance means\<close>

lemma num_eq_int [simp]: "num_eq v (JInt n) \<longleftrightarrow> num_value v = Some (of_int n)"
  by (auto simp: num_eq_def num_value_def split: option.splits json.splits)

lemma partition3: "int (length (filter P xs)) + int (length (filter Q xs)) + int (length (filter R xs)) = int (length xs)"
  if "\<forall>x\<in>set xs. (P x \<and> \<not> Q x \<and> \<not> R x) \<or> (\<not> P x \<and> Q x \<and> \<not> R x) \<or> (\<not> P x \<and> \<not> Q x \<and> R x)"
  using that by (induction xs) auto

lemma live_partition:
  "count_of (\<lambda>v. truthy (f v)) xs + count_of (\<lambda>v. \<not> truthy (f v)) xs = int (length xs)"
  unfolding count_of_def by (induction xs) auto

definition summary_count :: "json_obj \<Rightarrow> string \<Rightarrow> rat" where
  "summary_count s k = (case num_value (dget_default s k (JInt 0)) of Some q \<Rightarrow> q | None \<Rightarrow> - 1)"

definition summary_consistent :: "json_obj \<Rightarrow> bool" where
  "summary_consistent s \<longleftrightarrow>
     summary_count s ''total_vessels''
       = summary_count s ''eligible_vessels'' + summary_count s ''blocked_vessels'' + summary_count s ''recorded_vessels''
     \<and> summary_count s ''total_vessels''
       = summary_count s ''measured_vessels'' + summary_count s ''missing_result_vessels'' + summary_count s ''recorded_vessels''"

definition summary_of :: "json \<Rightarrow> json_obj" where
  "summary_of c = obj (dget (obj c) ''summary'')"

definition vessels_of :: "json \<Rightarrow> json list" where
  "vessels_of c = (case dget (obj c) ''vessels'' of JList vs \<Rightarrow> vs | _ \<Rightarrow> [])"

lemma summary_matches_counts:
  assumes "summary_matches_vessels s vs path = Inr ()"
  shows "summary_count s ''recorded_vessels'' = of_int (recorded_count vs)"
    and "(k, n) \<in> set (expected_summary vs) \<Longrightarrow> summary_count s k = of_int n"
proof -
  have r: "num_value (dget_default s ''recorded_vessels'' (JInt 0)) = Some (of_int (recorded_count vs))"
    and e: "\<forall>(k, n)\<in>set (expected_summary vs). num_value (dget s k) = Some (of_int n)"
    using assms by (auto simp: summary_matches_vessels_def summary_matches_expected_def forR_eq_Inr)
  show "summary_count s ''recorded_vessels'' = of_int (recorded_count vs)"
    by (simp add: summary_count_def r)
  show "summary_count s k = of_int n" if "(k, n) \<in> set (expected_summary vs)"
  proof -
    have v: "num_value (dget s k) = Some (of_int n)" using e that by auto
    then have "has_key s k" by (intro has_key_if_dget) (auto simp: num_value_def)
    with v show ?thesis by (simp add: summary_count_def dget_default_def)
  qed
qed

lemma expected_summary_items:
  "(''total_vessels'', int (length vs)) \<in> set (expected_summary vs)"
  "(''measured_vessels'', count_of (has_status ''measured'') vs) \<in> set (expected_summary vs)"
  "(''missing_result_vessels'', count_of (has_status ''missing'') vs) \<in> set (expected_summary vs)"
  "(''eligible_vessels'', count_of (\<lambda>v. truthy (dget v ''eligible_for_benchmark''))
      (filter (\<lambda>v. \<not> has_status ''recorded'' v) vs)) \<in> set (expected_summary vs)"
  "(''blocked_vessels'', count_of (\<lambda>v. \<not> truthy (dget v ''eligible_for_benchmark''))
      (filter (\<lambda>v. \<not> has_status ''recorded'' v) vs)) \<in> set (expected_summary vs)"
  by (simp_all add: expected_summary_def Let_def)

lemma summary_matches_consistent:
  assumes "summary_matches_vessels s vs path = Inr ()"
    and "\<forall>v\<in>set vs. \<exists>t\<in>set BENCHMARK_SCORECARD_VESSEL_STATUSES. dget v ''status'' = JStr t"
  shows "summary_consistent s" and "summary_count s ''total_vessels'' = of_int (int (length vs))"
proof -
  note c = summary_matches_counts [OF assms(1)]
  let ?live = "filter (\<lambda>v. \<not> has_status ''recorded'' v) vs"
  have rec: "recorded_count vs = count_of (has_status ''recorded'') vs"
    unfolding recorded_count_def count_of_def by (induction vs) auto
  have p: "count_of (has_status ''measured'') vs + count_of (has_status ''missing'') vs + recorded_count vs = int (length vs)"
    unfolding rec count_of_def
    by (rule partition3) (use assms(2) in \<open>auto simp: has_status_def BENCHMARK_SCORECARD_VESSEL_STATUSES_def\<close>)
  have l: "count_of (\<lambda>v. truthy (dget v ''eligible_for_benchmark'')) ?live
      + count_of (\<lambda>v. \<not> truthy (dget v ''eligible_for_benchmark'')) ?live + recorded_count vs = int (length vs)"
    unfolding live_partition by (simp add: recorded_count_def)
  show "summary_count s ''total_vessels'' = of_int (int (length vs))" by (rule c(2) [OF expected_summary_items(1)])
  show "summary_consistent s"
    unfolding summary_consistent_def c(1) c(2) [OF expected_summary_items(1)] c(2) [OF expected_summary_items(2)]
      c(2) [OF expected_summary_items(3)] c(2) [OF expected_summary_items(4)] c(2) [OF expected_summary_items(5)]
    unfolding of_int_add [symmetric] of_int_eq_iff using p l by simp
qed

lemma comparison_consistent:
  assumes "validate_scorecard_comparison i c = Inr ()"
  shows "summary_consistent (summary_of c)"
    and "summary_count (summary_of c) ''total_vessels'' = of_int (int (length (vessels_of c)))"
proof -
  obtain d vs path where c: "c = JObj d" and vs: "dget d ''vessels'' = JList vs"
    and v: "forI (validate_scorecard_vessel path) 0 vs = Inr ()"
    and m: "summary_matches_vessels (obj (dget d ''summary'')) (map obj vs) path = Inr ()"
    using assms by (auto simp: validate_scorecard_comparison_def Let_def bnd_eq_Inr req_object_ok req_list_ok)
  have "\<exists>t\<in>set BENCHMARK_SCORECARD_VESSEL_STATUSES. dget (obj w) ''status'' = JStr t" if "w \<in> set vs" for w
  proof -
    from that v obtain j where "validate_scorecard_vessel path j w = Inr ()"
      by (auto simp: forI_eq_Inr in_set_conv_nth)
    then show ?thesis
      by (auto simp: validate_scorecard_vessel_def Let_def bnd_eq_Inr req_object_ok obj_def req_allowed_ok)
  qed
  then have s: "\<forall>v\<in>set (map obj vs). \<exists>t\<in>set BENCHMARK_SCORECARD_VESSEL_STATUSES. dget v ''status'' = JStr t" by simp
  have "summary_of c = obj (dget d ''summary'')" "vessels_of c = vs" by (simp_all add: summary_of_def vessels_of_def c obj_def vs)
  with summary_matches_consistent [OF m s] show "summary_consistent (summary_of c)"
    and "summary_count (summary_of c) ''total_vessels'' = of_int (int (length (vessels_of c)))" by simp_all
qed

section \<open>Properties\<close>

lemma top_level_counts:
  assumes "top_level_matches_comparisons s cs = Inr ()" and "k \<in> set (''recorded_vessels'' # BENCHMARK_SCORECARD_SUMMARY_KEYS)"
    and "\<forall>c\<in>set cs. num_value (dget_default (obj (dget c ''summary'')) k (JInt 0)) \<noteq> None"
    and "k \<noteq> ''recorded_vessels'' \<Longrightarrow> \<forall>c\<in>set cs. has_key (obj (dget c ''summary'')) k"
    and "k \<noteq> ''recorded_vessels'' \<Longrightarrow> has_key s k"
  shows "summary_count s k = sum_list (map (\<lambda>c. summary_count (obj (dget c ''summary'')) k) cs)"
proof -
  have v: "num_value (dget_default s k (JInt 0)) = Some (num_sum (map (\<lambda>c. dget_default (obj (dget c ''summary'')) k (JInt 0)) cs))"
  proof (cases "k = ''recorded_vessels''")
    case True
    with assms(1) show ?thesis
      by (auto simp: top_level_matches_comparisons_def equals_sum_def Let_def comp_def)
  next
    case False
    with assms(1,2) have "num_value (dget s k) = Some (num_sum (map (\<lambda>c. dget (obj (dget c ''summary'')) k) cs))"
      by (auto simp: top_level_matches_comparisons_def equals_sum_def Let_def comp_def forR_eq_Inr)
    moreover have "map (\<lambda>c. dget (obj (dget c ''summary'')) k) cs = map (\<lambda>c. dget_default (obj (dget c ''summary'')) k (JInt 0)) cs"
      using assms(4) [OF False] by (simp add: dget_default_def)
    ultimately show ?thesis using assms(5) [OF False] by (simp add: dget_default_def)
  qed
  have "num_sum (map (\<lambda>c. dget_default (obj (dget c ''summary'')) k (JInt 0)) cs)
      = sum_list (map (\<lambda>c. summary_count (obj (dget c ''summary'')) k) cs)"
    unfolding num_sum_def using assms(3) by (induction cs) (auto simp: summary_count_def)
  with v show ?thesis by (simp add: summary_count_def)
qed

lemma of_int_sum_list: "of_int (sum_list (map f xs)) = sum_list (map (\<lambda>x. of_int (f x) :: rat) xs)"
  by (induction xs) simp_all

lemma sum_list_add3:
  "\<forall>c\<in>set cs. F c = G c + H c + (K c :: rat) \<Longrightarrow>
     sum_list (map F cs) = sum_list (map G cs) + sum_list (map H cs) + sum_list (map K cs)"
  by (induction cs) simp_all

lemma summary_matches_values:
  assumes "summary_matches_vessels s vs path = Inr ()"
    and "k \<in> set (''recorded_vessels'' # BENCHMARK_SCORECARD_SUMMARY_KEYS)"
  shows "num_value (dget_default s k (JInt 0)) \<noteq> None"
proof (cases "k = ''recorded_vessels''")
  case True
  with assms(1) show ?thesis by (simp add: summary_matches_vessels_def)
next
  case False
  have "map fst (expected_summary vs) = BENCHMARK_SCORECARD_SUMMARY_KEYS"
    by (simp add: BENCHMARK_SCORECARD_SUMMARY_KEYS_def expected_summary_def Let_def)
  then have "k \<in> fst ` set (expected_summary vs)" using assms(2) False by (metis set_ConsD set_map)
  then obtain n where "(k, n) \<in> set (expected_summary vs)" by auto
  with assms(1) have "num_value (dget s k) = Some (of_int n)"
    by (auto simp: summary_matches_vessels_def summary_matches_expected_def forR_eq_Inr)
  then show ?thesis by (simp add: dget_default_def num_value_def)
qed

lemma comparison_matches:
  assumes "validate_scorecard_comparison i c = Inr ()"
  shows "\<exists>vs path. summary_matches_vessels (summary_of c) vs path = Inr ()"
    and "\<forall>k\<in>set BENCHMARK_SCORECARD_SUMMARY_KEYS. has_key (summary_of c) k"
proof -
  obtain d vs where c: "c = JObj d"
    and m: "summary_matches_vessels (obj (dget d ''summary'')) (map obj vs) (at_index ''comparisons'' i) = Inr ()"
    and s: "validate_scorecard_summary (dget d ''summary'') (at_index ''comparisons'' i) = Inr ()"
    using assms by (auto simp: validate_scorecard_comparison_def Let_def bnd_eq_Inr req_object_ok req_list_ok)
  then have e: "summary_of c = obj (dget d ''summary'')" by (simp add: summary_of_def obj_def)
  show "\<exists>vs path. summary_matches_vessels (summary_of c) vs path = Inr ()" unfolding e using m by blast
  show "\<forall>k\<in>set BENCHMARK_SCORECARD_SUMMARY_KEYS. has_key (summary_of c) k"
    unfolding e using s by (auto simp: validate_scorecard_summary_def Let_def bnd_eq_Inr req_object_ok req_keys_ok obj_def)
qed

lemma sum_consistent:
  assumes "\<forall>c\<in>set cs. summary_consistent (f c)"
    and "\<And>k. k \<in> set (''recorded_vessels'' # BENCHMARK_SCORECARD_SUMMARY_KEYS) \<Longrightarrow>
       summary_count s k = sum_list (map (\<lambda>c. summary_count (f c) k) cs)"
  shows "summary_consistent s"
proof -
  have a: "sum_list (map (\<lambda>c. summary_count (f c) ''total_vessels'') cs)
      = sum_list (map (\<lambda>c. summary_count (f c) ''eligible_vessels'') cs)
        + sum_list (map (\<lambda>c. summary_count (f c) ''blocked_vessels'') cs)
        + sum_list (map (\<lambda>c. summary_count (f c) ''recorded_vessels'') cs)"
    by (rule sum_list_add3, rule ballI, drule assms(1) [rule_format]) (unfold summary_consistent_def, elim conjE, assumption)
  have b: "sum_list (map (\<lambda>c. summary_count (f c) ''total_vessels'') cs)
      = sum_list (map (\<lambda>c. summary_count (f c) ''measured_vessels'') cs)
        + sum_list (map (\<lambda>c. summary_count (f c) ''missing_result_vessels'') cs)
        + sum_list (map (\<lambda>c. summary_count (f c) ''recorded_vessels'') cs)"
    by (rule sum_list_add3, rule ballI, drule assms(1) [rule_format]) (unfold summary_consistent_def, elim conjE, assumption)
  have k: "{''total_vessels'', ''eligible_vessels'', ''blocked_vessels'', ''measured_vessels'', ''missing_result_vessels''}
      = set BENCHMARK_SCORECARD_SUMMARY_KEYS" by (simp add: BENCHMARK_SCORECARD_SUMMARY_KEYS_def)
  show ?thesis unfolding summary_consistent_def
    using a b by (simp add: assms(2) flip: k)
qed


text \<open>
  The second case is real: an interval bound of \<open>2 ^ 1024\<close> or more, a valid JSON integer, escapes
  as \<open>OverflowError\<close> because it is converted with \<open>float\<close> before it is compared.
\<close>

theorem huge_bound_overflows:
  "validate_rate_interval (JObj [(''low'', JInt (2 ^ 1024 + int k)), (''high'', JInt 1)]) path
     = Inl (PyOverflowError ''int too large to convert to float'')"
proof -
  have "(2 :: rat) ^ 1024 \<le> of_int (2 ^ 1024 + int k)" by simp
  then have "fl (2 ^ 1024) \<le> fl (of_int (2 ^ 1024 + int k))" by (rule fl_mono)
  then have "FLOAT_LIMIT \<le> fl (of_int (2 ^ 1024 + int k))"
    using FLOAT_LIMIT_le_power_two [of 1024] unfolding fl_power_two by simp
  then have "FLOAT_LIMIT \<le> \<bar>fl (of_int (2 ^ 1024 + int k))\<bar>" by (rule order_trans) simp
  then show ?thesis
    by (simp add: validate_rate_interval_def when_set_def req_object_def req_keys_def req_unit_number_def is_number_def
        as_float_def int_to_float_def checks_def del: of_int_add of_int_power)
qed

text \<open>
  C12. The counts of an accepted scorecard add up, in every comparison and in the document: the
  vessels are the eligible, the blocked and the recorded ones, and also the measured, the missing
  and the recorded ones; a comparison's total is its number of vessels and the document's total is
  their sum.
\<close>

theorem accepted_scorecard_adds_up:
  assumes "validate_benchmark_scorecard_document (JObj d) = Inr ()"
  shows "\<exists>cs. dget d ''comparisons'' = JList cs
    \<and> summary_consistent (obj (dget d ''summary''))
    \<and> summary_count (obj (dget d ''summary'')) ''total_vessels'' = of_int (sum_list (map (\<lambda>c. int (length (vessels_of c))) cs))
    \<and> list_all (\<lambda>c. summary_consistent (summary_of c)
         \<and> summary_count (summary_of c) ''total_vessels'' = of_int (int (length (vessels_of c)))) cs"
proof -
  from assms obtain cs where cs: "dget d ''comparisons'' = JList cs"
    and v: "forI validate_scorecard_comparison 0 cs = Inr ()"
    and t: "top_level_matches_comparisons (obj (dget d ''summary'')) (map obj cs) = Inr ()"
    and s: "validate_top_level_summary (dget d ''summary'') = Inr ()"
    by (auto simp: validate_benchmark_scorecard_document_def bnd_eq_Inr req_object_ok validate_scorecard_comparisons_def
        req_list_ok)
  have c: "\<exists>i. validate_scorecard_comparison i c = Inr ()" if "c \<in> set cs" for c
    using v that by (auto simp: forI_eq_Inr in_set_conv_nth)
  have k: "has_key (summary_of c) k" if "c \<in> set cs" "k \<in> set BENCHMARK_SCORECARD_SUMMARY_KEYS" for c k
    using c [OF that(1)] comparison_matches(2) that(2) by blast
  have top: "has_key (obj (dget d ''summary'')) k" if "k \<in> set BENCHMARK_SCORECARD_SUMMARY_KEYS" for k
    using s that by (auto simp: validate_top_level_summary_def Let_def bnd_eq_Inr req_object_ok req_keys_ok obj_def)
  have n: "num_value (dget_default (summary_of c) k (JInt 0)) \<noteq> None"
    if "c \<in> set cs" "k \<in> set (''recorded_vessels'' # BENCHMARK_SCORECARD_SUMMARY_KEYS)" for c k
    using c [OF that(1)] comparison_matches(1) summary_matches_values [OF _ that(2)] by blast
  have count: "summary_count (obj (dget d ''summary'')) k = sum_list (map (\<lambda>c. summary_count (summary_of c) k) cs)"
    if "k \<in> set (''recorded_vessels'' # BENCHMARK_SCORECARD_SUMMARY_KEYS)" for k
    using top_level_counts [OF t that] n [OF _ that] k top that
    by (auto simp: summary_of_def comp_def)
  have "summary_consistent (obj (dget d ''summary''))"
    by (rule sum_consistent [of cs summary_of]) (use c comparison_consistent(1) count in blast)+
  moreover have "summary_count (obj (dget d ''summary'')) ''total_vessels''
      = of_int (sum_list (map (\<lambda>c. int (length (vessels_of c))) cs))"
  proof -
    have "map (\<lambda>c. summary_count (summary_of c) ''total_vessels'') cs = map (\<lambda>c. of_int (int (length (vessels_of c)))) cs"
      using c comparison_consistent(2) by (intro map_cong refl) blast
    moreover have "''total_vessels'' \<in> set (''recorded_vessels'' # BENCHMARK_SCORECARD_SUMMARY_KEYS)"
      by (simp add: BENCHMARK_SCORECARD_SUMMARY_KEYS_def)
    ultimately show ?thesis by (simp only: count of_int_sum_list)
  qed
  moreover have "list_all (\<lambda>c. summary_consistent (summary_of c)
         \<and> summary_count (summary_of c) ''total_vessels'' = of_int (int (length (vessels_of c)))) cs"
    unfolding list_all_iff using c comparison_consistent by blast
  ultimately show ?thesis using cs by blast
qed

definition sample_vessel :: "string \<Rightarrow> json" where
  "sample_vessel n = JObj [(''name'', JStr n), (''status'', JStr ''missing''), (''submitted_instances'', JInt 0),
     (''resolved_instances'', JInt 0), (''resolution_rate'', JInt 0), (''eligible_for_benchmark'', JBool False),
     (''preflight_status'', JStr ''failed''), (''preflight_reason'', JStr ''r''), (''preflight_artifact_path'', JStr ''p'')]"

definition sample_summary :: json_obj where
  "sample_summary = [(''total_vessels'', JInt 2), (''eligible_vessels'', JInt 0), (''blocked_vessels'', JInt 2),
     (''measured_vessels'', JInt 0), (''missing_result_vessels'', JInt 2)]"

definition sample_scorecard :: json_obj where
  "sample_scorecard =
     [(''schema'', JStr BENCHMARK_SCORECARD_SCHEMA), (''regatta'', JStr ''r''), (''course'', JStr ''c''),
      (''adapter'', JObj [(''kind'', JStr ''swe-bench''), (''dataset'', JStr ''d''), (''split'', JStr ''s'')]),
      (''status'', JStr ''empty''), (''summary'', JObj ((''total_comparisons'', JInt 1) # sample_summary)),
      (''comparisons'', JList [JObj [(''name'', JStr ''x''), (''course'', JStr ''c''), (''summary'', JObj sample_summary),
         (''delta'', JObj [(''baseline_vessel'', JStr ''a''), (''challenger_vessel'', JStr ''b''),
            (''resolved_instances_delta'', JInt 0), (''resolution_rate_delta'', JInt 0)]),
         (''vessels'', JList [sample_vessel ''a'', sample_vessel ''b''])]])]"

theorem accepted_scorecard_adds_up_witness:
  "validate_benchmark_scorecard_document (JObj sample_scorecard) = Inr ()
     \<and> summary_consistent (obj (dget sample_scorecard ''summary''))"
proof -
  have e: "validate_benchmark_scorecard_document (JObj sample_scorecard) = Inr ()" by code_simp
  from accepted_scorecard_adds_up [OF e] e show ?thesis by blast
qed

end
