(* ===== verification/LaunchAudit.thy ===== *)
theory LaunchAudit
  imports Paths Bytes
begin

text \<open>
  \<open>containers/harbor-launcher/yacht_harbor_agents/duplex.py\<close>: the audit of a launch (bind mounts,
  the resolved compose document, the environment directory), the compose command line and the
  line protocol of the driver.

  What the code asks of the host is in \<open>launch_host\<close>: \<open>Path.resolve\<close> (\<open>None\<close> when it raises
  \<open>OSError\<close>), \<open>Path.expanduser\<close>, and \<open>str\<close> of a value that is not a string. The result of
  \<open>docker compose config\<close> and the parsed compose file are inputs.
\<close>

section \<open>Paths of the host\<close>

record launch_host =
  resolve_path :: "path \<Rightarrow> path option"
  expanduser :: "path \<Rightarrow> path"
  to_str :: "json \<Rightarrow> string"

definition py_str :: "launch_host \<Rightarrow> json \<Rightarrow> string" where
  "py_str h v = (case v of JStr s \<Rightarrow> s | _ \<Rightarrow> to_str h v)"

definition must_resolve :: "launch_host \<Rightarrow> path \<Rightarrow> exn + path" where
  "must_resolve h p = (case resolve_path h p of None \<Rightarrow> Inl (OSError ''resolve'') | Some q \<Rightarrow> Inr q)"

text \<open>\<open>p / q\<close> and \<open>str(p)\<close>.\<close>

definition path_join :: "path \<Rightarrow> path \<Rightarrow> path" where
  "path_join p q = (if absolute q then q else \<lparr>absolute = absolute p, parts = parts p @ parts q\<rparr>)"

definition path_str :: "path \<Rightarrow> string" where
  "path_str p = (if absolute p then ''/'' @ join ''/'' (parts p) else as_posix (parts p))"

text \<open>\<open>for x in v\<close>: a list, the keys of a dict, the characters of a string.\<close>

definition py_iter :: "json \<Rightarrow> exn + json list" where
  "py_iter v = (case v of
     JList xs \<Rightarrow> Inr xs | JObj d \<Rightarrow> Inr (map (\<lambda>kv. JStr (fst kv)) d)
   | JStr s \<Rightarrow> Inr (map (\<lambda>c. JStr [c]) s)
   | _ \<Rightarrow> Inl (TypeError ''object is not iterable''))"

text \<open>\<open>v or []\<close>.\<close>

definition or_empty :: "json \<Rightarrow> json" where
  "or_empty v = (if truthy v then v else JList [])"

section \<open>Bind mounts\<close>

definition SENSITIVE_TASK_FILES :: "string list" where
  "SENSITIVE_TASK_FILES = [''task.toml'', ''tests'', ''solution'']"

definition is_within :: "path \<Rightarrow> path \<Rightarrow> bool" where
  "is_within inner outer = (absolute inner = absolute outer \<and> is_prefix (parts outer) (parts inner))"

definition contains_path :: "path \<Rightarrow> path \<Rightarrow> bool" where
  "contains_path source forbidden = (source = forbidden \<or> is_within forbidden source)"

definition exposes :: "launch_host \<Rightarrow> path \<Rightarrow> path \<Rightarrow> bool \<Rightarrow> bool" where
  "exposes h source forbidden sensitive =
     (case (resolve_path h source, resolve_path h forbidden) of
        (Some s, Some f) \<Rightarrow> contains_path s f \<or> sensitive \<and> is_within s f
      | _ \<Rightarrow> False)"

definition child :: "path \<Rightarrow> string \<Rightarrow> path" where
  "child p name = \<lparr>absolute = absolute p, parts = parts p @ [name]\<rparr>"

text \<open>The aggregates and the sensitive roots of a launch.\<close>

definition protected_paths :: "launch_host \<Rightarrow> path \<Rightarrow> path option \<Rightarrow> exn + path list \<times> path list" where
  "protected_paths h trial_dir task_dir =
     bnd (must_resolve h trial_dir) (\<lambda>trial. case task_dir of
       None \<Rightarrow> Inr ([trial], [child trial ''yacht-execution''])
     | Some t \<Rightarrow> bnd (must_resolve h t) (\<lambda>resolved_task.
         Inr ([trial, resolved_task],
              child trial ''yacht-execution'' # map (child resolved_task) SENSITIVE_TASK_FILES)))"

definition check_exposure :: "launch_host \<Rightarrow> path \<Rightarrow> bool \<Rightarrow> path list \<Rightarrow> exn + unit" where
  "check_exposure h source sensitive paths =
     forR (\<lambda>p. ensure (\<not> exposes h source p sensitive)
       (UnsafeMountError (''bind mount '' @ path_str source @ '' exposes '' @ path_str p))) paths"

text \<open>The source a mount binds, where it is a bind mount with a source.\<close>

definition bind_source :: "launch_host \<Rightarrow> json_obj \<Rightarrow> path option" where
  "bind_source h mount =
     (let kind = dget mount ''type''; source_raw = dget mount ''source'' in
      if truthy kind \<and> kind \<noteq> JStr ''bind'' \<or> \<not> truthy source_raw then None
      else Some (expanduser h (posix_path (py_str h source_raw))))"

definition audit_mount :: "launch_host \<Rightarrow> path list \<Rightarrow> path list \<Rightarrow> json_obj \<Rightarrow> exn + unit" where
  "audit_mount h aggregates sensitive mount = (case bind_source h mount of
     None \<Rightarrow> Inr ()
   | Some p \<Rightarrow> bnd (must_resolve h p) (\<lambda>source.
       bnd (check_exposure h source True sensitive) (\<lambda>_. check_exposure h source False aggregates)))"

definition audit_bind_mounts :: "launch_host \<Rightarrow> json_obj list \<Rightarrow> path \<Rightarrow> path option \<Rightarrow> exn + unit" where
  "audit_bind_mounts h mounts trial_dir task_dir =
     bnd (protected_paths h trial_dir task_dir) (\<lambda>(aggregates, sensitive).
     forR (audit_mount h aggregates sensitive) mounts)"

section \<open>Compose documents\<close>

text \<open>The build context of a service in a resolved document.\<close>

definition build_context :: "launch_host \<Rightarrow> string \<Rightarrow> json \<Rightarrow> exn + string option" where
  "build_context h name build = (case build of
     JStr s \<Rightarrow> Inr (Some s)
   | JObj b \<Rightarrow> Inr (if dget b ''context'' \<noteq> JNull then Some (py_str h (dget b ''context'')) else None)
   | JNull \<Rightarrow> Inr None
   | _ \<Rightarrow> Inl (UnsafeMountError (''unsupported compose build definition in service '' @ py_repr name)))"

definition check_context ::
    "launch_host \<Rightarrow> path \<Rightarrow> path \<Rightarrow> string \<Rightarrow> string option \<Rightarrow> exn + unit" where
  "check_context h project_directory permitted name context = (case context of
     None \<Rightarrow> Inr ()
   | Some s \<Rightarrow> (case resolve_path h (path_join project_directory (posix_path s)) of
       None \<Rightarrow> Inl (UnsafeMountError (''unresolvable build context in service '' @ py_repr name))
     | Some candidate \<Rightarrow> ensure (candidate = permitted \<or> is_within candidate permitted)
         (UnsafeMountError (''build context '' @ path_str candidate @ '' escapes '' @ path_str permitted))))"

text \<open>The source and the kind of a volume, then the mount it becomes.\<close>

definition volume_parts :: "string \<Rightarrow> json \<Rightarrow> exn + json \<times> json" where
  "volume_parts name volume = (case volume of
     JObj v \<Rightarrow> Inr (dget v ''source'', dget_default v ''type'' (JStr ''bind''))
   | JStr s \<Rightarrow> (case split_on CHR '':'' s of
       source # _ # _ \<Rightarrow> Inr (JStr source, JStr ''bind'') | _ \<Rightarrow> Inr (JNull, JStr ''bind''))
   | _ \<Rightarrow> Inl (UnsafeMountError (''unsupported compose volume syntax in service '' @ py_repr name)))"

definition volume_mounts :: "launch_host \<Rightarrow> path \<Rightarrow> string \<Rightarrow> json \<Rightarrow> exn + json_obj list" where
  "volume_mounts h project_directory name volume =
     bnd (volume_parts name volume) (\<lambda>(source, kind). Inr (
       if \<not> truthy source \<or> kind \<noteq> JStr ''bind'' then []
       else [[(''type'', JStr ''bind''),
              (''source'', JStr (path_str (path_join project_directory (posix_path (py_str h source)))))]]))"

definition service_mounts :: "launch_host \<Rightarrow> path \<Rightarrow> path \<Rightarrow> string \<times> json \<Rightarrow> exn + json_obj list" where
  "service_mounts h project_directory permitted = (\<lambda>(name, config_value). case config_value of
     JObj config \<Rightarrow>
       bnd (build_context h name (dget config ''build'')) (\<lambda>context.
       bnd (check_context h project_directory permitted name context) (\<lambda>_.
       bnd (py_iter (or_empty (dget config ''volumes''))) (\<lambda>volumes.
       bnd (mapR (volume_mounts h project_directory name) volumes) (\<lambda>ms. Inr (concat ms)))))
   | _ \<Rightarrow> Inl (UnsafeMountError (''unsupported compose service definition: '' @ py_repr name)))"

definition audit_resolved_compose_document ::
    "launch_host \<Rightarrow> json \<Rightarrow> path \<Rightarrow> path option \<Rightarrow> path \<Rightarrow> exn + unit" where
  "audit_resolved_compose_document h document trial_dir task_dir project_directory = (case document of
     JObj d \<Rightarrow> (case dget d ''services'' of
       JObj services \<Rightarrow>
         bnd (must_resolve h project_directory) (\<lambda>permitted.
         bnd (mapR (service_mounts h project_directory permitted) services) (\<lambda>ms.
         audit_bind_mounts h (concat ms) trial_dir task_dir))
     | _ \<Rightarrow> Inl (UnsafeMountError ''resolved compose configuration has no services''))
   | _ \<Rightarrow> Inl (UnsafeMountError ''resolved compose configuration is not an object''))"

section \<open>The launch\<close>

text \<open>How \<open>docker compose config --format json\<close> ends.\<close>

datatype compose_config = Compose_failed string | Compose_not_json | Compose_document json

record launch =
  launch_mounts :: "json_obj list"
  environment_dir :: "path option"
  environment_dir_exists :: bool
  task_toml_leaked :: bool
  compose_paths :: "path list"
  compose_config :: compose_config

definition audit_environment_dir :: "path \<Rightarrow> bool \<Rightarrow> exn + unit" where
  "audit_environment_dir dir leaked =
     ensure (\<not> leaked) (UnsafeMountError (''environment dir '' @ path_str dir @ '' contains task.toml''))"

definition audit_launch_privacy :: "launch_host \<Rightarrow> launch \<Rightarrow> path \<Rightarrow> path option \<Rightarrow> exn + unit" where
  "audit_launch_privacy h l trial_dir task_dir =
     bnd (audit_bind_mounts h (launch_mounts l) trial_dir task_dir) (\<lambda>_.
     bnd (case environment_dir l of
            Some dir \<Rightarrow> if environment_dir_exists l then audit_environment_dir dir (task_toml_leaked l) else Inr ()
          | None \<Rightarrow> Inr ()) (\<lambda>_.
     if compose_paths l = [] then Inr ()
     else (case environment_dir l of
        None \<Rightarrow> Inl (AttributeError ''environment_dir'')
      | Some dir \<Rightarrow> bnd (must_resolve h dir) (\<lambda>project_directory.
          bnd (mapR (must_resolve h) (compose_paths l)) (\<lambda>_. (case compose_config l of
            Compose_failed detail \<Rightarrow>
              Inl (UnsafeMountError (''could not resolve compose configuration for audit: '' @ detail))
          | Compose_not_json \<Rightarrow> Inl (UnsafeMountError ''resolved compose configuration is not valid JSON'')
          | Compose_document document \<Rightarrow>
              audit_resolved_compose_document h document trial_dir task_dir project_directory))))))"


section \<open>Compose files before resolution\<close>

definition volume_source :: "launch_host \<Rightarrow> path \<Rightarrow> json \<Rightarrow> exn + path option" where
  "volume_source h env_dir volume = (case volume of
     JStr s \<Rightarrow>
       (let source = hd (split_on CHR '':'' s) in
        if source = [] then Inr None
        else if hd source = CHR ''/'' then Inr (Some (posix_path source))
        else bnd (must_resolve h (path_join env_dir (posix_path source))) (\<lambda>p. Inr (Some p)))
   | JObj v \<Rightarrow>
       (if \<not> truthy (dget v ''source'') then Inr None
        else bnd (must_resolve h (path_join env_dir (posix_path (py_str h (dget v ''source''))))) (\<lambda>p. Inr (Some p)))
   | _ \<Rightarrow> Inr None)"

definition file_volume_mount :: "launch_host \<Rightarrow> path \<Rightarrow> json \<Rightarrow> exn + json_obj list" where
  "file_volume_mount h env_dir volume =
     bnd (volume_source h env_dir volume) (\<lambda>source. Inr (case source of
       None \<Rightarrow> [] | Some p \<Rightarrow> [[(''type'', JStr ''bind''), (''source'', JStr (path_str p))]]))"

definition file_contexts :: "launch_host \<Rightarrow> json \<Rightarrow> string list" where
  "file_contexts h build = (case build of
     JStr s \<Rightarrow> [s]
   | JObj b \<Rightarrow> if truthy (dget b ''context'') then [py_str h (dget b ''context'')] else []
   | _ \<Rightarrow> [])"

definition check_file_context :: "launch_host \<Rightarrow> path \<Rightarrow> path option \<Rightarrow> string \<Rightarrow> exn + unit" where
  "check_file_context h env_dir task_dir context =
     bnd (must_resolve h (path_join env_dir (posix_path context))) (\<lambda>resolved.
     bnd (ensure (is_within resolved env_dir)
       (UnsafeMountError (''build context '' @ path_str resolved @ '' escapes '' @ path_str env_dir))) (\<lambda>_.
     case task_dir of None \<Rightarrow> Inr () | Some t \<Rightarrow> bnd (must_resolve h t) (\<lambda>task.
       ensure (\<not> exposes h resolved task False)
         (UnsafeMountError (''build context '' @ path_str resolved @ '' exposes task source'')))))"

definition file_service_mounts ::
    "launch_host \<Rightarrow> path \<Rightarrow> path option \<Rightarrow> string \<times> json \<Rightarrow> exn + json_obj list" where
  "file_service_mounts h env_dir task_dir = (\<lambda>(_, config_value). case config_value of
     JObj config \<Rightarrow>
       bnd (py_iter (or_empty (dget config ''volumes''))) (\<lambda>volumes.
       bnd (mapR (file_volume_mount h env_dir) volumes) (\<lambda>ms.
       bnd (forR (check_file_context h env_dir task_dir) (file_contexts h (dget config ''build''))) (\<lambda>_.
       Inr (concat ms))))
   | _ \<Rightarrow> Inr [])"

text \<open>\<open>document\<close> is what \<open>yaml.safe_load\<close> returned, where yaml is installed.\<close>

definition audit_compose_file ::
    "launch_host \<Rightarrow> path \<Rightarrow> json option \<Rightarrow> path \<Rightarrow> path option \<Rightarrow> exn + unit" where
  "audit_compose_file h dir document trial_dir task_dir =
     bnd (must_resolve h dir) (\<lambda>env_dir.
     let services = (case document of
           Some (JObj d) \<Rightarrow> (case dget d ''services'' of JObj services \<Rightarrow> services | _ \<Rightarrow> []) | _ \<Rightarrow> [])
     in bnd (mapR (file_service_mounts h env_dir task_dir) services) (\<lambda>ms.
        audit_bind_mounts h (concat ms) trial_dir task_dir))"

section \<open>The compose command line\<close>

definition to_lower :: "char \<Rightarrow> char" where
  "to_lower c = (let n = code_point c in
     if 65 \<le> n \<and> n \<le> 90 \<or> 192 \<le> n \<and> n \<le> 222 \<and> n \<noteq> 215 then char_of (n + 32) else c)"

definition is_lower_alnum :: "char \<Rightarrow> bool" where
  "is_lower_alnum c = (is_digit c \<or> 97 \<le> code_point c \<and> code_point c \<le> 122)"

definition is_project_char :: "char \<Rightarrow> bool" where
  "is_project_char c = (is_lower_alnum c \<or> c = CHR ''_'' \<or> c = CHR ''-'')"

definition sanitize_compose_project_name :: "string \<Rightarrow> string" where
  "sanitize_compose_project_name name =
     (let lowered = map to_lower name;
          prefixed = (case lowered of
            c # _ \<Rightarrow> if is_lower_alnum c then lowered else CHR ''0'' # lowered | [] \<Rightarrow> ''0'')
      in map (\<lambda>c. if is_project_char c then c else CHR ''-'') prefixed)"

definition build_compose_exec_argv ::
    "launch_host \<Rightarrow> string \<Rightarrow> path \<Rightarrow> path list \<Rightarrow> string \<Rightarrow> string option \<Rightarrow> json \<Rightarrow> (string \<times> string) list
       \<Rightarrow> exn + string list" where
  "build_compose_exec_argv h session_id dir paths command workdir user env =
     bnd (must_resolve h dir) (\<lambda>project.
     bnd (mapR (must_resolve h) paths) (\<lambda>files. Inr (
       [''docker'', ''compose'', ''--project-name'', sanitize_compose_project_name session_id,
        ''--project-directory'', path_str project]
       @ concat (map (\<lambda>p. [''-f'', path_str p]) files)
       @ [''exec'', ''-T'']
       @ (case workdir of Some d \<Rightarrow> if d \<noteq> [] then [''-w'', d] else [] | None \<Rightarrow> [])
       @ concat (map (\<lambda>(key, v). [''-e'', key @ ''='' @ v]) env)
       @ (if user \<noteq> JNull then [''-u'', py_str h user] else [])
       @ [''main'', ''bash'', ''-c'', command])))"

definition PINNED_HARBOR_VERSION :: string where
  "PINNED_HARBOR_VERSION = ''0.20.0''"

text \<open>The class of the environment; the version given or installed.\<close>

record environment_class =
  class_name :: string
  class_module :: string
  is_windows_container :: bool

definition require_harbor_docker_linux :: "environment_class \<Rightarrow> string option \<Rightarrow> string option \<Rightarrow> exn + unit" where
  "require_harbor_docker_linux environment given installed =
     (case (case given of Some v \<Rightarrow> Some v | None \<Rightarrow> installed) of
        None \<Rightarrow> Inl (DuplexError (''controlled OMP requires harbor '' @ PINNED_HARBOR_VERSION @ '', not installed''))
      | Some version \<Rightarrow>
          bnd (ensure (version = PINNED_HARBOR_VERSION) (DuplexError
            (''controlled OMP requires harbor '' @ PINNED_HARBOR_VERSION @ '', not '' @ version))) (\<lambda>_.
          bnd (ensure (class_name environment = ''DockerEnvironment''
                       \<and> class_module environment = ''harbor.environments.docker.docker'')
            (DuplexError ''controlled OMP requires Harbor DockerEnvironment'')) (\<lambda>_.
          ensure (\<not> is_windows_container environment)
            (DuplexError ''controlled OMP requires Linux containers''))))"

section \<open>The driver's line protocol\<close>

definition MAX_FRAME_BYTES :: nat where
  "MAX_FRAME_BYTES = 64 * 1024 * 1024"

text \<open>
  How one read of the driver's stdout ends: the rest of the line, a \<open>LimitOverrunError\<close> with
  the consumed piece, or an \<open>IncompleteReadError\<close> with the partial data.
\<close>

datatype read_event = Read_line bytes | Overrun bytes | Incomplete bytes

text \<open>\<open>None\<close>: the events are used up and the loop awaits the next one.\<close>

fun read_frame :: "nat \<Rightarrow> bytes \<Rightarrow> read_event list \<Rightarrow> (exn + bytes) option" where
  "read_frame used chunks [] = None"
| "read_frame used chunks (Read_line b # events) = Some (Inr (chunks @ b))"
| "read_frame used chunks (Overrun piece # events) =
     (if MAX_FRAME_BYTES < used + length piece then Some (Inl (DuplexError ''driver frame exceeded limit''))
      else read_frame (used + length piece) (chunks @ piece) events)"
| "read_frame used chunks (Incomplete partial # events) =
     (if partial = [] then Some (Inl (DuplexError ''driver stdout closed''))
      else Some (Inr (chunks @ partial)))"

text \<open>\<open>bytes.strip()\<close> tests; \<open>json.loads\<close> of the decoded line is a parameter.\<close>

definition blank :: "bytes \<Rightarrow> bool" where
  "blank b = list_all (\<lambda>x. 9 \<le> x \<and> x \<le> 13 \<or> x = 32) b"

definition recv :: "(bytes \<Rightarrow> exn + json) \<Rightarrow> read_event list \<Rightarrow> (exn + json) option" where
  "recv loads events = map_option (\<lambda>r. bnd r (\<lambda>line.
     if blank line then Inl (DuplexError ''driver stdout closed'') else loads line)) (read_frame 0 [] events)"

text \<open>The stderr drain: what reaches the diagnostics file.\<close>

fun drain :: "nat \<Rightarrow> bytes list \<Rightarrow> bytes" where
  "drain written [] = []"
| "drain written (chunk # rest) =
     (if chunk = [] then []
      else if MAX_FRAME_BYTES \<le> written then drain written rest
      else chunk @ drain (written + length chunk) rest)"

section \<open>Prefixes\<close>

lemma is_prefix_refl [simp]: "is_prefix p p"
  by (simp add: is_prefix_def)

lemma is_prefix_trans: "is_prefix a b \<Longrightarrow> is_prefix b c \<Longrightarrow> is_prefix a c"
  unfolding is_prefix_def by (metis min.absorb1 min.cobounded2 length_take take_take)

lemma is_prefix_linear: "is_prefix a c \<Longrightarrow> is_prefix b c \<Longrightarrow> is_prefix a b \<or> is_prefix b a"
  unfolding is_prefix_def by (metis min.absorb1 min.absorb2 nle_le take_take)

lemma is_within_refl [simp]: "is_within p p"
  by (simp add: is_within_def)

lemma is_within_linear: "is_within f p \<Longrightarrow> is_within f q \<Longrightarrow> is_within p q \<or> is_within q p"
  unfolding is_within_def using is_prefix_linear by metis

section \<open>What a host promises\<close>

definition plain_name :: "string \<Rightarrow> bool" where
  "plain_name x \<longleftrightarrow> x \<noteq> [] \<and> x \<noteq> ''.'' \<and> CHR ''/'' \<notin> set x"

text \<open>
  \<open>Path.resolve\<close> returns an absolute path of plain names that resolves to itself;
  \<open>expanduser\<close> leaves an absolute path alone.
\<close>

definition host_ok :: "launch_host \<Rightarrow> bool" where
  "host_ok h \<longleftrightarrow>
     (\<forall>p q. resolve_path h p = Some q \<longrightarrow>
        absolute q \<and> list_all plain_name (parts q) \<and> resolve_path h q = Some q)
     \<and> (\<forall>p. absolute p \<longrightarrow> expanduser h p = p)"

lemma host_ok_resolve:
  "host_ok h \<Longrightarrow> resolve_path h p = Some q \<Longrightarrow>
     absolute q \<and> list_all plain_name (parts q) \<and> resolve_path h q = Some q"
  by (simp add: host_ok_def)

lemma host_ok_expanduser: "host_ok h \<Longrightarrow> absolute p \<Longrightarrow> expanduser h p = p"
  by (simp add: host_ok_def)

lemma posix_path_plain: "list_all plain_name (parts (posix_path s))"
  by (auto simp: posix_path_def plain_parts_def plain_name_def list_all_iff dest: split_on_no_sep)

lemma plain_parts_id: "list_all plain_name ps \<Longrightarrow> plain_parts ps = ps"
  by (auto simp: plain_parts_def plain_name_def list_all_iff filter_id_conv)

lemma posix_path_path_str:
  assumes "absolute p" and "list_all plain_name (parts p)"
  shows "posix_path (path_str p) = p"
proof -
  have "plain_parts (split_on CHR ''/'' (join ''/'' (parts p))) = parts p"
  proof (cases "parts p = []")
    case True
    then show ?thesis by (simp add: plain_parts_def)
  next
    case False
    with assms(2) have "split_on CHR ''/'' (join ''/'' (parts p)) = parts p"
      by (intro split_on_join) (auto simp: list_all_iff plain_name_def)
    with assms(2) show ?thesis by (simp add: plain_parts_id)
  qed
  with assms(1) show ?thesis by (simp add: posix_path_def path_str_def plain_parts_def)
qed

lemma path_join_plain:
  "absolute p \<Longrightarrow> list_all plain_name (parts p)
   \<Longrightarrow> absolute (path_join p (posix_path s)) \<and> list_all plain_name (parts (path_join p (posix_path s)))"
  by (simp add: path_join_def posix_path_plain)

section \<open>Accepted bind mounts\<close>

lemma check_exposure_eq_Inr [result_simps]:
  "check_exposure h source sensitive paths = Inr () \<longleftrightarrow> (\<forall>p\<in>set paths. \<not> exposes h source p sensitive)"
  by (simp add: check_exposure_def forR_eq_Inr)

lemma must_resolve_eq_Inr [result_simps]: "must_resolve h p = Inr q \<longleftrightarrow> resolve_path h p = Some q"
  by (simp add: must_resolve_def split: option.split)

text \<open>No file of the host lies below both the bound source and a sensitive root.\<close>

definition hides :: "launch_host \<Rightarrow> path \<Rightarrow> path list \<Rightarrow> path list \<Rightarrow> bool" where
  "hides h src aggregates sensitive \<longleftrightarrow>
     (\<forall>s\<in>set sensitive. \<forall>s'. resolve_path h s = Some s' \<longrightarrow> (\<forall>f. is_within f src \<longrightarrow> \<not> is_within f s'))
     \<and> (\<forall>a\<in>set aggregates. \<not> is_within a src)"

lemma protected_resolved:
  "host_ok h \<Longrightarrow> protected_paths h trial_dir task_dir = Inr (aggs, sens) \<Longrightarrow> a \<in> set aggs
   \<Longrightarrow> resolve_path h a = Some a"
  by (auto simp: protected_paths_def bnd_eq_Inr must_resolve_eq_Inr split: option.splits)
    (metis host_ok_resolve)+

lemma audit_mount_hides:
  assumes "host_ok h" and prot: "protected_paths h trial_dir task_dir = Inr (aggs, sens)"
    and a: "audit_mount h aggs sens mount = Inr ()" and p: "bind_source h mount = Some p"
  obtains src where "resolve_path h p = Some src" and "hides h src aggs sens"
proof -
  obtain src where src: "resolve_path h p = Some src"
    and s: "\<forall>q\<in>set sens. \<not> exposes h src q True" and g: "\<forall>q\<in>set aggs. \<not> exposes h src q False"
    using a p by (auto simp: audit_mount_def result_simps)
  have self: "resolve_path h src = Some src" using host_ok_resolve [OF assms(1) src] by simp
  have "hides h src aggs sens"
    unfolding hides_def
  proof (intro conjI ballI allI impI)
    fix q q' f assume "q \<in> set sens" "resolve_path h q = Some q'" "is_within f src"
    moreover from this s self have "\<not> is_within q' src \<and> \<not> is_within src q'"
      by (auto simp: exposes_def contains_path_def)
    ultimately show "\<not> is_within f q'" using is_within_linear by blast
  next
    fix q assume q: "q \<in> set aggs"
    with g self protected_resolved [OF assms(1) prot q] show "\<not> is_within q src"
      by (auto simp: exposes_def contains_path_def)
  qed
  with src show thesis by (rule that)
qed

definition mount_sources :: "launch_host \<Rightarrow> json_obj list \<Rightarrow> path list" where
  "mount_sources h mounts = List.map_filter (bind_source h) mounts"

lemma audit_bind_mounts_hides:
  assumes "host_ok h" and "audit_bind_mounts h mounts trial_dir task_dir = Inr ()"
    and "p \<in> set (mount_sources h mounts)"
  obtains src aggs sens where "protected_paths h trial_dir task_dir = Inr (aggs, sens)"
    and "resolve_path h p = Some src" and "hides h src aggs sens"
proof -
  obtain aggs sens where prot: "protected_paths h trial_dir task_dir = Inr (aggs, sens)"
    and all: "\<forall>m\<in>set mounts. audit_mount h aggs sens m = Inr ()"
    using assms(2) by (auto simp: audit_bind_mounts_def result_simps)
  obtain m where m: "m \<in> set mounts" "bind_source h m = Some p"
    using assms(3) by (force simp: mount_sources_def List.map_filter_def)
  from m all have "audit_mount h aggs sens m = Inr ()" by simp
  from audit_mount_hides [OF assms(1) prot this m(2)] prot that show thesis by metis
qed

section \<open>Accepted compose documents\<close>

text \<open>The host paths the volumes of a compose document bind.\<close>

definition volume_binds :: "launch_host \<Rightarrow> path \<Rightarrow> json \<Rightarrow> path list" where
  "volume_binds h project_directory volume = (case volume_parts '''' volume of
     Inr (source, kind) \<Rightarrow>
       if truthy source \<and> kind = JStr ''bind'' then [path_join project_directory (posix_path (py_str h source))] else []
   | Inl _ \<Rightarrow> [])"

definition service_binds :: "launch_host \<Rightarrow> path \<Rightarrow> string \<times> json \<Rightarrow> path list" where
  "service_binds h project_directory = (\<lambda>(_, config_value). case config_value of
     JObj config \<Rightarrow> (case dget config ''volumes'' of
       JList volumes \<Rightarrow> concat (map (volume_binds h project_directory) volumes) | _ \<Rightarrow> [])
   | _ \<Rightarrow> [])"

definition compose_binds :: "launch_host \<Rightarrow> path \<Rightarrow> json \<Rightarrow> path list" where
  "compose_binds h project_directory document = (case document of
     JObj d \<Rightarrow> (case dget d ''services'' of
       JObj services \<Rightarrow> concat (map (service_binds h project_directory) services) | _ \<Rightarrow> [])
   | _ \<Rightarrow> [])"

lemma volume_parts_name: "volume_parts name v = Inr r \<Longrightarrow> volume_parts '''' v = Inr r"
  by (cases v) (auto simp: volume_parts_def split: list.splits)

lemma volume_mounts_binds:
  assumes h: "host_ok h" and d: "absolute dir" "list_all plain_name (parts dir)"
    and "volume_mounts h dir name v = Inr ms"
  shows "mount_sources h ms = volume_binds h dir v"
proof -
  obtain source kind where v: "volume_parts name v = Inr (source, kind)"
    and ms: "ms = (if \<not> truthy source \<or> kind \<noteq> JStr ''bind'' then []
       else [[(''type'', JStr ''bind''),
              (''source'', JStr (path_str (path_join dir (posix_path (py_str h source)))))]])"
    using assms(4) by (auto simp: volume_mounts_def bnd_eq_Inr)
  define p where "p = path_join dir (posix_path (py_str h source))"
  have p: "absolute p" "list_all plain_name (parts p)"
    using path_join_plain [OF d] by (simp_all add: p_def)
  then have "bind_source h [(''type'', JStr ''bind''), (''source'', JStr (path_str p))] = Some p"
    using host_ok_expanduser [OF h p(1)]
    by (simp add: bind_source_def py_str_def posix_path_path_str [OF p]) (simp add: path_str_def)
  then show ?thesis
    by (simp add: ms volume_binds_def volume_parts_name [OF v] mount_sources_def List.map_filter_def p_def)
qed

lemma mount_sources_concat: "mount_sources h (concat mss) = concat (map (mount_sources h) mss)"
  by (induction mss) (simp_all add: mount_sources_def List.map_filter_def)

lemma mapR_map_eq:
  assumes "mapR f xs = Inr ys" and "\<And>x y. x \<in> set xs \<Longrightarrow> f x = Inr y \<Longrightarrow> g y = k x"
  shows "map g ys = map k xs"
  using assms
proof (induction xs arbitrary: ys)
  case (Cons x xs)
  then show ?case by (auto simp: bnd_eq_Inr)
qed simp

lemma mapR_member: "mapR f xs = Inr ys \<Longrightarrow> x \<in> set xs \<Longrightarrow> \<exists>y\<in>set ys. f x = Inr y"
  by (induction xs arbitrary: ys) (auto simp: bnd_eq_Inr)

lemma service_mounts_binds:
  assumes h: "host_ok h" and d: "absolute dir" "list_all plain_name (parts dir)"
    and "service_mounts h dir permitted service = Inr ms"
  shows "set (service_binds h dir service) \<subseteq> set (mount_sources h ms)"
proof -
  obtain name config where s: "service = (name, JObj config)"
    using assms(4) by (cases service; cases "snd service") (auto simp: service_mounts_def)
  obtain volumes mss where v: "py_iter (or_empty (dget config ''volumes'')) = Inr volumes"
    and m: "mapR (volume_mounts h dir name) volumes = Inr mss" and ms: "ms = concat mss"
    using assms(4) by (auto simp: service_mounts_def s bnd_eq_Inr)
  show ?thesis
  proof (cases "\<exists>xs. dget config ''volumes'' = JList xs")
    case True
    then obtain xs where xs: "dget config ''volumes'' = JList xs" by blast
    with v have vs: "volumes = xs" by (auto simp: or_empty_def py_iter_def split: if_splits)
    have "map (mount_sources h) mss = map (volume_binds h dir) volumes"
      using mapR_map_eq [OF m] volume_mounts_binds [OF h d] by blast
    then show ?thesis by (simp add: service_binds_def s xs ms mount_sources_concat vs)
  next
    case False
    then show ?thesis by (cases "dget config ''volumes''") (simp_all add: service_binds_def s)
  qed
qed

lemma compose_document_hides:
  assumes h: "host_ok h" and d: "absolute dir" "list_all plain_name (parts dir)"
    and a: "audit_resolved_compose_document h document trial_dir task_dir dir = Inr ()"
    and p: "p \<in> set (compose_binds h dir document)"
  obtains src aggs sens where "protected_paths h trial_dir task_dir = Inr (aggs, sens)"
    and "resolve_path h p = Some src" and "hides h src aggs sens"
proof -
  obtain d services permitted mss where doc: "document = JObj d" and sv: "dget d ''services'' = JObj services"
    and m: "mapR (service_mounts h dir permitted) services = Inr mss"
    and am: "audit_bind_mounts h (concat mss) trial_dir task_dir = Inr ()"
    using a by (auto simp: audit_resolved_compose_document_def bnd_eq_Inr split: json.splits)
  obtain service where svc: "service \<in> set services" "p \<in> set (service_binds h dir service)"
    using p by (auto simp: compose_binds_def doc sv)
  obtain ms where ms: "ms \<in> set mss" "service_mounts h dir permitted service = Inr ms"
    using mapR_member [OF m svc(1)] by blast
  from service_mounts_binds [OF h d ms(2)] svc(2) have "p \<in> set (mount_sources h ms)" by blast
  with ms(1) have "p \<in> set (mount_sources h (concat mss))" by (auto simp: mount_sources_concat)
  from audit_bind_mounts_hides [OF h am this] that show thesis by metis
qed

section \<open>Properties\<close>

text \<open>Everything the containers of a launch bind from the host, as far as the audit looks.\<close>

definition launch_sources :: "launch_host \<Rightarrow> launch \<Rightarrow> path list" where
  "launch_sources h l = mount_sources h (launch_mounts l)
     @ (if compose_paths l = [] then []
        else (case (environment_dir l, compose_config l) of
          (Some dir, Compose_document document) \<Rightarrow> (case resolve_path h dir of
             Some project_directory \<Rightarrow> compose_binds h project_directory document | None \<Rightarrow> [])
        | _ \<Rightarrow> []))"


text \<open>A host without links whose names are all plain.\<close>

definition plain_host :: launch_host where
  "plain_host = \<lparr>resolve_path = \<lambda>p. Some \<lparr>absolute = True, parts = filter plain_name (parts p)\<rparr>,
     expanduser = \<lambda>p. p, to_str = \<lambda>_. []\<rparr>"

lemma plain_host_ok: "host_ok plain_host"
  by (simp add: host_ok_def plain_host_def list_all_iff)

definition trial_launch :: launch where
  "trial_launch = \<lparr>launch_mounts = [[(''type'', JStr ''bind''), (''source'', JStr ''/trial/agent'')]],
     environment_dir = Some (posix_path ''/task/environment''), environment_dir_exists = True,
     task_toml_leaked = False, compose_paths = [posix_path ''/task/environment/compose.yaml''],
     compose_config = Compose_document (JObj [(''services'', JObj [(''main'', JObj
       [(''build'', JStr ''.''), (''volumes'', JList [JStr ''./data:/data'', JStr ''cache''])])])])\<rparr>"


text \<open>
  C37. The audit reads the \<open>services\<close> of a resolved document and nothing else: the file of a
  top-level \<open>secrets\<close> entry, which compose binds into the containers that use it, is accepted
  where the same file as a volume is rejected.
\<close>

theorem secret_files_unaudited:
  "audit_resolved_compose_document h (JObj (d @ [(''secrets'', secrets)])) trial_dir task_dir dir
     = audit_resolved_compose_document h (JObj d) trial_dir task_dir dir
   \<and> audit_resolved_compose_document plain_host
       (JObj [(''services'', JObj [(''main'', JObj [(''secrets'', JList [JObj [(''source'', JStr ''s'')]])])]),
              (''secrets'', JObj [(''s'', JObj [(''file'', JStr ''/task/solution/solve.sh'')])])])
       (posix_path ''/trial'') (Some (posix_path ''/task'')) (posix_path ''/task/environment'') = Inr ()
   \<and> audit_resolved_compose_document plain_host
       (JObj [(''services'', JObj [(''main'', JObj [(''volumes'', JList [JObj
          [(''type'', JStr ''bind''), (''source'', JStr ''/task/solution/solve.sh'')]])])])])
       (posix_path ''/trial'') (Some (posix_path ''/task'')) (posix_path ''/task/environment'')
       = Inl (UnsafeMountError ''bind mount /task/solution/solve.sh exposes /task/solution'')"
proof (intro conjI)
  have "dget (d @ [(''secrets'', secrets)]) ''services'' = dget d ''services''"
    by (simp add: dget_def map_of_append map_add_def split: option.split)
  then show "audit_resolved_compose_document h (JObj (d @ [(''secrets'', secrets)])) trial_dir task_dir dir
     = audit_resolved_compose_document h (JObj d) trial_dir task_dir dir"
    by (simp add: audit_resolved_compose_document_def)
qed code_simp+

text \<open>
  A read from the driver returns: if every overrun yields at least one byte, as asyncio
  promises, then after at most \<open>MAX_FRAME_BYTES + 1\<close> events \<open>recv\<close> has its result, which no
  later event changes.
\<close>

lemma read_frame_append: "read_frame used chunks es = Some r \<Longrightarrow> read_frame used chunks (es @ es') = Some r"
  by (induction used chunks es rule: read_frame.induct) (auto split: if_splits)

lemma read_frame_returns:
  assumes "\<And>i piece. events i = Overrun piece \<Longrightarrow> piece \<noteq> []"
    and "MAX_FRAME_BYTES < used + n" and "used \<le> MAX_FRAME_BYTES"
  shows "\<exists>r. read_frame used chunks (map events [i..<i + n]) = Some r"
  using assms(2,3)
proof (induction n arbitrary: used chunks i)
  case (Suc n)
  have l: "map events [i..<i + Suc n] = events i # map events [Suc i..<Suc i + n]"
    using upt_conv_Cons [of i "i + Suc n"] by (simp del: upt_Suc)
  show ?case
  proof (cases "events i")
    case (Overrun piece)
    then have "0 < length piece" using assms(1) by simp
    with Suc.prems have "MAX_FRAME_BYTES < used + length piece + n" by (cases piece) simp_all
    then show ?thesis
      using Suc.IH [of "used + length piece" "chunks @ piece" "Suc i"] Suc.prems
      unfolding l Overrun list.map read_frame.simps by (auto simp del: upt_Suc)
  qed (simp_all only: l read_frame.simps, simp_all)
qed simp

theorem recv_returns:
  assumes "\<And>i piece. events i = Overrun piece \<Longrightarrow> piece \<noteq> []"
  shows "\<exists>n\<le>MAX_FRAME_BYTES + 1. \<exists>r. \<forall>k\<ge>n. recv loads (map events [0..<k]) = Some r"
proof -
  define n where "n = MAX_FRAME_BYTES + 1"
  obtain r where r: "read_frame 0 [] (map events [0..<n]) = Some r"
  proof -
    have "\<exists>r. read_frame 0 [] (map events [0..<0 + n]) = Some r"
      by (rule read_frame_returns [OF assms]) (simp_all add: n_def)
    with that show thesis unfolding add_0 by blast
  qed
  have "recv loads (map events [0..<k]) = recv loads (map events [0..<n])" if "n \<le> k" for k
  proof -
    have "map events [0..<k] = map events [0..<n] @ map events [n..<k]"
      using upt_add_eq_append [of 0 n "k - n"] that by simp
    then show ?thesis using read_frame_append [OF r] by (simp add: recv_def r)
  qed
  moreover obtain v where "recv loads (map events [0..<n]) = Some v" using r by (simp add: recv_def)
  ultimately show ?thesis unfolding n_def by (metis order_refl)
qed

theorem recv_returns_witness:
  "\<exists>n\<le>MAX_FRAME_BYTES + 1. \<exists>r. \<forall>k\<ge>n.
     recv (\<lambda>_. Inr JNull) (map (\<lambda>i. if i < 3 then Overrun [32, 49] else Read_line [10]) [0..<k]) = Some r"
  by (rule recv_returns) (auto split: if_splits)

text \<open>
  A sanitised project name is a valid one (a letter or digit, then letters, digits, \<open>_\<close>
  and \<open>-\<close>), and sanitising it again changes nothing.
\<close>

lemma to_lower_project: "is_project_char c \<Longrightarrow> to_lower c = c"
  by (auto simp: is_project_char_def is_lower_alnum_def is_digit_def to_lower_def code_point_def)

theorem sanitized_project_name:
  "(case sanitize_compose_project_name name of c # cs \<Rightarrow> is_lower_alnum c \<and> list_all is_project_char cs | [] \<Rightarrow> False)
   \<and> sanitize_compose_project_name (sanitize_compose_project_name name) = sanitize_compose_project_name name"
proof -
  define ok where "ok = (\<lambda>s. case s of c # cs \<Rightarrow> is_lower_alnum c \<and> list_all is_project_char cs | [] \<Rightarrow> False)"
  have proj: "is_lower_alnum c \<Longrightarrow> is_project_char c" for c by (simp add: is_project_char_def)
  have zero: "is_lower_alnum (CHR ''0'')" "is_project_char (CHR ''-'')"
    by (simp_all add: is_lower_alnum_def is_digit_def is_project_char_def code_point_def)
  have ok: "ok (sanitize_compose_project_name name)" for name
    by (cases "map to_lower name") (use zero proj in
      \<open>auto simp: ok_def sanitize_compose_project_name_def Let_def list_all_iff\<close>)
  have fixed: "sanitize_compose_project_name s = s" if ok_s: "ok s" for s
  proof -
    obtain c cs where s: "s = c # cs" and c: "is_lower_alnum c" and cs: "\<forall>x\<in>set cs. is_project_char x"
      using ok_s by (cases s) (simp_all add: ok_def list_all_iff)
    have "map to_lower s = s" using c cs proj by (simp add: s to_lower_project map_idI)
    then show ?thesis using c cs proj
      by (simp add: sanitize_compose_project_name_def s) (simp add: map_idI)
  qed
  show ?thesis using ok [of name] fixed [OF ok] unfolding ok_def by blast
qed

text \<open>The diagnostics file stays below the bound plus one chunk.\<close>

lemma drain_bound:
  assumes "list_all (\<lambda>chunk. length chunk \<le> 4096) chunks" and "written \<le> MAX_FRAME_BYTES + 4095"
  shows "written + length (drain written chunks) \<le> MAX_FRAME_BYTES + 4095"
  using assms
proof (induction written chunks rule: drain.induct)
  case (2 written chunk rest)
  then show ?case by (cases "MAX_FRAME_BYTES \<le> written") (auto simp: add.assoc)
qed simp

end
