(* ===== verification/ArtifactSchemas.thy ===== *)
theory ArtifactSchemas
  imports Regatta ScorecardSchema ExecutionContract
begin

text \<open>
  The contracts of the artifacts a benchmark run leaves in its Logbook, from
  \<open>src/yacht/contracts/schemas.py\<close>: course handoff, grading report, execution plan, readiness
  summary, launcher handoff, launch result, runtime instances, grading collection, repetitions,
  aggregate and the evaluation record. Every document is parsed JSON.
\<close>

section \<open>Loops over keys\<close>

definition req_bool :: "json \<Rightarrow> string \<Rightarrow> exn + unit" where
  "req_bool v path = ensure (is_bool v) (SchemaError (path @ '' must be a boolean''))"

definition req_int_from :: "int \<Rightarrow> json \<Rightarrow> string \<Rightarrow> exn + unit" where
  "req_int_from k v path = ensure (int_at_least k v) (SchemaError (path @ '' must be an integer >= '' @ int_str k))"

text \<open>\<open>for key in keys: f(d[key], f"{path}.{key}")\<close>, and with the key as the path.\<close>

definition req_all :: "(json \<Rightarrow> string \<Rightarrow> exn + unit) \<Rightarrow> json_obj \<Rightarrow> string list \<Rightarrow> string \<Rightarrow> exn + unit" where
  "req_all f d keys path = forR (\<lambda>key. f (dget d key) (at_key path key)) keys"

definition req_top :: "json_obj \<Rightarrow> string list \<Rightarrow> exn + unit" where
  "req_top d keys = forR (\<lambda>key. req_str (dget d key) key) keys"

text \<open>\<open>for key in keys: if key in d: f(d[key], f"{path}.{key}")\<close>.\<close>

definition req_present_all :: "(json \<Rightarrow> string \<Rightarrow> exn + unit) \<Rightarrow> json_obj \<Rightarrow> string list \<Rightarrow> string \<Rightarrow> exn + unit" where
  "req_present_all f d keys path = forR (\<lambda>key. when_key d key (\<lambda>v. f v (at_key path key))) keys"

definition req_not_empty :: "json list \<Rightarrow> string \<Rightarrow> exn + unit" where
  "req_not_empty xs m = ensure (xs \<noteq> []) (SchemaError m)"

lemma req_bool_ok [result_simps]: "req_bool v path = Inr u \<longleftrightarrow> (\<exists>b. v = JBool b)"
  by (simp add: req_bool_def)

lemma req_int_from_ok [result_simps]: "req_int_from k v path = Inr u \<longleftrightarrow> int_at_least k v"
  by (simp add: req_int_from_def)

lemma req_all_ok [result_simps]:
  "req_all f d keys path = Inr u \<longleftrightarrow> (\<forall>key\<in>set keys. f (dget d key) (at_key path key) = Inr ())"
  by (simp add: req_all_def forR_eq_Inr)

lemma req_top_ok [result_simps]: "req_top d keys = Inr u \<longleftrightarrow> (\<forall>key\<in>set keys. \<exists>s. dget d key = JStr s \<and> s \<noteq> [])"
  by (simp add: req_top_def forR_eq_Inr req_str_ok)

lemma req_present_all_ok [result_simps]:
  "req_present_all f d keys path = Inr u
   \<longleftrightarrow> (\<forall>key\<in>set keys. has_key d key \<longrightarrow> f (dget d key) (at_key path key) = Inr ())"
  by (simp add: req_present_all_def forR_eq_Inr when_key_ok)

lemma req_not_empty_ok [result_simps]: "req_not_empty xs m = Inr u \<longleftrightarrow> xs \<noteq> []"
  by (simp add: req_not_empty_def)

lemma loops_raise [raises]:
  "raises_only is_schema_error (req_bool v path)" "raises_only is_schema_error (req_int_from k v path)"
  "raises_only is_schema_error (req_top d keys)" "raises_only is_schema_error (req_not_empty xs m)"
  unfolding req_bool_def req_int_from_def req_top_def req_not_empty_def by (intro raises; simp)+

lemma loop_raises [raises]:
  "(\<And>v p. raises_only P (f v p)) \<Longrightarrow> raises_only P (req_all f d keys path)"
  "(\<And>v p. raises_only P (f v p)) \<Longrightarrow> raises_only P (req_present_all f d keys path)"
  unfolding req_all_def req_present_all_def by (intro raises; simp)+

section \<open>Course handoff\<close>

definition COURSE_HANDOFF_SCHEMA :: string where
  "COURSE_HANDOFF_SCHEMA = ''yacht.course-handoff.v1''"

definition validate_handoff_task :: "nat \<Rightarrow> json \<Rightarrow> exn + unit" where
  "validate_handoff_task index task_value =
     (let path = at_index ''tasks'' index in
      bnd (req_object task_value path) (\<lambda>task. checks [
        req_keys task [''id'', ''title'', ''difficulty''] path,
        req_all req_str task [''id'', ''title''] path,
        req_int_from 1 (dget task ''difficulty'') (at_key path ''difficulty''),
        req_present_all req_str task [''repo'', ''repo_url'', ''base_commit'', ''problem_statement''] path,
        when_key task ''expect_response'' (\<lambda>v. validate_expect_response v (at_key path ''expect_response'')),
        when_key task ''expect_tool_calls'' (\<lambda>v. validate_expect_tool_calls v (at_key path ''expect_tool_calls''))]))"

definition validate_course_handoff_tasks :: "json list \<Rightarrow> exn + unit" where
  "validate_course_handoff_tasks tasks = checks [
     req_not_empty tasks ''tasks must contain at least one task'',
     forI validate_handoff_task 0 tasks]"

definition is_population_digest :: "json \<Rightarrow> bool" where
  "is_population_digest v = (case v of
     JStr s \<Rightarrow> take 7 s = ''sha256:'' \<and> is_sha256_hex (drop 7 s) | _ \<Rightarrow> False)"

definition strict_int_at_least :: "int \<Rightarrow> json \<Rightarrow> bool" where
  "strict_int_at_least k v = (case v of JInt n \<Rightarrow> k \<le> n | _ \<Rightarrow> False)"

definition validate_instance_selection_provenance :: "json_obj \<Rightarrow> nat \<Rightarrow> exn + unit" where
  "validate_instance_selection_provenance adapter selected_instances =
     when_set (dget adapter ''instance_selection'') (\<lambda>value.
       let path = ''adapter.instance_selection'' in
       bnd (req_object value path) (\<lambda>selection. checks [
         req_keys selection [''method'', ''algorithm'', ''seed'', ''requested_instances'', ''population_count'',
           ''population_digest''] path,
         req_allowed (dget selection ''method'') [''random''] (at_key path ''method''),
         req_allowed (dget selection ''algorithm'') [''sha256-rank-v1''] (at_key path ''algorithm''),
         ensure (strict_int_at_least 0 (dget selection ''seed''))
           (SchemaError (at_key path ''seed must be an integer >= 0'')),
         ensure (case dget selection ''seed'' of JInt n \<Rightarrow> n \<le> MAX_INSTANCE_SELECTION_SEED | _ \<Rightarrow> True)
           (SchemaError (at_key path ''seed must be <= '' @ int_str MAX_INSTANCE_SELECTION_SEED)),
         forR (\<lambda>key. ensure (strict_int_at_least 1 (dget selection key))
             (SchemaError (at_key path key @ '' must be an integer >= 1'')))
           [''requested_instances'', ''population_count''],
         ensure (dget selection ''requested_instances'' = JInt (int selected_instances))
           (SchemaError (at_key path ''requested_instances must match the selected task count'')),
         ensure (case (dget selection ''requested_instances'', dget selection ''population_count'') of
                   (JInt a, JInt b) \<Rightarrow> a \<le> b | _ \<Rightarrow> True)
           (SchemaError (at_key path ''requested_instances must not exceed population_count'')),
         ensure (is_population_digest (dget selection ''population_digest''))
           (SchemaError (at_key path ''population_digest must be a sha256: lowercase hex digest''))]))"

definition validate_handoff_comparison :: "nat \<Rightarrow> json \<Rightarrow> exn + unit" where
  "validate_handoff_comparison index comparison_value =
     (let path = at_index ''comparisons'' index in
      bnd (req_object comparison_value path) (\<lambda>comparison. checks [
        req_keys comparison [''name'', ''course'', ''vessels''] path,
        req_all req_str comparison [''name'', ''course''] path,
        bnd (req_list (dget comparison ''vessels'') (at_key path ''vessels'')) (\<lambda>vessels. checks [
          (if dget comparison ''baseline'' = JNull
           then ensure (2 \<le> length vessels) (SchemaError (at_key path (''vessels must contain at least two vessels; to compare one live vessel against a stored ''
             @ ''run, reference it with comparisons.baseline''))) 
           else bnd (req_object (dget comparison ''baseline'') (at_key path ''baseline'')) (\<lambda>baseline. checks [
             req_keys baseline [''logbook'', ''vessel''] (at_key path ''baseline''),
             req_all req_str baseline [''logbook'', ''vessel''] (at_key path ''baseline''),
             ensure (length vessels = 1) (SchemaError
               (at_key path ''vessels must contain exactly one live vessel when comparisons.baseline is set''))])),
          forR (\<lambda>vessel. req_str vessel (at_key path ''vessels'')) vessels])]))"

definition validate_course_handoff_comparisons :: "json \<Rightarrow> exn + unit" where
  "validate_course_handoff_comparisons value =
     bnd (req_list value ''comparisons'') (\<lambda>comparisons. checks [
       req_not_empty comparisons ''comparisons must contain at least one comparison'',
       forI validate_handoff_comparison 0 comparisons])"

definition validate_expected_course_handoff_outputs :: "json \<Rightarrow> exn + unit" where
  "validate_expected_course_handoff_outputs value =
     bnd (req_object value ''expected_outputs'') (\<lambda>expected_outputs.
       req_all req_str expected_outputs [''candidate_patches'', ''grading_report''] ''expected_outputs'')"

definition grading_executions :: "string list" where
  "grading_executions = map (\<lambda>harness. harness @ ''-harness'')
     (case supported_course_adapter_harnesses None of Inr hs \<Rightarrow> hs | Inl _ \<Rightarrow> [])"

definition validate_course_handoff_grading :: "json \<Rightarrow> exn + unit" where
  "validate_course_handoff_grading value =
     bnd (req_object value ''grading'') (\<lambda>grading. checks [
       req_keys grading [''delegated_to'', ''execution'', ''status''] ''grading'',
       req_allowed (dget grading ''delegated_to'') COURSE_ADAPTER_KINDS ''grading.delegated_to'',
       req_allowed (dget grading ''execution'') grading_executions ''grading.execution'',
       req_allowed (dget grading ''status'') [''planned''] ''grading.status''])"

definition validate_course_handoff_document :: "json \<Rightarrow> exn + unit" where
  "validate_course_handoff_document value =
     bnd (req_object value ''course handoff'') (\<lambda>document. checks [
       req_keys document [''schema'', ''regatta'', ''course'', ''status'', ''adapter'', ''tasks'', ''comparisons'',
         ''expected_outputs'', ''grading''] ''course handoff'',
       req_schema document COURSE_HANDOFF_SCHEMA ''course handoff'',
       req_top document [''regatta'', ''course''],
       req_allowed (dget document ''status'') [''planned''] ''status'',
       bnd (req_object (dget document ''adapter'') ''adapter'') (\<lambda>adapter. checks [
         validate_course_adapter_fields adapter ''adapter'',
         bnd (req_list (dget document ''tasks'') ''tasks'') (\<lambda>tasks. checks [
           validate_course_handoff_tasks tasks,
           validate_instance_selection_provenance adapter (length tasks)])]),
       validate_course_handoff_comparisons (dget document ''comparisons''),
       validate_expected_course_handoff_outputs (dget document ''expected_outputs''),
       validate_course_handoff_grading (dget document ''grading''),
       when_key document ''export'' (\<lambda>v. validate_export_attribution v ''export'')])"

section \<open>Grading reports\<close>

definition COURSE_GRADING_SCHEMAS :: "string list" where
  "COURSE_GRADING_SCHEMAS = concat (map (\<lambda>kind. case evaluator_adapter kind of
     Inr e \<Rightarrow> [grading_schema e] | Inl _ \<Rightarrow> []) supported_benchmark_adapter_kinds)"

definition validate_course_grading_report_document :: "json \<Rightarrow> exn + unit" where
  "validate_course_grading_report_document value =
     bnd (req_object value ''grading report'') (\<lambda>document. checks [
       req_keys document [''schema'', ''regatta'', ''course'', ''adapter'', ''dataset'', ''split'', ''status'',
         ''source_report_path'', ''candidate_patches_path'', ''submitted_instances'', ''resolved_instances'',
         ''resolution_rate'', ''native_report''] ''grading report'',
       req_allowed (dget document ''schema'') COURSE_GRADING_SCHEMAS ''grading report.schema'',
       req_all req_str document [''regatta'', ''course'', ''adapter'', ''dataset'', ''split'', ''source_report_path'',
         ''candidate_patches_path''] ''grading report'',
       req_allowed (dget document ''status'') [''validated''] ''grading report.status'',
       req_all req_nat document [''submitted_instances'', ''resolved_instances''] ''grading report'',
       req_number (dget document ''resolution_rate'') ''grading report.resolution_rate'',
       bnd (req_object (dget document ''native_report'') ''grading report.native_report'') (\<lambda>_. Inr ()),
       when_key document ''vessel'' (\<lambda>v. req_str v ''grading report.vessel'')])"

section \<open>Comparisons of an artifact\<close>

definition req_comparisons :: "(nat \<Rightarrow> json \<Rightarrow> exn + unit) \<Rightarrow> json \<Rightarrow> exn + unit" where
  "req_comparisons f value =
     bnd (req_list value ''comparisons'') (\<lambda>comparisons. checks [
       req_not_empty comparisons ''comparisons must contain at least one comparison'',
       forI f 0 comparisons])"

definition req_vessels :: "(json \<Rightarrow> string \<Rightarrow> exn + unit) \<Rightarrow> json_obj \<Rightarrow> string \<Rightarrow> exn + unit" where
  "req_vessels f comparison path =
     bnd (req_list (dget comparison ''vessels'') (at_key path ''vessels'')) (\<lambda>vessels. checks [
       req_not_empty vessels (at_key path ''vessels must contain at least one vessel''),
       forI (\<lambda>index vessel. f vessel (at_index (at_key path ''vessels'') index)) 0 vessels])"

text \<open>Name, course, a status of the given vocabulary, and at least one vessel.\<close>

definition validate_status_comparison ::
    "string list \<Rightarrow> (json \<Rightarrow> string \<Rightarrow> exn + unit) \<Rightarrow> nat \<Rightarrow> json \<Rightarrow> exn + unit" where
  "validate_status_comparison statuses f index comparison_value =
     (let path = at_index ''comparisons'' index in
      bnd (req_object comparison_value path) (\<lambda>comparison. checks [
        req_keys comparison [''name'', ''course'', ''status'', ''vessels''] path,
        req_all req_str comparison [''name'', ''course''] path,
        req_allowed (dget comparison ''status'') statuses (at_key path ''status''),
        req_vessels f comparison path]))"

lemma comparisons_raise [raises]:
  "(\<And>i v. raises_only P (f i v)) \<Longrightarrow> (\<And>m. P (SchemaError m)) \<Longrightarrow> raises_only P (req_comparisons f value)"
  unfolding req_comparisons_def req_list_def req_not_empty_def by (intro raises; simp)

lemma vessels_raise [raises]:
  "(\<And>v p. raises_only P (g v p)) \<Longrightarrow> (\<And>m. P (SchemaError m)) \<Longrightarrow> raises_only P (req_vessels g c path)"
  unfolding req_vessels_def req_list_def req_not_empty_def by (intro raises; simp)

lemma status_comparison_raises [raises]:
  "(\<And>v p. raises_only is_schema_error (f v p)) \<Longrightarrow> raises_only is_schema_error (validate_status_comparison ss f i v)"
  unfolding validate_status_comparison_def Let_def by (intro raises; simp)

section \<open>Execution plan and readiness\<close>

definition BENCHMARK_EXECUTION_PLAN_STATUSES :: "string list" where
  "BENCHMARK_EXECUTION_PLAN_STATUSES = [''blocked'', ''complete'', ''mixed'', ''missing-inputs'', ''ready-for-grading'']"

definition BENCHMARK_EXECUTION_PLAN_VESSEL_STATUSES :: "string list" where
  "BENCHMARK_EXECUTION_PLAN_VESSEL_STATUSES =
     [''graded'', ''missing-candidate-patches'', ''missing-preflight'', ''missing-runtime-snapshot'',
      ''preflight-failed'', ''ready-for-grading'']"

definition BENCHMARK_READINESS_BLOCKED_VESSEL_STATUSES :: "string list" where
  "BENCHMARK_READINESS_BLOCKED_VESSEL_STATUSES =
     filter (\<lambda>s. s \<notin> {''graded'', ''ready-for-grading''}) BENCHMARK_EXECUTION_PLAN_VESSEL_STATUSES"

definition validate_plan_vessel :: "json \<Rightarrow> string \<Rightarrow> exn + unit" where
  "validate_plan_vessel value path =
     bnd (req_object value path) (\<lambda>vessel. checks [
       req_keys vessel [''name'', ''status'', ''candidate_patches_path'', ''candidate_patches_present'',
         ''grading_report_path'', ''grading_report_present'', ''preflight_artifact_path'', ''preflight_artifact_present'',
         ''preflight_status'', ''runtime_instances_artifact_path'', ''runtime_instances_artifact_present'',
         ''runtime_snapshot_status''] path,
       req_str (dget vessel ''name'') (at_key path ''name''),
       req_allowed (dget vessel ''status'') BENCHMARK_EXECUTION_PLAN_VESSEL_STATUSES (at_key path ''status''),
       req_all req_str vessel [''candidate_patches_path'', ''grading_report_path'', ''preflight_artifact_path'',
         ''preflight_status'', ''runtime_instances_artifact_path'', ''runtime_snapshot_status''] path,
       req_all req_bool vessel [''candidate_patches_present'', ''grading_report_present'',
         ''preflight_artifact_present'', ''runtime_instances_artifact_present''] path])"

definition validate_execution_plan_comparisons :: "json \<Rightarrow> exn + unit" where
  "validate_execution_plan_comparisons =
     req_comparisons (validate_status_comparison BENCHMARK_EXECUTION_PLAN_STATUSES validate_plan_vessel)"

definition validate_benchmark_execution_plan_document :: "json \<Rightarrow> exn + unit" where
  "validate_benchmark_execution_plan_document value =
     bnd (req_object value ''benchmark execution plan'') (\<lambda>document. checks [
       req_keys document [''schema'', ''regatta'', ''course'', ''adapter'', ''status'', ''comparisons''] ''benchmark execution plan'',
       req_schema document ''yacht.benchmark-execution-plan.v1'' ''benchmark execution plan'',
       req_top document [''regatta'', ''course''],
       bnd (req_object (dget document ''adapter'') ''adapter'') (\<lambda>adapter. validate_course_adapter_fields adapter ''adapter''),
       req_allowed (dget document ''status'') BENCHMARK_EXECUTION_PLAN_STATUSES ''status'',
       validate_execution_plan_comparisons (dget document ''comparisons'')])"

definition BLOCKED_ARTIFACTS :: "string list" where
  "BLOCKED_ARTIFACTS = [''candidate_patches'', ''preflight'', ''runtime_instances'', ''grading_report'']"

definition validate_blocked_vessel :: "json \<Rightarrow> string \<Rightarrow> exn + unit" where
  "validate_blocked_vessel value path =
     bnd (req_object value path) (\<lambda>vessel. checks [
       req_keys vessel [''comparison'', ''vessel'', ''status'', ''details'', ''artifact_paths''] path,
       req_all req_str vessel [''comparison'', ''vessel'', ''details''] path,
       req_allowed (dget vessel ''status'') BENCHMARK_READINESS_BLOCKED_VESSEL_STATUSES (at_key path ''status''),
       bnd (req_object (dget vessel ''artifact_paths'') (at_key path ''artifact_paths'')) (\<lambda>artifact_paths. checks [
         req_keys artifact_paths BLOCKED_ARTIFACTS (at_key path ''artifact_paths''),
         req_all req_str artifact_paths BLOCKED_ARTIFACTS (at_key path ''artifact_paths'')])])"

definition READINESS_COUNTS :: "string list" where
  "READINESS_COUNTS = [''total_vessels'', ''launchable_vessels'', ''graded_vessels'', ''blocked_vessel_count'']"

definition validate_benchmark_readiness_summary_document :: "json \<Rightarrow> exn + unit" where
  "validate_benchmark_readiness_summary_document value =
     bnd (req_object value ''benchmark readiness summary'') (\<lambda>document. checks [
       req_keys document ([''schema'', ''regatta'', ''course'', ''status''] @ READINESS_COUNTS @ [''blocked_vessels''])
         ''benchmark readiness summary'',
       req_schema document ''yacht.benchmark-readiness-summary.v1'' ''benchmark readiness summary'',
       req_top document [''regatta'', ''course''],
       req_allowed (dget document ''status'') BENCHMARK_EXECUTION_PLAN_STATUSES ''status'',
       forR (\<lambda>key. req_nat (dget document key) key) READINESS_COUNTS,
       bnd (req_list (dget document ''blocked_vessels'') ''blocked_vessels'') (\<lambda>blocked_vessels. checks [
         ensure (int_of (dget document ''blocked_vessel_count'') = int (length blocked_vessels))
           (SchemaError ''blocked_vessel_count must equal blocked_vessels length''),
         ensure (int_of (dget document ''total_vessels'') = int_of (dget document ''launchable_vessels'')
             + int_of (dget document ''graded_vessels'') + int_of (dget document ''blocked_vessel_count''))
           (SchemaError ''total_vessels must equal launchable_vessels + graded_vessels + blocked_vessel_count''),
         forI (\<lambda>index v. validate_blocked_vessel v (at_index ''blocked_vessels'' index)) 0 blocked_vessels])])"

section \<open>Launcher handoff and launch result\<close>

definition BENCHMARK_LAUNCHER_HANDOFF_STATUSES :: "string list" where
  "BENCHMARK_LAUNCHER_HANDOFF_STATUSES = [''blocked'', ''complete'', ''mixed'', ''missing-inputs'', ''ready-to-launch'']"

definition BENCHMARK_LAUNCHER_HANDOFF_VESSEL_STATUSES :: "string list" where
  "BENCHMARK_LAUNCHER_HANDOFF_VESSEL_STATUSES =
     [''already-graded'', ''missing-candidate-patches'', ''missing-preflight'', ''missing-runtime-snapshot'',
      ''preflight-failed'', ''ready-to-launch'']"

definition HANDOFF_PATHS :: "string list" where
  "HANDOFF_PATHS = [''candidate_patches_path'', ''expected_yacht_grading_report_path'', ''preflight_artifact_path'',
     ''preflight_status'', ''runtime_instances_artifact_path'', ''runtime_snapshot_status'', ''native_report_dir'',
     ''expected_native_report_path'']"

definition HANDOFF_FLAGS :: "string list" where
  "HANDOFF_FLAGS = [''candidate_patches_present'', ''grading_report_present'', ''preflight_artifact_present'',
     ''runtime_instances_artifact_present'']"

definition validate_launcher_vessel :: "json \<Rightarrow> string \<Rightarrow> exn + unit" where
  "validate_launcher_vessel value path =
     bnd (req_object value path) (\<lambda>vessel. checks [
       req_keys vessel [''name'', ''status'', ''candidate_patches_path'', ''candidate_patches_present'',
         ''expected_yacht_grading_report_path'', ''grading_report_present'', ''preflight_artifact_path'',
         ''preflight_artifact_present'', ''preflight_status'', ''runtime_instances_artifact_path'',
         ''runtime_instances_artifact_present'', ''runtime_snapshot_status'', ''native_report_dir'',
         ''expected_native_report_path''] path,
       req_str (dget vessel ''name'') (at_key path ''name''),
       req_allowed (dget vessel ''status'') BENCHMARK_LAUNCHER_HANDOFF_VESSEL_STATUSES (at_key path ''status''),
       req_all req_str vessel HANDOFF_PATHS path,
       req_all req_bool vessel HANDOFF_FLAGS path,
       when_key vessel ''command'' (\<lambda>v. req_command v (at_key path ''command'')),
       when_key vessel ''command_preview'' (\<lambda>v. req_str v (at_key path ''command_preview''))])"

definition validate_benchmark_launcher_handoff_document :: "json \<Rightarrow> exn + unit" where
  "validate_benchmark_launcher_handoff_document value =
     bnd (req_object value ''benchmark launcher handoff'') (\<lambda>document. checks [
       req_keys document [''schema'', ''regatta'', ''course'', ''adapter'', ''status'', ''comparisons'']
         ''benchmark launcher handoff'',
       req_schema document ''yacht.benchmark-launcher-handoff.v1'' ''benchmark launcher handoff'',
       req_top document [''regatta'', ''course''],
       bnd (req_object (dget document ''adapter'') ''adapter'') (\<lambda>adapter. validate_course_adapter_fields adapter ''adapter''),
       req_allowed (dget document ''status'') BENCHMARK_LAUNCHER_HANDOFF_STATUSES ''status'',
       req_comparisons (validate_status_comparison BENCHMARK_LAUNCHER_HANDOFF_STATUSES validate_launcher_vessel)
         (dget document ''comparisons'')])"

definition BENCHMARK_LAUNCH_RESULT_STATUSES :: "string list" where
  "BENCHMARK_LAUNCH_RESULT_STATUSES = [''blocked'', ''complete'', ''failed'', ''partial'']"

definition BENCHMARK_LAUNCH_RESULT_VESSEL_STATUSES :: "string list" where
  "BENCHMARK_LAUNCH_RESULT_VESSEL_STATUSES = [''completed'', ''failed'', ''skipped'']"

definition LAUNCH_COUNTS :: "string list" where
  "LAUNCH_COUNTS = [''total_vessels'', ''launched_vessels'', ''completed_launches'', ''failed_launches'', ''skipped_vessels'']"

definition validate_launch_result_summary :: "json \<Rightarrow> exn + unit" where
  "validate_launch_result_summary value =
     bnd (req_object value ''summary'') (\<lambda>summary. checks [
       req_keys summary LAUNCH_COUNTS ''summary'',
       req_all req_nat summary LAUNCH_COUNTS ''summary'',
       ensure (int_of (dget summary ''launched_vessels'')
           = int_of (dget summary ''completed_launches'') + int_of (dget summary ''failed_launches''))
         (SchemaError ''summary.launched_vessels must equal completed_launches + failed_launches''),
       ensure (int_of (dget summary ''total_vessels'')
           = int_of (dget summary ''launched_vessels'') + int_of (dget summary ''skipped_vessels''))
         (SchemaError ''summary.total_vessels must equal launched_vessels + skipped_vessels'')])"

definition validate_launch_result_vessel :: "json \<Rightarrow> string \<Rightarrow> exn + unit" where
  "validate_launch_result_vessel value path =
     bnd (req_object value path) (\<lambda>vessel. checks [
       req_keys vessel [''name'', ''status'', ''launcher_status''] path,
       req_str (dget vessel ''name'') (at_key path ''name''),
       req_allowed (dget vessel ''status'') BENCHMARK_LAUNCH_RESULT_VESSEL_STATUSES (at_key path ''status''),
       req_allowed (dget vessel ''launcher_status'') BENCHMARK_LAUNCHER_HANDOFF_VESSEL_STATUSES (at_key path ''launcher_status''),
       (if dget vessel ''status'' = JStr ''skipped''
        then req_str (dget vessel ''skipped_reason'') (at_key path ''skipped_reason'')
        else checks [
          req_keys vessel [''command'', ''command_preview'', ''exit_code'', ''stdout_path'', ''stderr_path'',
            ''native_report_dir'', ''expected_native_report_path'', ''expected_yacht_grading_report_path''] path,
          req_command (dget vessel ''command'') (at_key path ''command''),
          req_str (dget vessel ''command_preview'') (at_key path ''command_preview''),
          req_int_from 0 (dget vessel ''exit_code'') (at_key path ''exit_code''),
          req_all req_str vessel [''stdout_path'', ''stderr_path'', ''native_report_dir'',
            ''expected_native_report_path'', ''expected_yacht_grading_report_path''] path])])"

text \<open>The statuses of all vessels, after every comparison and vessel was checked to be an object.\<close>

definition launch_statuses :: "json_obj list \<Rightarrow> string list" where
  "launch_statuses comparisons = concat (map (\<lambda>comparison. case dget comparison ''vessels'' of
     JList vessels \<Rightarrow> map (\<lambda>v. case dget (obj v) ''status'' of JStr s \<Rightarrow> s | _ \<Rightarrow> []) vessels | _ \<Rightarrow> []) comparisons)"

definition expected_launches :: "string list \<Rightarrow> (string \<times> int) list" where
  "expected_launches statuses =
     (let completed = int (length (filter (\<lambda>s. s = ''completed'') statuses));
          failed = int (length (filter (\<lambda>s. s = ''failed'') statuses))
      in [(''total_vessels'', int (length statuses)), (''completed_launches'', completed), (''failed_launches'', failed),
          (''skipped_vessels'', int (length (filter (\<lambda>s. s = ''skipped'') statuses))),
          (''launched_vessels'', completed + failed)])"

definition launch_summary_matches :: "json_obj \<Rightarrow> json_obj list \<Rightarrow> exn + unit" where
  "launch_summary_matches summary comparisons =
     forR (\<lambda>(key, expected). ensure (int_of (dget summary key) = expected)
       (SchemaError (at_key ''summary'' key @ '' must equal '' @ int_str expected)))
       (expected_launches (launch_statuses comparisons))"

definition validate_benchmark_launch_result_document :: "json \<Rightarrow> exn + unit" where
  "validate_benchmark_launch_result_document value =
     bnd (req_object value ''benchmark launch result'') (\<lambda>document. checks [
       req_keys document [''schema'', ''regatta'', ''course'', ''adapter'', ''status'', ''summary'', ''comparisons'']
         ''benchmark launch result'',
       req_schema document ''yacht.benchmark-launch-result.v1'' ''benchmark launch result'',
       req_top document [''regatta'', ''course''],
       bnd (req_object (dget document ''adapter'') ''adapter'') (\<lambda>adapter. validate_course_adapter_fields adapter ''adapter''),
       req_allowed (dget document ''status'') BENCHMARK_LAUNCH_RESULT_STATUSES ''status'',
       validate_launch_result_summary (dget document ''summary''),
       req_comparisons (validate_status_comparison BENCHMARK_LAUNCH_RESULT_STATUSES validate_launch_result_vessel)
         (dget document ''comparisons''),
       (case (dget document ''summary'', dget document ''comparisons'') of
          (JObj summary, JList comparisons) \<Rightarrow> launch_summary_matches summary (map obj comparisons)
        | _ \<Rightarrow> Inr ())])"

section \<open>Runtime instances\<close>

definition validate_redacted_secret :: "string \<Rightarrow> nat \<Rightarrow> json \<Rightarrow> exn + unit" where
  "validate_redacted_secret path index value =
     (let secret_path = at_index path index in
      bnd (req_object value secret_path) (\<lambda>secret_ref. checks [
        req_keys secret_ref [''name'', ''source'', ''ref'', ''redacted''] secret_path,
        req_all req_str secret_ref [''name'', ''source'', ''ref''] secret_path,
        ensure (dget secret_ref ''redacted'' = JBool True) (SchemaError (at_key secret_path ''redacted must be true''))]))"

definition validate_redacted_secret_refs :: "json \<Rightarrow> string \<Rightarrow> exn + unit" where
  "validate_redacted_secret_refs value path =
     bnd (req_list value path) (\<lambda>secret_refs. forI (validate_redacted_secret path) 0 secret_refs)"

definition validate_runtime_instance :: "json \<Rightarrow> string \<Rightarrow> exn + unit" where
  "validate_runtime_instance value path =
     bnd (req_object value path) (\<lambda>vessel. checks [
       req_keys vessel [''name'', ''runtime'', ''backend'', ''harness'', ''agent'', ''trial_root'', ''temp_home'',
         ''workspace_path'', ''command_prefix'', ''command'', ''env'', ''secret_refs'', ''cleanup_paths''] path,
       req_all req_str vessel [''name'', ''runtime'', ''backend'', ''harness'', ''agent'', ''trial_root'', ''temp_home'',
         ''workspace_path''] path,
       req_present_all req_str vessel [''image'', ''container_home'', ''container_workspace''] path,
       req_all req_command vessel [''command_prefix'', ''command'', ''cleanup_paths''] path,
       bnd (req_object (dget vessel ''env'') (at_key path ''env'')) (\<lambda>env. forR (\<lambda>(env_key, env_value). checks [
         req_str (JStr env_key) (at_key path ''env key''),
         req_str env_value (at_key (at_key path ''env'') env_key)]) env),
       validate_redacted_secret_refs (dget vessel ''secret_refs'') (at_key path ''secret_refs'')])"

definition validate_instances_comparison :: "nat \<Rightarrow> json \<Rightarrow> exn + unit" where
  "validate_instances_comparison index comparison_value =
     (let path = at_index ''comparisons'' index in
      bnd (req_object comparison_value path) (\<lambda>comparison. checks [
        req_keys comparison [''name'', ''course'', ''vessels''] path,
        req_all req_str comparison [''name'', ''course''] path,
        req_vessels validate_runtime_instance comparison path]))"

definition validate_runtime_instances_document :: "json \<Rightarrow> exn + unit" where
  "validate_runtime_instances_document value =
     bnd (req_object value ''runtime instances'') (\<lambda>document. checks [
       req_keys document [''schema'', ''regatta'', ''course'', ''mode'', ''workspace_path'', ''comparisons''] ''runtime instances'',
       req_schema document ''yacht.runtime-instances.v1'' ''runtime instances'',
       req_top document [''regatta'', ''course'', ''workspace_path''],
       req_allowed (dget document ''mode'') [''dry-run''] ''mode'',
       req_comparisons validate_instances_comparison (dget document ''comparisons'')])"

section \<open>Grading collection\<close>

definition BENCHMARK_GRADING_COLLECTION_STATUSES :: "string list" where
  "BENCHMARK_GRADING_COLLECTION_STATUSES = [''blocked'', ''complete'', ''partial'']"

definition BENCHMARK_GRADING_COLLECTION_VESSEL_STATUSES :: "string list" where
  "BENCHMARK_GRADING_COLLECTION_VESSEL_STATUSES =
     [''collected'', ''invalid-native-report'', ''missing-native-report'', ''skipped'']"

definition validate_collected_vessel :: "json \<Rightarrow> string \<Rightarrow> exn + unit" where
  "validate_collected_vessel value path =
     bnd (req_object value path) (\<lambda>vessel. checks [
       req_keys vessel [''name'', ''launch_status'', ''status''] path,
       req_all req_str vessel [''name'', ''launch_status''] path,
       req_allowed (dget vessel ''status'') BENCHMARK_GRADING_COLLECTION_VESSEL_STATUSES (at_key path ''status''),
       run_if (dget vessel ''status'' = JStr ''collected'') (checks [
         req_keys vessel [''native_report_path'', ''grading_report_path'', ''submitted_instances'',
           ''resolved_instances'', ''resolution_rate''] path,
         req_all req_str vessel [''native_report_path'', ''grading_report_path''] path,
         req_all req_nat vessel [''submitted_instances'', ''resolved_instances''] path,
         req_number (dget vessel ''resolution_rate'') (at_key path ''resolution_rate'')])])"

definition validate_collection_comparison :: "nat \<Rightarrow> json \<Rightarrow> exn + unit" where
  "validate_collection_comparison index comparison_value =
     (let path = at_index ''grading collection.comparisons'' index in
      bnd (req_object comparison_value path) (\<lambda>comparison. checks [
        req_keys comparison [''name'', ''course'', ''status'', ''vessels''] path,
        req_all req_str comparison [''name'', ''course''] path,
        req_allowed (dget comparison ''status'') BENCHMARK_GRADING_COLLECTION_STATUSES (at_key path ''status''),
        bnd (req_list (dget comparison ''vessels'') (at_key path ''vessels'')) (\<lambda>vessels.
          forI (\<lambda>i v. validate_collected_vessel v (at_index (at_key path ''vessels'') i)) 0 vessels)]))"

definition validate_benchmark_grading_collection_document :: "json \<Rightarrow> exn + unit" where
  "validate_benchmark_grading_collection_document value =
     (let top = ''grading collection'' in
      bnd (req_object value top) (\<lambda>document. checks [
        req_keys document [''schema'', ''regatta'', ''course'', ''adapter'', ''status'', ''summary'', ''next_steps'',
          ''comparisons''] top,
        req_schema document ''yacht.benchmark-grading-collection.v1'' top,
        req_all req_str document [''regatta'', ''course''] top,
        bnd (req_object (dget document ''adapter'') (at_key top ''adapter'')) (\<lambda>adapter.
          validate_course_adapter_summary adapter (at_key top ''adapter'')),
        req_allowed (dget document ''status'') BENCHMARK_GRADING_COLLECTION_STATUSES (at_key top ''status''),
        bnd (req_object (dget document ''summary'') (at_key top ''summary'')) (\<lambda>summary.
          forR (\<lambda>key. checks [
            req_keys summary [key] (at_key top ''summary''),
            req_nat (dget summary key) (at_key (at_key top ''summary'') key)])
            [''total_vessels'', ''completed_launches'', ''collected_reports'', ''missing_native_reports'',
             ''invalid_native_reports'', ''skipped_vessels'']),
        bnd (req_list (dget document ''next_steps'') (at_key top ''next_steps'')) (\<lambda>_. Inr ()),
        bnd (req_list (dget document ''comparisons'') (at_key top ''comparisons'')) (\<lambda>comparisons.
          forI validate_collection_comparison 0 comparisons)]))"

section \<open>Repetitions\<close>

definition validate_repetition :: "nat \<Rightarrow> json \<Rightarrow> exn + unit" where
  "validate_repetition index run_value =
     (let path = at_index ''repetitions.runs'' index in
      bnd (req_object run_value path) (\<lambda>run. checks [
        req_keys run [''index'', ''logbook'', ''status'', ''scorecard_present'', ''artifacts''] path,
        req_nat (dget run ''index'') (at_key path ''index''),
        req_all req_str run [''logbook'', ''status''] path,
        req_bool (dget run ''scorecard_present'') (at_key path ''scorecard_present''),
        req_mapping (dget run ''artifacts'') (at_key path ''artifacts'')]))"

definition validate_real_benchmark_repetitions_document :: "json \<Rightarrow> exn + unit" where
  "validate_real_benchmark_repetitions_document value =
     (let top = ''repetitions'' in
      bnd (req_object value top) (\<lambda>document. checks [
        req_keys document [''schema'', ''status'', ''regatta'', ''course'', ''surfaces'', ''summary'', ''runs'',
          ''artifacts'', ''next_steps''] top,
        req_schema document ''yacht.real-benchmark-repetitions.v1'' top,
        req_allowed (dget document ''status'') [''blocked'', ''complete'', ''partial''] (at_key top ''status''),
        req_all req_str document [''regatta'', ''course''] top,
        bnd (req_object (dget document ''surfaces'') (at_key top ''surfaces'')) (\<lambda>_. Inr ()),
        bnd (req_object (dget document ''summary'') (at_key top ''summary'')) (\<lambda>summary.
          forR (\<lambda>key. checks [
            req_keys summary [key] (at_key top ''summary''),
            req_nat (dget summary key) (at_key (at_key top ''summary'') key)])
            [''repetitions'', ''completed_runs'', ''failed_runs'', ''aggregate_logbooks'']),
        bnd (req_list (dget document ''runs'') (at_key top ''runs'')) (\<lambda>runs. forI validate_repetition 0 runs),
        req_mapping (dget document ''artifacts'') (at_key top ''artifacts''),
        bnd (req_list (dget document ''next_steps'') (at_key top ''next_steps'')) (\<lambda>_. Inr ()),
        when_key document ''agent'' (\<lambda>v. req_str v (at_key top ''agent'')),
        when_key document ''aggregate_summary'' (\<lambda>v.
          bnd (req_object v (at_key top ''aggregate_summary'')) (\<lambda>_. Inr ()))]))"

section \<open>Aggregates\<close>

definition EVIDENCE_GRADES :: "string list" where
  "EVIDENCE_GRADES = [''evidence-of-difference'', ''insufficient-evidence'', ''not-distinguishable'']"

text \<open>\<open>isinstance(v, int | float) and 0.0 <= float(v) <= 1.0\<close>: a boolean passes.\<close>

definition req_probability :: "json \<Rightarrow> string \<Rightarrow> exn + unit" where
  "req_probability v path =
     (let e = SchemaError (path @ '' must be a number between 0 and 1'')
      in if \<not> is_num v then Inl e
         else bnd (as_float v) (\<lambda>f. ensure (case f of Finite q \<Rightarrow> 0 \<le> q \<and> q \<le> 1 | _ \<Rightarrow> False) e))"

definition PAIRED_ATTEMPT_COUNTS :: "string list" where
  "PAIRED_ATTEMPT_COUNTS = [''shared_task_attempts'', ''concordant_resolved'', ''concordant_unresolved'',
     ''discordant_baseline_only'', ''discordant_challenger_only'']"

definition validate_discordant_task :: "string \<Rightarrow> nat \<Rightarrow> json \<Rightarrow> exn + unit" where
  "validate_discordant_task path index task_value =
     (let task_path = at_index (at_key path ''discordant_by_task'') index in
      bnd (req_object task_value task_path) (\<lambda>task. checks [
        req_keys task [''task'', ''baseline_only'', ''challenger_only''] task_path,
        req_str (dget task ''task'') (at_key task_path ''task''),
        req_all req_nat task [''baseline_only'', ''challenger_only''] task_path]))"

definition validate_paired_statistics :: "json \<Rightarrow> string \<Rightarrow> exn + unit" where
  "validate_paired_statistics value path =
     bnd (req_object value path) (\<lambda>statistics. checks [
       req_keys statistics ([''baseline_vessel'', ''challenger_vessel''] @ PAIRED_ATTEMPT_COUNTS
         @ [''discordant_by_task'', ''grade'', ''p_value'']) path,
       req_all req_str statistics [''baseline_vessel'', ''challenger_vessel''] path,
       req_all req_nat statistics PAIRED_ATTEMPT_COUNTS path,
       bnd (req_list (dget statistics ''discordant_by_task'') (at_key path ''discordant_by_task'')) (\<lambda>tasks.
         forI (validate_discordant_task path) 0 tasks),
       req_allowed (dget statistics ''grade'') EVIDENCE_GRADES (at_key path ''grade''),
       req_probability (dget statistics ''p_value'') (at_key path ''p_value'')])"

definition require_each :: "(json \<Rightarrow> string \<Rightarrow> exn + unit) \<Rightarrow> json_obj \<Rightarrow> string list \<Rightarrow> string \<Rightarrow> exn + unit" where
  "require_each f d keys path = forR (\<lambda>key. checks [req_keys d [key] path, f (dget d key) (at_key path key)]) keys"

definition validate_aggregate_vessel :: "string \<Rightarrow> nat \<Rightarrow> json \<Rightarrow> exn + unit" where
  "validate_aggregate_vessel path index value =
     (let vessel_path = at_index (at_key path ''vessels'') index in
      bnd (req_object value vessel_path) (\<lambda>vessel. checks [
        req_keys vessel [''name''] vessel_path,
        req_str (dget vessel ''name'') (at_key vessel_path ''name''),
        require_each req_nat vessel [''runs'', ''eligible_runs'', ''measured_runs'', ''submitted_instances'',
          ''resolved_instances'', ''usage_runs'', ''total_tokens'', ''total_distinct_tool_uses''] vessel_path,
        require_each req_number vessel [''resolution_rate'', ''total_duration_seconds''] vessel_path,
        req_keys vessel [''total_cost''] vessel_path,
        when_set (dget vessel ''total_cost'') (\<lambda>v. req_number v (at_key vessel_path ''total_cost''))]))"

definition validate_aggregate_comparison :: "nat \<Rightarrow> json \<Rightarrow> exn + unit" where
  "validate_aggregate_comparison index comparison_value =
     (let path = at_index ''benchmark aggregate.comparisons'' index in
      bnd (req_object comparison_value path) (\<lambda>comparison. checks [
        req_keys comparison [''name'', ''baseline'', ''challenger'', ''vessels'', ''delta''] path,
        req_all req_str comparison [''name'', ''baseline'', ''challenger''] path,
        bnd (req_list (dget comparison ''vessels'') (at_key path ''vessels'')) (\<lambda>vessels.
          forI (validate_aggregate_vessel path) 0 vessels),
        bnd (req_object (dget comparison ''delta'') (at_key path ''delta'')) (\<lambda>_. Inr ()),
        when_key comparison ''runs'' (\<lambda>v. bnd (req_list v (at_key path ''runs'')) (\<lambda>_. Inr ())),
        when_key comparison ''delta_statistics''
          (\<lambda>v. bnd (req_object v (at_key path ''delta_statistics'')) (\<lambda>_. Inr ())),
        when_key comparison ''paired_statistics''
          (\<lambda>v. validate_paired_statistics v (at_key path ''paired_statistics''))]))"

definition validate_benchmark_aggregate_document :: "json \<Rightarrow> exn + unit" where
  "validate_benchmark_aggregate_document value =
     (let top = ''benchmark aggregate'' in
      bnd (req_object value top) (\<lambda>document. checks [
        req_keys document [''schema'', ''regatta'', ''course'', ''run_count'', ''logbooks'', ''comparisons''] top,
        req_schema document ''yacht.benchmark-aggregate.v1'' top,
        req_all req_str document [''regatta'', ''course''] top,
        req_int_from 1 (dget document ''run_count'') (at_key top ''run_count''),
        bnd (req_list (dget document ''logbooks'') (at_key top ''logbooks'')) (\<lambda>logbooks. checks [
          forI (\<lambda>i logbook. req_str logbook (at_index (at_key top ''logbooks'') i)) 0 logbooks,
          ensure (int (length logbooks) = int_of (dget document ''run_count''))
            (SchemaError (at_key top ''run_count must match the number of logbooks''))]),
        bnd (req_list (dget document ''comparisons'') (at_key top ''comparisons'')) (\<lambda>comparisons.
          forI validate_aggregate_comparison 0 comparisons)]))"

definition validate_real_benchmark_eval_document :: "json \<Rightarrow> exn + unit" where
  "validate_real_benchmark_eval_document value =
     bnd (req_object value ''real benchmark eval'') (\<lambda>document. checks [
       req_keys document [''schema'', ''status'', ''regatta'', ''course''] ''real benchmark eval'',
       req_schema document ''yacht.real-benchmark-eval.v1'' ''real benchmark eval'',
       req_all req_str document [''status'', ''regatta'', ''course''] ''real benchmark eval''])"

section \<open>Terminal-Bench jobs\<close>

text \<open>\<open>{str(task) for task in tasks}\<close>, of a list that was checked to hold strings.\<close>

definition task_names :: "json \<Rightarrow> string list" where
  "task_names tasks = (case tasks of JList ts \<Rightarrow> map (\<lambda>t. case t of JStr s \<Rightarrow> s | _ \<Rightarrow> []) ts | _ \<Rightarrow> [])"

definition plan_path :: "string \<Rightarrow> string \<Rightarrow> string" where
  "plan_path table task_name = table @ ''['' @ task_name @ '']''"

definition validate_job_episode_plan :: "string list \<Rightarrow> string \<times> json \<Rightarrow> exn + unit" where
  "validate_job_episode_plan names = (\<lambda>(task_name, plan_value).
     let top = ''terminal-bench job.agent.episodes''; path = plan_path top task_name in checks [
       req_str (JStr task_name) (top @ '' key''),
       ensure (task_name \<in> set names) (SchemaError (path @ '' does not match any task in the job'')),
       bnd (req_object plan_value path) (\<lambda>plan. checks [
         req_keys plan [''max'', ''verify_between'', ''instructions''] path,
         ensure (strict_int_at_least 2 (dget plan ''max'')) (SchemaError (at_key path ''max must be an integer >= 2'')),
         req_bool (dget plan ''verify_between'') (at_key path ''verify_between''),
         bnd (req_list (dget plan ''instructions'') (at_key path ''instructions'')) (\<lambda>instructions. checks [
           ensure (dget plan ''max'' = JInt (int (length instructions) + 1))
             (SchemaError (at_key path ''instructions must contain max - 1 entries'')),
           forI (\<lambda>i entry. req_str entry (at_index (at_key path ''instructions'') i)) 0 instructions]),
         req_present_all (\<lambda>v p. ensure (strict_int_at_least 1 v) (SchemaError (p @ '' must be an integer >= 1'')))
           plan [''max_turns'', ''timeout_seconds''] path])])"

definition validate_job_episode_plans :: "json \<Rightarrow> json \<Rightarrow> exn + unit" where
  "validate_job_episode_plans value tasks =
     bnd (req_object value ''terminal-bench job.agent.episodes'') (\<lambda>episodes.
       forR (validate_job_episode_plan (task_names tasks)) episodes)"

definition validate_job_execution_plan :: "string list \<Rightarrow> string \<times> json \<Rightarrow> exn + unit" where
  "validate_job_execution_plan names = (\<lambda>(task_name, plan_value).
     let top = ''terminal-bench job.agent.execution''; path = plan_path top task_name in checks [
       req_str (JStr task_name) (top @ '' key''),
       ensure (task_name \<in> set names) (SchemaError (path @ '' does not match any task in the job'')),
       (case validate_execution_plan plan_value of
          Inl (ContractError m) \<Rightarrow> Inl (SchemaError (path @ '': '' @ m)) | Inl e \<Rightarrow> Inl e | Inr _ \<Rightarrow> Inr ())])"

definition validate_job_execution_plans :: "json \<Rightarrow> json \<Rightarrow> exn + unit" where
  "validate_job_execution_plans value tasks =
     bnd (req_object value ''terminal-bench job.agent.execution'') (\<lambda>execution.
       forR (validate_job_execution_plan (task_names tasks)) execution)"

definition validate_job_dataset :: "json \<Rightarrow> exn + unit" where
  "validate_job_dataset value =
     (let path = ''terminal-bench job.dataset'' in
      bnd (req_object value path) (\<lambda>dataset.
        let keys = (if has_key dataset ''path'' \<or> has_key dataset ''digest'' then [''path'', ''digest''] else [''name'', ''version''])
        in checks [req_keys dataset keys path, req_all req_str dataset keys path]))"

definition validate_job_agent :: "json \<Rightarrow> json \<Rightarrow> exn + unit" where
  "validate_job_agent value tasks =
     (let path = ''terminal-bench job.agent'' in
      bnd (req_object value path) (\<lambda>agent. checks [
        req_keys agent [''name'', ''import_path'', ''version'', ''model'', ''env'', ''mcp_servers'', ''rigging_steps''] path,
        req_all req_str agent [''name'', ''import_path'', ''version'', ''model''] path,
        req_mapping (dget agent ''env'') (at_key path ''env''),
        req_all (\<lambda>v p. bnd (req_list v p) (\<lambda>entries.
          forI (\<lambda>i entry. bnd (req_object entry (at_index p i)) (\<lambda>_. Inr ())) 0 entries))
          agent [''mcp_servers'', ''rigging_steps''] path,
        when_key agent ''declaration'' (\<lambda>v. bnd (req_object v (at_key path ''declaration'')) (\<lambda>_. Inr ())),
        when_key agent ''episodes'' (\<lambda>v. validate_job_episode_plans v tasks),
        when_key agent ''execution'' (\<lambda>v. validate_job_execution_plans v tasks)]))"

definition validate_terminal_bench_job_document :: "json \<Rightarrow> exn + unit" where
  "validate_terminal_bench_job_document value =
     (let top = ''terminal-bench job'' in
      bnd (req_object value top) (\<lambda>document. checks [
        req_keys document [''schema'', ''dataset'', ''tasks'', ''agent'', ''launcher_image'', ''secret_env'', ''vessel''] top,
        req_schema document ''yacht.terminal-bench-job.v1'' top,
        validate_job_dataset (dget document ''dataset''),
        bnd (req_list (dget document ''tasks'') (at_key top ''tasks'')) (\<lambda>tasks. checks [
          req_not_empty tasks (at_key top ''tasks must contain at least one task''),
          forI (\<lambda>i task. req_str task (at_index (at_key top ''tasks'') i)) 0 tasks]),
        validate_job_agent (dget document ''agent'') (dget document ''tasks''),
        req_str (dget document ''launcher_image'') (at_key top ''launcher_image''),
        bnd (req_list (dget document ''secret_env'') (at_key top ''secret_env'')) (\<lambda>secret_env.
          forI (\<lambda>i name. req_str name (at_index (at_key top ''secret_env'') i)) 0 secret_env),
        req_str (dget document ''vessel'') (at_key top ''vessel'')]))"

section \<open>Exceptions\<close>

lemma handoff_raises [raises]:
  "raises_only is_schema_error (validate_handoff_task i v)"
  "raises_only is_schema_error (validate_instance_selection_provenance d n)"
  "raises_only is_schema_error (validate_handoff_comparison i v)"
  "raises_only is_schema_error (validate_expected_course_handoff_outputs v)"
  "raises_only is_schema_error (validate_course_handoff_grading v)"
  unfolding validate_handoff_task_def validate_instance_selection_provenance_def validate_handoff_comparison_def
    validate_expected_course_handoff_outputs_def validate_course_handoff_grading_def Let_def
  by (intro raises; simp)+

lemma handoff_lists_raise [raises]:
  "raises_only is_schema_error (validate_course_handoff_tasks ts)"
  "raises_only is_schema_error (validate_course_handoff_comparisons v)"
  unfolding validate_course_handoff_tasks_def validate_course_handoff_comparisons_def
  by (intro raises; simp)+

lemma vessel_checks_raise [raises]:
  "raises_only is_schema_error (validate_plan_vessel v path)"
  "raises_only is_schema_error (validate_blocked_vessel v path)"
  "raises_only is_schema_error (validate_launcher_vessel v path)"
  "raises_only is_schema_error (validate_launch_result_summary v)"
  "raises_only is_schema_error (validate_launch_result_vessel v path)"
  "raises_only is_schema_error (launch_summary_matches s cs)"
  "raises_only is_schema_error (validate_redacted_secret path i v)"
  "raises_only is_schema_error (validate_collected_vessel v path)"
  "raises_only is_schema_error (validate_repetition i v)"
  unfolding validate_plan_vessel_def validate_blocked_vessel_def validate_launcher_vessel_def
    validate_launch_result_summary_def validate_launch_result_vessel_def launch_summary_matches_def
    validate_redacted_secret_def validate_collected_vessel_def validate_repetition_def Let_def
  by (intro raises; simp)+

lemma instance_raises [raises]:
  "raises_only is_schema_error (validate_runtime_instance v path)"
  "raises_only is_schema_error (validate_collection_comparison i v)"
  "raises_only is_schema_error (validate_course_adapter_summary d path)"
  unfolding validate_runtime_instance_def validate_redacted_secret_refs_def validate_collection_comparison_def
    validate_course_adapter_summary_def Let_def
  by (intro raises; simp)+

lemma instances_comparison_raises [raises]: "raises_only is_schema_error (validate_instances_comparison i v)"
  unfolding validate_instances_comparison_def Let_def by (intro raises; simp)

text \<open>The validators that only ever raise \<open>SchemaValidationError\<close>.\<close>

definition schema_only_validators :: "(json \<Rightarrow> exn + unit) list" where
  "schema_only_validators =
     [validate_course_handoff_document, validate_course_grading_report_document,
      validate_benchmark_execution_plan_document, validate_benchmark_readiness_summary_document,
      validate_benchmark_launcher_handoff_document, validate_benchmark_launch_result_document,
      validate_runtime_instances_document, validate_benchmark_grading_collection_document,
      validate_real_benchmark_repetitions_document, validate_real_benchmark_eval_document]"

lemma documents_raise:
  "raises_only is_schema_error (validate_course_handoff_document v)"
  "raises_only is_schema_error (validate_course_grading_report_document v)"
  "raises_only is_schema_error (validate_benchmark_execution_plan_document v)"
  "raises_only is_schema_error (validate_benchmark_readiness_summary_document v)"
  "raises_only is_schema_error (validate_benchmark_launcher_handoff_document v)"
  "raises_only is_schema_error (validate_benchmark_launch_result_document v)"
  "raises_only is_schema_error (validate_runtime_instances_document v)"
  "raises_only is_schema_error (validate_benchmark_grading_collection_document v)"
  "raises_only is_schema_error (validate_real_benchmark_repetitions_document v)"
  "raises_only is_schema_error (validate_real_benchmark_eval_document v)"
  unfolding validate_course_handoff_document_def validate_course_grading_report_document_def
    validate_benchmark_execution_plan_document_def validate_execution_plan_comparisons_def
    validate_benchmark_readiness_summary_document_def validate_benchmark_launcher_handoff_document_def
    validate_benchmark_launch_result_document_def validate_runtime_instances_document_def
    validate_benchmark_grading_collection_document_def validate_real_benchmark_repetitions_document_def
    validate_real_benchmark_eval_document_def Let_def
  by (intro raises; simp)+

text \<open>
  C38. Ten of the artifact validators raise \<open>SchemaValidationError\<close> and nothing else, whatever the
  document. The job validator does not: an execution plan whose mode is a list escapes as
  \<open>TypeError\<close>. Nor does the aggregate validator: a p-value of \<open>2 ^ 1024\<close> escapes as
  \<open>OverflowError\<close>.
\<close>

definition job_with_execution :: "json \<Rightarrow> json" where
  "job_with_execution plan = JObj
     [(''schema'', JStr ''yacht.terminal-bench-job.v1''),
      (''dataset'', JObj [(''name'', JStr ''d''), (''version'', JStr ''1'')]), (''tasks'', JList [JStr ''t'']),
      (''agent'', JObj [(''name'', JStr ''omp''), (''import_path'', JStr ''a:B''), (''version'', JStr ''1''),
         (''model'', JStr ''m''), (''env'', JObj []), (''mcp_servers'', JList []), (''rigging_steps'', JList []),
         (''execution'', JObj [(''t'', plan)])]),
      (''launcher_image'', JStr ''i''), (''secret_env'', JList []), (''vessel'', JStr ''v'')]"

definition aggregate_with_p_value :: "json \<Rightarrow> json" where
  "aggregate_with_p_value p = JObj
     [(''schema'', JStr ''yacht.benchmark-aggregate.v1''), (''regatta'', JStr ''r''), (''course'', JStr ''c''),
      (''run_count'', JInt 1), (''logbooks'', JList [JStr ''l'']),
      (''comparisons'', JList [JObj
        [(''name'', JStr ''x''), (''baseline'', JStr ''a''), (''challenger'', JStr ''b''), (''vessels'', JList []),
         (''delta'', JObj []),
         (''paired_statistics'', JObj (map (\<lambda>k. (k, JInt 0)) PAIRED_ATTEMPT_COUNTS
            @ [(''baseline_vessel'', JStr ''a''), (''challenger_vessel'', JStr ''b''), (''discordant_by_task'', JList []),
               (''grade'', JStr ''not-distinguishable''), (''p_value'', p)]))]])]"

lemma float_of_huge: "int_to_float (2 ^ 1024) = Inl (PyOverflowError ''int too large to convert to float'')"
  by code_simp


text \<open>
  The counts of an accepted launch result are the counts of its vessels: as many completed,
  failed and skipped launches as vessels of that status, launched ones being the first two, and
  every vessel counted once.
\<close>

definition status_count :: "string \<Rightarrow> string list \<Rightarrow> int" where
  "status_count s statuses = int (length (filter (\<lambda>x. x = s) statuses))"

theorem accepted_launch_result_adds_up:
  assumes "validate_benchmark_launch_result_document (JObj d) = Inr ()"
  shows "\<exists>summary comparisons. dget d ''summary'' = JObj summary \<and> dget d ''comparisons'' = JList comparisons
     \<and> (let statuses = launch_statuses (map obj comparisons); count = (\<lambda>k. int_of (dget summary k)) in
        set statuses \<subseteq> {''completed'', ''failed'', ''skipped''} \<and> statuses \<noteq> []
        \<and> count ''completed_launches'' = status_count ''completed'' statuses
        \<and> count ''failed_launches'' = status_count ''failed'' statuses
        \<and> count ''skipped_vessels'' = status_count ''skipped'' statuses
        \<and> count ''launched_vessels'' = count ''completed_launches'' + count ''failed_launches''
        \<and> count ''total_vessels'' = count ''launched_vessels'' + count ''skipped_vessels''
        \<and> count ''total_vessels'' = int (length statuses))"
proof -
  obtain summary comparisons where s: "dget d ''summary'' = JObj summary" and c: "dget d ''comparisons'' = JList comparisons"
    and vs: "validate_launch_result_summary (JObj summary) = Inr ()" and ne: "comparisons \<noteq> []"
    and each: "\<forall>i<length comparisons. validate_status_comparison BENCHMARK_LAUNCH_RESULT_STATUSES
                 validate_launch_result_vessel i (comparisons ! i) = Inr ()"
    and m: "launch_summary_matches summary (map obj comparisons) = Inr ()"
    using assms
    by (auto simp: validate_benchmark_launch_result_document_def validate_launch_result_summary_def req_comparisons_def
        result_simps split: json.splits)
  have vessel: "\<exists>x. dget (obj v) ''status'' = JStr x \<and> x \<in> {''completed'', ''failed'', ''skipped''}"
    if "validate_launch_result_vessel v p = Inr ()" for v p
    using that by (auto simp: validate_launch_result_vessel_def BENCHMARK_LAUNCH_RESULT_VESSEL_STATUSES_def result_simps)
  have comparison: "\<exists>vessels. dget (obj v) ''vessels'' = JList vessels \<and> vessels \<noteq> []
       \<and> (\<forall>w\<in>set vessels. \<exists>x. dget (obj w) ''status'' = JStr x \<and> x \<in> {''completed'', ''failed'', ''skipped''})"
    if v: "validate_status_comparison BENCHMARK_LAUNCH_RESULT_STATUSES validate_launch_result_vessel i v = Inr ()" for i v
  proof -
    obtain vessels where vs: "dget (obj v) ''vessels'' = JList vessels" "vessels \<noteq> []"
      and each: "\<forall>j<length vessels. validate_launch_result_vessel (vessels ! j)
                   (at_index (at_key (at_index ''comparisons'' i) ''vessels'') j) = Inr ()"
      using v by (auto simp: validate_status_comparison_def req_vessels_def Let_def result_simps)
    have "\<exists>x. dget (obj w) ''status'' = JStr x \<and> x \<in> {''completed'', ''failed'', ''skipped''}"
      if w: "w \<in> set vessels" for w
    proof -
      from w obtain j where "j < length vessels" "w = vessels ! j" by (auto simp: in_set_conv_nth)
      with each have "validate_launch_result_vessel w (at_index (at_key (at_index ''comparisons'' i) ''vessels'') j) = Inr ()"
        by simp
      then show ?thesis by (rule vessel)
    qed
    with vs show ?thesis by blast
  qed
  have all: "\<forall>k\<in>set comparisons. \<exists>vessels. dget (obj k) ''vessels'' = JList vessels \<and> vessels \<noteq> []
       \<and> (\<forall>w\<in>set vessels. \<exists>x. dget (obj w) ''status'' = JStr x \<and> x \<in> {''completed'', ''failed'', ''skipped''})"
  proof
    fix k assume "k \<in> set comparisons"
    then obtain i where "i < length comparisons" "k = comparisons ! i" by (auto simp: in_set_conv_nth)
    with each show "\<exists>vessels. dget (obj k) ''vessels'' = JList vessels \<and> vessels \<noteq> []
       \<and> (\<forall>w\<in>set vessels. \<exists>x. dget (obj w) ''status'' = JStr x \<and> x \<in> {''completed'', ''failed'', ''skipped''})"
      by (intro comparison [of i]) simp
  qed
  define statuses where "statuses = launch_statuses (map obj comparisons)"
  have sub: "set statuses \<subseteq> {''completed'', ''failed'', ''skipped''}"
  proof
    fix x assume "x \<in> set statuses"
    then obtain k where k: "k \<in> set comparisons" and x: "x \<in> set (case dget (obj k) ''vessels'' of
        JList vessels \<Rightarrow> map (\<lambda>v. case dget (obj v) ''status'' of JStr s \<Rightarrow> s | _ \<Rightarrow> []) vessels | _ \<Rightarrow> [])"
      by (auto simp: statuses_def launch_statuses_def)
    with all obtain vessels where "dget (obj k) ''vessels'' = JList vessels"
      "\<forall>w\<in>set vessels. \<exists>x. dget (obj w) ''status'' = JStr x \<and> x \<in> {''completed'', ''failed'', ''skipped''}"
      by blast
    with x show "x \<in> {''completed'', ''failed'', ''skipped''}" by force
  qed
  have "statuses \<noteq> []"
  proof -
    obtain k ks where "comparisons = k # ks" using ne by (cases comparisons) auto
    with all show ?thesis by (auto simp: statuses_def launch_statuses_def)
  qed
  moreover have "\<forall>(key, expected)\<in>set (expected_launches statuses). int_of (dget summary key) = expected"
    using m by (auto simp: launch_summary_matches_def forR_eq_Inr statuses_def)
  moreover have "int_of (dget summary ''total_vessels'')
      = int_of (dget summary ''launched_vessels'') + int_of (dget summary ''skipped_vessels'')"
    using vs by (simp add: validate_launch_result_summary_def result_simps)
  ultimately show ?thesis
    using sub s c by (intro exI [of _ summary] exI [of _ comparisons])
      (simp add: statuses_def [symmetric] expected_launches_def status_count_def Let_def)
qed

definition sample_launch_result :: json_obj where
  "sample_launch_result =
     [(''schema'', JStr ''yacht.benchmark-launch-result.v1''), (''regatta'', JStr ''r''), (''course'', JStr ''c''),
      (''adapter'', JObj [(''kind'', JStr ''swe-bench''), (''dataset'', JStr ''d''), (''split'', JStr ''s''),
         (''harness'', JStr ''docker'')]),
      (''status'', JStr ''blocked''),
      (''summary'', JObj [(''total_vessels'', JInt 1), (''launched_vessels'', JInt 0), (''completed_launches'', JInt 0),
         (''failed_launches'', JInt 0), (''skipped_vessels'', JInt 1)]),
      (''comparisons'', JList [JObj [(''name'', JStr ''x''), (''course'', JStr ''c''), (''status'', JStr ''blocked''),
         (''vessels'', JList [JObj [(''name'', JStr ''v''), (''status'', JStr ''skipped''),
            (''launcher_status'', JStr ''preflight-failed''), (''skipped_reason'', JStr ''preflight'')]])]])]"

theorem accepted_launch_result_adds_up_witness:
  "validate_benchmark_launch_result_document (JObj sample_launch_result) = Inr ()
   \<and> (\<exists>summary comparisons. dget sample_launch_result ''summary'' = JObj summary
     \<and> dget sample_launch_result ''comparisons'' = JList comparisons
     \<and> (let statuses = launch_statuses (map obj comparisons); count = (\<lambda>k. int_of (dget summary k)) in
        set statuses \<subseteq> {''completed'', ''failed'', ''skipped''} \<and> statuses \<noteq> []
        \<and> count ''completed_launches'' = status_count ''completed'' statuses
        \<and> count ''failed_launches'' = status_count ''failed'' statuses
        \<and> count ''skipped_vessels'' = status_count ''skipped'' statuses
        \<and> count ''launched_vessels'' = count ''completed_launches'' + count ''failed_launches''
        \<and> count ''total_vessels'' = count ''launched_vessels'' + count ''skipped_vessels''
        \<and> count ''total_vessels'' = int (length statuses)))"
proof -
  have a: "validate_benchmark_launch_result_document (JObj sample_launch_result) = Inr ()" by code_simp
  from accepted_launch_result_adds_up [OF a] a show ?thesis by blast
qed

end
