(* ===== verification/Domain.thy ===== *)
theory Domain
  imports InstallRenderers CourseRegistry
begin

text \<open>
  The typed configuration of \<open>src/yacht/domain/model.py\<close> (a loaded regatta), with the JSON forms
  of its dataclasses, and \<open>src/yacht/courses/task_directory.py\<close>, the content digest of a task
  directory. Dictionaries are association lists without duplicate keys.
\<close>

section \<open>Courses\<close>

record course_task =
  task_id :: string
  task_title :: string
  task_difficulty :: int
  task_repo :: "string option"
  task_repo_url :: "string option"
  task_base_commit :: "string option"
  task_problem_statement :: "string option"
  task_expect_response :: json_obj
  task_expect_tool_calls :: "string list"

record course_config =
  course_config_name :: string
  course_tasks :: "course_task list"
  course_adapter_config :: "adapter option"

section \<open>Secrets, riggings, runtimes\<close>

record preflight_check =
  check_name :: string
  check_kind :: string
  check_required :: bool
  check_command :: "string list"
  check_env :: "string list"
  check_prompt :: "string option"
  check_expect_tool_calls :: "string list"
  check_expect_response_contains :: "string list"

record preflight_recipe =
  preflight_required :: bool
  preflight_checks :: "preflight_check list"

record secret_reference =
  secret_source :: string
  secret_env_name :: "string option"
  secret_path :: "string option"

record rigging_step = install_step +
  step_method :: string
  step_agent :: "string option"
  step_runtime :: "string option"
  step_package :: "string option"
  step_source :: "string option"
  step_legacy :: bool

definition opt_field :: "string \<Rightarrow> string option \<Rightarrow> json_obj" where
  "opt_field key v = (case v of None \<Rightarrow> [] | Some s \<Rightarrow> [(key, JStr s)])"

lemma opt_field_simps [simp]:
  "dget (opt_field k v) j = (case v of None \<Rightarrow> JNull | Some s \<Rightarrow> if k = j then JStr s else JNull)"
  "has_key (opt_field k v) j \<longleftrightarrow> v \<noteq> None \<and> k = j"
  by (auto simp: opt_field_def dict_simps split: option.split)

definition step_to_json :: "rigging_step \<Rightarrow> json_obj" where
  "step_to_json s =
     [(''method'', JStr (step_method s)), (''target'', JStr (step_target s))]
     @ opt_field ''agent'' (step_agent s) @ opt_field ''runtime'' (step_runtime s)
     @ opt_field ''package'' (step_package s) @ opt_field ''source'' (step_source s)
     @ (if step_command s = [] then [] else [(''command'', JList (map JStr (step_command s)))])
     @ opt_field ''content'' (step_content s)
     @ (if step_resources s = [] then []
        else [(''resources'', JList (map (\<lambda>(p, c). JObj [(''path'', JStr p), (''content'', JStr c)]) (step_resources s)))])
     @ (if step_legacy s then [(''legacy'', JBool True)] else [])"

record rigging_recipe =
  rigging_name :: string
  rigging_tools :: "string list"
  rigging_install :: "rigging_step list"
  rigging_env :: "(string \<times> string) list"
  rigging_required_secrets :: "string list"
  rigging_instructions :: string
  rigging_preflight :: preflight_recipe

record runtime_recipe =
  runtime_name :: string
  runtime_backend_name :: string
  runtime_command :: "string list"
  runtime_harness :: "string option"
  runtime_harness_version :: "string option"
  runtime_flake :: "string option"
  runtime_image :: "string option"
  runtime_container_home :: string
  runtime_container_workspace :: string
  runtime_env :: "(string \<times> string) list"
  runtime_required_secrets :: "string list"
  runtime_mounts :: "string list"
  runtime_preflight :: preflight_recipe
  runtime_agent :: "string option"

record harness_install =
  install_sha256 :: string
  install_url :: "string option"
  install_path :: "string option"

record harness_declaration =
  declared_name :: string
  declared_prompt :: string
  declared_evidence :: string
  declared_command :: "string list"
  declared_install :: "harness_install option"
  declared_evidence_map :: "(string \<times> string) list"

section \<open>The regatta\<close>

record vessel_config =
  vessel_name :: string
  vessel_model :: string
  vessel_rigging :: "string list"
  vessel_runtime :: "string option"

record baseline_reference =
  baseline_logbook :: string
  baseline_vessel :: string

record comparison_config =
  comparison_name :: string
  comparison_course :: string
  comparison_vessels :: "string list"
  comparison_baseline :: "baseline_reference option"

record export_attribution =
  export_organization :: string
  export_relationship :: string
  export_url :: "string option"
  export_source_name :: "string option"

definition export_to_json :: "export_attribution \<Rightarrow> json_obj" where
  "export_to_json e =
     [(''source_organization_name'', JStr (export_organization e)),
      (''evaluator_relationship'', JStr (export_relationship e))]
     @ opt_field ''source_organization_url'' (export_url e) @ opt_field ''source_name'' (export_source_name e)"

record regatta =
  regatta_name :: string
  regatta_course :: course_config
  regatta_vessels :: "vessel_config list"
  regatta_failure_policy :: string
  regatta_comparisons :: "comparison_config list"
  regatta_secrets :: "(string \<times> secret_reference) list"
  regatta_runtimes :: "(string \<times> runtime_recipe) list"
  regatta_riggings :: "(string \<times> rigging_recipe) list"
  regatta_tools :: "(string \<times> tool_capability) list"
  regatta_harnesses :: "(string \<times> harness_declaration) list"
  regatta_export :: "export_attribution option"

section \<open>The digest of a task directory\<close>

text \<open>
  The regular files below a directory: relative parts and content (\<open>None\<close>: no such directory).
  Paths are compared by their parts. \<open>sha\<close> is the hexadecimal SHA-256.
\<close>

type_synonym directory_files = "(string list \<times> bytes) list option"

definition directory_preimage :: "(string list \<times> bytes) list \<Rightarrow> bytes" where
  "directory_preimage files =
     concat (map (\<lambda>(ps, content). utf8 (as_posix ps) @ [0] @ content @ [0]) (sort_key fst files))"

definition task_directory_digest :: "(bytes \<Rightarrow> string) \<Rightarrow> string \<Rightarrow> directory_files \<Rightarrow> exn + string" where
  "task_directory_digest sha dir files = (case files of
     None \<Rightarrow> Inl (ConfigError (''course adapter task directory not found: '' @ dir))
   | Some [] \<Rightarrow> Inl (ConfigError (''course adapter task directory is empty: '' @ dir))
   | Some fs \<Rightarrow> Inr (''sha256:'' @ sha (directory_preimage fs)))"

text \<open>
  C39. The digest of a task directory does not determine it: a file whose bytes contain a NUL can
  stand for two files, so two different task directories have the same digest (with any hash).
\<close>

theorem task_digest_collides:
  "\<exists>fs gs. fs \<noteq> gs \<and> length fs = 1 \<and> length gs = 2
     \<and> task_directory_digest sha dir (Some fs) = task_directory_digest sha dir (Some gs)
     \<and> is_ok (task_directory_digest sha dir (Some fs))"
proof -
  define fs :: "(string list \<times> bytes) list" where "fs = [([''t'', ''a''], [1, 0, 116, 47, 98, 0, 2])]"
  define gs :: "(string list \<times> bytes) list" where "gs = [([''t'', ''a''], [1]), ([''t'', ''b''], [2])]"
  have "directory_preimage fs = directory_preimage gs"
    unfolding fs_def gs_def by code_simp
  then have "task_directory_digest sha dir (Some fs) = task_directory_digest sha dir (Some gs)"
    "is_ok (task_directory_digest sha dir (Some fs))"
    by (simp_all add: task_directory_digest_def fs_def gs_def)
  then show ?thesis by (intro exI [of _ fs] exI [of _ gs]) (simp add: fs_def gs_def)
qed

end
