(* ===== verification/Loader.thy ===== *)
theory Loader
  imports Domain Regatta
begin

text \<open>
  \<open>src/yacht/config/loader.py\<close>: a parsed regatta file becomes the records of \<open>Domain\<close>. The document
  is validated, its task and instance files are inlined, an instance sample is drawn, and it is
  validated again after each of the two.

  \<open>load_surroundings\<close> holds what loading reads besides the document: the directory of the file,
  the parse of other TOML files (\<open>None\<close>: no such file, \<open>Inl\<close> the parser's message) and the text of
  install sources, both by path, \<open>str(Path(p).resolve())\<close>, \<open>str\<close> of a value that is not a string,
  and the digests of the instance sample.
\<close>

record load_surroundings =
  config_dir :: string
  toml_file :: "string \<Rightarrow> (string + json_obj) option"
  text_file :: "string \<Rightarrow> string option"
  resolved_path :: "string \<Rightarrow> string"
  str_text :: "json \<Rightarrow> string"
  rank_sha :: "bytes \<Rightarrow> bytes"
  rank_hex :: "bytes \<Rightarrow> string"

section \<open>Reading values\<close>

text \<open>\<open>Path(p)\<close> if it is absolute, else \<open>config_dir / p\<close>.\<close>

definition config_relative :: "load_surroundings \<Rightarrow> string \<Rightarrow> string" where
  "config_relative e p = join_path (config_dir e) p"

definition text_of :: "load_surroundings \<Rightarrow> json \<Rightarrow> string" where
  "text_of e v = (case v of JStr s \<Rightarrow> s | _ \<Rightarrow> str_text e v)"

definition opt_text :: "load_surroundings \<Rightarrow> json_obj \<Rightarrow> string \<Rightarrow> string option" where
  "opt_text e d key = (if has_key d key then Some (text_of e (dget d key)) else None)"

text \<open>\<open>tuple(str(item) for item in d.get(key, ()))\<close>.\<close>

definition texts :: "load_surroundings \<Rightarrow> json_obj \<Rightarrow> string \<Rightarrow> exn + string list" where
  "texts e d key = bnd (iterate (dget_default d key (JList []))) (\<lambda>items. Inr (map (text_of e) items))"

text \<open>\<open>{str(key): str(value) for key, value in d.get(key, {}).items()}\<close> of a table already checked.\<close>

definition text_table :: "load_surroundings \<Rightarrow> json_obj \<Rightarrow> string \<Rightarrow> (string \<times> string) list" where
  "text_table e d key = map (\<lambda>(k, v). (k, text_of e v)) (obj (dget_default d key (JObj [])))"

definition text_or :: "load_surroundings \<Rightarrow> json_obj \<Rightarrow> string \<Rightarrow> string \<Rightarrow> string" where
  "text_or e d key s = text_of e (dget_default d key (JStr s))"

text \<open>\<open>{name: f(name, table) for name, table in d.get(key, {}).items()}\<close>.\<close>

definition parse_tables :: "(string \<Rightarrow> json_obj \<Rightarrow> exn + 'a) \<Rightarrow> json_obj \<Rightarrow> string \<Rightarrow> exn + (string \<times> 'a) list" where
  "parse_tables f d key = mapR (\<lambda>(name, v). bnd (f name (obj v)) (\<lambda>x. Inr (name, x))) (obj (dget_default d key (JObj [])))"

definition parse_list :: "(json_obj \<Rightarrow> exn + 'a) \<Rightarrow> json_obj \<Rightarrow> string \<Rightarrow> exn + 'a list" where
  "parse_list f d key = bnd (iterate (dget_default d key (JList []))) (\<lambda>items. mapR (\<lambda>v. f (obj v)) items)"

section \<open>Inlining files\<close>

text \<open>The strings of \<open>d[one]\<close> and \<open>d[many]\<close>.\<close>

definition named_files :: "json_obj \<Rightarrow> string \<Rightarrow> string \<Rightarrow> string list" where
  "named_files d one many = (case dget d one of JStr s \<Rightarrow> [s] | _ \<Rightarrow> []) @ str_items (dget d many)"

definition load_list_file :: "load_surroundings \<Rightarrow> string \<Rightarrow> string \<Rightarrow> string \<Rightarrow> exn + json list" where
  "load_list_file e field key file =
     (let path = config_relative e file in case toml_file e path of
        None \<Rightarrow> Inl (ConfigError (field @ '' not found: '' @ path))
      | Some (Inl m) \<Rightarrow> Inl (ConfigError (field @ '' is not valid TOML: '' @ m))
      | Some (Inr doc) \<Rightarrow> (case dget doc key of
          JList xs \<Rightarrow> Inr xs
        | _ \<Rightarrow> Inl (ConfigError (field @ '' must contain '' @ key))))"

definition load_course_task_file :: "load_surroundings \<Rightarrow> string \<Rightarrow> exn + json list" where
  "load_course_task_file e = load_list_file e ''course.task_file'' ''tasks''"

definition load_course_adapter_instance_file :: "load_surroundings \<Rightarrow> string \<Rightarrow> exn + json list" where
  "load_course_adapter_instance_file e = load_list_file e ''course.adapter.instance_file'' ''instance_ids''"

definition expand_course_task_file :: "load_surroundings \<Rightarrow> json_obj \<Rightarrow> exn + json_obj" where
  "expand_course_task_file e raw = (case dget raw ''course'' of
     JObj course \<Rightarrow>
       let files = named_files course ''task_file'' ''task_files'' in
       if files = [] then Inr raw
       else bnd (mapR (load_course_task_file e) files) (\<lambda>tasks.
         let kept = AList.delete ''task_files'' (AList.delete ''task_file'' course)
         in Inr (AList.update ''course'' (JObj (AList.update ''tasks'' (JList (concat tasks)) kept)) raw))
   | _ \<Rightarrow> Inr raw)"

definition expand_course_adapter_instance_files :: "load_surroundings \<Rightarrow> json_obj \<Rightarrow> exn + json_obj" where
  "expand_course_adapter_instance_files e raw = (case dget raw ''course'' of
     JObj course \<Rightarrow> (case dget course ''adapter'' of
       JObj adapter \<Rightarrow>
         let files = named_files adapter ''instance_file'' ''instance_files'' in
         if files = [] then Inr raw
         else bnd (mapR (load_course_adapter_instance_file e) files) (\<lambda>ids.
           let kept = AList.delete ''instance_files'' (AList.delete ''instance_file'' adapter);
               expanded = AList.update ''instance_ids'' (JList (concat ids)) kept
           in Inr (AList.update ''course'' (JObj (AList.update ''adapter'' (JObj expanded) course)) raw))
     | _ \<Rightarrow> Inr raw)
   | _ \<Rightarrow> Inr raw)"

section \<open>Sampling instances\<close>

text \<open>\<open>{task["id"]: task for task in tasks if ...}\<close>.\<close>

definition tasks_by_id :: "json \<Rightarrow> (string \<times> json) list" where
  "tasks_by_id tasks = (case tasks of
     JList xs \<Rightarrow> foldl (\<lambda>d t. case t of
         JObj task \<Rightarrow> (case dget task ''id'' of JStr i \<Rightarrow> AList.update i t d | _ \<Rightarrow> d)
       | _ \<Rightarrow> d) [] xs
   | _ \<Rightarrow> [])"

definition instance_population :: "json_obj \<Rightarrow> json_obj \<Rightarrow> json list option" where
  "instance_population course adapter = (case dget adapter ''instance_ids'' of
     JList ids \<Rightarrow> Some ids
   | _ \<Rightarrow> let by_id = tasks_by_id (dget course ''tasks'')
          in if by_id = [] then None else Some (map (JStr \<circ> fst) by_id))"

text \<open>The selected ids; without a \<open>selection\<close> table the first \<open>max_instances\<close>.\<close>

definition draw_instances ::
    "load_surroundings \<Rightarrow> json_obj \<Rightarrow> json list \<Rightarrow> exn + json list \<times> instance_selection option" where
  "draw_instances e adapter population = (case dget adapter ''selection'' of
     JObj selection \<Rightarrow>
       bnd (select_random_instances (rank_sha e) (rank_hex e) population (dget adapter ''max_instances'')
              (dget selection ''seed'')) (\<lambda>(ids, drawn). Inr (map JStr ids, Some drawn))
   | _ \<Rightarrow> Inr (take (nat (int_of (dget adapter ''max_instances''))) population, None))"

definition selected_tasks :: "json \<Rightarrow> json list \<Rightarrow> json list" where
  "selected_tasks tasks ids = concat (map (\<lambda>i. case i of
     JStr s \<Rightarrow> (case map_of (tasks_by_id tasks) s of Some t \<Rightarrow> [t] | None \<Rightarrow> []) | _ \<Rightarrow> []) ids)"

definition select_course_adapter_instances ::
    "load_surroundings \<Rightarrow> json_obj \<Rightarrow> exn + json_obj \<times> instance_selection option" where
  "select_course_adapter_instances e raw = (case dget raw ''course'' of
     JObj course \<Rightarrow> (case dget course ''adapter'' of
       JObj adapter \<Rightarrow>
         if \<not> int_at_least 1 (dget adapter ''max_instances'') then Inr (raw, None)
         else (case instance_population course adapter of
           None \<Rightarrow> Inr (raw, None)
         | Some population \<Rightarrow>
             bnd (draw_instances e adapter population) (\<lambda>(ids, drawn).
             let adapter' = (case dget adapter ''instance_ids'' of
                   JList _ \<Rightarrow> AList.update ''instance_ids'' (JList ids) adapter | _ \<Rightarrow> adapter);
                 course' = (case dget course ''tasks'' of
                   JList _ \<Rightarrow> AList.update ''tasks'' (JList (selected_tasks (dget course ''tasks'') ids)) course
                 | _ \<Rightarrow> course)
             in Inr (AList.update ''course'' (JObj (AList.update ''adapter'' (JObj adapter') course')) raw, drawn)))
     | _ \<Rightarrow> Inr (raw, None))
   | _ \<Rightarrow> Inr (raw, None))"

section \<open>Course, vessels, comparisons\<close>

definition adapter_dataset_path :: "load_surroundings \<Rightarrow> json_obj \<Rightarrow> string" where
  "adapter_dataset_path e adapter =
     (let dataset = text_of e (dget adapter ''dataset'') in
      if text_of e (dget adapter ''kind'') \<noteq> ''custom-eval'' then dataset
      else resolved_path e (config_relative e dataset))"

definition parse_course_adapter ::
    "load_surroundings \<Rightarrow> json_obj \<Rightarrow> instance_selection option \<Rightarrow> exn + adapter option" where
  "parse_course_adapter e course drawn =
     (if \<not> has_key course ''adapter'' then Inr None
      else let adapter = obj (dget course ''adapter'') in
        bnd (texts e adapter ''instance_ids'') (\<lambda>ids.
        Inr (Some \<lparr>adapter_kind = text_of e (dget adapter ''kind''), adapter_dataset = adapter_dataset_path e adapter,
          adapter_split = text_of e (dget adapter ''split''), adapter_harness = text_of e (dget adapter ''harness''),
          adapter_instance_ids = ids, adapter_selection = drawn, adapter_start_date = opt_text e adapter ''start_date'',
          adapter_end_date = opt_text e adapter ''end_date''\<rparr>)))"

definition plain_task :: "string \<Rightarrow> string \<Rightarrow> course_task" where
  "plain_task i title = \<lparr>task_id = i, task_title = title, task_difficulty = 1, task_repo = None, task_repo_url = None,
     task_base_commit = None, task_problem_statement = None, task_expect_response = [], task_expect_tool_calls = []\<rparr>"

definition default_swe_bench_task :: "string \<Rightarrow> course_task" where
  "default_swe_bench_task i = plain_task i (''SWE-bench instance '' @ i)"

definition default_adapter_task :: "adapter \<Rightarrow> string \<Rightarrow> course_task" where
  "default_adapter_task a i =
     (if adapter_kind a = ''swe-bench'' then default_swe_bench_task i
      else plain_task i (adapter_kind a @ '' instance '' @ i))"

definition parse_course_task :: "load_surroundings \<Rightarrow> json_obj \<Rightarrow> exn + course_task" where
  "parse_course_task e task =
     bnd (texts e task ''expect_tool_calls'') (\<lambda>tool_calls.
     Inr \<lparr>task_id = text_of e (dget task ''id''), task_title = text_of e (dget task ''title''),
       task_difficulty = int_of (dget_default task ''difficulty'' (JInt 1)), task_repo = opt_text e task ''repo'',
       task_repo_url = opt_text e task ''repo_url'', task_base_commit = opt_text e task ''base_commit'',
       task_problem_statement = opt_text e task ''problem_statement'',
       task_expect_response = obj (dget_default task ''expect_response'' (JObj [])), task_expect_tool_calls = tool_calls\<rparr>)"

definition parse_course_tasks :: "load_surroundings \<Rightarrow> json_obj \<Rightarrow> adapter option \<Rightarrow> exn + course_task list" where
  "parse_course_tasks e course adapter =
     bnd (parse_list (parse_course_task e) course ''tasks'') (\<lambda>tasks.
     Inr (case adapter of
       None \<Rightarrow> tasks
     | Some a \<Rightarrow> if adapter_instance_ids a = [] then tasks
         else map (\<lambda>i. case map_of (rev (map (\<lambda>t. (task_id t, t)) tasks)) i of
                Some t \<Rightarrow> t | None \<Rightarrow> default_adapter_task a i) (adapter_instance_ids a)))"

definition parse_vessel :: "load_surroundings \<Rightarrow> json_obj \<Rightarrow> exn + vessel_config" where
  "parse_vessel e vessel = bnd (texts e vessel ''rigging'') (\<lambda>rigging.
     Inr \<lparr>vessel_name = text_of e (dget vessel ''name''), vessel_model = text_of e (dget vessel ''model''),
       vessel_rigging = rigging, vessel_runtime = opt_text e vessel ''runtime''\<rparr>)"

definition parse_baseline :: "load_surroundings \<Rightarrow> json_obj \<Rightarrow> baseline_reference option" where
  "parse_baseline e comparison = (case dget comparison ''baseline'' of
     JObj baseline \<Rightarrow> Some \<lparr>baseline_logbook = resolved_path e (config_relative e (text_of e (dget baseline ''logbook''))),
       baseline_vessel = text_of e (dget baseline ''vessel'')\<rparr>
   | _ \<Rightarrow> None)"

definition parse_comparison :: "load_surroundings \<Rightarrow> string \<Rightarrow> json_obj \<Rightarrow> exn + comparison_config" where
  "parse_comparison e course_name comparison = bnd (texts e comparison ''vessels'') (\<lambda>vessels.
     Inr \<lparr>comparison_name = text_of e (dget comparison ''name''),
       comparison_course = text_or e comparison ''course'' course_name, comparison_vessels = vessels,
       comparison_baseline = parse_baseline e comparison\<rparr>)"

text \<open>\<open>^[A-Za-z0-9][A-Za-z0-9._-]*$\<close> with \<open>match\<close>: \<open>$\<close> also accepts a final newline.\<close>

definition ARTIFACT_PATH_NAME :: "string \<Rightarrow> bool" where
  "ARTIFACT_PATH_NAME s =
     (let body = (if s \<noteq> [] \<and> last s = char_of (10 :: nat) then butlast s else s) in
      body \<noteq> [] \<and> is_ascii_alnum (hd body)
      \<and> list_all (\<lambda>c. is_ascii_alnum c \<or> c \<in> {CHR ''.'', CHR ''_'', CHR ''-''}) body)"

definition validate_artifact_path_name :: "string \<Rightarrow> string \<Rightarrow> exn + unit" where
  "validate_artifact_path_name field_name value =
     ensure (ARTIFACT_PATH_NAME value)
       (ConfigError (field_name @ '' '' @ py_repr value @ '' is used in logbook paths and must start with ''
          @ ''a letter or digit and contain only letters, digits, dots, underscores, or hyphens''))"

definition validate_artifact_path_names ::
    "course_task list \<Rightarrow> vessel_config list \<Rightarrow> comparison_config list \<Rightarrow> exn + unit" where
  "validate_artifact_path_names tasks vessels comparisons = checks [
     forR (\<lambda>t. validate_artifact_path_name ''course task id'' (task_id t)) tasks,
     forR (\<lambda>v. validate_artifact_path_name ''vessel name'' (vessel_name v)) vessels,
     forR (\<lambda>c. validate_artifact_path_name ''comparison name'' (comparison_name c)) comparisons]"

section \<open>Environment\<close>

definition parse_export :: "load_surroundings \<Rightarrow> json_obj \<Rightarrow> export_attribution option" where
  "parse_export e raw = (case dget raw ''export'' of
     JObj export \<Rightarrow> Some \<lparr>export_organization = text_of e (dget export ''source_organization_name''),
       export_relationship = text_of e (dget export ''evaluator_relationship''),
       export_url = opt_text e export ''source_organization_url'', export_source_name = opt_text e export ''source_name''\<rparr>
   | _ \<Rightarrow> None)"

definition parse_harness_install :: "load_surroundings \<Rightarrow> json_obj \<Rightarrow> harness_install option" where
  "parse_harness_install e declaration = (case dget declaration ''install'' of
     JObj install \<Rightarrow> Some \<lparr>install_sha256 = text_of e (dget install ''sha256''), install_url = opt_text e install ''url'',
       install_path = (if dget install ''path'' = JNull then None
                       else Some (resolved_path e (config_relative e (text_of e (dget install ''path'')))))\<rparr>
   | _ \<Rightarrow> None)"

definition parse_harness_declaration :: "load_surroundings \<Rightarrow> string \<Rightarrow> json_obj \<Rightarrow> exn + harness_declaration" where
  "parse_harness_declaration e name declaration = bnd (texts e declaration ''command'') (\<lambda>command.
     Inr \<lparr>declared_name = name, declared_prompt = text_or e declaration ''prompt'' ''argument'',
       declared_evidence = text_or e declaration ''evidence'' ''stdout'', declared_command = command,
       declared_install = parse_harness_install e declaration,
       declared_evidence_map = text_table e declaration ''evidence_map''\<rparr>)"

definition parse_secret :: "load_surroundings \<Rightarrow> string \<Rightarrow> json_obj \<Rightarrow> exn + secret_reference" where
  "parse_secret e _ secret = Inr \<lparr>secret_source = text_of e (dget secret ''source''),
     secret_env_name = opt_text e secret ''name'', secret_path = opt_text e secret ''path''\<rparr>"

definition parse_preflight_check :: "load_surroundings \<Rightarrow> json_obj \<Rightarrow> exn + preflight_check" where
  "parse_preflight_check e raw =
     bnd (texts e raw ''command'') (\<lambda>command.
     bnd (texts e raw ''env'') (\<lambda>env.
     bnd (texts e raw ''expect_tool_calls'') (\<lambda>tool_calls.
     bnd (texts e raw ''expect_response_contains'') (\<lambda>contains.
     Inr \<lparr>check_name = text_of e (dget raw ''name''), check_kind = text_of e (dget raw ''kind''),
       check_required = truthy (dget_default raw ''required'' (JBool True)), check_command = command, check_env = env,
       check_prompt = opt_text e raw ''prompt'', check_expect_tool_calls = tool_calls,
       check_expect_response_contains = contains\<rparr>))))"

definition parse_preflight_recipe :: "load_surroundings \<Rightarrow> json_obj \<Rightarrow> exn + preflight_recipe" where
  "parse_preflight_recipe e d =
     (let raw = obj (dget_default d ''preflight'' (JObj [])) in
      bnd (parse_list (parse_preflight_check e) raw ''checks'') (\<lambda>cs.
      Inr \<lparr>preflight_required = truthy (dget_default raw ''required'' (JBool True)), preflight_checks = cs\<rparr>))"

definition parse_runtime_harness :: "load_surroundings \<Rightarrow> json_obj \<Rightarrow> string option" where
  "parse_runtime_harness e runtime =
     (if has_key runtime ''harness'' then Some (text_of e (dget runtime ''harness'')) else opt_text e runtime ''agent'')"

definition parse_runtime_recipe :: "load_surroundings \<Rightarrow> string \<Rightarrow> json_obj \<Rightarrow> exn + runtime_recipe" where
  "parse_runtime_recipe e name runtime =
     bnd (texts e runtime ''command'') (\<lambda>command.
     bnd (texts e runtime ''required_secrets'') (\<lambda>secrets.
     bnd (texts e runtime ''mounts'') (\<lambda>mounts.
     bnd (parse_preflight_recipe e runtime) (\<lambda>preflight.
     Inr \<lparr>runtime_name = name, runtime_backend_name = text_of e (dget runtime ''backend''), runtime_command = command,
       runtime_harness = parse_runtime_harness e runtime, runtime_harness_version = opt_text e runtime ''harness_version'',
       runtime_flake = opt_text e runtime ''flake'', runtime_image = opt_text e runtime ''image'',
       runtime_container_home = text_or e runtime ''container_home'' ''/home/yacht'',
       runtime_container_workspace = text_or e runtime ''container_workspace'' ''/workspace'',
       runtime_env = text_table e runtime ''env'', runtime_required_secrets = secrets, runtime_mounts = mounts,
       runtime_preflight = preflight, runtime_agent = opt_text e runtime ''agent''\<rparr>))))"

section \<open>Riggings\<close>

definition parse_install_content :: "load_surroundings \<Rightarrow> json_obj \<Rightarrow> string \<Rightarrow> exn + string option" where
  "parse_install_content e step m =
     (let content = opt_text e step ''content'' in
      if m \<noteq> ''config-file'' \<and> m \<noteq> ''skill'' then Inr content
      else bnd (ensure (\<not> (content \<noteq> None \<and> has_key step ''source''))
                 (ConfigError (m @ '' install must not define both content and source''))) (\<lambda>_.
        if content \<noteq> None then Inr content
        else bnd (ensure (has_key step ''source'') (ConfigError (m @ '' install requires content or source''))) (\<lambda>_.
          let path = config_relative e (text_of e (dget step ''source'')) in case text_file e path of
            None \<Rightarrow> Inl (ConfigError (m @ '' install source not found: '' @ path))
          | Some s \<Rightarrow> Inr (Some s))))"

definition parse_skill_resource ::
    "load_surroundings \<Rightarrow> nat \<Rightarrow> (string \<times> string) list \<Rightarrow> json \<Rightarrow> exn + (string \<times> string) list" where
  "parse_skill_resource e index resources item =
     (let path = at_index ''skill install resources'' index in case item of
        JObj d \<Rightarrow> (case dget d ''path'' of
          JStr p \<Rightarrow>
            bnd (ensure (p \<noteq> []) (ConfigError (path @ ''.path must be a non-empty relative path''))) (\<lambda>_.
            bnd (ensure (take 1 p \<noteq> ''/'' \<and> ''..'' \<notin> set (parts (posix_path p)))
                   (ConfigError (path @ ''.path must be a relative path without '' @ py_repr ''..''))) (\<lambda>_.
            bnd (parse_install_content e d ''skill'') (\<lambda>content.
            Inr (resources @ [(p, case content of None \<Rightarrow> [] | Some c \<Rightarrow> c)]))))
        | _ \<Rightarrow> Inl (ConfigError (path @ ''.path must be a non-empty relative path'')))
      | _ \<Rightarrow> Inl (ConfigError (path @ '' must be an object'')))"

definition parse_skill_resources :: "load_surroundings \<Rightarrow> json \<Rightarrow> exn + (string \<times> string) list" where
  "parse_skill_resources e raw = (case raw of
     JList items \<Rightarrow> foldR (parse_skill_resource e) 0 [] items
   | _ \<Rightarrow> Inl (ConfigError ''skill install resources must be a list''))"

definition parse_rigging_install_step :: "load_surroundings \<Rightarrow> json \<Rightarrow> exn + rigging_step" where
  "parse_rigging_install_step e raw = (case raw of
     JStr s \<Rightarrow> Inr \<lparr>step_target = s, step_command = [], step_content = None, step_resources = [],
       step_method = ''agent-extension'', step_agent = None, step_runtime = None, step_package = None, step_source = None,
       step_legacy = True\<rparr>
   | _ \<Rightarrow>
       let step = obj raw; m = text_of e (dget step ''method'') in
       bnd (ensure (\<not> (has_key step ''resources'' \<and> m \<noteq> ''skill''))
              (ConfigError ''resources are only valid for skill installs'')) (\<lambda>_.
       bnd (texts e step ''command'') (\<lambda>command.
       bnd (parse_install_content e step m) (\<lambda>content.
       bnd (parse_skill_resources e (dget_default step ''resources'' (JList []))) (\<lambda>resources.
       Inr \<lparr>step_target = text_of e (dget step ''target''), step_command = command, step_content = content,
         step_resources = resources, step_method = m, step_agent = opt_text e step ''agent'',
         step_runtime = opt_text e step ''runtime'', step_package = opt_text e step ''package'',
         step_source = opt_text e step ''source'', step_legacy = False\<rparr>)))))"

definition parse_rigging_recipe :: "load_surroundings \<Rightarrow> string \<Rightarrow> json_obj \<Rightarrow> exn + rigging_recipe" where
  "parse_rigging_recipe e name rigging =
     bnd (texts e rigging ''tools'') (\<lambda>tools.
     bnd (iterate (dget_default rigging ''install'' (JList []))) (\<lambda>items.
     bnd (mapR (parse_rigging_install_step e) items) (\<lambda>install.
     bnd (texts e rigging ''required_secrets'') (\<lambda>secrets.
     bnd (parse_preflight_recipe e rigging) (\<lambda>preflight.
     Inr \<lparr>rigging_name = name, rigging_tools = tools, rigging_install = install, rigging_env = text_table e rigging ''env'',
       rigging_required_secrets = secrets, rigging_instructions = text_or e rigging ''instructions'' [],
       rigging_preflight = preflight\<rparr>)))))"

definition parse_provided :: "load_surroundings \<Rightarrow> json_obj \<Rightarrow> exn + string \<times> string" where
  "parse_provided e item = Inr (text_of e (dget item ''method''), text_of e (dget item ''harness''))"

definition parse_tool_capability :: "load_surroundings \<Rightarrow> string \<Rightarrow> json_obj \<Rightarrow> exn + tool_capability" where
  "parse_tool_capability e name tool =
     bnd (texts e tool ''interfaces'') (\<lambda>interfaces.
     bnd (texts e tool ''install_methods'') (\<lambda>methods.
     bnd (texts e tool ''expected_tool_calls'') (\<lambda>tool_calls.
     bnd (parse_list (parse_provided e) tool ''provides'') (\<lambda>provides.
     Inr \<lparr>capability_name = name, capability_kind = text_of e (dget tool ''kind''),
       capability_description = text_or e tool ''description'' [], capability_interfaces = interfaces,
       capability_install_methods = methods, capability_expected_tool_calls = tool_calls,
       capability_provides = provides\<rparr>))))"

definition parse_tool_capabilities :: "load_surroundings \<Rightarrow> json_obj \<Rightarrow> exn + (string \<times> tool_capability) list" where
  "parse_tool_capabilities e raw = bnd (parse_tables (parse_tool_capability e) raw ''tools'') (\<lambda>tools.
     Inr (foldl (\<lambda>d (name, tool). AList.update name tool d) BUILT_IN_TOOL_CAPABILITIES tools))"

section \<open>Loading\<close>

text \<open>\<open>validate_regatta_document\<close> with its error as \<open>ConfigError\<close>.\<close>

definition validated :: "json_obj \<Rightarrow> exn + unit" where
  "validated raw = (case validate_regatta_document (JObj raw) of
     Inl (SchemaError m) \<Rightarrow> Inl (ConfigError m) | r \<Rightarrow> r)"

text \<open>The records of a document validated for the third time.\<close>

definition parse_regatta :: "load_surroundings \<Rightarrow> json_obj \<Rightarrow> instance_selection option \<Rightarrow> exn + regatta" where
  "parse_regatta e raw drawn =
     (let course = obj (dget raw ''course''); course_name = text_of e (dget course ''name'') in
      bnd (parse_course_adapter e course drawn) (\<lambda>adapter.
      bnd (parse_course_tasks e course adapter) (\<lambda>tasks.
      bnd (parse_list (parse_vessel e) raw ''vessels'') (\<lambda>vessels.
      bnd (parse_list (parse_comparison e course_name) raw ''comparisons'') (\<lambda>comparisons.
      bnd (validate_artifact_path_names tasks vessels comparisons) (\<lambda>_.
      bnd (parse_tables (parse_secret e) raw ''secrets'') (\<lambda>secrets.
      bnd (parse_tables (parse_runtime_recipe e) raw ''runtimes'') (\<lambda>runtimes.
      bnd (parse_tables (parse_rigging_recipe e) raw ''riggings'') (\<lambda>riggings.
      bnd (parse_tool_capabilities e raw) (\<lambda>tools.
      bnd (parse_tables (parse_harness_declaration e) raw ''harnesses'') (\<lambda>harnesses.
      Inr \<lparr>regatta_name = text_of e (dget (obj (dget raw ''regatta'')) ''name''),
        regatta_course = \<lparr>course_config_name = course_name, course_tasks = tasks, course_adapter_config = adapter\<rparr>,
        regatta_vessels = vessels,
        regatta_failure_policy = text_or e (obj (dget_default raw ''preflight'' (JObj []))) ''failure_policy'' ''abort-group'',
        regatta_comparisons = comparisons, regatta_secrets = secrets, regatta_runtimes = runtimes,
        regatta_riggings = riggings, regatta_tools = tools, regatta_harnesses = harnesses,
        regatta_export = parse_export e raw\<rparr>)))))))))))"

definition load_regatta :: "load_surroundings \<Rightarrow> json_obj \<Rightarrow> exn + regatta" where
  "load_regatta e document =
     bnd (validated document) (\<lambda>_.
     bnd (expand_course_task_file e document) (\<lambda>with_tasks.
     bnd (expand_course_adapter_instance_files e with_tasks) (\<lambda>expanded.
     bnd (validated expanded) (\<lambda>_.
     bnd (select_course_adapter_instances e expanded) (\<lambda>(raw, drawn).
     bnd (validated raw) (\<lambda>_.
     parse_regatta e raw drawn))))))"

end
