(* ===== verification/JobRender.thy ===== *)
theory JobRender
  imports Domain TaskPlans ArtifactSchemas
begin

text \<open>
  \<open>src/yacht/courses/terminal_bench/job.py\<close>: the Terminal-Bench job the host renders for one
  vessel from a loaded regatta, the task directories, the riggings and the runtime, and hands to
  the launcher container. The job is validated before it is returned.

  \<open>surroundings\<close> holds what rendering reads besides the regatta: the task directories, the files
  of the dataset directory, the hexadecimal SHA-256, \<open>json.dumps\<close> of a configuration file and
  \<open>str\<close> of a value that is not a string.
\<close>

record job_surroundings =
  task_directory_of :: "string \<Rightarrow> string \<Rightarrow> task_directory"
  dataset_files :: "string \<Rightarrow> directory_files"
  sha_hex :: "bytes \<Rightarrow> string"
  dumps :: "json \<Rightarrow> string"
  str_value :: "json \<Rightarrow> string"

section \<open>Tables\<close>

definition HARBOR_AGENT_BY_HARNESS :: "(string \<times> string) list" where
  "HARBOR_AGENT_BY_HARNESS =
     [(''claude-code'', ''yacht_harbor_agents.agents:YachtClaudeCode''),
      (''codex'', ''yacht_harbor_agents.agents:YachtCodex''),
      (''omp'', ''yacht_harbor_agents.agents:YachtOmp''),
      (''pi'', ''yacht_harbor_agents.agents:YachtPi'')]"

definition SUPPORTED_RIGGING_INSTALL_METHODS :: "string list" where
  "SUPPORTED_RIGGING_INSTALL_METHODS = [''agent-extension'', ''config-file'', ''mcp-server'', ''package'', ''skill'']"

definition MAX_TURNS_PLACEHOLDER :: string where
  "MAX_TURNS_PLACEHOLDER = ''{max_turns}''"

definition MAX_TURNS_ENFORCING_HARNESSES :: "string list" where
  "MAX_TURNS_ENFORCING_HARNESSES = [''claude-code'']"

section \<open>Package pins\<close>

definition is_word :: "char \<Rightarrow> bool" where
  "is_word c = (is_ascii_alnum c \<or> c = CHR ''_''
     \<or> code_point c \<in> {170, 178, 179, 181, 185, 186, 188, 189, 190}
     \<or> 192 \<le> code_point c \<and> code_point c \<noteq> 215 \<and> code_point c \<noteq> 247)"

text \<open>\<open>\<d>+(?:\.\<d>+)+(?:[-+][\w.-]+)?\<close>, the whole string.\<close>

definition is_version :: "string \<Rightarrow> bool" where
  "is_version s =
     (let numeric = (\<lambda>c. is_digit c \<or> c = CHR ''.'');
          numbers = split_on CHR ''.'' (takeWhile numeric s)
      in 2 \<le> length numbers \<and> list_all (\<lambda>n. n \<noteq> []) numbers
         \<and> (case dropWhile numeric s of
              [] \<Rightarrow> True
            | c # label \<Rightarrow> (c = CHR ''-'' \<or> c = CHR ''+'') \<and> label \<noteq> []
                \<and> list_all (\<lambda>x. is_word x \<or> x = CHR ''.'' \<or> x = CHR ''-'') label))"

text \<open>\<open>_PACKAGE_PIN.search\<close>: \<open>@\<close> and a version at the end, or before a final newline.\<close>

definition PACKAGE_PIN :: "string \<Rightarrow> bool" where
  "PACKAGE_PIN s = list_ex (\<lambda>i. s ! i = CHR ''@'' \<and>
     (let tail = drop (Suc i) s in
      is_version tail \<or> tail \<noteq> [] \<and> last tail = char_of (10 :: nat) \<and> is_version (butlast tail))) [0..<length s]"

definition contains_text :: "string \<Rightarrow> string \<Rightarrow> bool" where
  "contains_text needle s = list_ex (\<lambda>i. take (length needle) (drop i s) = needle) [0..<Suc (length s)]"

section \<open>Parts of a vessel\<close>

definition vessel_of :: "regatta \<Rightarrow> string \<Rightarrow> exn + vessel_config" where
  "vessel_of r name = (case find (\<lambda>v. vessel_name v = name) (regatta_vessels r) of
     Some v \<Rightarrow> Inr v
   | None \<Rightarrow> Inl (ConfigError (''vessel '' @ name @ '' is not defined in the regatta config'')))"

definition runtime_of :: "regatta \<Rightarrow> vessel_config \<Rightarrow> exn + runtime_recipe" where
  "runtime_of r v = (case vessel_runtime v of
     None \<Rightarrow> Inl (ConfigError (''vessel '' @ vessel_name v @ '' must declare a runtime for terminal-bench''))
   | Some name \<Rightarrow> (case map_of (regatta_runtimes r) name of
       None \<Rightarrow> Inl (ConfigError (''vessel '' @ vessel_name v @ '' references undefined runtime '' @ name))
     | Some recipe \<Rightarrow> Inr recipe))"

definition rigging_of :: "regatta \<Rightarrow> vessel_config \<Rightarrow> string \<Rightarrow> exn + rigging_recipe" where
  "rigging_of r v name = (case map_of (regatta_riggings r) name of
     None \<Rightarrow> Inl (ConfigError (''vessel '' @ vessel_name v @ '' references undefined rigging '' @ name))
   | Some recipe \<Rightarrow> Inr recipe)"

definition harness_name :: "runtime_recipe \<Rightarrow> exn + string" where
  "harness_name t = (case runtime_harness t of
     None \<Rightarrow> Inl (ConfigError (''runtime '' @ runtime_name t @ '' must declare a harness for terminal-bench''))
   | Some h \<Rightarrow> Inr h)"

definition harness_version :: "runtime_recipe \<Rightarrow> exn + string" where
  "harness_version t = (case runtime_harness_version t of
     None \<Rightarrow> Inl (ConfigError (''runtime '' @ runtime_name t @ '' must pin harness_version for terminal-bench''))
   | Some v \<Rightarrow> Inr v)"

definition launcher_image :: "runtime_recipe \<Rightarrow> exn + string" where
  "launcher_image t = (case runtime_image t of
     None \<Rightarrow> Inl (ConfigError (''runtime '' @ runtime_name t @ '' must declare the harbor launcher image''))
   | Some i \<Rightarrow> Inr i)"

definition harbor_agent :: "regatta \<Rightarrow> runtime_recipe \<Rightarrow> exn + string" where
  "harbor_agent r t = bnd (harness_name t) (\<lambda>harness.
     case map_of HARBOR_AGENT_BY_HARNESS harness of
       Some agent \<Rightarrow> Inr agent
     | None \<Rightarrow>
         if map_of (regatta_harnesses r) harness \<noteq> None then Inr ''yacht_harbor_agents.agents:YachtDeclared''
         else Inl (ConfigError (''terminal-bench does not support harness '' @ harness @ '' yet; supported harnesses: ''
                @ join '', '' (sorted_set (map fst HARBOR_AGENT_BY_HARNESS))
                @ '', or a harness declared in the config'')))"

definition declaration_payload :: "regatta \<Rightarrow> runtime_recipe \<Rightarrow> exn + json option" where
  "declaration_payload r t = bnd (harness_name t) (\<lambda>harness.
     if map_of HARBOR_AGENT_BY_HARNESS harness \<noteq> None then Inr None
     else (case map_of (regatta_harnesses r) harness of
       None \<Rightarrow> Inr None
     | Some d \<Rightarrow>
         bnd (ensure (declared_command d \<noteq> [])
           (ConfigError (''declared harness '' @ harness @ '' must set command to run on a harbor course''))) (\<lambda>_.
         (case declared_install d of
            None \<Rightarrow> Inl (ConfigError (''declared harness '' @ harness
                     @ '' must set a pinned install (url or path + sha256) to run on a harbor course''))
          | Some i \<Rightarrow> Inr (Some (JObj
              ([(''name'', JStr (declared_name d)), (''prompt'', JStr (declared_prompt d)),
                (''evidence'', JStr (declared_evidence d)), (''command'', JList (map JStr (declared_command d))),
                (''install'', JObj ([(''sha256'', JStr (install_sha256 i))]
                   @ opt_field ''url'' (install_url i) @ opt_field ''path'' (install_path i)))]
               @ (if declared_evidence_map d = [] then []
                  else [(''evidence_map'', JObj (map (\<lambda>(k, v). (k, JStr v)) (declared_evidence_map d)))]))))))))"

definition secret_env_name_of :: "regatta \<Rightarrow> string \<Rightarrow> exn + string" where
  "secret_env_name_of r name = (case map_of (regatta_secrets r) name of
     None \<Rightarrow> Inl (ConfigError (''required secret '' @ name @ '' is not defined in the config''))
   | Some s \<Rightarrow> (case (secret_source s = ''env'', secret_env_name s) of
       (True, Some n) \<Rightarrow> Inr n
     | _ \<Rightarrow> Inl (ConfigError (''terminal-bench supports env-source secrets only; secret '' @ name
              @ '' uses source '' @ secret_source s))))"

definition secret_env :: "regatta \<Rightarrow> runtime_recipe \<Rightarrow> rigging_recipe list \<Rightarrow> exn + string list" where
  "secret_env r t riggings =
     mapR (secret_env_name_of r)
       (dedup (runtime_required_secrets t @ concat (map rigging_required_secrets riggings)))"

text \<open>All riggings' entries in order, each with its rigging.\<close>

definition with_rigging :: "(rigging_recipe \<Rightarrow> 'a list) \<Rightarrow> rigging_recipe list \<Rightarrow> (rigging_recipe \<times> 'a) list" where
  "with_rigging f riggings = concat (map (\<lambda>g. map (\<lambda>x. (g, x)) (f g)) riggings)"

definition env_step ::
    "nat \<Rightarrow> (string \<times> string) list \<Rightarrow> rigging_recipe \<times> string \<times> string \<Rightarrow> exn + (string \<times> string) list" where
  "env_step _ env = (\<lambda>(g, key, v).
     bnd (ensure (map_of env key = None \<or> map_of env key = Some v)
       (ConfigError (''rigging '' @ rigging_name g @ '' sets conflicting env value for '' @ key))) (\<lambda>_.
     Inr (AList.update key v env)))"

definition agent_env :: "rigging_recipe list \<Rightarrow> exn + (string \<times> string) list" where
  "agent_env riggings = foldR env_step 0 [] (with_rigging rigging_env riggings)"

definition require_supported_method :: "rigging_recipe \<Rightarrow> rigging_step \<Rightarrow> exn + unit" where
  "require_supported_method g s =
     ensure (step_method s \<in> set SUPPORTED_RIGGING_INSTALL_METHODS)
       (ConfigError (''rigging '' @ rigging_name g @ '' install method '' @ step_method s
          @ '' is not supported for terminal-bench yet; supported methods: ''
          @ join '', '' SUPPORTED_RIGGING_INSTALL_METHODS))"

text \<open>State: the servers and the names seen.\<close>

definition mcp_server_step ::
    "bool \<Rightarrow> nat \<Rightarrow> json list \<times> string list \<Rightarrow> rigging_recipe \<times> rigging_step \<Rightarrow> exn + json list \<times> string list" where
  "mcp_server_step native _ = (\<lambda>(servers, seen) (g, s).
     bnd (require_supported_method g s) (\<lambda>_.
     if step_method s \<noteq> ''mcp-server'' then Inr (servers, seen)
     else
       bnd (ensure (step_command s \<noteq> [])
         (ConfigError (''rigging '' @ rigging_name g @ '' mcp-server '' @ step_target s @ '' must declare a command''))) (\<lambda>_.
       bnd (ensure (step_target s \<notin> set seen)
         (ConfigError (''rigging '' @ rigging_name g @ '' declares duplicate mcp-server '' @ step_target s))) (\<lambda>_.
       Inr (if native then servers @ [JObj [(''name'', JStr (step_target s)), (''command'', JStr (hd (step_command s))),
                                       (''args'', JList (map JStr (tl (step_command s))))]] else servers,
            seen @ [step_target s])))))"

definition mcp_servers :: "rigging_recipe list \<Rightarrow> string \<Rightarrow> exn + json list" where
  "mcp_servers riggings harness =
     bnd (foldR (mcp_server_step (supports_mcp_server_installs (Some harness))) 0 ([], [])
            (with_rigging rigging_install riggings)) (\<lambda>(servers, _). Inr servers)"

section \<open>Rigging steps\<close>

record sorted_steps =
  plain_steps :: "json list"
  mcp_steps :: "(string \<times> install_step) list"
  skill_steps :: "(string \<times> install_step) list"

definition config_file :: "string \<Rightarrow> string \<Rightarrow> json_obj" where
  "config_file target content =
     [(''method'', JStr ''config-file''), (''target'', JStr target), (''content'', JStr content)]"

definition check_pin :: "rigging_recipe \<Rightarrow> string \<Rightarrow> rigging_step \<Rightarrow> exn + unit" where
  "check_pin g harness s = checks [
     run_if (step_method s = ''package'') (ensure (PACKAGE_PIN (step_target s))
       (ConfigError (''rigging '' @ rigging_name g @ '' package '' @ step_target s
          @ '' must pin a version for terminal-bench''))),
     run_if (step_method s = ''agent-extension'') (checks [
       ensure (step_agent s = Some harness)
         (ConfigError (''rigging '' @ rigging_name g @ '' agent-extension '' @ step_target s @ '' targets agent ''
            @ (case step_agent s of None \<Rightarrow> ''None'' | Some a \<Rightarrow> a) @ '', but runtime harness is '' @ harness)),
       ensure (take 4 (step_target s) = ''npm:'')
         (ConfigError (''rigging '' @ rigging_name g @ '' agent-extension '' @ step_target s
            @ '' must use the npm: prefix for terminal-bench'')),
       ensure (PACKAGE_PIN (step_target s))
         (ConfigError (''rigging '' @ rigging_name g @ '' agent-extension '' @ step_target s
            @ '' must pin a version for terminal-bench''))])]"

definition sort_step ::
    "string \<Rightarrow> bool \<Rightarrow> bool \<Rightarrow> nat \<Rightarrow> sorted_steps \<Rightarrow> rigging_recipe \<times> rigging_step \<Rightarrow> exn + sorted_steps" where
  "sort_step harness native provided _ acc = (\<lambda>(g, s).
     bnd (require_supported_method g s) (\<lambda>_.
     if step_method s = ''mcp-server'' then
       (if native then Inr acc
        else bnd (ensure provided (ConfigError (''runtime harness '' @ harness
               @ '' does not support rigging install method mcp-server and no rigged tool provides it''))) (\<lambda>_.
             Inr (acc\<lparr>mcp_steps := mcp_steps acc @ [(rigging_name g, install_step.truncate s)]\<rparr>)))
     else if step_method s = ''skill'' then
       Inr (acc\<lparr>skill_steps := skill_steps acc @ [(rigging_name g, install_step.truncate s)]\<rparr>)
     else bnd (check_pin g harness s) (\<lambda>_.
       Inr (acc\<lparr>plain_steps := plain_steps acc @ [JObj (step_to_json s)]\<rparr>))))"

text \<open>\<open>except SkillConfigError\<close>: re-raised as \<open>ConfigError\<close>.\<close>

definition skill_as_config_error :: "exn + 'a \<Rightarrow> exn + 'a" where
  "skill_as_config_error r = (case r of Inl (SkillError m) \<Rightarrow> Inl (ConfigError m) | _ \<Rightarrow> r)"

definition skill_files :: "skill_install_render \<Rightarrow> json list" where
  "skill_files render =
     map (\<lambda>(target, content). JObj (config_file target content)) (skill_resources render)
     @ [JObj (config_file (skill_target render) (skill_content render)
          @ [(''content_digest'', JStr (skill_digest render))])]"

definition rigging_steps ::
    "job_surroundings \<Rightarrow> rigging_recipe list \<Rightarrow> string \<Rightarrow> mcp_install_provider option \<Rightarrow> exn + json list" where
  "rigging_steps e riggings harness provider =
     bnd (foldR (sort_step harness (supports_mcp_server_installs (Some harness)) (provider \<noteq> None)) 0
            \<lparr>plain_steps = [], mcp_steps = [], skill_steps = []\<rparr> (with_rigging rigging_install riggings)) (\<lambda>acc.
     bnd (case (mcp_steps acc, provider) of
            (_ # _, Some p) \<Rightarrow> bnd (render_provider_mcp_config p (mcp_steps acc)) (\<lambda>render.
              Inr [JObj (config_file (render_target render) (dumps e (render_content render)))])
          | _ \<Rightarrow> Inr []) (\<lambda>mcp_files.
     bnd (if skill_steps acc = [] then Inr []
          else bnd (skill_as_config_error (render_skill_installs (sha_hex e) (Some harness) (skill_steps acc)))
                 (\<lambda>renders. Inr (concat (map skill_files renders)))) (\<lambda>skills.
     Inr (plain_steps acc @ mcp_files @ skills))))"

section \<open>Plans of the tasks\<close>

text \<open>\<open>plans[task_id] = plan\<close> for every task that has one.\<close>

definition collect_plans :: "(string \<Rightarrow> exn + json option) \<Rightarrow> string list \<Rightarrow> exn + json_obj" where
  "collect_plans render tasks = foldR (\<lambda>_ plans task. bnd (render task) (\<lambda>plan.
     Inr (case plan of None \<Rightarrow> plans | Some p \<Rightarrow> AList.update task p plans))) 0 [] tasks"

definition enforces_max_turns :: "string \<Rightarrow> (string \<times> harness_declaration) list \<Rightarrow> string \<Rightarrow> bool" where
  "enforces_max_turns harness declarations version =
     (harness \<in> set MAX_TURNS_ENFORCING_HARNESSES \<or> supports_controlled_execution harness version
      \<or> (case map_of declarations harness of
           None \<Rightarrow> False | Some d \<Rightarrow> list_ex (contains_text MAX_TURNS_PLACEHOLDER) (declared_command d)))"

definition capped_tasks :: "json_obj \<Rightarrow> string list" where
  "capped_tasks plans = sort (map fst (filter (\<lambda>(_, plan). dget (obj plan) ''max_turns'' \<noteq> JNull) plans))"

definition reject_unenforceable_max_turns ::
    "json_obj \<Rightarrow> string \<Rightarrow> (string \<times> harness_declaration) list \<Rightarrow> string \<Rightarrow> exn + unit" where
  "reject_unenforceable_max_turns plans harness declarations version =
     (if enforces_max_turns harness declarations version \<or> capped_tasks plans = [] then Inr ()
      else
        let remedies = ''remove max_turns from the task, cap the episode with timeout_seconds instead, or run the ''
              @ ''comparison on a harness that enforces a turn cap (''
              @ join '', '' (sorted_set MAX_TURNS_ENFORCING_HARNESSES) @ '')'';
            added = (if map_of declarations harness \<noteq> None
                     then ''add '' @ MAX_TURNS_PLACEHOLDER @ '' to the declared command for '' @ harness
                       @ '' so the cap is passed through, or '' else [])
        in Inl (ConfigError (''episodic max_turns is not enforceable on the '' @ harness
             @ '' harness and would be silently ignored: '' @ join '', '' (capped_tasks plans) @ ''; '' @ added @ remedies)))"

definition episode_plans ::
    "job_surroundings \<Rightarrow> adapter \<Rightarrow> string list \<Rightarrow> string \<Rightarrow> (string \<times> harness_declaration) list
       \<Rightarrow> string \<Rightarrow> exn + json_obj" where
  "episode_plans e a tasks harness declarations version =
     (if adapter_kind a \<noteq> ''custom-eval'' then Inr []
      else
        bnd (collect_plans (\<lambda>t. render_episode_plan (task_directory_of e (adapter_dataset a) t)) tasks) (\<lambda>plans.
        bnd (ensure (\<not> (plans \<noteq> [] \<and> harness = ''pi''))
          (ConfigError (''episodic tasks are not supported on the pi harness yet: ''
             @ join '', '' (sort (map fst plans))))) (\<lambda>_.
        bnd (reject_unenforceable_max_turns plans harness declarations version) (\<lambda>_. Inr plans))))"

definition execution_plans :: "job_surroundings \<Rightarrow> adapter \<Rightarrow> string list \<Rightarrow> exn + json_obj" where
  "execution_plans e a tasks =
     (if adapter_kind a \<noteq> ''custom-eval'' then Inr []
      else collect_plans (\<lambda>t. render_execution_plan (str_value e) (task_directory_of e (adapter_dataset a) t)) tasks)"

definition reject_unsupported_execution :: "string \<Rightarrow> string \<Rightarrow> exn + unit" where
  "reject_unsupported_execution harness version =
     ensure (supports_controlled_execution harness version)
       (ConfigError (''task [execution] is not supported on the '' @ harness @ '' harness (version '' @ version
          @ '') and would be silently ignored; controlled execution requires omp '' @ CONTROLLED_OMP_VERSION))"

definition job_dataset :: "job_surroundings \<Rightarrow> adapter \<Rightarrow> exn + json" where
  "job_dataset e a =
     (if adapter_kind a = ''custom-eval''
      then bnd (task_directory_digest (sha_hex e) (str_path (adapter_dataset a))
                  (dataset_files e (adapter_dataset a))) (\<lambda>digest.
        Inr (JObj [(''path'', JStr (str_path (adapter_dataset a))), (''digest'', JStr digest)]))
      else Inr (JObj [(''name'', JStr (adapter_dataset a)), (''version'', JStr (adapter_split a))]))"

section \<open>The job\<close>

definition agent_payload ::
    "string \<Rightarrow> string \<Rightarrow> string \<Rightarrow> string \<Rightarrow> (string \<times> string) list \<Rightarrow> json list \<Rightarrow> json list
       \<Rightarrow> json option \<Rightarrow> json_obj \<Rightarrow> json_obj \<Rightarrow> json_obj" where
  "agent_payload harness import_path version model env servers steps declaration episodes execution =
     [(''name'', JStr harness), (''import_path'', JStr import_path), (''version'', JStr version),
      (''model'', JStr model), (''env'', JObj (map (\<lambda>(k, x). (k, JStr x)) env)),
      (''mcp_servers'', JList servers), (''rigging_steps'', JList steps)]
     @ (case declaration of None \<Rightarrow> [] | Some d \<Rightarrow> [(''declaration'', d)])
     @ (if episodes = [] then [] else [(''episodes'', JObj episodes)])
     @ (if execution = [] then [] else [(''execution'', JObj execution)])"

definition job_agent ::
    "job_surroundings \<Rightarrow> regatta \<Rightarrow> adapter \<Rightarrow> vessel_config \<Rightarrow> runtime_recipe \<Rightarrow> rigging_recipe list
       \<Rightarrow> string \<Rightarrow> string \<Rightarrow> string list \<Rightarrow> exn + json_obj" where
  "job_agent e r a v t riggings harness version tasks =
     bnd (harbor_agent r t) (\<lambda>import_path.
     bnd (agent_env riggings) (\<lambda>env.
     bnd (mcp_servers riggings harness) (\<lambda>servers.
     bnd (rigging_steps e riggings harness
            (provided_mcp_install_provider (Some harness) (map rigging_tools riggings) (Some (regatta_tools r)))) (\<lambda>steps.
     bnd (declaration_payload r t) (\<lambda>declaration.
     bnd (episode_plans e a tasks harness (regatta_harnesses r) version) (\<lambda>episodes.
     bnd (execution_plans e a tasks) (\<lambda>execution.
     bnd (run_if (execution \<noteq> []) (reject_unsupported_execution harness version)) (\<lambda>_.
     Inr (agent_payload harness import_path version (vessel_model v) env servers steps declaration episodes execution)))))))))"

definition render_terminal_bench_job :: "job_surroundings \<Rightarrow> regatta \<Rightarrow> string \<Rightarrow> exn + json" where
  "render_terminal_bench_job e r name = (case course_adapter_config (regatta_course r) of
     None \<Rightarrow> Inl (ConfigError ''terminal-bench job requires course.adapter'')
   | Some a \<Rightarrow>
       bnd (vessel_of r name) (\<lambda>v.
       bnd (runtime_of r v) (\<lambda>t.
       bnd (mapR (rigging_of r v) (vessel_rigging v)) (\<lambda>riggings.
       bnd (harness_name t) (\<lambda>harness.
       bnd (harness_version t) (\<lambda>version.
       let tasks = map task_id (course_tasks (regatta_course r)) in
       bnd (job_agent e r a v t riggings harness version tasks) (\<lambda>agent.
       bnd (job_dataset e a) (\<lambda>dataset.
       bnd (launcher_image t) (\<lambda>image.
       bnd (secret_env r t riggings) (\<lambda>secrets.
       let job = JObj [(''schema'', JStr ''yacht.terminal-bench-job.v1''), (''dataset'', dataset),
             (''tasks'', JList (map JStr tasks)), (''agent'', JObj agent), (''launcher_image'', JStr image),
             (''secret_env'', JList (map JStr secrets)), (''vessel'', JStr (vessel_name v))]
       in bnd (validate_terminal_bench_job_document job) (\<lambda>_. Inr job)))))))))))"

end
