(* ===== verification/JobProperties.thy ===== *)
theory JobProperties
  imports JobRender
begin

text \<open>
  Properties of the rendered Terminal-Bench job: what the renderers guarantee is what the job
  contract checks, and no declaration of the vessel is dropped.
\<close>

section \<open>Exceptions other than schema errors\<close>

definition not_schema :: "exn \<Rightarrow> bool" where
  "not_schema e \<longleftrightarrow> \<not> is_schema_error e"

lemma not_schema_simps [simp]:
  "not_schema (ConfigError m)" "not_schema (ContractError m)" "not_schema (SkillError m)" "not_schema (McpError m)"
  "not_schema (TypeError m)" "\<not> not_schema (SchemaError m)"
  by (simp_all add: not_schema_def is_schema_error_def)

lemma not_schema_weaken:
  "raises_only (\<lambda>e. \<exists>m. e = ContractError m) r \<Longrightarrow> raises_only not_schema r"
  by (auto simp: raises_only_def)

lemmas contract_not_schema [raises] =
  contract_checks [THEN not_schema_weaken] plan_parts_raise [THEN not_schema_weaken]

lemma in_strings_not_schema [raises]: "raises_only not_schema (in_strings v names)"
  by (cases v) (simp_all add: in_strings_def raises_only_def unhashable_def)

lemma plan_not_schema [raises]: "raises_only not_schema (validate_execution_plan v)"
  unfolding validate_execution_plan_def by (intro raises; simp)

lemma config_error_not_schema [raises]:
  assumes "raises_only not_schema r"
  shows "raises_only not_schema (as_config_error prefix r)"
proof (cases r)
  case (Inl e)
  with assms show ?thesis by (cases e) (simp_all add: as_config_error_def raises_only_def)
qed (simp add: as_config_error_def raises_only_def)

lemma toml_not_schema [raises]: "raises_only not_schema (load_task_toml t)"
  by (simp add: load_task_toml_def raises_only_def split: option.split sum.split)

lemma normalize_not_schema [raises]:
  "raises_only not_schema (normalize_turn i ts item)"
  "raises_only not_schema (normalize_capture str i ts item)"
  unfolding normalize_turn_def normalize_capture_def Let_def by (intro raises; simp)+

lemma normalize_lists_not_schema [raises]:
  "raises_only not_schema (normalize_turns v)" "raises_only not_schema (normalize_captures str v)"
  unfolding normalize_turns_def normalize_captures_def by (intro raises; simp)+

lemma normalize_table_not_schema [raises]: "raises_only not_schema (normalize_execution_table str table)"
  unfolding normalize_execution_table_def Let_def by (intro raises; simp)

lemma execution_not_schema [raises]: "raises_only not_schema (render_execution_plan str t)"
  unfolding render_execution_plan_def by (intro raises; simp)

lemma episode_parts_not_schema [raises]:
  "raises_only not_schema (episodes_table t)" "raises_only not_schema (delta_step t i d item)"
  "raises_only not_schema (require_contiguous deltas m t)" "raises_only not_schema (positive_int table key t required)"
  unfolding episodes_table_def delta_step_def require_contiguous_def positive_int_def Let_def
  by (intro raises; simp)+

lemma episode_not_schema [raises]:
  "raises_only not_schema (delta_texts t)" "raises_only not_schema (render_relay t table deltas m)"
  unfolding delta_texts_def render_relay_def by (intro raises; simp)+

lemma episode_plan_not_schema [raises]: "raises_only not_schema (render_episode_plan t)"
  unfolding render_episode_plan_def Let_def by (intro raises; simp)

lemma skill_not_schema [raises]: "raises_only not_schema (skill_as_config_error (render_skill_installs sha h steps))"
proof -
  have "raises_only (\<lambda>e. \<exists>m. e = SkillError m) (render_skill_installs sha h steps)"
    unfolding render_skill_installs_def render_skill_step_def Let_def
    by (intro raises resource_paths_raise; simp)
  then show ?thesis by (auto simp: raises_only_def skill_as_config_error_def split: sum.splits exn.splits)
qed

lemma parts_not_schema [raises]:
  "raises_only not_schema (vessel_of r n)" "raises_only not_schema (runtime_of r v)"
  "raises_only not_schema (rigging_of r v n)" "raises_only not_schema (harness_name t)"
  "raises_only not_schema (harness_version t)" "raises_only not_schema (launcher_image t)"
  "raises_only not_schema (secret_env_name_of r n)" "raises_only not_schema (env_step i env x)"
  "raises_only not_schema (require_supported_method g s)" "raises_only not_schema (check_pin g h s)"
  "raises_only not_schema (reject_unsupported_execution h version)" "raises_only not_schema (job_dataset e a)"
  "raises_only not_schema (render_provider_mcp_config p steps)"
  unfolding vessel_of_def runtime_of_def rigging_of_def harness_name_def harness_version_def launcher_image_def
    secret_env_name_of_def env_step_def require_supported_method_def check_pin_def reject_unsupported_execution_def
    job_dataset_def task_directory_digest_def render_provider_mcp_config_def mcp_servers_from_steps_def mcp_step_def
  by (intro raises; simp split: list.split bool.split option.split add: raises_only_def)+

section \<open>Rendered plans are accepted\<close>

lemma collect_plans_sound:
  assumes "collect_plans render tasks = Inr plans"
  shows "\<forall>(task, plan)\<in>set plans. task \<in> set tasks \<and> render task = Inr (Some plan)"
proof -
  have "foldR (\<lambda>_ plans task. bnd (render task) (\<lambda>plan.
     Inr (case plan of None \<Rightarrow> plans | Some p \<Rightarrow> AList.update task p plans))) 0 [] tasks = Inr plans"
    using assms by (simp add: collect_plans_def)
  then show ?thesis
  proof (rule foldR_invariant [where P = "\<lambda>_ ps. \<forall>(task, plan)\<in>set ps. task \<in> set tasks \<and> render task = Inr (Some plan)"])
    fix j ps ps'
    assume j: "j < length tasks" and ps: "\<forall>(task, plan)\<in>set ps. task \<in> set tasks \<and> render task = Inr (Some plan)"
      and step: "bnd (render (tasks ! j)) (\<lambda>plan.
        Inr (case plan of None \<Rightarrow> ps | Some p \<Rightarrow> AList.update (tasks ! j) p ps)) = Inr ps'"
    then obtain plan where r: "render (tasks ! j) = Inr plan"
      and ps': "ps' = (case plan of None \<Rightarrow> ps | Some p \<Rightarrow> AList.update (tasks ! j) p ps)"
      by (auto simp: bnd_eq_Inr)
    show "\<forall>(task, plan)\<in>set ps'. task \<in> set tasks \<and> render task = Inr (Some plan)"
    proof (cases plan)
      case (Some p)
      with ps' have "set ps' \<subseteq> insert (tasks ! j, p) (set ps)" using set_update_subset by fastforce
      with ps r Some j show ?thesis by auto
    qed (use ps ps' in simp)
  qed simp
qed

lemma episode_instructions_nonblank:
  assumes "\<forall>e\<in>set deltas. delta_ok e" and "strip ci \<noteq> []" and "s \<in> set (episode_instructions deltas ci m)"
  shows "s \<noteq> []"
proof -
  obtain k where s: "s = (case map_of deltas k of None \<Rightarrow> ci | Some s \<Rightarrow> s)"
    using assms(3) by (auto simp: episode_instructions_def)
  have "strip s \<noteq> []"
  proof (cases "map_of deltas k")
    case (Some x)
    then have "(k, x) \<in> set deltas" by (rule map_of_SomeD)
    then have "delta_ok (k, x)" using assms(1) by blast
    with s Some show ?thesis by (simp add: delta_ok_def)
  qed (use s assms(2) in simp)
  then show ?thesis by (auto simp: strip_def)
qed

lemma rendered_episode_accepted:
  assumes "render_episode_plan t = Inr (Some plan)" and "task \<in> set names" and "task \<noteq> []"
  shows "validate_job_episode_plan names (task, plan) = Inr ()"
proof -
  obtain table deltas maximum where d: "delta_texts t = Inr deltas" and m: "2 \<le> maximum"
    and r: "render_relay t table deltas maximum = Inr plan"
    using render_episode_plan_Some [OF assms(1)] by metis
  obtain vb ci mt ts where shape: "relay_shape t table deltas maximum plan vb ci mt ts"
    using render_relay_eq_Inr [OF r] by blast
  then have plan: "plan = JObj (relay_payload maximum vb (episode_instructions deltas ci maximum) mt ts)"
    and ci: "strip ci \<noteq> []" and mt: "\<And>n. mt = Some n \<Longrightarrow> 1 \<le> n" and ts: "\<And>n. ts = Some n \<Longrightarrow> 1 \<le> n"
    by (simp_all add: relay_shape_def)
  have len: "int (length (episode_instructions deltas ci maximum)) + 1 = maximum"
    using m by (simp add: episode_instructions_def)
  have each: "\<forall>i<length (episode_instructions deltas ci maximum). episode_instructions deltas ci maximum ! i \<noteq> []"
    using episode_instructions_nonblank [OF delta_texts_sound [OF d] ci] nth_mem by blast
  show ?thesis
    using assms(2,3) m mt ts len each
    by (cases mt; cases ts) (simp_all add: validate_job_episode_plan_def plan relay_payload_def result_simps Let_def
      strict_int_at_least_def dget_def has_key_def)
qed

lemma as_config_error_eq_Inr [result_simps]: "as_config_error prefix r = Inr x \<longleftrightarrow> r = Inr x"
proof (cases r)
  case (Inl e)
  then show ?thesis by (cases e) (simp_all add: as_config_error_def)
qed (simp add: as_config_error_def)

lemma rendered_execution_accepted:
  assumes "render_execution_plan str t = Inr (Some plan)"
  shows "validate_execution_plan plan = Inr ()"
proof -
  obtain payload where p: "load_task_toml t = Inr payload"
    using assms by (auto simp: render_execution_plan_def bnd_eq_Inr)
  show ?thesis
    using assms p by (cases "dget payload ''execution''")
      (auto simp: render_execution_plan_def bnd_eq_Inr as_config_error_eq_Inr)
qed

section \<open>The parts of a rendered job\<close>

definition is_object :: "json \<Rightarrow> bool" where
  "is_object v = (case v of JObj _ \<Rightarrow> True | _ \<Rightarrow> False)"

lemma is_object_iff: "is_object v \<longleftrightarrow> (\<exists>d. v = JObj d)"
  by (cases v) (simp_all add: is_object_def)

lemma env_of_job:
  assumes "mcp_servers riggings harness = Inr servers"
  shows "\<forall>s\<in>set servers. is_object s"
proof -
  obtain seen where f: "foldR (mcp_server_step (supports_mcp_server_installs (Some harness))) 0 ([], [])
      (with_rigging rigging_install riggings) = Inr (servers, seen)"
    using assms by (auto simp: mcp_servers_def bnd_eq_Inr)
  have "\<forall>s\<in>set (fst (servers, seen)). is_object s"
    using f
  proof (rule foldR_invariant [where P = "\<lambda>_ st. \<forall>s\<in>set (fst st). is_object s"])
    fix j st st'
    assume "\<forall>s\<in>set (fst st). is_object s"
      "mcp_server_step (supports_mcp_server_installs (Some harness)) (0 + j) st
         (with_rigging rigging_install riggings ! j) = Inr st'"
    then show "\<forall>s\<in>set (fst st'). is_object s"
      by (cases st; cases "with_rigging rigging_install riggings ! j")
        (auto simp: mcp_server_step_def bnd_eq_Inr is_object_def split: if_splits)
  qed simp
  then show ?thesis by simp
qed

lemma plain_steps_objects:
  assumes "foldR (sort_step harness native provided) 0 \<lparr>plain_steps = [], mcp_steps = [], skill_steps = []\<rparr> items
    = Inr acc"
  shows "\<forall>s\<in>set (plain_steps acc). is_object s"
  using assms
proof (rule foldR_invariant [where P = "\<lambda>_ acc. \<forall>s\<in>set (plain_steps acc). is_object s"])
  fix j st st'
  assume "\<forall>s\<in>set (plain_steps st). is_object s" "sort_step harness native provided (0 + j) st (items ! j) = Inr st'"
  then show "\<forall>s\<in>set (plain_steps st'). is_object s"
    by (cases "items ! j") (auto simp: sort_step_def bnd_eq_Inr is_object_def split: if_splits)
qed simp

lemma rigging_steps_objects:
  assumes "rigging_steps e riggings harness provider = Inr steps"
  shows "\<forall>s\<in>set steps. is_object s"
proof -
  obtain acc mcp_files skills where
    acc: "foldR (sort_step harness (supports_mcp_server_installs (Some harness)) (provider \<noteq> None)) 0
            \<lparr>plain_steps = [], mcp_steps = [], skill_steps = []\<rparr> (with_rigging rigging_install riggings) = Inr acc"
    and mcp: "(case (mcp_steps acc, provider) of
            (_ # _, Some p) \<Rightarrow> bnd (render_provider_mcp_config p (mcp_steps acc)) (\<lambda>render.
              Inr [JObj (config_file (render_target render) (dumps e (render_content render)))])
          | _ \<Rightarrow> Inr []) = Inr mcp_files"
    and skills: "(if skill_steps acc = [] then Inr []
          else bnd (skill_as_config_error (render_skill_installs (sha_hex e) (Some harness) (skill_steps acc)))
                 (\<lambda>renders. Inr (concat (map skill_files renders)))) = Inr skills"
    and steps: "steps = plain_steps acc @ mcp_files @ skills"
    using assms by (auto simp: rigging_steps_def bnd_eq_Inr)
  have "\<forall>s\<in>set mcp_files. is_object s"
    using mcp by (auto simp: bnd_eq_Inr is_object_def split: list.splits option.splits)
  moreover have "\<forall>s\<in>set skills. is_object s"
    using skills by (auto simp: bnd_eq_Inr skill_files_def is_object_def split: if_splits)
  ultimately show ?thesis using plain_steps_objects [OF acc] steps by auto
qed

text \<open>
  What loading a configuration guarantees and rendering relies on: the strings that the regatta
  contract requires to be non-empty are.
\<close>

definition loaded :: "regatta \<Rightarrow> bool" where
  "loaded r =
     (course_tasks (regatta_course r) \<noteq> [] \<and> list_all (\<lambda>t. task_id t \<noteq> []) (course_tasks (regatta_course r))
      \<and> (case course_adapter_config (regatta_course r) of
           None \<Rightarrow> True | Some a \<Rightarrow> adapter_dataset a \<noteq> [] \<and> adapter_split a \<noteq> [])
      \<and> list_all (\<lambda>v. vessel_name v \<noteq> [] \<and> vessel_model v \<noteq> []) (regatta_vessels r)
      \<and> list_all (\<lambda>(_, t). runtime_harness t \<noteq> Some [] \<and> runtime_harness_version t \<noteq> Some []
             \<and> runtime_image t \<noteq> Some []) (regatta_runtimes r)
      \<and> list_all (\<lambda>(_, s). secret_source s = ''env'' \<longrightarrow> secret_env_name s \<noteq> Some []) (regatta_secrets r))"

lemma harbor_agent_nonempty: "harbor_agent r t = Inr path \<Longrightarrow> path \<noteq> []"
  by (auto simp: harbor_agent_def bnd_eq_Inr HARBOR_AGENT_BY_HARNESS_def split: option.splits if_splits)

lemma declaration_is_object: "declaration_payload r t = Inr (Some d) \<Longrightarrow> is_object d"
proof -
  assume a: "declaration_payload r t = Inr (Some d)"
  then obtain h where h: "harness_name t = Inr h" by (auto simp: declaration_payload_def bnd_eq_Inr)
  with a obtain x where x: "map_of (regatta_harnesses r) h = Some x" "map_of HARBOR_AGENT_BY_HARNESS h = None"
    by (cases "map_of HARBOR_AGENT_BY_HARNESS h"; cases "map_of (regatta_harnesses r) h")
      (simp_all add: declaration_payload_def)
  show ?thesis using a h x by (cases "declared_install x") (auto simp: declaration_payload_def bnd_eq_Inr is_object_def)
qed

lemma loaded_runtime:
  assumes "loaded r" "runtime_of r v = Inr t"
  shows "runtime_harness t \<noteq> Some []" "runtime_harness_version t \<noteq> Some []" "runtime_image t \<noteq> Some []"
proof -
  obtain n where "map_of (regatta_runtimes r) n = Some t"
    using assms(2) by (auto simp: runtime_of_def split: option.splits)
  then have "(n, t) \<in> set (regatta_runtimes r)" by (rule map_of_SomeD)
  then show "runtime_harness t \<noteq> Some []" "runtime_harness_version t \<noteq> Some []" "runtime_image t \<noteq> Some []"
    using assms(1) by (auto simp: loaded_def list_all_iff)
qed

lemma loaded_vessel:
  assumes "loaded r" "vessel_of r n = Inr v"
  shows "vessel_name v \<noteq> []" "vessel_model v \<noteq> []"
proof -
  have "v \<in> set (regatta_vessels r)"
    using assms(2) by (auto simp: vessel_of_def find_Some_iff split: option.splits)
  then show "vessel_name v \<noteq> []" "vessel_model v \<noteq> []"
    using assms(1) by (auto simp: loaded_def list_all_iff)
qed

lemma loaded_secrets:
  assumes "loaded r" "secret_env r t riggings = Inr names"
  shows "\<forall>s\<in>set names. s \<noteq> []"
proof
  fix s assume s: "s \<in> set names"
  have "list_all2 (\<lambda>n s. secret_env_name_of r n = Inr s)
      (dedup (runtime_required_secrets t @ concat (map rigging_required_secrets riggings))) names"
    using assms(2) by (simp add: secret_env_def mapR_eq_Inr)
  then obtain n where n: "secret_env_name_of r n = Inr s"
    using s by (auto simp: list_all2_conv_all_nth in_set_conv_nth)
  then obtain x where x: "map_of (regatta_secrets r) n = Some x" "secret_env_name x = Some s" "secret_source x = ''env''"
    by (auto simp: secret_env_name_of_def split: option.splits bool.splits)
  then have "(n, x) \<in> set (regatta_secrets r)" by (simp add: map_of_SomeD)
  with assms(1) x(2,3) show "s \<noteq> []" by (auto simp: loaded_def list_all_iff)
qed

lemma job_tasks [simp]: "task_names (JList (map JStr tasks)) = tasks"
  by (simp add: task_names_def comp_def)

lemma episodes_accepted:
  assumes "episode_plans e a tasks harness ds version = Inr plans" and "\<forall>t\<in>set tasks. t \<noteq> []"
  shows "validate_job_episode_plans (JObj plans) (JList (map JStr tasks)) = Inr ()"
proof (cases "adapter_kind a = ''custom-eval''")
  case True
  then have "collect_plans (\<lambda>t. render_episode_plan (task_directory_of e (adapter_dataset a) t)) tasks = Inr plans"
    using assms(1) by (auto simp: episode_plans_def bnd_eq_Inr)
  from collect_plans_sound [OF this] assms(2)
  show ?thesis by (auto simp: validate_job_episode_plans_def result_simps intro!: rendered_episode_accepted)
qed (use assms in \<open>simp add: episode_plans_def validate_job_episode_plans_def result_simps\<close>)

lemma executions_accepted:
  assumes "execution_plans e a tasks = Inr plans" and "\<forall>t\<in>set tasks. t \<noteq> []"
  shows "validate_job_execution_plans (JObj plans) (JList (map JStr tasks)) = Inr ()"
proof (cases "adapter_kind a = ''custom-eval''")
  case True
  then have "collect_plans (\<lambda>t. render_execution_plan (str_value e) (task_directory_of e (adapter_dataset a) t)) tasks
      = Inr plans"
    using assms(1) by (simp add: execution_plans_def)
  from collect_plans_sound [OF this] assms(2)
  have "validate_job_execution_plan tasks x = Inr ()" if "x \<in> set plans" for x
    using that rendered_execution_accepted
    by (cases x) (fastforce simp: validate_job_execution_plan_def result_simps)
  then show ?thesis by (simp add: validate_job_execution_plans_def result_simps)
qed (use assms in \<open>simp add: execution_plans_def validate_job_execution_plans_def result_simps\<close>)

lemma dataset_accepted:
  assumes "job_dataset e a = Inr d" "adapter_dataset a \<noteq> []" "adapter_split a \<noteq> []"
  shows "validate_job_dataset d = Inr ()"
proof (cases "adapter_kind a = ''custom-eval''")
  case True
  then obtain digest where "task_directory_digest (sha_hex e) (str_path (adapter_dataset a))
      (dataset_files e (adapter_dataset a)) = Inr digest"
    and d: "d = JObj [(''path'', JStr (str_path (adapter_dataset a))), (''digest'', JStr digest)]"
    using assms(1) by (auto simp: job_dataset_def bnd_eq_Inr)
  then have "digest \<noteq> []" by (auto simp: task_directory_digest_def split: option.splits list.splits)
  with d show ?thesis by (simp add: validate_job_dataset_def result_simps Let_def dget_def has_key_def)
next
  case False
  then have "d = JObj [(''name'', JStr (adapter_dataset a)), (''version'', JStr (adapter_split a))]"
    using assms(1) by (simp add: job_dataset_def)
  with assms(2,3) show ?thesis by (simp add: validate_job_dataset_def result_simps Let_def dget_def has_key_def)
qed

lemma agent_accepted:
  assumes r: "job_agent e r a v t riggings harness version tasks = Inr agent"
    and ne: "harness \<noteq> []" "version \<noteq> []" "vessel_model v \<noteq> []" "\<forall>x\<in>set tasks. x \<noteq> []"
  shows "validate_job_agent (JObj agent) (JList (map JStr tasks)) = Inr ()"
proof -
  obtain import_path env servers steps dcl episodes execution where
    parts: "harbor_agent r t = Inr import_path" "mcp_servers riggings harness = Inr servers"
      "rigging_steps e riggings harness (provided_mcp_install_provider (Some harness) (map rigging_tools riggings)
         (Some (regatta_tools r))) = Inr steps"
      "declaration_payload r t = Inr dcl"
      "episode_plans e a tasks harness (regatta_harnesses r) version = Inr episodes"
      "execution_plans e a tasks = Inr execution"
    and agent: "agent = agent_payload harness import_path version (vessel_model v) env servers steps dcl episodes execution"
    using r unfolding job_agent_def bnd_eq_Inr sum.inject by blast
  have lists: "\<forall>i<length xs. \<exists>d. xs ! i = JObj d" if "\<forall>x\<in>set xs. is_object x" for xs
    using that by (simp add: is_object_iff)
  have "is_object d" if "dcl = Some d" for d
    using declaration_is_object parts(4) that by simp
  then have decl: "\<exists>x. d = JObj x" if "dcl = Some d" for d
    using that by (simp add: is_object_iff)
  show ?thesis
    using ne harbor_agent_nonempty [OF parts(1)] lists [OF env_of_job [OF parts(2)]]
      lists [OF rigging_steps_objects [OF parts(3)]] decl
      episodes_accepted [OF parts(5) ne(4)] executions_accepted [OF parts(6) ne(4)]
    by (cases dcl; cases "episodes = []"; cases "execution = []")
      (simp_all add: case_prod_unfold agent agent_payload_def validate_job_agent_def result_simps Let_def dget_def has_key_def)
qed

lemma agent_parts_not_schema [raises]:
  "raises_only not_schema (harbor_agent r t)" "raises_only not_schema (agent_env riggings)"
  "raises_only not_schema (mcp_servers riggings harness)"
  "raises_only not_schema (sort_step harness native provided i acc item)"
  "raises_only not_schema (declaration_payload r t)"
  "raises_only not_schema (episode_plans e a tasks harness ds version)" "raises_only not_schema (execution_plans e a tasks)"
  unfolding harbor_agent_def agent_env_def mcp_servers_def mcp_server_step_def sort_step_def
    declaration_payload_def episode_plans_def execution_plans_def collect_plans_def reject_unenforceable_max_turns_def Let_def
  by (intro raises; simp)+

lemma rigging_steps_not_schema [raises]: "raises_only not_schema (rigging_steps e riggings harness provider)"
  unfolding rigging_steps_def by (intro raises; simp)

lemma job_agent_not_schema [raises]: "raises_only not_schema (job_agent e r a v t riggings harness version tasks)"
  unfolding job_agent_def by (intro raises; simp)

lemma secret_env_not_schema [raises]: "raises_only not_schema (secret_env r t riggings)"
  unfolding secret_env_def by (intro raises)

text \<open>
  C4. Rendering a Terminal-Bench job of a loaded regatta is never stopped by the job contract: the
  renderers establish everything it checks, so the only exceptions are those of the renderers
  themselves.
\<close>

theorem rendered_job_never_rejected:
  assumes "loaded r"
  shows "raises_only (\<lambda>x. \<not> is_schema_error x) (render_terminal_bench_job e r name)"
proof -
  have accepted: "validate_terminal_bench_job_document (JObj [(''schema'', JStr ''yacht.terminal-bench-job.v1''),
      (''dataset'', dataset), (''tasks'', JList (map JStr (map task_id (course_tasks (regatta_course r))))),
      (''agent'', JObj agent), (''launcher_image'', JStr image), (''secret_env'', JList (map JStr secrets)),
      (''vessel'', JStr (vessel_name v))]) = Inr ()"
    if "course_adapter_config (regatta_course r) = Some a" "vessel_of r name = Inr v" "runtime_of r v = Inr t"
      "harness_name t = Inr harness" "harness_version t = Inr version"
      "job_agent e r a v t riggings harness version (map task_id (course_tasks (regatta_course r))) = Inr agent"
      "job_dataset e a = Inr dataset" "launcher_image t = Inr image" "secret_env r t riggings = Inr secrets"
    for a v t riggings harness version agent dataset image secrets
  proof -
    have a: "adapter_dataset a \<noteq> []" "adapter_split a \<noteq> []"
      and tasks: "course_tasks (regatta_course r) \<noteq> []" "\<forall>x\<in>set (map task_id (course_tasks (regatta_course r))). x \<noteq> []"
      using assms that(1) by (auto simp: loaded_def list_all_iff)
    have h: "harness \<noteq> []" "version \<noteq> []" "image \<noteq> []"
      using loaded_runtime [OF assms that(3)] that(4,5,8)
      by (auto simp: harness_name_def harness_version_def launcher_image_def split: option.splits)
    have v: "vessel_name v \<noteq> []" "vessel_model v \<noteq> []" using loaded_vessel [OF assms that(2)] by auto
    have agent: "validate_job_agent (JObj agent) (JList (map JStr (map task_id (course_tasks (regatta_course r))))) = Inr ()"
      by (rule agent_accepted [OF that(6) h(1,2) v(2) tasks(2)])
    have secrets: "\<forall>i<length secrets. secrets ! i \<noteq> []"
      using loaded_secrets [OF assms that(9)] by simp
    show ?thesis
      using a tasks h v agent secrets dataset_accepted [OF that(7) a]
      by (simp add: validate_terminal_bench_job_document_def req_schema_def result_simps Let_def dget_def has_key_def)
  qed
  have "raises_only not_schema (render_terminal_bench_job e r name)"
    unfolding render_terminal_bench_job_def Let_def
    by (intro raises; (rule raises_only_accepted, erule (8) accepted | simp; fail))
  then show ?thesis by (simp add: raises_only_def not_schema_def)
qed

section \<open>What a rendered job keeps\<close>

lemma in_with_rigging: "(g, x) \<in> set (with_rigging f gs) \<longleftrightarrow> g \<in> set gs \<and> x \<in> set (f g)"
  by (auto simp: with_rigging_def)

lemma agent_env_complete:
  assumes "agent_env riggings = Inr env" "g \<in> set riggings" "(k, x) \<in> set (rigging_env g)"
  shows "map_of env k = Some x"
proof -
  have "\<forall>y\<in>set (with_rigging rigging_env riggings). map_of env (fst (snd y)) = Some (snd (snd y))"
    by (rule foldR_collects [OF assms(1) [unfolded agent_env_def]])
      (auto simp: env_step_def bnd_eq_Inr)
  from bspec [OF this, of "(g, k, x)"] show ?thesis using assms(2,3) by (simp add: in_with_rigging)
qed

definition step_kept :: "string \<Rightarrow> rigging_step \<Rightarrow> json list \<Rightarrow> bool" where
  "step_kept harness s steps =
     (step_method s \<in> set SUPPORTED_RIGGING_INSTALL_METHODS
      \<and> (step_method s \<noteq> ''mcp-server'' \<and> step_method s \<noteq> ''skill'' \<longrightarrow> JObj (step_to_json s) \<in> set steps)
      \<and> (step_method s = ''package'' \<longrightarrow> PACKAGE_PIN (step_target s))
      \<and> (step_method s = ''agent-extension'' \<longrightarrow> step_agent s = Some harness \<and> take 4 (step_target s) = ''npm:''
           \<and> PACKAGE_PIN (step_target s)))"

lemma rigging_steps_complete:
  assumes "rigging_steps e riggings harness provider = Inr steps" "g \<in> set riggings" "s \<in> set (rigging_install g)"
  shows "step_kept harness s steps"
proof -
  obtain acc rest where
    acc: "foldR (sort_step harness (supports_mcp_server_installs (Some harness)) (provider \<noteq> None)) 0
            \<lparr>plain_steps = [], mcp_steps = [], skill_steps = []\<rparr> (with_rigging rigging_install riggings) = Inr acc"
    and steps: "steps = plain_steps acc @ rest"
    using assms(1) unfolding rigging_steps_def bnd_eq_Inr sum.inject by blast
  have "\<forall>y\<in>set (with_rigging rigging_install riggings). step_kept harness (snd y) (plain_steps acc)"
    by (rule foldR_collects [OF acc])
      (auto simp: step_kept_def sort_step_def check_pin_def require_supported_method_def checks_def result_simps split: if_splits)
  from bspec [OF this, of "(g, s)"] have "step_kept harness s (plain_steps acc)"
    using assms(2,3) by (simp add: in_with_rigging)
  with steps show ?thesis by (auto simp: step_kept_def)
qed


definition native_server :: "rigging_step \<Rightarrow> json" where
  "native_server s = JObj [(''name'', JStr (step_target s)), (''command'', JStr (hd (step_command s))),
     (''args'', JList (map JStr (tl (step_command s))))]"

lemma mcp_servers_complete:
  assumes "mcp_servers riggings harness = Inr servers" "g \<in> set riggings" "s \<in> set (rigging_install g)"
    and "step_method s = ''mcp-server''" "supports_mcp_server_installs (Some harness)"
  shows "step_command s \<noteq> [] \<and> native_server s \<in> set servers"
proof -
  obtain seen where f: "foldR (mcp_server_step True) 0 ([], []) (with_rigging rigging_install riggings) = Inr (servers, seen)"
    using assms(1,5) by (auto simp: mcp_servers_def bnd_eq_Inr)
  have "\<forall>y\<in>set (with_rigging rigging_install riggings). step_method (snd y) = ''mcp-server'' \<longrightarrow>
      step_command (snd y) \<noteq> [] \<and> native_server (snd y) \<in> set (fst (servers, seen))"
    by (rule foldR_collects [OF f]) (auto simp: mcp_server_step_def native_server_def bnd_eq_Inr split: if_splits)
  from bspec [OF this, of "(g, s)"] show ?thesis using assms(2-4) by (simp add: in_with_rigging)
qed

lemma capped_episodes_enforced:
  assumes "episode_plans e a tasks harness ds version = Inr plans" "(task, plan) \<in> set plans"
    and "dget (obj plan) ''max_turns'' \<noteq> JNull"
  shows "enforces_max_turns harness ds version"
proof -
  have "plans \<noteq> []" using assms(2) by auto
  with assms(1) have "reject_unenforceable_max_turns plans harness ds version = Inr ()"
    by (auto simp: episode_plans_def bnd_eq_Inr split: if_splits)
  moreover have "task \<in> set (capped_tasks plans)"
    using assms(2,3) by (auto simp: capped_tasks_def image_iff intro!: bexI [of _ "(task, plan)"])
  then have "capped_tasks plans \<noteq> []" by auto
  ultimately show ?thesis by (auto simp: reject_unenforceable_max_turns_def Let_def split: if_splits)
qed

definition job_honours ::
    "regatta \<Rightarrow> rigging_recipe list \<Rightarrow> string \<Rightarrow> string \<Rightarrow> json_obj \<Rightarrow> bool" where
  "job_honours r riggings harness version agent =
     ((\<forall>g\<in>set riggings. (\<forall>(k, x)\<in>set (rigging_env g). dget (obj (dget agent ''env'')) k = JStr x)
        \<and> (\<forall>s\<in>set (rigging_install g). \<exists>steps servers. dget agent ''rigging_steps'' = JList steps
             \<and> dget agent ''mcp_servers'' = JList servers \<and> step_kept harness s steps
             \<and> (step_method s = ''mcp-server'' \<and> supports_mcp_server_installs (Some harness)
                \<longrightarrow> native_server s \<in> set servers)))
      \<and> (\<forall>(task, plan)\<in>set (obj (dget agent ''episodes'')). dget (obj plan) ''max_turns'' \<noteq> JNull
           \<longrightarrow> enforces_max_turns harness (regatta_harnesses r) version)
      \<and> (obj (dget agent ''execution'') \<noteq> [] \<longrightarrow> supports_controlled_execution harness version))"

lemma map_of_map_snd [simp]: "map_of (map (\<lambda>(k, x). (k, f x)) xs) k = map_option f (map_of xs k)"
  by (induction xs) auto

lemma job_agent_honours:
  assumes "job_agent e r a v t riggings harness version tasks = Inr agent"
  shows "job_honours r riggings harness version agent"
proof -
  obtain import_path env servers steps dcl episodes execution u where
    parts: "agent_env riggings = Inr env" "mcp_servers riggings harness = Inr servers"
      "rigging_steps e riggings harness (provided_mcp_install_provider (Some harness) (map rigging_tools riggings)
         (Some (regatta_tools r))) = Inr steps"
      "episode_plans e a tasks harness (regatta_harnesses r) version = Inr episodes"
      "run_if (execution \<noteq> []) (reject_unsupported_execution harness version) = Inr u"
    and agent: "agent = agent_payload harness import_path version (vessel_model v) env servers steps dcl episodes execution"
    using assms unfolding job_agent_def bnd_eq_Inr sum.inject by blast
  have lookups: "dget agent ''env'' = JObj (map (\<lambda>(k, x). (k, JStr x)) env)"
    "dget agent ''rigging_steps'' = JList steps" "dget agent ''mcp_servers'' = JList servers"
    "obj (dget agent ''episodes'') = episodes" "obj (dget agent ''execution'') = execution"
    by (cases dcl; cases "episodes = []"; cases "execution = []";
        simp add: agent agent_payload_def dget_def obj_def)+
  have "execution \<noteq> [] \<Longrightarrow> supports_controlled_execution harness version"
    using parts(5) by (simp add: run_if_def reject_unsupported_execution_def)
  then show ?thesis
    unfolding job_honours_def lookups
    using agent_env_complete [OF parts(1)] rigging_steps_complete [OF parts(3)] mcp_servers_complete [OF parts(2)]
      capped_episodes_enforced [OF parts(4)]
    by (auto simp: dget_def)
qed


section \<open>A sample job\<close>

definition sample_step :: "string \<Rightarrow> string \<Rightarrow> string list \<Rightarrow> rigging_step" where
  "sample_step m target command =
     \<lparr>step_target = target, step_command = command, step_content = None, step_resources = [], step_method = m,
      step_agent = None, step_runtime = None, step_package = None, step_source = None, step_legacy = False\<rparr>"

definition sample_rigging :: rigging_recipe where
  "sample_rigging =
     \<lparr>rigging_name = ''tools'', rigging_tools = [],
      rigging_install = [sample_step ''package'' ''ripgrep@14.1.0'' [], sample_step ''mcp-server'' ''search'' [''serve'', ''-q'']],
      rigging_env = [(''MODE'', ''fast'')], rigging_required_secrets = [''token''], rigging_instructions = [],
      rigging_preflight = \<lparr>preflight_required = False, preflight_checks = []\<rparr>\<rparr>"

definition sample_runtime :: runtime_recipe where
  "sample_runtime =
     \<lparr>runtime_name = ''box'', runtime_backend_name = ''container'', runtime_command = [], runtime_harness = Some ''claude-code'',
      runtime_harness_version = Some ''2.1.0'', runtime_flake = None, runtime_image = Some ''launcher'',
      runtime_container_home = ''/home/yacht'', runtime_container_workspace = ''/workspace'', runtime_env = [],
      runtime_required_secrets = [], runtime_mounts = [],
      runtime_preflight = \<lparr>preflight_required = False, preflight_checks = []\<rparr>, runtime_agent = None\<rparr>"

definition sample_course :: course_config where
  "sample_course =
     \<lparr>course_config_name = ''c'',
      course_tasks = [\<lparr>task_id = ''t1'', task_title = ''T'', task_difficulty = 1, task_repo = None, task_repo_url = None,
        task_base_commit = None, task_problem_statement = None, task_expect_response = [], task_expect_tool_calls = []\<rparr>],
      course_adapter_config = Some \<lparr>adapter_kind = ''custom-eval'', adapter_dataset = ''evals'', adapter_split = ''test'',
        adapter_harness = ''harbor'', adapter_instance_ids = [], adapter_selection = None, adapter_start_date = None,
        adapter_end_date = None\<rparr>\<rparr>"

definition sample_regatta :: regatta where
  "sample_regatta =
     \<lparr>regatta_name = ''r'', regatta_course = sample_course,
      regatta_vessels = [\<lparr>vessel_name = ''v'', vessel_model = ''m'', vessel_rigging = [''tools''], vessel_runtime = Some ''box''\<rparr>],
      regatta_failure_policy = ''fail-fast'', regatta_comparisons = [],
      regatta_secrets = [(''token'', \<lparr>secret_source = ''env'', secret_env_name = Some ''TOKEN'', secret_path = None\<rparr>)],
      regatta_runtimes = [(''box'', sample_runtime)], regatta_riggings = [(''tools'', sample_rigging)],
      regatta_tools = [], regatta_harnesses = [], regatta_export = None\<rparr>"

definition sample_surroundings :: job_surroundings where
  "sample_surroundings =
     \<lparr>task_directory_of = (\<lambda>_ _. \<lparr>task_dir = ''evals/t1'',
        task_toml = Some (Inr [(''episodes'', JObj [(''max'', JInt 2), (''max_turns'', JInt 9)])]),
        episode_files = None, has_test_script = True\<rparr>),
      dataset_files = (\<lambda>_. Some [([''t1'', ''task.toml''], [1])]), sha_hex = (\<lambda>_. ''00''), dumps = (\<lambda>_. ''{}''),
      str_value = (\<lambda>_. [])\<rparr>"

lemma sample_job_rendered: "is_ok (render_terminal_bench_job sample_surroundings sample_regatta ''v'')"
  by code_simp

theorem rendered_job_never_rejected_witness:
  "loaded sample_regatta \<and> is_ok (render_terminal_bench_job sample_surroundings sample_regatta ''v'')
   \<and> raises_only (\<lambda>x. \<not> is_schema_error x) (render_terminal_bench_job sample_surroundings sample_regatta ''u'')"
proof -
  have l: "loaded sample_regatta" by code_simp
  from rendered_job_never_rejected [OF l] l sample_job_rendered show ?thesis by blast
qed


end
