(* ===== verification/LoaderProperties.thy ===== *)
theory LoaderProperties
  imports Loader JobProperties
begin

text \<open>
  Properties of loading: what the three validations and the inlining of files give the records that
  the rest of the host works with, and how loading can fail.
\<close>

section \<open>Inlining keeps the rest of the document\<close>

text \<open>The parser's values contain no null.\<close>

fun toml_value :: "json \<Rightarrow> bool" where
  "toml_value JNull = False"
| "toml_value (JList xs) = (\<forall>x\<in>set xs. toml_value x)"
| "toml_value (JObj d) = (\<forall>kv\<in>set d. toml_value (snd kv))"
| "toml_value _ = True"

lemma toml_get: "toml_value (JObj d) \<Longrightarrow> has_key d k \<Longrightarrow> toml_value (dget d k)"
proof -
  assume t: "toml_value (JObj d)" and "has_key d k"
  then obtain y where y: "map_of d k = Some y" by (auto simp: has_key_def)
  with t show ?thesis using map_of_SomeD [OF y] by fastforce
qed

lemma toml_not_null: "toml_value v \<Longrightarrow> v \<noteq> JNull"
  by auto

lemma dget_updated: "dget (AList.update k v d) j = (if j = k then v else dget d j)"
  by (simp add: dget_def)

lemma has_key_updated: "has_key (AList.update k v d) j \<longleftrightarrow> j = k \<or> has_key d j"
  by (simp add: has_key_def)

lemma has_key_deleted: "has_key (AList.delete k d) j \<longleftrightarrow> j \<noteq> k \<and> has_key d j"
  by (simp add: has_key_def delete_conv')

lemma dget_deleted: "j \<noteq> k \<Longrightarrow> dget (AList.delete k d) j = dget d j"
  by (simp add: dget_def delete_conv')

lemmas alist_simps = dget_updated has_key_updated has_key_deleted dget_deleted

definition same_rest :: "json_obj \<Rightarrow> json_obj \<Rightarrow> bool" where
  "same_rest d d' \<longleftrightarrow> (\<forall>k. k \<noteq> ''course'' \<longrightarrow> map_of d' k = map_of d k)"

lemma expand_tasks_rest: "expand_course_task_file e d = Inr d' \<Longrightarrow> same_rest d d'"
  by (cases "dget d ''course''") (auto simp: expand_course_task_file_def same_rest_def Let_def bnd_eq_Inr split: if_splits)

lemma expand_instances_rest: "expand_course_adapter_instance_files e d = Inr d' \<Longrightarrow> same_rest d d'"
proof (cases "dget d ''course''")
  case (JObj course)
  assume "expand_course_adapter_instance_files e d = Inr d'"
  with JObj show ?thesis
    by (cases "dget course ''adapter''")
      (auto simp: expand_course_adapter_instance_files_def same_rest_def Let_def bnd_eq_Inr split: if_splits)
qed (simp_all add: expand_course_adapter_instance_files_def same_rest_def)

lemma select_rest: "select_course_adapter_instances e d = Inr (d', drawn) \<Longrightarrow> same_rest d d'"
proof (cases "dget d ''course''")
  case (JObj course)
  assume "select_course_adapter_instances e d = Inr (d', drawn)"
  with JObj show ?thesis
    by (cases "dget course ''adapter''")
      (auto simp: select_course_adapter_instances_def same_rest_def Let_def bnd_eq_Inr split: if_splits option.splits)
qed (simp_all add: select_course_adapter_instances_def same_rest_def)

section \<open>No file is left to inline\<close>

text \<open>Every file key names a file, as validation requires; and no file key is left.\<close>

definition names_files :: "json_obj \<Rightarrow> string \<Rightarrow> string \<Rightarrow> bool" where
  "names_files d one many \<longleftrightarrow> (has_key d one \<or> has_key d many \<longrightarrow> named_files d one many \<noteq> [])"

definition inlined :: "json_obj \<Rightarrow> string \<Rightarrow> string \<Rightarrow> bool" where
  "inlined d one many \<longleftrightarrow> \<not> has_key d one \<and> \<not> has_key d many"

abbreviation course_obj :: "json_obj \<Rightarrow> json_obj" where
  "course_obj d \<equiv> obj (dget d ''course'')"

abbreviation adapter_obj :: "json_obj \<Rightarrow> json_obj" where
  "adapter_obj d \<equiv> obj (dget (course_obj d) ''adapter'')"

lemma expand_tasks_inlined:
  assumes "expand_course_task_file e d = Inr d'" "names_files (course_obj d) ''task_file'' ''task_files''"
  shows "inlined (course_obj d') ''task_file'' ''task_files''
     \<and> dget (course_obj d') ''adapter'' = dget (course_obj d) ''adapter''"
proof (cases "dget d ''course''")
  case (JObj course)
  with assms show ?thesis
    by (auto simp: expand_course_task_file_def names_files_def inlined_def Let_def bnd_eq_Inr alist_simps split: if_splits)
qed (use assms in \<open>auto simp: expand_course_task_file_def inlined_def obj_def\<close>)

lemma expand_instances_inlined:
  assumes "expand_course_adapter_instance_files e d = Inr d'" "inlined (course_obj d) ''task_file'' ''task_files''"
    and "names_files (adapter_obj d) ''instance_file'' ''instance_files''"
  shows "inlined (course_obj d') ''task_file'' ''task_files'' \<and> inlined (adapter_obj d') ''instance_file'' ''instance_files''"
proof (cases "dget d ''course''")
  case (JObj course)
  with assms show ?thesis
    by (cases "dget course ''adapter''")
      (auto simp: expand_course_adapter_instance_files_def names_files_def inlined_def obj_def Let_def bnd_eq_Inr alist_simps
        split: if_splits)
qed (use assms in \<open>auto simp: expand_course_adapter_instance_files_def inlined_def obj_def\<close>)

lemma select_cases:
  assumes "select_course_adapter_instances e d = Inr (d', drawn)" "dget d ''course'' = JObj course"
    and "dget course ''adapter'' = JObj adapter"
  shows "d' = d \<or> (\<exists>adapter' course' x y. adapter' \<in> {adapter, AList.update ''instance_ids'' (JList x) adapter}
     \<and> course' \<in> {course, AList.update ''tasks'' y course}
     \<and> d' = AList.update ''course'' (JObj (AList.update ''adapter'' (JObj adapter') course')) d)"
proof (cases "int_at_least 1 (dget adapter ''max_instances'')")
  case max: True
  show ?thesis
  proof (cases "instance_population course adapter")
    case (Some population)
    with max assms obtain ids where "draw_instances e adapter population = Inr (ids, drawn)"
      by (auto simp: select_course_adapter_instances_def bnd_eq_Inr)
    then have d': "d' = AList.update ''course'' (JObj (AList.update ''adapter'' (JObj
          (case dget adapter ''instance_ids'' of JList _ \<Rightarrow> AList.update ''instance_ids'' (JList ids) adapter | _ \<Rightarrow> adapter))
          (case dget course ''tasks'' of
             JList _ \<Rightarrow> AList.update ''tasks'' (JList (selected_tasks (dget course ''tasks'') ids)) course | _ \<Rightarrow> course))) d"
      using assms max Some by (simp add: select_course_adapter_instances_def Let_def)
    have "(case dget adapter ''instance_ids'' of JList _ \<Rightarrow> AList.update ''instance_ids'' (JList ids) adapter | _ \<Rightarrow> adapter)
        \<in> {adapter, AList.update ''instance_ids'' (JList ids) adapter}"
      and "(case dget course ''tasks'' of
             JList _ \<Rightarrow> AList.update ''tasks'' (JList (selected_tasks (dget course ''tasks'') ids)) course | _ \<Rightarrow> course)
        \<in> {course, AList.update ''tasks'' (JList (selected_tasks (dget course ''tasks'') ids)) course}"
      by (simp_all split: json.split)
    with d' show ?thesis by blast
  qed (use max assms in \<open>simp add: select_course_adapter_instances_def\<close>)
qed (use assms in \<open>simp add: select_course_adapter_instances_def\<close>)

lemma select_inlined:
  assumes "select_course_adapter_instances e d = Inr (d', drawn)"
    and "inlined (course_obj d) ''task_file'' ''task_files''" "inlined (adapter_obj d) ''instance_file'' ''instance_files''"
  shows "inlined (course_obj d') ''task_file'' ''task_files'' \<and> inlined (adapter_obj d') ''instance_file'' ''instance_files''"
proof (cases "dget d ''course''")
  case (JObj course)
  then show ?thesis
  proof (cases "dget course ''adapter''")
    case adapter: (JObj adapter)
    from select_cases [OF assms(1) JObj adapter] assms(2,3) JObj adapter show ?thesis
      by (auto simp: inlined_def alist_simps)
  qed (use assms JObj in \<open>auto simp: select_course_adapter_instances_def\<close>)
qed (use assms in \<open>auto simp: select_course_adapter_instances_def\<close>)


definition adapter_set :: "json_obj \<Rightarrow> bool" where
  "adapter_set d \<longleftrightarrow> (has_key (course_obj d) ''adapter'' \<longrightarrow> dget (course_obj d) ''adapter'' \<noteq> JNull)"

lemma expand_tasks_adapter: "expand_course_task_file e d = Inr d' \<Longrightarrow> adapter_set d \<Longrightarrow> adapter_set d'"
  by (cases "dget d ''course''")
    (auto simp: expand_course_task_file_def adapter_set_def Let_def bnd_eq_Inr alist_simps split: if_splits)

lemma expand_instances_adapter:
  assumes "expand_course_adapter_instance_files e d = Inr d'" "adapter_set d" shows "adapter_set d'"
proof (cases "dget d ''course''")
  case (JObj course)
  with assms show ?thesis
    by (cases "dget course ''adapter''")
      (auto simp: expand_course_adapter_instance_files_def adapter_set_def Let_def bnd_eq_Inr alist_simps split: if_splits)
qed (use assms in \<open>simp_all add: expand_course_adapter_instance_files_def\<close>)

lemma select_adapter:
  assumes "select_course_adapter_instances e d = Inr (d', drawn)" "adapter_set d" shows "adapter_set d'"
proof (cases "dget d ''course''")
  case (JObj course)
  then show ?thesis
  proof (cases "dget course ''adapter''")
    case adapter: (JObj adapter)
    from select_cases [OF assms(1) JObj adapter] assms(2) show ?thesis by (auto simp: adapter_set_def alist_simps)
  qed (use assms JObj in \<open>auto simp: select_course_adapter_instances_def\<close>)
qed (use assms in \<open>auto simp: select_course_adapter_instances_def\<close>)

section \<open>What validation guarantees\<close>

definition text_key :: "json_obj \<Rightarrow> string \<Rightarrow> bool" where
  "text_key d k \<longleftrightarrow> (\<exists>s. dget d k = JStr s \<and> s \<noteq> [])"

definition opt_text_key :: "json_obj \<Rightarrow> string \<Rightarrow> bool" where
  "opt_text_key d k \<longleftrightarrow> (has_key d k \<longrightarrow> text_key d k)"

definition texts_key :: "json_obj \<Rightarrow> string \<Rightarrow> bool" where
  "texts_key d k \<longleftrightarrow> (\<exists>ss. dget_default d k (JList []) = JList (map JStr ss))"

lemma accepted_sections:
  assumes "validate_regatta_document (JObj d) = Inr ()"
  obtains secrets rn tn gn course ids ws rt vs cn where
    "validate_secret_references d = Inr secrets" "validate_runtime_recipes d secrets = Inr rn"
    "validate_tool_capabilities d = Inr tn" "validate_rigging_recipes d secrets tn = Inr gn"
    "dget d ''course'' = JObj course" "validate_course_adapter course = Inr ()" "validate_course_tasks course = Inr ids"
    "dget d ''vessels'' = JList ws" "has_key d ''vessels''"
    "foldR (validate_vessel rt rn gn (adapter_kind_of d)) 0 [] ws = Inr vs" "validate_comparisons d cn vs = Inr ()"
  using assms unfolding validate_regatta_document_def validate_course_def bnd_eq_Inr req_object_ok req_list_ok req_keys_ok
    ensure_eq_Inr checks_Cons_eq_Inr
  by (elim exE conjE) (rule that; simp)

lemma accepted_vessels:
  assumes "validate_regatta_document (JObj d) = Inr ()"
  shows "\<forall>w\<in>set (elems d ''vessels''). \<exists>o'. w = JObj o' \<and> text_key o' ''name'' \<and> text_key o' ''model'' \<and> texts_key o' ''rigging''"
proof -
  obtain rt rn gn ws vs where ws: "dget d ''vessels'' = JList ws" "has_key d ''vessels''"
    and loop: "foldR (validate_vessel rt rn gn (adapter_kind_of d)) 0 [] ws = Inr vs"
    using accepted_sections [OF assms] by metis
  have "\<forall>w\<in>set ws. \<exists>o'. w = JObj o' \<and> text_key o' ''name'' \<and> text_key o' ''model'' \<and> texts_key o' ''rigging''"
    by (rule foldR_collects [OF loop])
      (auto simp: validate_vessel_def text_key_def texts_key_def Let_def result_simps)
  then show ?thesis using ws by (simp add: elems_def dget_default_def)
qed

lemma accepted_runtimes:
  assumes "validate_regatta_document (JObj d) = Inr ()"
  shows "\<forall>(n, v)\<in>set (table_at d ''runtimes''). \<exists>o'. v = JObj o' \<and> opt_text_key o' ''harness'' \<and> opt_text_key o' ''agent''
     \<and> opt_text_key o' ''harness_version'' \<and> opt_text_key o' ''image'' \<and> texts_key o' ''required_secrets''"
proof -
  obtain secrets rn where r: "validate_runtime_recipes d secrets = Inr rn"
    using accepted_sections [OF assms] by metis
  then obtain rt where rt: "optional_named_table d ''runtimes'' = Inr rt" "\<forall>kv\<in>set rt. validate_runtime secrets kv = Inr ()"
    by (auto simp: validate_runtime_recipes_def bnd_eq_Inr forR_eq_Inr)
  have "\<exists>o'. v = JObj o' \<and> opt_text_key o' ''harness'' \<and> opt_text_key o' ''agent''
     \<and> opt_text_key o' ''harness_version'' \<and> opt_text_key o' ''image'' \<and> texts_key o' ''required_secrets''"
    if v: "validate_runtime secrets (n, v) = Inr ()" for n v
  proof -
    obtain o' path where o': "v = JObj o'" and b: "validate_runtime_backend_fields o' path = Inr ()"
      and k: "opt_text_key o' ''harness''" "opt_text_key o' ''agent''" "opt_text_key o' ''harness_version''"
        "texts_key o' ''required_secrets''"
      using v by (auto simp: validate_runtime_def text_key_def opt_text_key_def texts_key_def Let_def result_simps)
    have "opt_text_key o' ''image''"
      using b by (auto simp: validate_runtime_backend_fields_def opt_text_key_def text_key_def Let_def result_simps
          split: if_splits)
    with o' k show ?thesis by blast
  qed
  with rt optional_table_at [OF rt(1)] show ?thesis by blast
qed

lemma accepted_secrets:
  assumes "validate_regatta_document (JObj d) = Inr ()"
  shows "\<forall>(n, v)\<in>set (table_at d ''secrets''). \<exists>o'. v = JObj o' \<and> text_key o' ''source''
     \<and> (dget o' ''source'' = JStr ''env'' \<longrightarrow> text_key o' ''name'')"
proof -
  obtain secrets where "validate_secret_references d = Inr secrets"
    using accepted_sections [OF assms] by metis
  then obtain t where t: "optional_named_table d ''secrets'' = Inr t" "\<forall>kv\<in>set t. validate_secret kv = Inr ()"
    by (auto simp: validate_secret_references_def bnd_eq_Inr forR_eq_Inr)
  have "\<exists>o'. v = JObj o' \<and> text_key o' ''source'' \<and> (dget o' ''source'' = JStr ''env'' \<longrightarrow> text_key o' ''name'')"
    if "validate_secret (n, v) = Inr ()" for n v
    using that by (auto simp: validate_secret_def text_key_def Let_def result_simps split: if_splits)
  with t optional_table_at [OF t(1)] show ?thesis by blast
qed

lemma adapter_ids_strings:
  assumes v: "validate_adapter_instance_ids v path = Inr ()"
  shows "\<exists>ids. v = JList (map JStr ids) \<and> ids \<noteq> [] \<and> [] \<notin> set ids"
proof -
  obtain xs seen where xs: "v = JList xs" "xs \<noteq> []" and loop: "foldR (unique_step path) 0 [] xs = Inr seen"
    using v by (auto simp: validate_adapter_instance_ids_def result_simps)
  have "\<forall>x\<in>set xs. \<exists>s. x = JStr s \<and> s \<noteq> []"
    by (rule foldR_collects [OF loop]) (auto simp: unique_step_def result_simps)
  then obtain f where "\<forall>x\<in>set xs. x = JStr (f x) \<and> f x \<noteq> []" by metis
  then have "xs = map JStr (map f xs)" "[] \<notin> set (map f xs)" by (auto simp: map_idI)
  with xs show ?thesis by (intro exI [of _ "map f xs"]) simp
qed

lemma nonempty_files: "req_files v path = Inr () \<Longrightarrow> \<exists>s ss. v = JList (JStr s # ss)"
  by (cases v; cases "case v of JList xs \<Rightarrow> xs | _ \<Rightarrow> []") (auto simp: req_files_def result_simps)

lemma accepted_adapter:
  assumes "validate_regatta_document (JObj d) = Inr ()" "dget (course_obj d) ''adapter'' \<noteq> JNull"
  shows "\<exists>a. dget (course_obj d) ''adapter'' = JObj a \<and> text_key a ''dataset'' \<and> text_key a ''split''
     \<and> (dget a ''instance_file'' \<noteq> JNull \<longrightarrow> text_key a ''instance_file'')
     \<and> (dget a ''instance_files'' \<noteq> JNull \<longrightarrow> (\<exists>s ss. dget a ''instance_files'' = JList (JStr s # ss)))
     \<and> (dget a ''instance_ids'' \<noteq> JNull \<longrightarrow>
          (\<exists>ids. dget a ''instance_ids'' = JList (map JStr ids) \<and> ids \<noteq> [] \<and> [] \<notin> set ids))"
proof -
  obtain course where c: "dget d ''course'' = JObj course" "validate_course_adapter course = Inr ()"
    using accepted_sections [OF assms(1)] by metis
  with assms(2) obtain a where a: "dget course ''adapter'' = JObj a" "validate_course_adapter_fields a ''course.adapter'' = Inr ()"
    by (auto simp: validate_course_adapter_def result_simps)
  from a(2) have "text_key a ''dataset'' \<and> text_key a ''split''
     \<and> (dget a ''instance_file'' \<noteq> JNull \<longrightarrow> text_key a ''instance_file'')
     \<and> (dget a ''instance_files'' \<noteq> JNull \<longrightarrow> (\<exists>s ss. dget a ''instance_files'' = JList (JStr s # ss)))
     \<and> (dget a ''instance_ids'' \<noteq> JNull \<longrightarrow>
          (\<exists>ids. dget a ''instance_ids'' = JList (map JStr ids) \<and> ids \<noteq> [] \<and> [] \<notin> set ids))"
    unfolding validate_course_adapter_fields_def text_key_def
    by (auto simp: result_simps dest: nonempty_files adapter_ids_strings)
  with a(1) c(1) show ?thesis by simp
qed

lemma accepted_tasks:
  assumes "validate_regatta_document (JObj d) = Inr ()"
  shows "\<exists>ts. dget_default (course_obj d) ''tasks'' (JList []) = JList ts
     \<and> (\<forall>t\<in>set ts. \<exists>o'. t = JObj o' \<and> text_key o' ''id'')
     \<and> (ts \<noteq> [] \<or> \<not> inlined (course_obj d) ''task_file'' ''task_files''
         \<or> course_adapter_selects_instances (dget (course_obj d) ''adapter''))"
    and "names_files (course_obj d) ''task_file'' ''task_files''"
proof -
  obtain course ids where c: "dget d ''course'' = JObj course" and v: "validate_course_tasks course = Inr ids"
    using accepted_sections [OF assms(1)] by metis
  obtain ts where ts: "dget_default course ''tasks'' (JList []) = JList ts"
    and ne: "ts \<noteq> [] \<or> has_key course ''task_file'' \<or> has_key course ''task_files''
        \<or> course_adapter_selects_instances (dget course ''adapter'')"
    and loop: "foldR validate_course_task 0 [] ts = Inr ids"
    and one: "has_key course ''task_file'' \<longrightarrow> text_key course ''task_file''"
    and many: "has_key course ''task_files'' \<longrightarrow> req_files (dget course ''task_files'') ''course.task_files'' = Inr ()"
    using v by (auto simp: validate_course_tasks_def text_key_def Let_def result_simps)
  have "\<forall>t\<in>set ts. \<exists>o'. t = JObj o' \<and> text_key o' ''id''"
    by (rule foldR_collects [OF loop]) (auto simp: validate_course_task_def text_key_def Let_def result_simps)
  with ts ne c show "\<exists>ts. dget_default (course_obj d) ''tasks'' (JList []) = JList ts
     \<and> (\<forall>t\<in>set ts. \<exists>o'. t = JObj o' \<and> text_key o' ''id'')
     \<and> (ts \<noteq> [] \<or> \<not> inlined (course_obj d) ''task_file'' ''task_files''
         \<or> course_adapter_selects_instances (dget (course_obj d) ''adapter''))"
    by (auto simp: inlined_def)
  show "names_files (course_obj d) ''task_file'' ''task_files''"
    using one many c by (auto simp: names_files_def named_files_def text_key_def str_items_def dest!: nonempty_files)
qed

lemma toml_course: "toml_value (JObj d) \<Longrightarrow> has_key (course_obj d) k \<Longrightarrow> toml_value (dget (course_obj d) k)"
proof -
  assume t: "toml_value (JObj d)" and k: "has_key (course_obj d) k"
  then obtain c where c: "dget d ''course'' = JObj c" by (cases "dget d ''course''") (auto simp: obj_def)
  then have "toml_value (JObj c)" using toml_get [OF t, of "''course''"] has_key_if_dget by fastforce
  then show ?thesis using toml_get k c by simp
qed

lemma accepted_instance_files:
  assumes "validate_regatta_document (JObj d) = Inr ()" "toml_value (JObj d)"
  shows "names_files (adapter_obj d) ''instance_file'' ''instance_files''"
proof (cases "dget (course_obj d) ''adapter'' = JNull")
  case False
  with accepted_adapter [OF assms(1)] obtain a where a: "dget (course_obj d) ''adapter'' = JObj a"
    "dget a ''instance_file'' \<noteq> JNull \<longrightarrow> text_key a ''instance_file''"
    "dget a ''instance_files'' \<noteq> JNull \<longrightarrow> (\<exists>s ss. dget a ''instance_files'' = JList (JStr s # ss))"
    by blast
  have "toml_value (JObj a)"
    using toml_course [OF assms(2), of "''adapter''"] has_key_if_dget [of "course_obj d" "''adapter''"] a(1) by simp
  then have "has_key a k \<Longrightarrow> dget a k \<noteq> JNull" for k using toml_get toml_not_null by blast
  with a show ?thesis by (auto simp: names_files_def named_files_def text_key_def str_items_def)
qed (simp add: names_files_def obj_def)

lemma validated_iff: "validated d = Inr u \<longleftrightarrow> validate_regatta_document (JObj d) = Inr ()"
  by (auto simp: validated_def split: sum.split exn.split)

lemma load_regatta_stages:
  assumes "load_regatta e document = Inr r" "toml_value (JObj document)"
  obtains raw drawn where "validate_regatta_document (JObj raw) = Inr ()" "parse_regatta e raw drawn = Inr r"
    "same_rest document raw" "inlined (course_obj raw) ''task_file'' ''task_files''"
    "inlined (adapter_obj raw) ''instance_file'' ''instance_files''"
    "adapter_set raw"
proof -
  obtain d1 d2 raw drawn where v: "validate_regatta_document (JObj document) = Inr ()"
    and d1: "expand_course_task_file e document = Inr d1"
    and d2: "expand_course_adapter_instance_files e d1 = Inr d2"
    and raw: "select_course_adapter_instances e d2 = Inr (raw, drawn)"
    and v3: "validate_regatta_document (JObj raw) = Inr ()" and p: "parse_regatta e raw drawn = Inr r"
    using assms(1) by (auto simp: load_regatta_def bnd_eq_Inr validated_iff)
  have rest: "same_rest document raw"
    using expand_tasks_rest [OF d1] expand_instances_rest [OF d2] select_rest [OF raw] by (simp add: same_rest_def)
  have i1: "inlined (course_obj d1) ''task_file'' ''task_files''"
    and a1: "dget (course_obj d1) ''adapter'' = dget (course_obj document) ''adapter''"
    using expand_tasks_inlined [OF d1 accepted_tasks(2) [OF v]] by auto
  have "names_files (adapter_obj d1) ''instance_file'' ''instance_files''"
    using accepted_instance_files [OF v assms(2)] a1 by simp
  moreover have "adapter_set document"
    using toml_course [OF assms(2)] toml_not_null by (auto simp: adapter_set_def)
  then have "adapter_set raw"
    using expand_tasks_adapter [OF d1] expand_instances_adapter [OF d2] select_adapter [OF raw] by blast
  ultimately show ?thesis
    using expand_instances_inlined [OF d2 i1] select_inlined [OF raw] p v3 rest that by blast
qed

section \<open>Parsing\<close>

lemma text_of_JStr [simp]: "text_of e (JStr s) = s"
  by (simp add: text_of_def)

lemma text_key_text: "text_key d k \<Longrightarrow> text_of e (dget d k) \<noteq> [] \<and> JStr (text_of e (dget d k)) = dget d k"
  by (auto simp: text_key_def)

lemma opt_text_nonempty: "opt_text_key d k \<Longrightarrow> opt_text e d k \<noteq> Some []"
  by (auto simp: opt_text_key_def opt_text_def text_key_def)

lemma texts_key_texts:
  assumes "texts_key d k"
  shows "texts e d k = Inr (str_items (dget_default d k (JList [])))"
proof -
  obtain ss where "dget_default d k (JList []) = JList (map JStr ss)" using assms by (auto simp: texts_key_def)
  then show ?thesis by (simp add: texts_def str_items_def comp_def)
qed

lemma parse_list_eq_Inr:
  "dget_default d k (JList []) = JList items \<Longrightarrow>
     parse_list f d k = Inr ys \<longleftrightarrow> list_all2 (\<lambda>v y. f (obj v) = Inr y) items ys"
  by (simp add: parse_list_def mapR_eq_Inr)

lemma parse_tables_eq_Inr:
  "parse_tables f d k = Inr ys \<longleftrightarrow>
     list_all2 (\<lambda>kv y. fst y = fst kv \<and> f (fst kv) (obj (snd kv)) = Inr (snd y)) (table_at d k) ys"
proof -
  have "(\<lambda>x y. (case x of (name, v) \<Rightarrow> bnd (f name (obj v)) (\<lambda>x. Inr (name, x))) = Inr y)
      = (\<lambda>kv y. fst y = fst kv \<and> f (fst kv) (obj (snd kv)) = Inr (snd y))"
    by (auto simp: fun_eq_iff bnd_eq_Inr)
  then show ?thesis unfolding parse_tables_def mapR_eq_Inr table_at_def by simp
qed

lemma list_all2_right: "list_all2 P xs ys \<Longrightarrow> y \<in> set ys \<Longrightarrow> \<exists>x\<in>set xs. P x y"
  by (metis list_all2_conv_all_nth in_set_conv_nth)

lemma parsed_table:
  assumes "parse_tables f d k = Inr ys" "(n, y) \<in> set ys"
  shows "\<exists>v. (n, v) \<in> set (table_at d k) \<and> f n (obj v) = Inr y"
  using list_all2_right [OF assms(1) [unfolded parse_tables_eq_Inr] assms(2)] by auto

lemma parsed_table_keys: "parse_tables f d k = Inr ys \<Longrightarrow> map fst ys = map fst (table_at d k)"
  unfolding parse_tables_eq_Inr by (auto simp: list_eq_iff_nth_eq list_all2_conv_all_nth)

lemma parse_regatta_sections:
  assumes "parse_regatta e raw drawn = Inr r"
  shows "parse_course_adapter e (course_obj raw) drawn = Inr (course_adapter_config (regatta_course r))"
    "parse_course_tasks e (course_obj raw) (course_adapter_config (regatta_course r)) = Inr (course_tasks (regatta_course r))"
    "parse_list (parse_vessel e) raw ''vessels'' = Inr (regatta_vessels r)"
    "\<exists>n. parse_list (parse_comparison e n) raw ''comparisons'' = Inr (regatta_comparisons r)"
    "validate_artifact_path_names (course_tasks (regatta_course r)) (regatta_vessels r) (regatta_comparisons r) = Inr ()"
    "parse_tables (parse_secret e) raw ''secrets'' = Inr (regatta_secrets r)"
    "parse_tables (parse_runtime_recipe e) raw ''runtimes'' = Inr (regatta_runtimes r)"
    "parse_tables (parse_rigging_recipe e) raw ''riggings'' = Inr (regatta_riggings r)"
    "parse_tool_capabilities e raw = Inr (regatta_tools r)"
  using assms unfolding parse_regatta_def Let_def bnd_eq_Inr by auto

lemma parsed_vessels:
  assumes "validate_regatta_document (JObj raw) = Inr ()" "parse_list (parse_vessel e) raw ''vessels'' = Inr vessels"
  shows "list_all2 (\<lambda>w v. JStr (vessel_name v) = dget (obj w) ''name'' \<and> vessel_name v \<noteq> [] \<and> vessel_model v \<noteq> []
     \<and> vessel_rigging v = str_items (dget_default (obj w) ''rigging'' (JList []))
     \<and> vessel_runtime v = opt_text e (obj w) ''runtime'') (elems raw ''vessels'') vessels"
proof -
  obtain ws where "dget raw ''vessels'' = JList ws" "has_key raw ''vessels''"
    using accepted_sections [OF assms(1)] by metis
  then have ws: "dget_default raw ''vessels'' (JList []) = JList ws" by (simp add: dget_default_def)
  then have e: "elems raw ''vessels'' = ws" by (rule elems_JList)
  have "list_all2 (\<lambda>w v. parse_vessel e (obj w) = Inr v) ws vessels"
    using assms(2) by (simp add: parse_list_eq_Inr [OF ws])
  then show ?thesis unfolding e
  proof (rule list.rel_mono_strong)
    fix w v assume w: "w \<in> set ws" and v: "parse_vessel e (obj w) = Inr v"
    obtain o' where o': "w = JObj o'" "text_key o' ''name''" "text_key o' ''model''" "texts_key o' ''rigging''"
      using accepted_vessels [OF assms(1)] w e by blast
    with v show "JStr (vessel_name v) = dget (obj w) ''name'' \<and> vessel_name v \<noteq> [] \<and> vessel_model v \<noteq> []
     \<and> vessel_rigging v = str_items (dget_default (obj w) ''rigging'' (JList []))
     \<and> vessel_runtime v = opt_text e (obj w) ''runtime''"
      by (auto simp: parse_vessel_def texts_key_texts dest: text_key_text)
  qed
qed

lemma parsed_runtime:
  assumes "validate_regatta_document (JObj raw) = Inr ()" "parse_tables (parse_runtime_recipe e) raw ''runtimes'' = Inr rts"
    and "(n, t) \<in> set rts"
  shows "runtime_harness t \<noteq> Some [] \<and> runtime_harness_version t \<noteq> Some [] \<and> runtime_image t \<noteq> Some []
    \<and> runtime_name t = n \<and> (\<exists>v. (n, v) \<in> set (table_at raw ''runtimes'')
         \<and> runtime_required_secrets t = str_items (dget_default (obj v) ''required_secrets'' (JList [])))"
proof -
  obtain v where v: "(n, v) \<in> set (table_at raw ''runtimes'')" "parse_runtime_recipe e n (obj v) = Inr t"
    using parsed_table [OF assms(2,3)] by blast
  obtain o' where o': "v = JObj o'" "opt_text_key o' ''harness''" "opt_text_key o' ''agent''"
    "opt_text_key o' ''harness_version''" "opt_text_key o' ''image''" "texts_key o' ''required_secrets''"
    using accepted_runtimes [OF assms(1)] v(1) by blast
  have "parse_runtime_harness e o' \<noteq> Some []"
    using o'(2,3) opt_text_nonempty by (auto simp: parse_runtime_harness_def opt_text_key_def dest: text_key_text)
  with v o' show ?thesis
    by (auto simp: parse_runtime_recipe_def bnd_eq_Inr texts_key_texts opt_text_nonempty)
qed

lemma parsed_secret:
  assumes "validate_regatta_document (JObj raw) = Inr ()" "parse_tables (parse_secret e) raw ''secrets'' = Inr secrets"
    and "(n, s) \<in> set secrets" "secret_source s = ''env''"
  shows "secret_env_name s \<noteq> Some []"
proof -
  obtain v where v: "(n, v) \<in> set (table_at raw ''secrets'')" "parse_secret e n (obj v) = Inr s"
    using parsed_table [OF assms(2,3)] by blast
  obtain o' where o': "v = JObj o'" "text_key o' ''source''" "dget o' ''source'' = JStr ''env'' \<longrightarrow> text_key o' ''name''"
    using accepted_secrets [OF assms(1)] v(1) by blast
  with v(2) assms(4) have "text_key o' ''name''" by (auto simp: parse_secret_def text_key_def)
  then show ?thesis using v(2) o'(1) opt_text_nonempty by (auto simp: parse_secret_def opt_text_key_def)
qed

lemma parsed_adapter:
  assumes "validate_regatta_document (JObj raw) = Inr ()" "parse_course_adapter e (course_obj raw) drawn = Inr (Some a)"
    and "\<And>p. resolved_path e p \<noteq> []" and "dget (course_obj raw) ''adapter'' \<noteq> JNull"
  shows "adapter_dataset a \<noteq> [] \<and> adapter_split a \<noteq> [] \<and> [] \<notin> set (adapter_instance_ids a)
    \<and> (has_key (adapter_obj raw) ''instance_ids'' \<longrightarrow> adapter_instance_ids a \<noteq> [])"
proof -
  obtain x where x: "dget (course_obj raw) ''adapter'' = JObj x" "text_key x ''dataset''" "text_key x ''split''"
    and ids: "dget x ''instance_ids'' \<noteq> JNull \<longrightarrow>
      (\<exists>ids. dget x ''instance_ids'' = JList (map JStr ids) \<and> ids \<noteq> [] \<and> [] \<notin> set ids)"
    using accepted_adapter [OF assms(1,4)] by blast
  obtain xs where xs: "texts e x ''instance_ids'' = Inr xs" "adapter_instance_ids a = xs"
    and fields: "adapter_dataset a = adapter_dataset_path e x" "adapter_split a = text_of e (dget x ''split'')"
    using assms(2) x(1) by (auto simp: parse_course_adapter_def Let_def bnd_eq_Inr split: if_splits)
  have "adapter_dataset a \<noteq> []" "adapter_split a \<noteq> []"
    using fields text_key_text [OF x(2)] text_key_text [OF x(3)] assms(3) by (auto simp: adapter_dataset_path_def Let_def)
  moreover have "[] \<notin> set xs \<and> (has_key x ''instance_ids'' \<longrightarrow> xs \<noteq> [])"
  proof (cases "has_key x ''instance_ids''")
    case True
    then have "dget x ''instance_ids'' \<noteq> JNull"
      using xs(1) by (auto simp: texts_def dget_default_def iterate_def)
    then show ?thesis using ids xs(1) True by (auto simp: texts_def dget_default_def comp_def)
  qed (use xs(1) in \<open>auto simp: texts_def dget_default_def\<close>)
  ultimately show ?thesis using x(1) xs(2) by simp
qed

lemma plain_task_id [simp]: "task_id (default_adapter_task a i) = i"
  by (simp add: default_adapter_task_def default_swe_bench_task_def plain_task_def)

lemma parsed_task_id: "parse_course_task e d = Inr t \<Longrightarrow> task_id t = text_of e (dget d ''id'')"
  by (auto simp: parse_course_task_def bnd_eq_Inr)

lemma parsed_tasks:
  assumes v: "validate_regatta_document (JObj raw) = Inr ()"
    and a: "parse_course_adapter e (course_obj raw) drawn = Inr adapter" and t: "parse_course_tasks e (course_obj raw) adapter = Inr tasks"
    and i: "inlined (course_obj raw) ''task_file'' ''task_files''" "inlined (adapter_obj raw) ''instance_file'' ''instance_files''"
    and res: "\<And>p. resolved_path e p \<noteq> []" and nn: "has_key (course_obj raw) ''adapter'' \<Longrightarrow> dget (course_obj raw) ''adapter'' \<noteq> JNull"
  shows "tasks \<noteq> [] \<and> (\<forall>x\<in>set tasks. task_id x \<noteq> [])"
proof -
  obtain ts where ts: "dget_default (course_obj raw) ''tasks'' (JList []) = JList ts" "\<forall>t\<in>set ts. \<exists>o'. t = JObj o' \<and> text_key o' ''id''"
    and ne: "ts \<noteq> [] \<or> course_adapter_selects_instances (dget (course_obj raw) ''adapter'')"
    using accepted_tasks(1) [OF v] i(1) by blast
  obtain ps where ps: "list_all2 (\<lambda>v y. parse_course_task e (obj v) = Inr y) ts ps"
    and tasks: "tasks = (case adapter of None \<Rightarrow> ps | Some a \<Rightarrow> if adapter_instance_ids a = [] then ps
         else map (\<lambda>i. case map_of (rev (map (\<lambda>t. (task_id t, t)) ps)) i of
                Some t \<Rightarrow> t | None \<Rightarrow> default_adapter_task a i) (adapter_instance_ids a))"
    using t by (auto simp: parse_course_tasks_def bnd_eq_Inr parse_list_eq_Inr [OF ts(1)])
  have ids: "task_id x \<noteq> []" if x: "x \<in> set ps" for x
  proof -
    from list_all2_right [OF ps x] obtain y where "y \<in> set ts" "parse_course_task e (obj y) = Inr x" by blast
    moreover from this obtain o' where "y = JObj o'" "text_key o' ''id''" using ts(2) by blast
    ultimately show ?thesis using parsed_task_id text_key_text by fastforce
  qed
  show ?thesis
  proof (cases adapter)
    case None
    then have "\<not> has_key (course_obj raw) ''adapter''"
      using a by (auto simp: parse_course_adapter_def Let_def bnd_eq_Inr split: if_splits)
    then have "dget (course_obj raw) ''adapter'' = JNull" by (simp add: has_key_def)
    with ne have "ts \<noteq> []" by (simp add: course_adapter_selects_instances_def)
    with ps have "ps \<noteq> []" by auto
    with None tasks ids show ?thesis by simp
  next
    case (Some x)
    then have "has_key (course_obj raw) ''adapter''" using a by (auto simp: parse_course_adapter_def split: if_splits)
    note ad = parsed_adapter [OF v a [unfolded Some] res nn [OF this]]
    show ?thesis
    proof (cases "adapter_instance_ids x = []")
      case True
      with ad have "\<not> has_key (adapter_obj raw) ''instance_ids''" by blast
      with i(2) have "\<not> course_adapter_selects_instances (dget (course_obj raw) ''adapter'')"
        by (auto simp: course_adapter_selects_instances_def inlined_def obj_def split: json.splits)
      with ne ps have "ps \<noteq> []" by auto
      with Some True tasks ids show ?thesis by simp
    next
      case False
      have "task_id (case map_of (rev (map (\<lambda>t. (task_id t, t)) ps)) i of Some t \<Rightarrow> t | None \<Rightarrow> default_adapter_task x i) = i"
        for i
      proof (cases "map_of (rev (map (\<lambda>t. (task_id t, t)) ps)) i")
        case (Some y)
        then have "(i, y) \<in> set (rev (map (\<lambda>t. (task_id t, t)) ps))" by (rule map_of_SomeD)
        with Some show ?thesis by auto
      qed simp
      with False Some tasks ad show ?thesis by auto
    qed
  qed
qed

section \<open>Names\<close>

definition path_component :: "string \<Rightarrow> bool" where
  "path_component s \<longleftrightarrow> s \<noteq> [] \<and> CHR ''/'' \<notin> set s \<and> s \<noteq> ''.'' \<and> s \<noteq> ''..''"

lemma is_ascii_alnum_not: "is_ascii_alnum c \<Longrightarrow> c \<noteq> CHR ''/'' \<and> c \<noteq> CHR ''.''"
  by (auto simp: is_ascii_alnum_def is_digit_def code_point_def)

lemma artifact_name_is_component:
  assumes "ARTIFACT_PATH_NAME s" shows "path_component s"
proof -
  define body where "body = (if s \<noteq> [] \<and> last s = char_of (10 :: nat) then butlast s else s)"
  have b: "body \<noteq> []" "is_ascii_alnum (hd body)"
    "list_all (\<lambda>c. is_ascii_alnum c \<or> c \<in> {CHR ''.'', CHR ''_'', CHR ''-''}) body"
    using assms unfolding ARTIFACT_PATH_NAME_def Let_def body_def [symmetric] by auto
  have s: "s = body \<or> s = body @ [char_of (10 :: nat)]" unfolding body_def by (metis append_butlast_last_id)
  have "CHR ''/'' \<notin> set body" using b(3) is_ascii_alnum_not by (auto simp: list_all_iff)
  moreover have "hd s = hd body" using s b(1) by auto
  moreover have "s \<noteq> []" using s b(1) by auto
  moreover have "char_of (10 :: nat) \<noteq> CHR ''/''" by code_simp
  ultimately show ?thesis using s b(1,2) is_ascii_alnum_not [OF b(2)] by (auto simp: path_component_def)
qed

section \<open>References\<close>

definition vessel_resolved :: "regatta \<Rightarrow> vessel_config \<Rightarrow> bool" where
  "vessel_resolved r v \<longleftrightarrow>
     (\<forall>n. vessel_runtime v = Some n \<longrightarrow> (\<exists>t. map_of (regatta_runtimes r) n = Some t \<and> runtime_name t = n))
     \<and> (regatta_riggings r = [] \<or> set (vessel_rigging v) \<subseteq> fst ` set (regatta_riggings r))"

definition comparison_resolved :: "regatta \<Rightarrow> comparison_config \<Rightarrow> bool" where
  "comparison_resolved r c \<longleftrightarrow>
     set (comparison_vessels c) \<subseteq> vessel_name ` set (regatta_vessels r)
     \<and> (case comparison_baseline c of
          None \<Rightarrow> 2 \<le> length (comparison_vessels c)
        | Some b \<Rightarrow> length (comparison_vessels c) = 1 \<and> baseline_vessel b \<in> vessel_name ` set (regatta_vessels r)
            \<and> baseline_vessel b \<notin> set (comparison_vessels c))"

definition regatta_resolved :: "regatta \<Rightarrow> bool" where
  "regatta_resolved r \<longleftrightarrow>
     (\<forall>v\<in>set (regatta_vessels r). vessel_resolved r v)
     \<and> (\<forall>c\<in>set (regatta_comparisons r). comparison_resolved r c)
     \<and> (\<forall>(n, t)\<in>set (regatta_runtimes r). set (runtime_required_secrets t) \<subseteq> fst ` set (regatta_secrets r))
     \<and> (\<forall>(n, g)\<in>set (regatta_riggings r). set (rigging_required_secrets g) \<subseteq> fst ` set (regatta_secrets r)
          \<and> set (rigging_tools g) \<subseteq> fst ` set (regatta_tools r))"

lemma accepted_riggings:
  assumes "validate_regatta_document (JObj d) = Inr ()"
  shows "\<forall>(n, v)\<in>set (table_at d ''riggings''). \<exists>o'. v = JObj o' \<and> texts_key o' ''tools'' \<and> texts_key o' ''required_secrets''"
proof -
  obtain secrets tn gn where r: "validate_rigging_recipes d secrets tn = Inr gn"
    using accepted_sections [OF assms] by metis
  then obtain rt where rt: "optional_named_table d ''riggings'' = Inr rt" "\<forall>kv\<in>set rt. validate_rigging secrets tn kv = Inr ()"
    by (auto simp: validate_rigging_recipes_def bnd_eq_Inr forR_eq_Inr)
  have "\<exists>o'. v = JObj o' \<and> texts_key o' ''tools'' \<and> texts_key o' ''required_secrets''"
    if "validate_rigging secrets tn (n, v) = Inr ()" for n v
    using that by (auto simp: validate_rigging_def texts_key_def Let_def result_simps)
  with rt optional_table_at [OF rt(1)] show ?thesis by blast
qed

lemma parsed_rigging:
  assumes "validate_regatta_document (JObj raw) = Inr ()" "parse_tables (parse_rigging_recipe e) raw ''riggings'' = Inr gs"
    and "(n, g) \<in> set gs"
  shows "\<exists>v. (n, v) \<in> set (table_at raw ''riggings'')
     \<and> rigging_required_secrets g = str_items (dget_default (obj v) ''required_secrets'' (JList []))
     \<and> rigging_tools g = str_items (dget_default (obj v) ''tools'' (JList []))"
proof -
  obtain v where v: "(n, v) \<in> set (table_at raw ''riggings'')" "parse_rigging_recipe e n (obj v) = Inr g"
    using parsed_table [OF assms(2,3)] by blast
  obtain o' where "v = JObj o'" "texts_key o' ''tools''" "texts_key o' ''required_secrets''"
    using accepted_riggings [OF assms(1)] v(1) by blast
  with v show ?thesis by (auto simp: parse_rigging_recipe_def bnd_eq_Inr texts_key_texts)
qed

lemma tool_names:
  assumes "parse_tool_capabilities e raw = Inr tools"
  shows "fst ` set tools = fst ` set BUILT_IN_TOOL_CAPABILITIES \<union> fst ` set (table_at raw ''tools'')"
proof -
  obtain ts where ts: "parse_tables (parse_tool_capability e) raw ''tools'' = Inr ts"
    and tools: "tools = foldl (\<lambda>d (name, tool). AList.update name tool d) BUILT_IN_TOOL_CAPABILITIES ts"
    using assms by (auto simp: parse_tool_capabilities_def bnd_eq_Inr)
  have "fst ` set (foldl (\<lambda>d (name, tool). AList.update name tool d) d ts) = fst ` set d \<union> fst ` set ts" for d
    by (induction ts arbitrary: d) (simp_all add: AList.dom_update case_prod_unfold)
  with tools have "fst ` set tools = fst ` set BUILT_IN_TOOL_CAPABILITIES \<union> fst ` set ts" by simp
  also have "fst ` set ts = fst ` set (table_at raw ''tools'')"
    using parsed_table_keys [OF ts] by (metis set_map)
  finally show ?thesis .
qed

lemma list_all2_left: "list_all2 P xs ys \<Longrightarrow> x \<in> set xs \<Longrightarrow> \<exists>y\<in>set ys. P x y"
  by (metis list_all2_conv_all_nth in_set_conv_nth)

lemma vessel_names_parsed:
  assumes "list_all2 (\<lambda>w v. JStr (vessel_name v) = dget (obj w) ''name'' \<and> P w v) ws vs" "JStr s \<in> (\<lambda>w. dget (obj w) ''name'') ` set ws"
  shows "s \<in> vessel_name ` set vs"
proof -
  obtain w where "w \<in> set ws" "JStr s = dget (obj w) ''name''" using assms(2) by auto
  with list_all2_left [OF assms(1)] obtain v where "v \<in> set vs" "JStr (vessel_name v) = JStr s" by metis
  then show ?thesis by auto
qed

lemma parsed_comparison:
  assumes "parse_comparison e n (obj c) = Inr x" "comparison_closed raw c"
    and names: "\<And>s. JStr s \<in> vessel_names_of raw \<Longrightarrow> s \<in> vessel_name ` set (regatta_vessels r)"
    and strs: "\<And>v. v \<in> vessel_names_of raw \<Longrightarrow> \<exists>s. v = JStr s"
  shows "comparison_resolved r x"
proof -
  define d where "d = obj c"
  obtain xs where "texts e d ''vessels'' = Inr xs" and x: "comparison_vessels x = xs" "comparison_baseline x = parse_baseline e d"
    using assms(1) by (auto simp: parse_comparison_def d_def bnd_eq_Inr)
  then obtain items where items: "iterate (dget_default d ''vessels'' (JList [])) = Inr items" "xs = map (text_of e) items"
    by (auto simp: texts_def bnd_eq_Inr)
  have sub: "set (elems d ''vessels'') \<subseteq> vessel_names_of raw"
    and rest: "(case dget d ''baseline'' of
          JNull \<Rightarrow> 2 \<le> length (elems d ''vessels'')
        | b \<Rightarrow> length (elems d ''vessels'') = 1 \<and> dget (obj b) ''vessel'' \<in> vessel_names_of raw
               \<and> dget (obj b) ''vessel'' \<notin> set (elems d ''vessels''))"
    using assms(2) unfolding comparison_closed_def d_def [symmetric] by auto
  have "elems d ''vessels'' \<noteq> []" using rest by (auto split: json.splits)
  then have "\<exists>zs. dget_default d ''vessels'' (JList []) = JList zs" by (auto simp: elems_def split: json.splits)
  with items(1) have "items = elems d ''vessels''" by (auto simp: elems_def)
  with items(2) have xs: "xs = map (text_of e) (elems d ''vessels'')" by simp
  have same: "JStr (text_of e v) = v" if "v \<in> vessel_names_of raw" for v using strs [OF that] by auto
  have nonnull: "JNull \<notin> vessel_names_of raw" using strs by blast
  have kinds: "dget d ''baseline'' = JNull \<or> (\<exists>b. dget d ''baseline'' = JObj b)"
    using rest nonnull by (cases "dget d ''baseline''") (simp_all add: obj_def)
  have "set xs \<subseteq> vessel_name ` set (regatta_vessels r)"
  proof
    fix s assume "s \<in> set xs"
    then obtain v where "v \<in> vessel_names_of raw" "s = text_of e v" using xs sub by auto
    with same [of v] show "s \<in> vessel_name ` set (regatta_vessels r)" by (intro names) simp
  qed
  moreover have "case parse_baseline e d of
          None \<Rightarrow> 2 \<le> length xs
        | Some b \<Rightarrow> length xs = 1 \<and> baseline_vessel b \<in> vessel_name ` set (regatta_vessels r) \<and> baseline_vessel b \<notin> set xs"
  proof (cases "dget d ''baseline''")
    case (JObj b)
    then have l: "length xs = 1" and b: "dget b ''vessel'' \<in> vessel_names_of raw" "dget b ''vessel'' \<notin> set (elems d ''vessels'')"
      using rest xs by auto
    have "text_of e (dget b ''vessel'') \<notin> set xs"
    proof
      assume "text_of e (dget b ''vessel'') \<in> set xs"
      then obtain v where v: "v \<in> set (elems d ''vessels'')" "text_of e (dget b ''vessel'') = text_of e v" using xs by auto
      then have "JStr (text_of e v) = v" using same sub by blast
      moreover have "JStr (text_of e (dget b ''vessel'')) = dget b ''vessel''" by (rule same [OF b(1)])
      ultimately have "dget b ''vessel'' = v" unfolding v(2) by simp
      with b(2) v(1) show False by simp
    qed
    moreover have "text_of e (dget b ''vessel'') \<in> vessel_name ` set (regatta_vessels r)"
      by (rule names) (use same [OF b(1)] b(1) in simp)
    ultimately show ?thesis using JObj l by (simp add: parse_baseline_def)
  next
    case JNull
    then show ?thesis using rest xs by (simp add: parse_baseline_def)
  qed (use kinds in simp_all)
  ultimately show ?thesis unfolding comparison_resolved_def x by simp
qed


section \<open>From the document to the records\<close>

lemma parsed_regatta_loaded:
  assumes v: "validate_regatta_document (JObj raw) = Inr ()" and p: "parse_regatta e raw drawn = Inr r"
    and i: "inlined (course_obj raw) ''task_file'' ''task_files''" "inlined (adapter_obj raw) ''instance_file'' ''instance_files''"
    and adapter: "adapter_set raw" and res: "\<And>p. resolved_path e p \<noteq> []"
  shows "loaded r"
proof -
  note sections = parse_regatta_sections [OF p]
  have adapter_ok: "has_key (course_obj raw) ''adapter'' \<Longrightarrow> dget (course_obj raw) ''adapter'' \<noteq> JNull"
    using adapter by (simp add: adapter_set_def)
  have "course_tasks (regatta_course r) \<noteq> []" "\<forall>t\<in>set (course_tasks (regatta_course r)). task_id t \<noteq> []"
    using parsed_tasks [OF v sections(1,2) i res adapter_ok] by auto
  moreover have "adapter_dataset a \<noteq> [] \<and> adapter_split a \<noteq> []"
    if a: "course_adapter_config (regatta_course r) = Some a" for a
  proof -
    have "has_key (course_obj raw) ''adapter''"
      using sections(1) a by (auto simp: parse_course_adapter_def split: if_splits)
    from parsed_adapter [OF v sections(1) [unfolded a] res adapter_ok [OF this]] show ?thesis by blast
  qed
  moreover have "\<forall>x\<in>set (regatta_vessels r). vessel_name x \<noteq> [] \<and> vessel_model x \<noteq> []"
    using list_all2_right [OF parsed_vessels [OF v sections(3)]] by blast
  moreover have "\<forall>(n, t)\<in>set (regatta_runtimes r). runtime_harness t \<noteq> Some [] \<and> runtime_harness_version t \<noteq> Some []
      \<and> runtime_image t \<noteq> Some []"
    using parsed_runtime [OF v sections(7)] by blast
  moreover have "\<forall>(n, s)\<in>set (regatta_secrets r). secret_source s = ''env'' \<longrightarrow> secret_env_name s \<noteq> Some []"
    using parsed_secret [OF v sections(6)] by blast
  ultimately show ?thesis by (simp add: loaded_def list_all_iff split: option.split)
qed

lemma vessel_runtime_text:
  assumes v: "validate_regatta_document (JObj raw) = Inr ()"
    and same: "dget raw ''vessels'' = dget document ''vessels''" and t: "toml_value (JObj document)"
    and w: "w \<in> set (elems raw ''vessels'')" "vessel_closed raw w" and n: "opt_text e (obj w) ''runtime'' = Some n"
  shows "dget (obj w) ''runtime'' = JStr n"
proof -
  have k: "has_key (obj w) ''runtime''" using n by (auto simp: opt_text_def split: if_splits)
  obtain ws where "dget raw ''vessels'' = JList ws" "has_key raw ''vessels''" using accepted_sections [OF v] by metis
  then have ws: "dget document ''vessels'' = JList ws" "elems raw ''vessels'' = ws"
    using same by (simp_all add: elems_def dget_default_def)
  have "toml_value (JList ws)" using toml_get [OF t, of "''vessels''"] has_key_if_dget [of document "''vessels''"] ws(1) by simp
  with w(1) ws have "toml_value w" by simp
  moreover obtain o' where o': "w = JObj o'" using accepted_vessels [OF v] w(1) by blast
  ultimately have "dget o' ''runtime'' \<noteq> JNull" using k toml_get [of o' "''runtime''"] toml_not_null by simp
  then show ?thesis using w(2) n k o' by (cases "dget o' ''runtime''") (simp_all add: vessel_closed_def opt_text_def)
qed

lemma parsed_names:
  assumes v: "validate_regatta_document (JObj raw) = Inr ()" and p: "parse_list (parse_vessel e) raw ''vessels'' = Inr vessels"
  shows "JStr s \<in> vessel_names_of raw \<Longrightarrow> s \<in> vessel_name ` set vessels"
    and "x \<in> vessel_names_of raw \<Longrightarrow> \<exists>s. x = JStr s"
proof -
  assume "JStr s \<in> vessel_names_of raw"
  then show "s \<in> vessel_name ` set vessels"
    using vessel_names_parsed [OF parsed_vessels [OF v p]] by (simp add: vessel_names_of_def)
next
  assume "x \<in> vessel_names_of raw"
  then show "\<exists>s. x = JStr s" using accepted_vessels [OF v] by (auto simp: vessel_names_of_def text_key_def)
qed

lemma parsed_vessel_resolved:
  assumes v: "validate_regatta_document (JObj raw) = Inr ()" and p: "parse_regatta e raw drawn = Inr r"
    and same: "dget raw ''vessels'' = dget document ''vessels''" and t: "toml_value (JObj document)"
    and x: "x \<in> set (regatta_vessels r)"
  shows "vessel_resolved r x"
proof -
  note sections = parse_regatta_sections [OF p]
  obtain w where w: "w \<in> set (elems raw ''vessels'')" "vessel_rigging x = str_items (dget_default (obj w) ''rigging'' (JList []))"
    "vessel_runtime x = opt_text e (obj w) ''runtime''"
    using list_all2_right [OF parsed_vessels [OF v sections(3)] x] by blast
  have c: "vessel_closed raw w" using regatta_closed_if_accepted [OF v] w(1) by (auto simp: regatta_closed_def list_all_iff)
  have "\<exists>t. map_of (regatta_runtimes r) n = Some t \<and> runtime_name t = n" if "vessel_runtime x = Some n" for n
  proof -
    have "dget (obj w) ''runtime'' = JStr n" by (rule vessel_runtime_text [OF v same t w(1) c that [unfolded w(3)]])
    with c have "n \<in> set (map fst (regatta_runtimes r))"
      unfolding parsed_table_keys [OF sections(7)] by (simp add: vessel_closed_def has_key_iff)
    then obtain t where t: "map_of (regatta_runtimes r) n = Some t" by (cases "map_of (regatta_runtimes r) n") (auto simp: map_of_eq_None_iff)
    with parsed_runtime [OF v sections(7) map_of_SomeD [OF t]] show ?thesis by blast
  qed
  moreover have "regatta_riggings r = [] \<or> set (vessel_rigging x) \<subseteq> set (map fst (regatta_riggings r))"
    using c w(2) parsed_table_keys [OF sections(8)] by (auto simp: vessel_closed_def)
  ultimately show ?thesis by (simp add: vessel_resolved_def)
qed

lemma parsed_comparison_resolved:
  assumes v: "validate_regatta_document (JObj raw) = Inr ()" and p: "parse_regatta e raw drawn = Inr r"
    and c: "c \<in> set (regatta_comparisons r)"
  shows "comparison_resolved r c"
proof -
  note sections = parse_regatta_sections [OF p]
  obtain n where n: "parse_list (parse_comparison e n) raw ''comparisons'' = Inr (regatta_comparisons r)"
    using sections(4) by blast
  obtain cn vs where "validate_comparisons raw cn vs = Inr ()" using accepted_sections [OF v] by metis
  then obtain cs where cs: "dget_default raw ''comparisons'' (JList []) = JList cs"
    by (auto simp: validate_comparisons_def split: json.splits)
  have "list_all2 (\<lambda>x y. parse_comparison e n (obj x) = Inr y) cs (regatta_comparisons r)"
    using n by (simp add: parse_list_eq_Inr [OF cs])
  then obtain x where x: "x \<in> set cs" "parse_comparison e n (obj x) = Inr c" using list_all2_right [OF _ c] by blast
  have "comparison_closed raw x"
    using regatta_closed_if_accepted [OF v] x(1) cs by (auto simp: regatta_closed_def list_all_iff elems_def)
  from parsed_comparison [OF x(2) this parsed_names [OF v sections(3)]] show ?thesis .
qed

lemma parsed_secrets_resolved:
  assumes v: "validate_regatta_document (JObj raw) = Inr ()" and p: "parse_regatta e raw drawn = Inr r"
  shows "(n, t) \<in> set (regatta_runtimes r) \<Longrightarrow> set (runtime_required_secrets t) \<subseteq> fst ` set (regatta_secrets r)"
    and "(n, g) \<in> set (regatta_riggings r) \<Longrightarrow> set (rigging_required_secrets g) \<subseteq> fst ` set (regatta_secrets r)
      \<and> set (rigging_tools g) \<subseteq> fst ` set (regatta_tools r)"
proof -
  note sections = parse_regatta_sections [OF p]
  have keys: "fst ` set (regatta_secrets r) = fst ` set (table_at raw ''secrets'')"
    using parsed_table_keys [OF sections(6)] by (metis set_map)
  note closed = regatta_closed_if_accepted [OF v, unfolded regatta_closed_def list_all_iff secrets_closed_def tools_closed_def]
  show "set (runtime_required_secrets t) \<subseteq> fst ` set (regatta_secrets r)" if t: "(n, t) \<in> set (regatta_runtimes r)"
  proof -
    obtain w where w: "(n, w) \<in> set (table_at raw ''runtimes'' @ table_at raw ''riggings'')"
      "runtime_required_secrets t = str_items (dget_default (obj w) ''required_secrets'' (JList []))"
      using parsed_runtime [OF v sections(7) t] by auto
    from closed have "\<forall>kv\<in>set (table_at raw ''runtimes'' @ table_at raw ''riggings'').
        set (str_items (dget_default (obj (snd kv)) ''required_secrets'' (JList []))) \<subseteq> fst ` set (table_at raw ''secrets'')"
      by blast
    from bspec [OF this w(1)] w(2) show ?thesis unfolding keys by simp
  qed
  show "set (rigging_required_secrets g) \<subseteq> fst ` set (regatta_secrets r) \<and> set (rigging_tools g) \<subseteq> fst ` set (regatta_tools r)"
    if g: "(n, g) \<in> set (regatta_riggings r)"
  proof -
    obtain w where w: "(n, w) \<in> set (table_at raw ''riggings'')"
      "rigging_required_secrets g = str_items (dget_default (obj w) ''required_secrets'' (JList []))"
      "rigging_tools g = str_items (dget_default (obj w) ''tools'' (JList []))"
      using parsed_rigging [OF v sections(8) g] by blast
    then have w1: "(n, w) \<in> set (table_at raw ''runtimes'' @ table_at raw ''riggings'')" by simp
    from closed have "\<forall>kv\<in>set (table_at raw ''runtimes'' @ table_at raw ''riggings'').
        set (str_items (dget_default (obj (snd kv)) ''required_secrets'' (JList []))) \<subseteq> fst ` set (table_at raw ''secrets'')"
      and tools: "\<forall>kv\<in>set (table_at raw ''riggings''). set (str_items (dget_default (obj (snd kv)) ''tools'' (JList [])))
        \<subseteq> fst ` set BUILT_IN_TOOL_CAPABILITIES \<union> fst ` set (table_at raw ''tools'')"
      by blast+
    from bspec [OF this(1) w1] bspec [OF tools w(1)] w(2,3) show ?thesis
      unfolding keys tool_names [OF sections(9)] by simp
  qed
qed

section \<open>Properties\<close>


definition sample_load :: load_surroundings where
  "sample_load =
     \<lparr>config_dir = ''/c'', toml_file = (\<lambda>p. if p = ''/c/tasks.toml''
        then Some (Inr [(''tasks'', JList [JObj [(''id'', JStr ''t1''), (''title'', JStr ''T'')]])]) else None),
      text_file = (\<lambda>_. None), resolved_path = (\<lambda>p. CHR ''/'' # p), str_text = (\<lambda>_. []), rank_sha = (\<lambda>b. b),
      rank_hex = (\<lambda>_. ''00'')\<rparr>"

definition sample_document :: json_obj where
  "sample_document =
     [(''regatta'', JObj [(''name'', JStr ''r'')]),
      (''secrets'', JObj [(''token'', JObj [(''source'', JStr ''env''), (''name'', JStr ''TOKEN'')])]),
      (''riggings'', JObj [(''g'', JObj [(''required_secrets'', JList [JStr ''token'']),
         (''install'', JList [JStr ''npm:x@1.0.0''])])]),
      (''course'', JObj [(''name'', JStr ''c''), (''task_file'', JStr ''tasks.toml'')]),
      (''vessels'', JList [JObj [(''name'', JStr ''a''), (''model'', JStr ''m''), (''rigging'', JList [JStr ''g''])],
         JObj [(''name'', JStr ''b''), (''model'', JStr ''m'')]]),
      (''comparisons'', JList [JObj [(''name'', JStr ''x''), (''vessels'', JList [JStr ''a'', JStr ''b''])]])]"


section \<open>Exceptions\<close>

definition config_or_type :: "exn \<Rightarrow> bool" where
  "config_or_type x = (case x of ConfigError _ \<Rightarrow> True | TypeError _ \<Rightarrow> True | _ \<Rightarrow> False)"

lemma config_or_type_simps [simp]: "config_or_type (ConfigError m)" "config_or_type (TypeError m)"
  by (simp_all add: config_or_type_def)

lemma reading_raises [raises]:
  "raises_only config_or_type (iterate v)" "raises_only config_or_type (texts e d k)"
  "(\<And>n x. raises_only config_or_type (f n x)) \<Longrightarrow> raises_only config_or_type (parse_tables f d k)"
  "(\<And>x. raises_only config_or_type (h x)) \<Longrightarrow> raises_only config_or_type (parse_list h d k)"
  unfolding texts_def parse_tables_def parse_list_def iterate_def by (intro raises; simp)+

lemma load_list_file_raises [raises]: "raises_only config_or_type (load_list_file e f k p)"
proof (cases "toml_file e (config_relative e p)")
  case (Some x)
  then show ?thesis by (cases x) (auto simp: load_list_file_def Let_def intro!: raises)
qed (simp add: load_list_file_def raises_only_def)

lemma expand_raises [raises]:
  "raises_only config_or_type (expand_course_task_file e d)"
  "raises_only config_or_type (expand_course_adapter_instance_files e d)"
  unfolding expand_course_task_file_def expand_course_adapter_instance_files_def load_course_task_file_def
    load_course_adapter_instance_file_def Let_def
  by (intro raises; simp)+

lemma validated_raises [raises]: "raises_only config_or_type (validated d)"
proof (cases "validate_regatta_document (JObj d)")
  case (Inl x)
  then have "is_schema_error x" using regatta_raises [of "JObj d"] by (simp add: raises_only_def)
  with Inl show ?thesis by (cases x) (simp_all add: validated_def raises_only_def is_schema_error_def)
qed (simp add: validated_def raises_only_def)

lemma selection_raises [raises]:
  "raises_only config_or_type (select_random_instances sha hex ids m s)"
  unfolding select_random_instances_def validated_population_def population_step_def validated_seed_def
  by (intro raises; simp)

lemma draw_raises [raises]: "raises_only config_or_type (draw_instances e a p)"
  unfolding draw_instances_def by (intro raises; simp)

lemma select_raises [raises]: "raises_only config_or_type (select_course_adapter_instances e d)"
  unfolding select_course_adapter_instances_def Let_def by (intro raises; simp)

lemma parse_parts_raise [raises]:
  "raises_only config_or_type (parse_course_adapter e d s)" "raises_only config_or_type (parse_course_task e d)"
  "raises_only config_or_type (parse_vessel e d)" "raises_only config_or_type (parse_comparison e n d)"
  "raises_only config_or_type (validate_artifact_path_name f n)"
  "raises_only config_or_type (parse_harness_declaration e n d)" "raises_only config_or_type (parse_secret e n d)"
  "raises_only config_or_type (parse_preflight_check e d)" "raises_only config_or_type (parse_install_content e d n)"
  "raises_only config_or_type (parse_provided e d)"
  unfolding parse_course_adapter_def parse_course_task_def parse_vessel_def parse_comparison_def
    validate_artifact_path_name_def parse_harness_declaration_def parse_secret_def parse_preflight_check_def
    parse_install_content_def parse_provided_def Let_def
  by (intro raises; simp)+

lemma parse_tables_raise [raises]:
  "raises_only config_or_type (parse_course_tasks e d a)" "raises_only config_or_type (parse_preflight_recipe e d)"
  "raises_only config_or_type (parse_skill_resource e i rs v)" "raises_only config_or_type (parse_tool_capability e n d)"
  "raises_only config_or_type (validate_artifact_path_names ts vs cs)"
  unfolding parse_course_tasks_def parse_preflight_recipe_def parse_skill_resource_def parse_tool_capability_def
    validate_artifact_path_names_def Let_def
  by (intro raises; simp)+

lemma parse_steps_raise [raises]:
  "raises_only config_or_type (parse_skill_resources e v)" "raises_only config_or_type (parse_runtime_recipe e n d)"
  "raises_only config_or_type (parse_tool_capabilities e d)"
  unfolding parse_skill_resources_def parse_runtime_recipe_def parse_tool_capabilities_def by (intro raises; simp)+

lemma parse_install_raises [raises]: "raises_only config_or_type (parse_rigging_install_step e v)"
  unfolding parse_rigging_install_step_def Let_def by (intro raises; simp)

lemma parse_rigging_raises [raises]: "raises_only config_or_type (parse_rigging_recipe e n d)"
  unfolding parse_rigging_recipe_def by (intro raises; simp)

definition document_with_check :: "json_obj" where
  "document_with_check = AList.update ''runtimes'' (JObj [(''box'', JObj [(''backend'', JStr ''container''),
     (''command'', JList [JStr ''sh'']), (''image'', JStr ''i''), (''preflight'', JObj [(''checks'', JList [JObj
       [(''name'', JStr ''n''), (''kind'', JStr ''artifact''), (''command'', JInt 5)]])])])]) sample_document"


end
