(* ===== verification/Handoff.thy ===== *)
theory Handoff
  imports LoaderProperties
begin

text \<open>
  \<open>src/yacht/courses/handoff.py\<close>: the course handoff, the document that opens a run. It is built
  from a regatta file as it is loaded and checked against its contract before it is written; later
  stages read it back and check it again. The methods of the adapter tables it calls are those of
  \<open>src/yacht/courses/registry.py\<close>.
\<close>

section \<open>Building\<close>

definition expected_outputs :: "course_entry \<Rightarrow> json_obj" where
  "expected_outputs c =
     [(''candidate_patches'', JStr (''course-handoff/'' @ course_kind c @ ''/candidate-patches.jsonl'')),
      (''grading_report'', JStr (''course-handoff/'' @ course_kind c @ ''/grading-report.json''))]"

text \<open>The file system below the dataset of a custom evaluation and the hexadecimal SHA-256.\<close>

record handoff_surroundings =
  handoff_files :: "string \<Rightarrow> directory_files"
  handoff_sha :: "bytes \<Rightarrow> string"

definition adapter_to_json :: "handoff_surroundings \<Rightarrow> adapter \<Rightarrow> exn + json_obj" where
  "adapter_to_json h a =
     (if adapter_kind a = ''custom-eval''
      then bnd (task_directory_digest (handoff_sha h) (str_path (adapter_dataset a)) (handoff_files h (adapter_dataset a)))
             (\<lambda>digest. Inr (course_adapter_to_json a @ [(''content_digest'', JStr digest)]))
      else Inr (course_adapter_to_json a))"

definition task_to_json :: "course_task \<Rightarrow> json_obj" where
  "task_to_json t =
     [(''id'', JStr (task_id t)), (''title'', JStr (task_title t)), (''difficulty'', JInt (task_difficulty t))]
     @ opt_field ''repo'' (task_repo t) @ opt_field ''base_commit'' (task_base_commit t)
     @ opt_field ''problem_statement'' (task_problem_statement t)
     @ (if task_expect_response t = [] then [] else [(''expect_response'', JObj (task_expect_response t))])
     @ (if task_expect_tool_calls t = [] then []
        else [(''expect_tool_calls'', JList (map JStr (task_expect_tool_calls t)))])"

definition comparison_payload :: "comparison_config \<Rightarrow> json_obj" where
  "comparison_payload c =
     [(''name'', JStr (comparison_name c)), (''course'', JStr (comparison_course c)),
      (''vessels'', JList (map JStr (comparison_vessels c)))]
     @ (case comparison_baseline c of
          None \<Rightarrow> []
        | Some b \<Rightarrow> [(''baseline'', JObj [(''logbook'', JStr (baseline_logbook b)), (''vessel'', JStr (baseline_vessel b))])])"

definition handoff_document :: "handoff_surroundings \<Rightarrow> regatta \<Rightarrow> adapter \<Rightarrow> exn + json_obj" where
  "handoff_document h r a =
     bnd (adapter_to_json h a) (\<lambda>adapter_json.
     bnd (course_adapter (adapter_kind a)) (\<lambda>course.
     bnd (evaluator_adapter (adapter_kind a)) (\<lambda>evaluator.
     Inr ([(''schema'', JStr COURSE_HANDOFF_SCHEMA), (''regatta'', JStr (regatta_name r)),
       (''course'', JStr (course_config_name (regatta_course r))), (''status'', JStr ''planned''),
       (''adapter'', JObj adapter_json),
       (''tasks'', JList (map (JObj \<circ> task_to_json) (course_tasks (regatta_course r)))),
       (''comparisons'', JList (map (JObj \<circ> comparison_payload) (regatta_comparisons r))),
       (''expected_outputs'', JObj (expected_outputs course)),
       (''grading'', JObj (grading evaluator (adapter_harness a)))]
      @ (case regatta_export r of None \<Rightarrow> [] | Some x \<Rightarrow> [(''export'', JObj (export_to_json x))])))))"

definition build_course_handoff ::
    "load_surroundings \<Rightarrow> handoff_surroundings \<Rightarrow> json_obj \<Rightarrow> exn + json_obj" where
  "build_course_handoff e h document =
     bnd (load_regatta e document) (\<lambda>r. case course_adapter_config (regatta_course r) of
       None \<Rightarrow> Inl (ConfigError ''course handoff requires course.adapter'')
     | Some a \<Rightarrow>
         bnd (ensure (regatta_comparisons r \<noteq> []) (ConfigError ''course handoff requires at least one comparison'')) (\<lambda>_.
         bnd (handoff_document h r a) (\<lambda>handoff.
         bnd (validate_course_handoff_document (JObj handoff)) (\<lambda>_. Inr handoff))))"

section \<open>Reading\<close>

text \<open>\<open>read path\<close> is \<open>None\<close> for no such file, else the outcome of \<open>load_json_object\<close>.\<close>

definition COURSE_HANDOFF_PATH :: string where
  "COURSE_HANDOFF_PATH = ''course-handoff.json''"

definition load_course_handoff ::
    "(string \<Rightarrow> (exn + json_obj) option) \<Rightarrow> string \<Rightarrow> string option \<Rightarrow> exn + json_obj" where
  "load_course_handoff read logbook_dir artifact_path =
     (let path = (case artifact_path of Some p \<Rightarrow> p | None \<Rightarrow> join_path logbook_dir COURSE_HANDOFF_PATH) in
      case read path of
        None \<Rightarrow> Inl (ConfigError (''course handoff artifact not found: '' @ path))
      | Some content \<Rightarrow> bnd content (\<lambda>handoff. case validate_course_handoff_document (JObj handoff) of
            Inl (SchemaError m) \<Rightarrow> Inl (ConfigError (''course handoff artifact '' @ path @ '': '' @ m))
          | Inl x \<Rightarrow> Inl x
          | Inr _ \<Rightarrow> Inr handoff))"

text \<open>
  \<open>write_course_handoff\<close>: the built document is what later stages read from the Logbook. The file
  lists the keys of an object in order; a document is taken up to the order of its keys.
\<close>

definition write_course_handoff ::
    "load_surroundings \<Rightarrow> handoff_surroundings \<Rightarrow> json_obj \<Rightarrow> string \<Rightarrow> (string \<Rightarrow> (exn + json_obj) option)
       \<Rightarrow> exn + (string \<Rightarrow> (exn + json_obj) option)" where
  "write_course_handoff e h document logbook_dir files =
     bnd (build_course_handoff e h document) (\<lambda>handoff.
     Inr (files(join_path logbook_dir COURSE_HANDOFF_PATH \<mapsto> Inr handoff)))"

end
