(* ===== verification/HandoffProperties.thy ===== *)
theory HandoffProperties
  imports Handoff
begin

text \<open>
  The handoff of a loaded regatta: the parts the loader has checked are the parts the contract of
  the handoff checks.
\<close>

section \<open>The adapter block through loading\<close>

text \<open>No field of the adapter block is null.\<close>

definition adapter_filled :: "json_obj \<Rightarrow> bool" where
  "adapter_filled d \<longleftrightarrow> (\<forall>k. has_key (adapter_obj d) k \<longrightarrow> dget (adapter_obj d) k \<noteq> JNull)"

lemma expand_tasks_filled:
  assumes "expand_course_task_file e d = Inr d'" "adapter_filled d" shows "adapter_filled d'"
proof (cases "dget d ''course''")
  case (JObj course)
  with assms show ?thesis
    by (auto simp: expand_course_task_file_def adapter_filled_def Let_def bnd_eq_Inr alist_simps split: if_splits)
qed (use assms in \<open>auto simp: expand_course_task_file_def\<close>)

lemma expand_instances_filled:
  assumes "expand_course_adapter_instance_files e d = Inr d'" "adapter_filled d" shows "adapter_filled d'"
proof (cases "dget d ''course''")
  case (JObj course)
  with assms show ?thesis
    by (cases "dget course ''adapter''")
      (auto simp: expand_course_adapter_instance_files_def adapter_filled_def Let_def bnd_eq_Inr alist_simps split: if_splits)
qed (use assms in \<open>auto simp: expand_course_adapter_instance_files_def\<close>)

lemma toml_adapter_filled:
  assumes "toml_value (JObj d)" shows "adapter_filled d"
  unfolding adapter_filled_def
proof (intro allI impI)
  fix k assume k: "has_key (adapter_obj d) k"
  then obtain a where a: "dget (course_obj d) ''adapter'' = JObj a"
    by (cases "dget (course_obj d) ''adapter''") (auto simp: obj_def)
  with toml_course [OF assms, of "''adapter''"] have "toml_value (JObj a)"
    using has_key_if_dget [of "course_obj d" "''adapter''"] by simp
  with k a show "dget (adapter_obj d) k \<noteq> JNull" using toml_get toml_not_null by simp
qed

text \<open>What drawing a sample does to the document.\<close>

lemma select_drawn:
  assumes "select_course_adapter_instances e d = Inr (raw, Some s)"
  obtains course adapter population ids where
    "dget d ''course'' = JObj course" "dget course ''adapter'' = JObj adapter"
    "instance_population course adapter = Some population"
    "\<exists>mx seed. select_random_instances (rank_sha e) (rank_hex e) population mx seed = Inr (ids, s)"
    "raw = AList.update ''course'' (JObj (AList.update ''adapter'' (JObj
          (case dget adapter ''instance_ids'' of JList _ \<Rightarrow> AList.update ''instance_ids'' (JList (map JStr ids)) adapter | _ \<Rightarrow> adapter))
          (case dget course ''tasks'' of
             JList _ \<Rightarrow> AList.update ''tasks'' (JList (selected_tasks (dget course ''tasks'') (map JStr ids))) course | _ \<Rightarrow> course))) d"
proof (cases "dget d ''course''")
  case (JObj course)
  then show ?thesis
  proof (cases "dget course ''adapter''")
    case adapter: (JObj adapter)
    then show ?thesis
    proof (cases "instance_population course adapter")
      case (Some population)
      then obtain ids where "draw_instances e adapter population = Inr (ids, Some s)"
        and raw: "raw = AList.update ''course'' (JObj (AList.update ''adapter'' (JObj
          (case dget adapter ''instance_ids'' of JList _ \<Rightarrow> AList.update ''instance_ids'' (JList ids) adapter | _ \<Rightarrow> adapter))
          (case dget course ''tasks'' of
             JList _ \<Rightarrow> AList.update ''tasks'' (JList (selected_tasks (dget course ''tasks'') ids)) course | _ \<Rightarrow> course))) d"
        using assms JObj adapter
        by (auto simp: select_course_adapter_instances_def bnd_eq_Inr Let_def split: if_splits)
      then obtain xs mx seed where "select_random_instances (rank_sha e) (rank_hex e) population mx seed = Inr (xs, s)"
        and "ids = map JStr xs"
        by (auto simp: draw_instances_def bnd_eq_Inr split: json.splits)
      with raw show ?thesis using that [OF JObj adapter Some] by blast
    qed (use assms JObj in \<open>auto simp: select_course_adapter_instances_def split: if_splits\<close>)
  qed (use assms JObj in \<open>auto simp: select_course_adapter_instances_def\<close>)
qed (use assms in \<open>auto simp: select_course_adapter_instances_def\<close>)

lemma select_filled:
  assumes "select_course_adapter_instances e d = Inr (d', drawn)" "adapter_filled d" shows "adapter_filled d'"
proof (cases "dget d ''course''")
  case (JObj course)
  then show ?thesis
  proof (cases "dget course ''adapter''")
    case adapter: (JObj adapter)
    from select_cases [OF assms(1) JObj adapter] assms(2) JObj adapter show ?thesis
      by (auto simp: adapter_filled_def alist_simps split: if_splits)
  qed (use assms JObj in \<open>auto simp: select_course_adapter_instances_def\<close>)
qed (use assms in \<open>auto simp: select_course_adapter_instances_def\<close>)

text \<open>The stages of loading, with what the handoff needs.\<close>

lemma load_regatta_stages_drawn:
  assumes "load_regatta e document = Inr r" "toml_value (JObj document)"
  obtains d raw drawn where "validate_regatta_document (JObj raw) = Inr ()" "parse_regatta e raw drawn = Inr r"
    "select_course_adapter_instances e d = Inr (raw, drawn)" "adapter_filled raw" "adapter_set raw"
proof -
  obtain d1 d2 raw drawn where
    d1: "expand_course_task_file e document = Inr d1"
    and d2: "expand_course_adapter_instance_files e d1 = Inr d2"
    and raw: "select_course_adapter_instances e d2 = Inr (raw, drawn)"
    and v3: "validate_regatta_document (JObj raw) = Inr ()" and p: "parse_regatta e raw drawn = Inr r"
    using assms(1) by (auto simp: load_regatta_def bnd_eq_Inr validated_iff)
  have "adapter_filled raw"
    using expand_tasks_filled [OF d1] expand_instances_filled [OF d2] select_filled [OF raw] toml_adapter_filled [OF assms(2)]
    by blast
  moreover have "adapter_set document"
    using toml_course [OF assms(2)] toml_not_null by (auto simp: adapter_set_def)
  then have "adapter_set raw"
    using expand_tasks_adapter [OF d1] expand_instances_adapter [OF d2] select_adapter [OF raw] by blast
  ultimately show ?thesis using that v3 p raw by blast
qed

section \<open>The adapter block\<close>

lemma accepted_adapter_fields:
  assumes "validate_regatta_document (JObj d) = Inr ()" "dget (course_obj d) ''adapter'' = JObj a"
  shows "validate_course_adapter_fields a ''course.adapter'' = Inr ()"
proof -
  obtain course where c: "dget d ''course'' = JObj course" "validate_course_adapter course = Inr ()"
    using accepted_sections [OF assms(1)] by metis
  with assms(2) show ?thesis by (auto simp: validate_course_adapter_def result_simps)
qed

text \<open>The fields of a parsed adapter are those of the validated block.\<close>

lemma parsed_adapter_fields:
  assumes v: "validate_course_adapter_fields x path = Inr ()" and p: "parse_course_adapter e course drawn = Inr (Some a)"
    and x: "dget course ''adapter'' = JObj x" and filled: "\<And>k. has_key x k \<Longrightarrow> dget x k \<noteq> JNull"
    and res: "\<And>p. resolved_path e p \<noteq> []"
  shows "dget x ''kind'' = JStr (adapter_kind a)" "dget x ''harness'' = JStr (adapter_harness a)"
    "adapter_dataset a \<noteq> []" "adapter_split a \<noteq> []"
    "dget x ''start_date'' = (case adapter_start_date a of None \<Rightarrow> JNull | Some s \<Rightarrow> JStr s)"
    "dget x ''end_date'' = (case adapter_end_date a of None \<Rightarrow> JNull | Some s \<Rightarrow> JStr s)"
    "dget x ''instance_ids'' = (if adapter_instance_ids a = [] then JNull else JList (map JStr (adapter_instance_ids a)))"
    "adapter_selection a = drawn"
proof -
  from v obtain kind harness dataset split where
    k: "dget x ''kind'' = JStr kind" "dget x ''harness'' = JStr harness" "dget x ''dataset'' = JStr dataset"
      "dget x ''split'' = JStr split" "dataset \<noteq> []" "split \<noteq> []"
    and dates: "dget x ''start_date'' = JNull \<or> (\<exists>s. dget x ''start_date'' = JStr s)"
      "dget x ''end_date'' = JNull \<or> (\<exists>s. dget x ''end_date'' = JStr s)"
    and ids: "dget x ''instance_ids'' \<noteq> JNull \<Longrightarrow> validate_adapter_instance_ids (dget x ''instance_ids'') (at_key path ''instance_ids'') = Inr ()"
    unfolding validate_course_adapter_fields_def validate_course_adapter_window_def
    by (auto simp: result_simps split: json.splits)
  obtain ids where i: "texts e x ''instance_ids'' = Inr ids"
    and a: "a = \<lparr>adapter_kind = kind, adapter_dataset = adapter_dataset_path e x, adapter_split = split, adapter_harness = harness,
      adapter_instance_ids = ids, adapter_selection = drawn, adapter_start_date = opt_text e x ''start_date'',
      adapter_end_date = opt_text e x ''end_date''\<rparr>"
    using p x k by (auto simp: parse_course_adapter_def Let_def bnd_eq_Inr split: if_splits)
  have date: "dget x k = (case opt_text e x k of None \<Rightarrow> JNull | Some s \<Rightarrow> JStr s)"
    if "dget x k = JNull \<or> (\<exists>s. dget x k = JStr s)" for k
    using that filled [of k] by (auto simp: opt_text_def has_key_def dget_def)
  show "dget x ''kind'' = JStr (adapter_kind a)" "dget x ''harness'' = JStr (adapter_harness a)"
    "adapter_split a \<noteq> []" "adapter_selection a = drawn" using a k by simp_all
  show "adapter_dataset a \<noteq> []" using a k res by (simp add: adapter_dataset_path_def Let_def)
  show "dget x ''start_date'' = (case adapter_start_date a of None \<Rightarrow> JNull | Some s \<Rightarrow> JStr s)"
    "dget x ''end_date'' = (case adapter_end_date a of None \<Rightarrow> JNull | Some s \<Rightarrow> JStr s)"
    using a date [OF dates(1)] date [OF dates(2)] by simp_all
  show "dget x ''instance_ids'' = (if adapter_instance_ids a = [] then JNull else JList (map JStr (adapter_instance_ids a)))"
  proof (cases "has_key x ''instance_ids''")
    case True
    then have "dget x ''instance_ids'' \<noteq> JNull" by (rule filled)
    then obtain ss where "dget x ''instance_ids'' = JList (map JStr ss)" "ss \<noteq> []"
      using adapter_ids_strings [OF ids] by blast
    with True i a show ?thesis by (auto simp: texts_def dget_default_def comp_def)
  next
    case False
    with i a show ?thesis by (simp add: texts_def dget_default_def has_key_def dget_def)
  qed
qed

lemma unique_path: "foldR (unique_step p) i seen xs = Inr s \<longleftrightarrow> foldR (unique_step q) i seen xs = Inr s"
proof (induction xs arbitrary: i seen)
  case (Cons x xs)
  have "unique_step p i seen x = Inr u \<longleftrightarrow> unique_step q i seen x = Inr u" for u
    by (cases x) (auto simp: unique_step_def result_simps)
  with Cons.IH show ?case by (auto simp: bnd_eq_Inr)
qed simp

lemma adapter_ids_path:
  assumes "validate_adapter_instance_ids v p = Inr ()" shows "validate_adapter_instance_ids v q = Inr ()"
proof -
  obtain xs u where "v = JList xs" "xs \<noteq> []" "foldR (unique_step p) 0 [] xs = Inr u"
    using assms by (auto simp: validate_adapter_instance_ids_def result_simps)
  then show ?thesis using unique_path [of p 0 "[]" xs u q] by (simp add: validate_adapter_instance_ids_def result_simps)
qed

lemma course_adapter_to_json_alt:
  "course_adapter_to_json a = course_adapter_summary a
     @ (if adapter_instance_ids a = [] then [] else [(''instance_ids'', JList (map JStr (adapter_instance_ids a)))])
     @ (case adapter_selection a of None \<Rightarrow> [] | Some s \<Rightarrow> [(''instance_selection'', JObj (selection_to_json s))])
     @ opt_field ''start_date'' (adapter_start_date a) @ opt_field ''end_date'' (adapter_end_date a)"
  by (simp add: course_adapter_to_json_def opt_field_def)

lemma adapter_json_fields:
  assumes "adapter_to_json h a = Inr j"
  shows "dget j ''kind'' = JStr (adapter_kind a)" "dget j ''dataset'' = JStr (adapter_dataset a)"
    "dget j ''split'' = JStr (adapter_split a)" "dget j ''harness'' = JStr (adapter_harness a)"
    "dget j ''start_date'' = (case adapter_start_date a of None \<Rightarrow> JNull | Some s \<Rightarrow> JStr s)"
    "dget j ''end_date'' = (case adapter_end_date a of None \<Rightarrow> JNull | Some s \<Rightarrow> JStr s)"
    "dget j ''instance_ids'' = (if adapter_instance_ids a = [] then JNull else JList (map JStr (adapter_instance_ids a)))"
    "dget j ''instance_selection'' = (case adapter_selection a of None \<Rightarrow> JNull | Some s \<Rightarrow> JObj (selection_to_json s))"
    "dget j ''content_digest'' = JNull \<or> (\<exists>s. dget j ''content_digest'' = JStr (''sha256:'' @ s))"
    "\<forall>k\<in>{''selection'', ''instance_file'', ''instance_files'', ''max_instances''}. dget j k = JNull"
proof -
  define rest where "rest = (case adapter_to_json h a of Inr j \<Rightarrow> drop (length (course_adapter_to_json a)) j | Inl _ \<Rightarrow> [])"
  have j: "j = course_adapter_to_json a @ rest"
    using assms by (auto simp: rest_def adapter_to_json_def bnd_eq_Inr split: if_splits)
  have "rest = [] \<or> (\<exists>s. rest = [(''content_digest'', JStr (''sha256:'' @ s))])"
    using assms by (auto simp: rest_def adapter_to_json_def bnd_eq_Inr task_directory_digest_def split: if_splits option.splits list.splits)
  then have rest: "k \<noteq> ''content_digest'' \<Longrightarrow> dget rest k = JNull" and
    digest: "dget rest ''content_digest'' = JNull \<or> (\<exists>s. dget rest ''content_digest'' = JStr (''sha256:'' @ s))" for k
    by (auto simp: dict_simps)
  note simps = j course_adapter_to_json_alt course_adapter_summary_def dict_simps rest
  show "dget j ''kind'' = JStr (adapter_kind a)" by (simp add: simps)
  show "dget j ''dataset'' = JStr (adapter_dataset a)" by (simp add: simps)
  show "dget j ''split'' = JStr (adapter_split a)" by (simp add: simps)
  show "dget j ''harness'' = JStr (adapter_harness a)" by (simp add: simps)
  show "dget j ''start_date'' = (case adapter_start_date a of None \<Rightarrow> JNull | Some s \<Rightarrow> JStr s)"
    by (simp add: simps split: option.split)
  show "dget j ''end_date'' = (case adapter_end_date a of None \<Rightarrow> JNull | Some s \<Rightarrow> JStr s)"
    by (simp add: simps split: option.split)
  show "dget j ''instance_ids'' = (if adapter_instance_ids a = [] then JNull else JList (map JStr (adapter_instance_ids a)))"
    by (simp add: simps split: option.split)
  show "dget j ''instance_selection'' = (case adapter_selection a of None \<Rightarrow> JNull | Some s \<Rightarrow> JObj (selection_to_json s))"
    by (simp add: simps split: option.split)
  have "dget j ''content_digest'' = dget rest ''content_digest''" by (simp add: simps split: option.split)
  with digest show "dget j ''content_digest'' = JNull \<or> (\<exists>s. dget j ''content_digest'' = JStr (''sha256:'' @ s))" by simp
  show "\<forall>k\<in>{''selection'', ''instance_file'', ''instance_files'', ''max_instances''}. dget j k = JNull"
    by (simp add: simps split: option.split)
qed

lemma adapter_json_accepted:
  assumes v: "validate_course_adapter_fields x p = Inr ()" and j: "adapter_to_json h a = Inr j"
    and x: "dget x ''kind'' = JStr (adapter_kind a)" "dget x ''harness'' = JStr (adapter_harness a)"
    "adapter_dataset a \<noteq> []" "adapter_split a \<noteq> []"
    "dget x ''start_date'' = (case adapter_start_date a of None \<Rightarrow> JNull | Some s \<Rightarrow> JStr s)"
    "dget x ''end_date'' = (case adapter_end_date a of None \<Rightarrow> JNull | Some s \<Rightarrow> JStr s)"
    "dget x ''instance_ids'' = (if adapter_instance_ids a = [] then JNull else JList (map JStr (adapter_instance_ids a)))"
  shows "validate_course_adapter_fields j ''adapter'' = Inr ()"
proof -
  note jf = adapter_json_fields [OF j]
  have same: "dget j k = dget x k" if "k \<in> {''kind'', ''harness'', ''start_date'', ''end_date'', ''instance_ids''}" for k
    using that jf x by auto
  note same = same [of "''kind''", simplified] same [of "''harness''", simplified] same [of "''start_date''", simplified]
    same [of "''end_date''", simplified] same [of "''instance_ids''", simplified]
  have w: "validate_course_adapter_window j q = Inr ()" for q
    using v unfolding validate_course_adapter_fields_def validate_course_adapter_window_def by (simp add: same result_simps)
  have ids: "dget x ''instance_ids'' \<noteq> JNull \<Longrightarrow> validate_adapter_instance_ids (dget x ''instance_ids'') q = Inr ()" for q
    using v adapter_ids_path [of _ "at_key p ''instance_ids''"]
    unfolding validate_course_adapter_fields_def by (simp add: result_simps)
  have keys: "has_key j k" if "k \<in> set [''kind'', ''dataset'', ''split'', ''harness'']" for k
    using that jf(1-4) by (auto intro: has_key_if_dget)
  have h: "\<exists>hs. supported_course_adapter_harnesses (Some (adapter_kind a)) = Inr hs \<and> adapter_harness a \<in> set hs"
    using v x unfolding validate_course_adapter_fields_def by (auto simp: result_simps)
  have k: "adapter_kind a \<in> set COURSE_ADAPTER_KINDS"
    using v x unfolding validate_course_adapter_fields_def by (auto simp: result_simps)
  have sel: "validate_course_adapter_selection j q = Inr ()" for q
    using jf(10) by (simp add: validate_course_adapter_selection_def)
  have ids': "when_set (dget j ''instance_ids'') (\<lambda>v. validate_adapter_instance_ids v q) = Inr ()" for q
    using ids same by (simp add: when_set_ok)
  have dig: "when_set (dget j ''content_digest'') (\<lambda>v. req_str v q) = Inr ()" for q
    using jf(9) by (auto simp: when_set_ok req_str_ok)
  show ?thesis
    unfolding validate_course_adapter_fields_def checks_Cons_eq_Inr
    using jf(1-4,10) x(3,4) h k by (auto simp: w sel ids' dig keys result_simps not_both_def)
qed

section \<open>Tasks, comparisons, export\<close>

lemma expect_response_path:
  "validate_expect_response v p = Inr () \<Longrightarrow> validate_expect_response v q = Inr ()"
  by (auto simp: validate_expect_response_def result_simps case_prod_unfold)

lemma expect_tool_calls_iff:
  "validate_expect_tool_calls v p = Inr () \<longleftrightarrow> (\<exists>ss. v = JList (map JStr ss) \<and> [] \<notin> set ss)"
proof
  assume "validate_expect_tool_calls v p = Inr ()"
  then obtain xs where v: "v = JList xs" and i: "\<forall>i<length xs. is_non_empty_string (xs ! i)"
    by (auto simp: validate_expect_tool_calls_def result_simps)
  then have "\<forall>x\<in>set xs. \<exists>s. x = JStr s \<and> s \<noteq> []" by (auto simp: in_set_conv_nth)
  then obtain f where "\<forall>x\<in>set xs. x = JStr (f x) \<and> f x \<noteq> []" by metis
  then have "xs = map JStr (map f xs)" "[] \<notin> set (map f xs)" by (auto simp: map_idI)
  with v show "\<exists>ss. v = JList (map JStr ss) \<and> [] \<notin> set ss" by metis
next
  assume "\<exists>ss. v = JList (map JStr ss) \<and> [] \<notin> set ss"
  then show "validate_expect_tool_calls v p = Inr ()"
    by (auto simp: validate_expect_tool_calls_def result_simps in_set_conv_nth)
qed

definition handed_off :: "course_task \<Rightarrow> bool" where
  "handed_off t \<longleftrightarrow> (\<forall>i. validate_handoff_task i (JObj (task_to_json t)) = Inr ())"

lemma handed_offI:
  assumes "task_id t \<noteq> []" "task_title t \<noteq> []" "1 \<le> task_difficulty t" "task_repo t \<noteq> Some []" "task_base_commit t \<noteq> Some []"
    and "task_problem_statement t \<noteq> Some []" "[] \<notin> set (task_expect_tool_calls t)"
    and "task_expect_response t \<noteq> [] \<Longrightarrow> \<exists>p. validate_expect_response (JObj (task_expect_response t)) p = Inr ()"
  shows "handed_off t"
  unfolding handed_off_def
proof
  fix i
  define j where "j = task_to_json t"
  note simps = j_def task_to_json_def dict_simps
  have f: "dget j ''id'' = JStr (task_id t)" "dget j ''title'' = JStr (task_title t)" "dget j ''difficulty'' = JInt (task_difficulty t)"
    "has_key j ''id''" "has_key j ''title''" "has_key j ''difficulty''"
    by (simp_all add: simps)
  have opt: "has_key j ''repo'' \<longrightarrow> (\<exists>s. dget j ''repo'' = JStr s \<and> s \<noteq> [])"
    "has_key j ''base_commit'' \<longrightarrow> (\<exists>s. dget j ''base_commit'' = JStr s \<and> s \<noteq> [])"
    "has_key j ''problem_statement'' \<longrightarrow> (\<exists>s. dget j ''problem_statement'' = JStr s \<and> s \<noteq> [])"
    "\<not> has_key j ''repo_url''"
    using assms(4-6) by (auto simp: simps split: option.split)
  have er: "has_key j ''expect_response'' \<longrightarrow> dget j ''expect_response'' = JObj (task_expect_response t) \<and> task_expect_response t \<noteq> []"
    by (auto simp: simps split: option.split)
  have et: "has_key j ''expect_tool_calls'' \<longrightarrow> dget j ''expect_tool_calls'' = JList (map JStr (task_expect_tool_calls t))"
    by (auto simp: simps split: option.split)
  show "validate_handoff_task i (JObj (task_to_json t)) = Inr ()"
    unfolding j_def [symmetric] validate_handoff_task_def Let_def
    using f opt er et assms(1-3,7,8)
    by (auto simp: result_simps expect_tool_calls_iff int_at_least_def as_int_def intro: expect_response_path)
qed

lemma opt_text_task:
  assumes "has_key d k \<longrightarrow> (\<exists>s. dget d k = JStr s \<and> s \<noteq> [])" shows "opt_text e d k \<noteq> Some []"
  using assms by (auto simp: opt_text_def)

lemma parsed_task_handed_off:
  assumes "validate_course_task i seen t = Inr seen'" "parse_course_task e (obj t) = Inr x"
  shows "handed_off x"
proof -
  obtain d where t: "t = JObj d"
    using assms(1) by (auto simp: validate_course_task_def Let_def bnd_eq_Inr req_object_ok)
  obtain s where s: "dget d ''id'' = JStr s" "s \<noteq> []"
    using assms(1) by (auto simp: validate_course_task_def Let_def bnd_eq_Inr req_object_ok req_str_ok t)
  have d: "t = JObj d" "text_key d ''id''" "text_key d ''title''" "int_at_least 1 (dget_default d ''difficulty'' (JInt 1))"
    and opt: "has_key d ''repo'' \<longrightarrow> (\<exists>s. dget d ''repo'' = JStr s \<and> s \<noteq> [])"
      "has_key d ''base_commit'' \<longrightarrow> (\<exists>s. dget d ''base_commit'' = JStr s \<and> s \<noteq> [])"
      "has_key d ''problem_statement'' \<longrightarrow> (\<exists>s. dget d ''problem_statement'' = JStr s \<and> s \<noteq> [])"
    and er: "has_key d ''expect_response'' \<Longrightarrow> \<exists>p. validate_expect_response (dget d ''expect_response'') p = Inr ()"
    and et: "has_key d ''expect_tool_calls'' \<Longrightarrow> \<exists>p. validate_expect_tool_calls (dget d ''expect_tool_calls'') p = Inr ()"
    using assms(1) s by (auto simp: validate_course_task_def Let_def t text_key_def result_simps)
  obtain calls where calls: "texts e d ''expect_tool_calls'' = Inr calls"
    and x: "x = \<lparr>task_id = text_of e (dget d ''id''), task_title = text_of e (dget d ''title''),
       task_difficulty = int_of (dget_default d ''difficulty'' (JInt 1)), task_repo = opt_text e d ''repo'',
       task_repo_url = opt_text e d ''repo_url'', task_base_commit = opt_text e d ''base_commit'',
       task_problem_statement = opt_text e d ''problem_statement'',
       task_expect_response = obj (dget_default d ''expect_response'' (JObj [])), task_expect_tool_calls = calls\<rparr>"
    using assms(2) d(1) by (auto simp: parse_course_task_def bnd_eq_Inr)
  have c: "[] \<notin> set calls"
  proof (cases "has_key d ''expect_tool_calls''")
    case True
    with et obtain ss where "dget d ''expect_tool_calls'' = JList (map JStr ss)" "[] \<notin> set ss"
      by (auto simp: expect_tool_calls_iff)
    with True calls show ?thesis by (auto simp: texts_def dget_default_def comp_def)
  qed (use calls in \<open>simp add: texts_def dget_default_def\<close>)
  have r: "\<exists>p. validate_expect_response (JObj (task_expect_response x)) p = Inr ()" if n: "task_expect_response x \<noteq> []"
  proof -
    from n x have "has_key d ''expect_response''" by (auto simp: dget_default_def obj_def split: if_splits)
    moreover from this er obtain p where p: "validate_expect_response (dget d ''expect_response'') p = Inr ()" by blast
    moreover from p obtain y where "dget d ''expect_response'' = JObj y" by (auto simp: validate_expect_response_def result_simps)
    ultimately show ?thesis using x by (auto simp: dget_default_def)
  qed
  have diff: "1 \<le> task_difficulty x" using d(4) x by (auto simp: int_at_least_def int_of_def split: option.splits)
  show ?thesis
    using text_key_text [OF d(2)] text_key_text [OF d(3)] opt_text_task [OF opt(1)] opt_text_task [OF opt(2)]
      opt_text_task [OF opt(3)] c r diff
    by (intro handed_offI) (simp_all add: x)
qed

lemma default_task_handed_off: "i \<noteq> [] \<Longrightarrow> handed_off (default_adapter_task a i)"
  by (rule handed_offI) (simp_all add: default_adapter_task_def default_swe_bench_task_def plain_task_def split: if_splits)

lemma parsed_tasks_handed_off:
  assumes v: "validate_regatta_document (JObj raw) = Inr ()" and t: "parse_course_tasks e (course_obj raw) adapter = Inr tasks"
    and ids: "\<And>a. adapter = Some a \<Longrightarrow> [] \<notin> set (adapter_instance_ids a)"
  shows "\<forall>x\<in>set tasks. handed_off x"
proof -
  obtain course idss where c: "dget raw ''course'' = JObj course" and vt: "validate_course_tasks course = Inr idss"
    using accepted_sections [OF v] by metis
  obtain ts where ts: "dget_default course ''tasks'' (JList []) = JList ts" and loop: "foldR validate_course_task 0 [] ts = Inr idss"
    using vt by (auto simp: validate_course_tasks_def Let_def result_simps)
  have valid: "\<forall>t\<in>set ts. \<exists>i seen seen'. validate_course_task i seen t = Inr seen'"
    by (rule foldR_collects [OF loop]) blast+
  obtain ps where ps: "list_all2 (\<lambda>v y. parse_course_task e (obj v) = Inr y) ts ps"
    and tasks: "tasks = (case adapter of None \<Rightarrow> ps | Some a \<Rightarrow> if adapter_instance_ids a = [] then ps
         else map (\<lambda>i. case map_of (rev (map (\<lambda>t. (task_id t, t)) ps)) i of
                Some t \<Rightarrow> t | None \<Rightarrow> default_adapter_task a i) (adapter_instance_ids a))"
    using t c by (auto simp: parse_course_tasks_def bnd_eq_Inr parse_list_eq_Inr [OF ts])
  have p: "handed_off x" if "x \<in> set ps" for x
    using list_all2_right [OF ps that] valid parsed_task_handed_off by blast
  show ?thesis
  proof (cases adapter)
    case (Some a)
    show ?thesis
    proof (cases "adapter_instance_ids a = []")
      case False
      have "handed_off (case map_of (rev (map (\<lambda>t. (task_id t, t)) ps)) i of Some t \<Rightarrow> t | None \<Rightarrow> default_adapter_task a i)"
        if i: "i \<in> set (adapter_instance_ids a)" for i
      proof (cases "map_of (rev (map (\<lambda>t. (task_id t, t)) ps)) i")
        case None
        then show ?thesis using ids [OF Some] i default_task_handed_off [of i a] by auto
      next
        case (Some y)
        then have "(i, y) \<in> set (rev (map (\<lambda>t. (task_id t, t)) ps))" by (rule map_of_SomeD)
        with Some p show ?thesis by auto
      qed
      with False Some tasks show ?thesis by auto
    qed (use Some tasks p in simp)
  qed (use tasks p in simp)
qed

lemma handoff_comparison_accepted:
  assumes v: "validate_comparison cn names i c = Inr ()" and p: "parse_comparison e n (obj c) = Inr x"
    and n: "n \<noteq> []" and res: "\<And>p. resolved_path e p \<noteq> []"
  shows "validate_handoff_comparison k (JObj (comparison_payload x)) = Inr ()"
proof -
  obtain d where d: "c = JObj d"
    using v by (auto simp: validate_comparison_def Let_def result_simps)
  obtain vs where vs: "dget d ''vessels'' = JList vs" and names: "text_key d ''name''"
    and course: "has_key d ''course'' \<Longrightarrow> text_key d ''course''"
    and strs: "\<forall>v\<in>set vs. \<exists>s. v = JStr s \<and> s \<noteq> []"
    and size: "dget d ''baseline'' = JNull \<Longrightarrow> 2 \<le> length vs" "dget d ''baseline'' \<noteq> JNull \<Longrightarrow> length vs = 1"
    and base: "dget d ''baseline'' \<noteq> JNull \<Longrightarrow> \<exists>b. dget d ''baseline'' = JObj b \<and> text_key b ''logbook'' \<and> text_key b ''vessel''"
    using v by (auto simp: validate_comparison_def validate_comparison_baseline_def Let_def d text_key_def dget_default_def
        result_simps split: if_splits)
  from strs obtain f where f: "\<forall>v\<in>set vs. v = JStr (f v) \<and> f v \<noteq> []" by metis
  define xs where "xs = map f vs"
  have xs: "vs = map JStr xs" "[] \<notin> set xs" using f by (auto simp: xs_def map_idI)
  then have "texts e d ''vessels'' = Inr xs"
    using vs has_key_if_dget [of d "''vessels''"] by (simp add: texts_def dget_default_def comp_def)
  then have x: "x = \<lparr>comparison_name = text_of e (dget d ''name''), comparison_course = text_or e d ''course'' n,
      comparison_vessels = xs, comparison_baseline = parse_baseline e d\<rparr>"
    using p d by (simp add: parse_comparison_def)
  have nm: "text_of e (dget d ''name'') \<noteq> []" using text_key_text [OF names] by blast
  have cr: "text_or e d ''course'' n \<noteq> []"
    using n text_key_text [OF course] by (auto simp: text_or_def dget_default_def)
  show ?thesis
  proof (cases "dget d ''baseline'' = JNull")
    case True
    with nm cr xs size(1) vs show ?thesis
      by (auto simp: validate_handoff_comparison_def comparison_payload_def x parse_baseline_def Let_def result_simps dict_simps)
  next
    case False
    with base obtain b where b: "dget d ''baseline'' = JObj b" "text_key b ''logbook''" "text_key b ''vessel''" by blast
    then have "parse_baseline e d = Some \<lparr>baseline_logbook = resolved_path e (config_relative e (text_of e (dget b ''logbook''))),
       baseline_vessel = text_of e (dget b ''vessel'')\<rparr>"
      by (simp add: parse_baseline_def)
    moreover obtain s where "dget b ''vessel'' = JStr s" "s \<noteq> []" using b(3) by (auto simp: text_key_def)
    ultimately show ?thesis using nm cr xs size(2) [OF False] vs res
      by (auto simp: validate_handoff_comparison_def comparison_payload_def x Let_def result_simps dict_simps)
  qed
qed

lemma parse_regatta_names:
  assumes "parse_regatta e raw drawn = Inr r"
  shows "parse_list (parse_comparison e (course_config_name (regatta_course r))) raw ''comparisons'' = Inr (regatta_comparisons r)"
    "course_config_name (regatta_course r) = text_of e (dget (course_obj raw) ''name'')"
    "regatta_name r = text_of e (dget (obj (dget raw ''regatta'')) ''name'')"
    "regatta_export r = parse_export e raw"
  using assms unfolding parse_regatta_def Let_def bnd_eq_Inr by auto

lemma accepted_names:
  assumes "validate_regatta_document (JObj d) = Inr ()"
  shows "text_key (course_obj d) ''name''" "text_key (obj (dget d ''regatta'')) ''name''"
    "has_key d ''export'' \<Longrightarrow> validate_export_attribution (dget d ''export'') ''export'' = Inr ()"
proof -
  obtain n names where c: "validate_course d = Inr n" and x: "when_key d ''export'' (\<lambda>v. validate_export_attribution v ''export'') = Inr ()"
    using assms unfolding validate_regatta_document_def bnd_eq_Inr req_object_ok checks_Cons_eq_Inr by auto
  from c show "text_key (course_obj d) ''name''" "text_key (obj (dget d ''regatta'')) ''name''"
    unfolding validate_course_def bnd_eq_Inr req_object_ok req_str_ok text_key_def by auto
  from x show "has_key d ''export'' \<Longrightarrow> validate_export_attribution (dget d ''export'') ''export'' = Inr ()"
    by (simp add: when_key_ok)
qed

lemma export_accepted:
  assumes "validate_export_attribution (dget raw ''export'') p = Inr ()" "parse_export e raw = Some x"
  shows "validate_export_attribution (JObj (export_to_json x)) q = Inr ()"
proof -
  obtain d where d: "dget raw ''export'' = JObj d" "text_key d ''source_organization_name''"
      "\<exists>s. dget d ''evaluator_relationship'' = JStr s \<and> s \<in> set EVALUATOR_RELATIONSHIPS"
      "opt_text_key d ''source_organization_url''" "opt_text_key d ''source_name''"
    using assms(1) by (auto simp: validate_export_attribution_def text_key_def opt_text_key_def result_simps)
  then show ?thesis
    using assms(2) text_key_text [OF d(2)] opt_text_nonempty [OF d(4)] opt_text_nonempty [OF d(5)]
    by (auto simp: parse_export_def export_to_json_def validate_export_attribution_def result_simps dict_simps)
qed

section \<open>Provenance of a sample\<close>

lemma selected_tasks_length:
  assumes "\<forall>s\<in>set ids. map_of (tasks_by_id tasks) s \<noteq> None"
  shows "length (selected_tasks tasks (map JStr ids)) = length ids"
  using assms by (induction ids) (auto simp: selected_tasks_def split: option.split)

lemma drawn_facts:
  assumes "select_random_instances sha hex population mx seed = Inr (ids, s)"
  shows "set (map JStr ids) \<subseteq> set population" "ids \<noteq> []" "requested_instances s = int (length ids)"
    "selection_method s = ''random''" "selection_algorithm s = ''sha256-rank-v1''"
    "0 \<le> selection_seed s" "selection_seed s \<le> MAX_INSTANCE_SELECTION_SEED" "requested_instances s \<le> population_count s"
    "\<exists>b. population_digest s = ''sha256:'' @ hex b"
proof -
  obtain pop m sd where pop: "validated_population population = Inr pop" and m: "1 \<le> m" "m \<le> int (length pop)"
    and sd: "validated_seed seed = Inr sd" and ids: "ids = map (\<lambda>(_, _, i). i) (take (nat m) (ranked sha sd pop))"
    and s: "s = \<lparr>selection_method = ''random'', selection_algorithm = SELECTION_ALGORITHM, selection_seed = sd,
       requested_instances = m, population_count = int (length pop), population_digest = instance_population_digest hex pop\<rparr>"
    using assms by (auto simp: select_random_eq_Inr)
  have l: "length ids = nat m" using m by (simp add: ids)
  have "set ids \<subseteq> set (map (\<lambda>(_, _, i). i) (ranked sha sd pop))" unfolding ids take_map [symmetric] by (rule set_take_subset)
  also have "\<dots> = set pop" by (rule mset_eq_setD [OF ranked_ids])
  finally show "set (map JStr ids) \<subseteq> set population" using pop by (auto simp: validated_population_eq_Inr)
  show "ids \<noteq> []" "requested_instances s = int (length ids)" using l m s by auto
  show "selection_method s = ''random''" "selection_algorithm s = ''sha256-rank-v1''"
    "0 \<le> selection_seed s" "selection_seed s \<le> MAX_INSTANCE_SELECTION_SEED" "requested_instances s \<le> population_count s"
    "\<exists>b. population_digest s = ''sha256:'' @ hex b"
    using s m sd by (auto simp: SELECTION_ALGORITHM_def validated_seed_eq_Inr MAX_SELECTION_SEED_def MAX_INSTANCE_SELECTION_SEED_def
        instance_population_digest_def)
qed

lemma provenance_accepted:
  assumes s: "select_random_instances sha hex population mx seed = Inr (ids, s)" and hex: "\<And>b. is_sha256_hex (hex b)"
    and j: "dget j ''instance_selection'' = JObj (selection_to_json s)" and n: "n = length ids"
  shows "validate_instance_selection_provenance j n = Inr ()"
proof -
  note f = drawn_facts [OF s]
  have "1 \<le> requested_instances s" using f(2,3) by (cases ids) auto
  moreover have "is_population_digest (JStr (population_digest s))"
    using f(9) hex by (auto simp: is_population_digest_def)
  ultimately show ?thesis
    using f n by (auto simp: validate_instance_selection_provenance_def j selection_to_json_def Let_def result_simps dict_simps
        strict_int_at_least_def)
qed

lemma drawn_matches_tasks:
  assumes sel: "select_course_adapter_instances e d = Inr (raw, Some s)"
    and ids: "dget (adapter_obj raw) ''instance_ids''
        = (if adapter_instance_ids a = [] then JNull else JList (map JStr (adapter_instance_ids a)))"
    and t: "parse_course_tasks e (course_obj raw) (Some a) = Inr tasks"
  shows "\<exists>population mx seed ids. select_random_instances (rank_sha e) (rank_hex e) population mx seed = Inr (ids, s)
    \<and> length tasks = length ids"
proof -
  obtain course adapter population drawn mx seed where c: "dget d ''course'' = JObj course" "dget course ''adapter'' = JObj adapter"
    and pop: "instance_population course adapter = Some population"
    and s: "select_random_instances (rank_sha e) (rank_hex e) population mx seed = Inr (drawn, s)"
    and raw: "raw = AList.update ''course'' (JObj (AList.update ''adapter'' (JObj
          (case dget adapter ''instance_ids'' of JList _ \<Rightarrow> AList.update ''instance_ids'' (JList (map JStr drawn)) adapter | _ \<Rightarrow> adapter))
          (case dget course ''tasks'' of
             JList _ \<Rightarrow> AList.update ''tasks'' (JList (selected_tasks (dget course ''tasks'') (map JStr drawn))) course | _ \<Rightarrow> course))) d"
    using select_drawn [OF sel] by metis
  note f = drawn_facts [OF s]
  have "length tasks = length drawn"
  proof (cases "\<exists>xs. dget adapter ''instance_ids'' = JList xs")
    case True
    then have "dget (adapter_obj raw) ''instance_ids'' = JList (map JStr drawn)" by (auto simp: raw alist_simps)
    with ids f(2) have "adapter_instance_ids a = drawn" by (auto split: if_splits dest: map_injective simp: inj_def)
    with t f(2) show ?thesis by (auto simp: parse_course_tasks_def bnd_eq_Inr)
  next
    case False
    then have a: "adapter_instance_ids a = []" using ids by (auto simp: raw alist_simps split: json.splits if_splits)
    from False pop have p: "population = map (JStr \<circ> fst) (tasks_by_id (dget course ''tasks''))" "tasks_by_id (dget course ''tasks'') \<noteq> []"
      by (auto simp: instance_population_def Let_def split: json.splits if_splits)
    then obtain xs where xs: "dget course ''tasks'' = JList xs" by (cases "dget course ''tasks''") (auto simp: tasks_by_id_def)
    then have ts: "dget_default (course_obj raw) ''tasks'' (JList []) = JList (selected_tasks (dget course ''tasks'') (map JStr drawn))"
      by (simp add: raw alist_simps dget_default_def)
    have "set drawn \<subseteq> fst ` set (tasks_by_id (dget course ''tasks''))" using f(1) p(1) by auto
    then have "\<forall>i\<in>set drawn. map_of (tasks_by_id (dget course ''tasks'')) i \<noteq> None" by (auto simp: map_of_eq_None_iff)
    then have "length (selected_tasks (dget course ''tasks'') (map JStr drawn)) = length drawn" by (rule selected_tasks_length)
    moreover have "list_all2 (\<lambda>v y. parse_course_task e (obj v) = Inr y) (selected_tasks (dget course ''tasks'') (map JStr drawn)) tasks"
      using t a by (auto simp: parse_course_tasks_def bnd_eq_Inr parse_list_eq_Inr [OF ts])
    ultimately show ?thesis using list_all2_lengthD by fastforce
  qed
  with s show ?thesis by blast
qed

lemma provenance_absent: "dget j ''instance_selection'' = JNull \<Longrightarrow> validate_instance_selection_provenance j n = Inr ()"
  by (simp add: validate_instance_selection_provenance_def)

section \<open>The document\<close>

lemma adapter_tables_check:
  "list_all (\<lambda>kind. list_all (\<lambda>harness. case (course_adapter kind, evaluator_adapter kind) of
       (Inr c, Inr v) \<Rightarrow> is_ok (validate_course_handoff_grading (JObj (grading v harness))) | _ \<Rightarrow> False)
     (case supported_course_adapter_harnesses (Some kind) of Inr hs \<Rightarrow> hs | Inl _ \<Rightarrow> [])) COURSE_ADAPTER_KINDS"
  by code_simp

lemma adapter_tables:
  assumes "kind \<in> set COURSE_ADAPTER_KINDS" "supported_course_adapter_harnesses (Some kind) = Inr hs" "harness \<in> set hs"
  shows "\<exists>c v. course_adapter kind = Inr c \<and> evaluator_adapter kind = Inr v
    \<and> validate_course_handoff_grading (JObj (grading v harness)) = Inr ()"
proof -
  have "case (course_adapter kind, evaluator_adapter kind) of
       (Inr c, Inr v) \<Rightarrow> is_ok (validate_course_handoff_grading (JObj (grading v harness))) | _ \<Rightarrow> False"
    using adapter_tables_check assms by (auto simp: list_all_iff)
  then show ?thesis by (auto simp: is_ok_iff split: sum.splits prod.splits)
qed

text \<open>The contract of a document whose parts are accepted.\<close>

lemma handoff_parts_accepted:
  assumes "validate_course_adapter_fields j ''adapter'' = Inr ()"
    and "validate_instance_selection_provenance j (length tasks) = Inr ()"
    and "tasks \<noteq> []" "\<forall>t\<in>set tasks. handed_off t"
    and "comparisons \<noteq> []" "\<forall>c\<in>set comparisons. \<forall>k. validate_handoff_comparison k (JObj (comparison_payload c)) = Inr ()"
    and "validate_course_handoff_grading (JObj g) = Inr ()"
    and "name \<noteq> []" "course \<noteq> []"
    and x: "\<forall>x. export = Some x \<longrightarrow> validate_export_attribution (JObj (export_to_json x)) ''export'' = Inr ()"
  shows "validate_course_handoff_document (JObj ([(''schema'', JStr COURSE_HANDOFF_SCHEMA), (''regatta'', JStr name),
       (''course'', JStr course), (''status'', JStr ''planned''), (''adapter'', JObj j),
       (''tasks'', JList (map (JObj \<circ> task_to_json) tasks)),
       (''comparisons'', JList (map (JObj \<circ> comparison_payload) comparisons)),
       (''expected_outputs'', JObj (expected_outputs entry)), (''grading'', JObj g)]
      @ (case export of None \<Rightarrow> [] | Some x \<Rightarrow> [(''export'', JObj (export_to_json x))]))) = Inr ()"
proof -
  have t: "validate_course_handoff_tasks (map (JObj \<circ> task_to_json) tasks) = Inr ()"
    using assms(3,4) by (auto simp: validate_course_handoff_tasks_def result_simps handed_off_def)
  have c: "validate_course_handoff_comparisons (JList (map (JObj \<circ> comparison_payload) comparisons)) = Inr ()"
    using assms(5,6) by (auto simp: validate_course_handoff_comparisons_def result_simps)
  have o: "validate_expected_course_handoff_outputs (JObj (expected_outputs entry)) = Inr ()"
    by (simp add: validate_expected_course_handoff_outputs_def expected_outputs_def result_simps dict_simps)
  show ?thesis
    unfolding validate_course_handoff_document_def
    using assms(1,2,7-9) t c o x by (auto simp: result_simps dict_simps split: option.splits)
qed

lemma handoff_accepted:
  assumes v: "validate_regatta_document (JObj raw) = Inr ()" and p: "parse_regatta e raw drawn = Inr r"
    and sel: "select_course_adapter_instances e d = Inr (raw, drawn)" and filled: "adapter_filled raw" "adapter_set raw"
    and res: "\<And>p. resolved_path e p \<noteq> []" and hex: "\<And>b. is_sha256_hex (rank_hex e b)"
    and a: "course_adapter_config (regatta_course r) = Some a" and c: "regatta_comparisons r \<noteq> []"
    and ne: "course_tasks (regatta_course r) \<noteq> []"
    and j: "adapter_to_json h a = Inr j"
  shows "\<exists>handoff. handoff_document h r a = Inr handoff \<and> validate_course_handoff_document (JObj handoff) = Inr ()"
proof -
  note sections = parse_regatta_sections [OF p] parse_regatta_names [OF p]
  have pa: "parse_course_adapter e (course_obj raw) drawn = Inr (Some a)" using sections(1) a by simp
  then have "dget (course_obj raw) ''adapter'' \<noteq> JNull"
    using filled(2) by (auto simp: parse_course_adapter_def adapter_set_def split: if_splits)
  then obtain x where x: "dget (course_obj raw) ''adapter'' = JObj x" using accepted_adapter [OF v] by blast
  note fields = accepted_adapter_fields [OF v x]
  have nn: "has_key x k \<Longrightarrow> dget x k \<noteq> JNull" for k using filled(1) x by (simp add: adapter_filled_def)
  note parsed = parsed_adapter_fields [OF fields pa x nn res]
  have t: "parse_course_tasks e (course_obj raw) (Some a) = Inr (course_tasks (regatta_course r))" using sections(2) a by simp
  have "[] \<notin> set (adapter_instance_ids a)"
    using parsed_adapter [OF v pa res] x by simp
  then have tasks: "\<forall>t\<in>set (course_tasks (regatta_course r)). handed_off t"
    using parsed_tasks_handed_off [OF v t] by simp
  have prov: "validate_instance_selection_provenance j (length (course_tasks (regatta_course r))) = Inr ()"
  proof (cases drawn)
    case None
    then show ?thesis using adapter_json_fields(8) [OF j] parsed(8) by (simp add: provenance_absent)
  next
    case (Some s)
    have "dget (adapter_obj raw) ''instance_ids''
        = (if adapter_instance_ids a = [] then JNull else JList (map JStr (adapter_instance_ids a)))"
      using parsed(7) x by simp
    then obtain population mx seed ids where
      "select_random_instances (rank_sha e) (rank_hex e) population mx seed = Inr (ids, s)"
      "length (course_tasks (regatta_course r)) = length ids"
      using drawn_matches_tasks [OF sel [unfolded Some] _ t] by blast
    then show ?thesis using provenance_accepted hex adapter_json_fields(8) [OF j] parsed(8) Some by simp
  qed
  have names: "regatta_name r \<noteq> []" "course_config_name (regatta_course r) \<noteq> []"
    using accepted_names(1,2) [OF v] sections(11,12) text_key_text by simp_all
  have cs: "\<forall>c\<in>set (regatta_comparisons r). \<forall>k. validate_handoff_comparison k (JObj (comparison_payload c)) = Inr ()"
  proof (intro ballI allI)
    fix c k assume "c \<in> set (regatta_comparisons r)"
    obtain cn vs where "validate_comparisons raw cn vs = Inr ()" using accepted_sections [OF v] by metis
    then obtain items where items: "dget_default raw ''comparisons'' (JList []) = JList items"
      and ok: "\<forall>i<length items. validate_comparison cn vs i (items ! i) = Inr ()"
      by (auto simp: validate_comparisons_def result_simps split: json.splits)
    have "list_all2 (\<lambda>x y. parse_comparison e (course_config_name (regatta_course r)) (obj x) = Inr y) items (regatta_comparisons r)"
      using sections(10) by (simp add: parse_list_eq_Inr [OF items])
    from list_all2_right [OF this \<open>c \<in> _\<close>] obtain y where "y \<in> set items"
      "parse_comparison e (course_config_name (regatta_course r)) (obj y) = Inr c" by blast
    with ok show "validate_handoff_comparison k (JObj (comparison_payload c)) = Inr ()"
      using handoff_comparison_accepted names(2) res by (metis in_set_conv_nth)
  qed
  have k: "adapter_kind a \<in> set COURSE_ADAPTER_KINDS"
    "\<exists>hs. supported_course_adapter_harnesses (Some (adapter_kind a)) = Inr hs \<and> adapter_harness a \<in> set hs"
    using fields parsed(1,2) unfolding validate_course_adapter_fields_def by (auto simp: result_simps)
  obtain entry evaluator where tables: "course_adapter (adapter_kind a) = Inr entry" "evaluator_adapter (adapter_kind a) = Inr evaluator"
    "validate_course_handoff_grading (JObj (grading evaluator (adapter_harness a))) = Inr ()"
    using adapter_tables k by blast
  have export: "validate_export_attribution (JObj (export_to_json x)) ''export'' = Inr ()" if "regatta_export r = Some x" for x
  proof -
    have "dget raw ''export'' \<noteq> JNull" using that sections(13) by (auto simp: parse_export_def)
    then have "has_key raw ''export''" by (rule has_key_if_dget)
    from export_accepted [OF accepted_names(3) [OF v this]] that sections(13) show ?thesis by simp
  qed
  show ?thesis
    using handoff_parts_accepted [OF adapter_json_accepted [OF fields j parsed(1-7)] prov ne tasks c cs tables(3) names]
      export
    by (simp add: handoff_document_def j tables)
qed

lemma load_not_schema:
  assumes "load_regatta e document = Inl x" shows "not_schema x"
proof -
  have "raises_only config_or_type (load_regatta e document)"
    unfolding load_regatta_def parse_regatta_def Let_def by (intro raises; simp)
  with assms show ?thesis by (cases x) (simp_all add: raises_only_def config_or_type_def)
qed

lemma adapter_to_json_not_schema: "raises_only not_schema (adapter_to_json h a)"
  unfolding adapter_to_json_def task_directory_digest_def
  by (intro raises; simp split: list.split add: raises_only_def)

section \<open>Property\<close>

text \<open>
  C6. A regatta that loads is handed off: the contract of the handoff never stops it. The handoff is
  built exactly when there is an adapter, at least one comparison and, for a custom evaluation, a
  dataset with files; otherwise a \<open>ConfigError\<close> or \<open>TypeError\<close> says why. What is written is what the
  later stages read. The parser produces no null, a resolved path is not empty, and the digests are
  64 hexadecimal digits.
\<close>

theorem handoff_never_rejected:
  assumes "toml_value (JObj document)" and "\<And>p. resolved_path e p \<noteq> []" and "\<And>b. is_sha256_hex (rank_hex e b)"
  shows "raises_only not_schema (build_course_handoff e h document)
    \<and> (is_ok (build_course_handoff e h document) \<longleftrightarrow>
        (\<exists>r a. load_regatta e document = Inr r \<and> course_adapter_config (regatta_course r) = Some a
           \<and> regatta_comparisons r \<noteq> [] \<and> is_ok (adapter_to_json h a)))
    \<and> (\<forall>files. write_course_handoff e h document directory old = Inr files
        \<longrightarrow> load_course_handoff files directory None = build_course_handoff e h document)"
proof -
  have accepted: "\<exists>handoff. handoff_document h r a = Inr handoff \<and> validate_course_handoff_document (JObj handoff) = Inr ()"
    if r: "load_regatta e document = Inr r" "course_adapter_config (regatta_course r) = Some a" "regatta_comparisons r \<noteq> []"
      and j: "adapter_to_json h a = Inr j" for r a j
  proof -
    obtain d raw drawn where stages: "validate_regatta_document (JObj raw) = Inr ()" "parse_regatta e raw drawn = Inr r"
      "select_course_adapter_instances e d = Inr (raw, drawn)" "adapter_filled raw" "adapter_set raw"
      using load_regatta_stages_drawn [OF r(1) assms(1)] by blast
    have "course_tasks (regatta_course r) \<noteq> []"
      using load_regatta_stages [OF r(1) assms(1)] parsed_regatta_loaded [OF _ _ _ _ _ assms(2)] by (auto simp: loaded_def)
    then show ?thesis using handoff_accepted [OF stages assms(2,3) r(2,3) _ j] by blast
  qed
  have failed: "handoff_document h r a = Inl x \<and> not_schema x" if "adapter_to_json h a = Inl x" for r a x
    using that adapter_to_json_not_schema [of h a] by (simp add: handoff_document_def raises_only_def)
  consider (load) x where "build_course_handoff e h document = Inl x" "load_regatta e document = Inl x" "not_schema x"
    | (adapter) r x where "build_course_handoff e h document = Inl (ConfigError x)" "load_regatta e document = Inr r"
        "course_adapter_config (regatta_course r) = None"
    | (comparisons) r x where "build_course_handoff e h document = Inl (ConfigError x)" "load_regatta e document = Inr r"
        "regatta_comparisons r = []"
    | (digest) r a x where "build_course_handoff e h document = Inl x" "load_regatta e document = Inr r"
        "course_adapter_config (regatta_course r) = Some a" "adapter_to_json h a = Inl x" "not_schema x"
    | (ok) r a j handoff where "build_course_handoff e h document = Inr handoff" "load_regatta e document = Inr r"
        "course_adapter_config (regatta_course r) = Some a" "regatta_comparisons r \<noteq> []" "adapter_to_json h a = Inr j"
        "validate_course_handoff_document (JObj handoff) = Inr ()"
  proof (cases "load_regatta e document")
    case (Inl x)
    with load load_not_schema [OF Inl] show ?thesis by (simp add: build_course_handoff_def)
  next
    case r: (Inr r)
    show ?thesis
    proof (cases "course_adapter_config (regatta_course r)")
      case None
      with adapter r show ?thesis by (simp add: build_course_handoff_def)
    next
      case a: (Some a)
      show ?thesis
      proof (cases "regatta_comparisons r = []")
        case True
        with comparisons r a show ?thesis by (simp add: build_course_handoff_def)
      next
        case c: False
        show ?thesis
        proof (cases "adapter_to_json h a")
          case (Inl x)
          with failed [OF Inl, of r] digest r a c show ?thesis by (simp add: build_course_handoff_def)
        next
          case j: (Inr j)
          from accepted [OF r a c j] obtain handoff
            where hd: "handoff_document h r a = Inr handoff" "validate_course_handoff_document (JObj handoff) = Inr ()" by blast
          then show ?thesis using ok [OF _ r a c j hd(2)] r a c by (simp add: build_course_handoff_def)
        qed
      qed
    qed
  qed
  note outcome = this
  show ?thesis
    by (cases rule: outcome) (auto simp: raises_only_def write_course_handoff_def load_course_handoff_def)
qed

definition handoff_load :: load_surroundings where
  "handoff_load = sample_load\<lparr>rank_hex := (\<lambda>_. replicate 64 CHR ''0'')\<rparr>"

definition handoff_regatta :: json_obj where
  "handoff_regatta = AList.update ''course'' (JObj [(''name'', JStr ''c''), (''adapter'', JObj
     [(''kind'', JStr ''swe-bench''), (''dataset'', JStr ''d''), (''split'', JStr ''test''), (''harness'', JStr ''docker''),
      (''instance_ids'', JList [JStr ''a'', JStr ''b'']), (''max_instances'', JInt 1)])]) sample_document"

definition no_files :: handoff_surroundings where
  "no_files = \<lparr>handoff_files = (\<lambda>_. None), handoff_sha = (\<lambda>_. [])\<rparr>"

theorem handoff_never_rejected_witness:
  "is_ok (build_course_handoff handoff_load no_files handoff_regatta)
   \<and> (case write_course_handoff handoff_load no_files handoff_regatta ''/l'' (\<lambda>_. None) of
        Inl _ \<Rightarrow> False
      | Inr files \<Rightarrow> load_course_handoff files ''/l'' None = build_course_handoff handoff_load no_files handoff_regatta)"
proof -
  have t: "toml_value (JObj handoff_regatta)" by code_simp
  have p: "resolved_path handoff_load q \<noteq> []" for q by (simp add: handoff_load_def sample_load_def)
  have "is_sha256_hex (replicate 64 CHR ''0'')" by code_simp
  then have x: "is_sha256_hex (rank_hex handoff_load b)" for b by (simp add: handoff_load_def)
  have "case load_regatta handoff_load handoff_regatta of
      Inr r \<Rightarrow> (case course_adapter_config (regatta_course r) of
        Some a \<Rightarrow> length (regatta_comparisons r) = 1 \<and> length (course_tasks (regatta_course r)) = 1 \<and> adapter_kind a = ''swe-bench''
      | None \<Rightarrow> False)
    | Inl _ \<Rightarrow> False"
    by code_simp
  then have "\<exists>r a. load_regatta handoff_load handoff_regatta = Inr r \<and> course_adapter_config (regatta_course r) = Some a
      \<and> regatta_comparisons r \<noteq> [] \<and> is_ok (adapter_to_json no_files a)"
    by (fastforce simp: adapter_to_json_def split: sum.splits option.splits)
  note handed = handoff_never_rejected [OF t p x, of no_files "''/l''" "\<lambda>_. None"] this
  have built: "is_ok (build_course_handoff handoff_load no_files handoff_regatta)" using handed by blast
  have read: "load_course_handoff files ''/l'' None = build_course_handoff handoff_load no_files handoff_regatta"
    if "write_course_handoff handoff_load no_files handoff_regatta ''/l'' (\<lambda>_. None) = Inr files" for files
    using handed that by blast
  from built obtain files where "write_course_handoff handoff_load no_files handoff_regatta ''/l'' (\<lambda>_. None) = Inr files"
    by (auto simp: is_ok_iff write_course_handoff_def)
  with built read show ?thesis by simp
qed

end
