(* ===== verification/Actions.thy ===== *)
theory Actions
  imports PyValue
begin

text \<open>
  Effects of the launcher's controller: an action takes the state and returns a result or an
  exception with the new state, or \<open>None\<close> when it does not return. \<open>act_bind\<close> is the sequence,
  \<open>attempt\<close> is \<open>try: m except: h\<close>. Two collections carry the proofs about composed
  actions: \<open>act_total\<close> (the action returns) and \<open>act_keeps\<close> (it keeps a predicate of the state).
\<close>

type_synonym ('s, 'a) act = "'s \<Rightarrow> ((exn + 'a) \<times> 's) option"

definition ret :: "'a \<Rightarrow> ('s, 'a) act" where
  "ret x s = Some (Inr x, s)"

definition throw :: "exn \<Rightarrow> ('s, 'a) act" where
  "throw e s = Some (Inl e, s)"

definition from_result :: "exn + 'a \<Rightarrow> ('s, 'a) act" where
  "from_result r s = Some (r, s)"

definition modify :: "('s \<Rightarrow> 's) \<Rightarrow> ('s, unit) act" where
  "modify f s = Some (Inr (), f s)"

definition reading :: "('s \<Rightarrow> 'b) \<Rightarrow> ('b \<Rightarrow> ('s, 'a) act) \<Rightarrow> ('s, 'a) act" where
  "reading f g s = g (f s) s"

definition act_bind :: "('s, 'a) act \<Rightarrow> ('a \<Rightarrow> ('s, 'b) act) \<Rightarrow> ('s, 'b) act" where
  "act_bind m f s = (case m s of
     None \<Rightarrow> None | Some (Inl e, s') \<Rightarrow> Some (Inl e, s') | Some (Inr x, s') \<Rightarrow> f x s')"

definition attempt :: "('s, 'a) act \<Rightarrow> (exn \<Rightarrow> ('s, 'a) act) \<Rightarrow> ('s, 'a) act" where
  "attempt m h s = (case m s of
     None \<Rightarrow> None | Some (Inl e, s') \<Rightarrow> h e s' | Some (Inr x, s') \<Rightarrow> Some (Inr x, s'))"

text \<open>\<open>except asyncio.CancelledError: raise; except Exception: h\<close>.\<close>

definition catching :: "('s, 'a) act \<Rightarrow> (exn \<Rightarrow> ('s, 'a) act) \<Rightarrow> ('s, 'a) act" where
  "catching m h = attempt m (\<lambda>e. if e = Cancelled then throw Cancelled else h e)"

text \<open>A loop whose body says whether to go on.\<close>

fun each_until :: "('a \<Rightarrow> ('s, bool) act) \<Rightarrow> 'a list \<Rightarrow> ('s, bool) act" where
  "each_until f [] = ret True"
| "each_until f (x # xs) = act_bind (f x) (\<lambda>go. if go then each_until f xs else ret False)"

lemma act_bind_eq: "act_bind m f s = Some (r, s') \<longleftrightarrow>
    (\<exists>e. m s = Some (Inl e, s') \<and> r = Inl e) \<or> (\<exists>x s1. m s = Some (Inr x, s1) \<and> f x s1 = Some (r, s'))"
  by (auto simp: act_bind_def split: option.splits sum.splits)

lemma attempt_eq: "attempt m h s = Some (r, s') \<longleftrightarrow>
    (\<exists>e s1. m s = Some (Inl e, s1) \<and> h e s1 = Some (r, s')) \<or> (\<exists>x. m s = Some (Inr x, s') \<and> r = Inr x)"
  by (auto simp: attempt_def split: option.splits sum.splits)

lemma ret_eq: "ret x s = Some (r, s') \<longleftrightarrow> r = Inr x \<and> s' = s"
  by (auto simp: ret_def)

lemma throw_eq: "throw e s = Some (r, s') \<longleftrightarrow> r = Inl e \<and> s' = s"
  by (auto simp: throw_def)

lemma from_result_eq: "from_result x s = Some (r, s') \<longleftrightarrow> x = r \<and> s' = s"
  by (auto simp: from_result_def)

lemma modify_eq: "modify f s = Some (r, s') \<longleftrightarrow> r = Inr () \<and> s' = f s"
  by (auto simp: modify_def)

lemmas act_eqs = act_bind_eq attempt_eq ret_eq throw_eq from_result_eq modify_eq

section \<open>Returning\<close>

named_theorems act_total \<open>the action returns from every state\<close>

definition returns :: "('s, 'a) act \<Rightarrow> bool" where
  "returns m \<longleftrightarrow> (\<forall>s. m s \<noteq> None)"

lemma returns_ret [act_total]: "returns (ret x)"
  by (simp add: returns_def ret_def)

lemma returns_throw [act_total]: "returns (throw e)"
  by (simp add: returns_def throw_def)

lemma returns_from_result [act_total]: "returns (from_result r)"
  by (simp add: returns_def from_result_def)

lemma returns_modify [act_total]: "returns (modify f)"
  by (simp add: returns_def modify_def)

lemma returns_reading [act_total]: "(\<And>x. returns (g x)) \<Longrightarrow> returns (reading f g)"
  by (simp add: returns_def reading_def)

lemma returns_bind [act_total]: "returns m \<Longrightarrow> (\<And>x. returns (f x)) \<Longrightarrow> returns (act_bind m f)"
  by (auto simp: returns_def act_bind_def split: option.splits prod.splits sum.splits)

lemma returns_attempt [act_total]: "returns m \<Longrightarrow> (\<And>e. returns (h e)) \<Longrightarrow> returns (attempt m h)"
  by (auto simp: returns_def attempt_def split: option.splits prod.splits sum.splits)

lemma returns_catching [act_total]: "returns m \<Longrightarrow> (\<And>e. returns (h e)) \<Longrightarrow> returns (catching m h)"
  unfolding catching_def by (intro act_total) (auto intro: act_total)

lemma returns_if [act_total]: "(c \<Longrightarrow> returns m) \<Longrightarrow> (\<not> c \<Longrightarrow> returns m') \<Longrightarrow> returns (if c then m else m')"
  by simp

lemma returns_each_until [act_total]: "(\<And>x. returns (f x)) \<Longrightarrow> returns (each_until f xs)"
proof (induction xs)
  case (Cons x xs)
  then show ?case by (auto intro!: act_total)
qed (simp add: act_total)

section \<open>Invariants\<close>

named_theorems act_keeps \<open>the action keeps a predicate of the state, whether it returns or raises\<close>

definition keeps :: "('s \<Rightarrow> bool) \<Rightarrow> ('s, 'a) act \<Rightarrow> bool" where
  "keeps P m \<longleftrightarrow> (\<forall>s r s'. P s \<longrightarrow> m s = Some (r, s') \<longrightarrow> P s')"

lemma keepsD: "keeps P m \<Longrightarrow> m s = Some (r, s') \<Longrightarrow> P s \<Longrightarrow> P s'"
  by (auto simp: keeps_def)

lemma keeps_ret [act_keeps]: "keeps P (ret x)"
  by (simp add: keeps_def ret_def)

lemma keeps_throw [act_keeps]: "keeps P (throw e)"
  by (simp add: keeps_def throw_def)

lemma keeps_from_result [act_keeps]: "keeps P (from_result r)"
  by (simp add: keeps_def from_result_def)

lemma keeps_modify [act_keeps]: "(\<And>s. P s \<Longrightarrow> P (f s)) \<Longrightarrow> keeps P (modify f)"
  by (simp add: keeps_def modify_def)

lemma keeps_reading [act_keeps]: "(\<And>x. keeps P (g x)) \<Longrightarrow> keeps P (reading f g)"
  unfolding keeps_def reading_def by blast

lemma keeps_bind [act_keeps]: "keeps P m \<Longrightarrow> (\<And>x. keeps P (f x)) \<Longrightarrow> keeps P (act_bind m f)"
  unfolding keeps_def act_bind_eq by blast

lemma keeps_attempt [act_keeps]: "keeps P m \<Longrightarrow> (\<And>e. keeps P (h e)) \<Longrightarrow> keeps P (attempt m h)"
  unfolding keeps_def attempt_eq by blast

lemma keeps_catching [act_keeps]: "keeps P m \<Longrightarrow> (\<And>e. keeps P (h e)) \<Longrightarrow> keeps P (catching m h)"
  unfolding catching_def by (intro act_keeps) (auto intro: act_keeps)

lemma keeps_if [act_keeps]: "(c \<Longrightarrow> keeps P m) \<Longrightarrow> (\<not> c \<Longrightarrow> keeps P m') \<Longrightarrow> keeps P (if c then m else m')"
  by simp

lemma keeps_each_until [act_keeps]: "(\<And>x. keeps P (f x)) \<Longrightarrow> keeps P (each_until f xs)"
proof (induction xs)
  case (Cons x xs)
  then show ?case by (auto intro!: act_keeps)
qed (simp add: act_keeps)

section \<open>What a step that succeeds establishes\<close>

definition ensures :: "('s \<Rightarrow> bool) \<Rightarrow> ('s, 'a) act \<Rightarrow> ('a \<Rightarrow> 's \<Rightarrow> bool) \<Rightarrow> bool" where
  "ensures P m Q \<longleftrightarrow> (\<forall>s x s'. P s \<longrightarrow> m s = Some (Inr x, s') \<longrightarrow> Q x s')"

lemma ensuresD: "ensures P m Q \<Longrightarrow> m s = Some (Inr x, s') \<Longrightarrow> P s \<Longrightarrow> Q x s'"
  by (auto simp: ensures_def)

lemma ensures_bind: "ensures P m R \<Longrightarrow> (\<And>x. ensures (R x) (f x) Q) \<Longrightarrow> ensures P (act_bind m f) Q"
  unfolding ensures_def act_bind_eq by blast

lemma ensures_kept: "keeps P m \<Longrightarrow> (\<And>x. ensures P (f x) Q) \<Longrightarrow> ensures P (act_bind m f) Q"
  unfolding ensures_def keeps_def act_bind_eq by blast

lemma ensures_from_result: "(\<And>x s. r = Inr x \<Longrightarrow> P s \<Longrightarrow> Q x s) \<Longrightarrow> ensures P (from_result r) Q"
  by (auto simp: ensures_def from_result_def)

lemma ensures_result: "(\<And>x. r = Inr x \<Longrightarrow> ensures P (f x) Q) \<Longrightarrow> ensures P (act_bind (from_result r) f) Q"
  unfolding ensures_def act_bind_eq from_result_eq by blast

lemma ensures_modify: "(\<And>s. P s \<Longrightarrow> Q () (f s)) \<Longrightarrow> ensures P (modify f) Q"
  by (auto simp: ensures_def modify_def)

lemma ensures_ret: "(\<And>s. P s \<Longrightarrow> Q x s) \<Longrightarrow> ensures P (ret x) Q"
  by (auto simp: ensures_def ret_def)

lemma ensures_reading: "(\<And>x. ensures P (g x) Q) \<Longrightarrow> ensures P (reading f g) Q"
  unfolding ensures_def reading_def by blast

lemma ensures_if: "(c \<Longrightarrow> ensures P m Q) \<Longrightarrow> (\<not> c \<Longrightarrow> ensures P m' Q) \<Longrightarrow> ensures P (if c then m else m') Q"
  by simp

lemma ensures_throw: "ensures P (throw e) Q"
  by (simp add: ensures_def throw_def)

lemma ensures_weaken: "ensures P m Q \<Longrightarrow> (\<And>s. P' s \<Longrightarrow> P s) \<Longrightarrow> (\<And>x s. Q x s \<Longrightarrow> Q' x s) \<Longrightarrow> ensures P' m Q'"
  unfolding ensures_def by blast

lemma ensures_each_until:
  "(\<And>x. ensures P (f x) (\<lambda>go s. P s \<and> (\<not> go \<longrightarrow> R s))) \<Longrightarrow> ensures P (each_until f xs) (\<lambda>go s. P s \<and> (\<not> go \<longrightarrow> R s))"
proof (induction xs)
  case Nil
  show ?case by (simp add: ensures_ret)
next
  case (Cons x xs)
  show ?case unfolding each_until.simps
  proof (rule ensures_bind [OF Cons.prems])
    fix go
    have "ensures P (each_until f xs) (\<lambda>go s. P s \<and> (\<not> go \<longrightarrow> R s))" using Cons by blast
    then show "ensures (\<lambda>s. P s \<and> (\<not> go \<longrightarrow> R s)) (if go then each_until f xs else ret False) (\<lambda>go s. P s \<and> (\<not> go \<longrightarrow> R s))"
      by (cases go) (auto intro: ensures_ret elim: ensures_weaken)
  qed
qed

lemma ensures_case_prod: "(\<And>a b. p = (a, b) \<Longrightarrow> ensures P (f a b) Q) \<Longrightarrow> ensures P (case p of (a, b) \<Rightarrow> f a b) Q"
  by (cases p) simp

lemmas ensures_steps = ensures_kept ensures_result ensures_ret ensures_reading ensures_if ensures_throw ensures_case_prod

end
