(* ===== verification/Quiesce.thy ===== *)
theory Quiesce
  imports Relay
begin

text \<open>
  Quiescing the task container, from \<open>yacht_harbor_agents/quiesce.py\<close> and the cleanup of
  \<open>controlled_omp.py\<close> (\<open>_snapshot\<close>, \<open>production_final_cleanup\<close>): the process table, the
  baseline taken before the agent runs, the selection of what to reap and the reap loop.

  The container is outside the program: \<open>container\<close> is what \<open>environment.exec\<close> does with the
  three commands the launcher composes, on an abstract world.
\<close>

section \<open>Text\<close>

text \<open>\<open>s.split()\<close>.\<close>

definition words_of :: "string \<Rightarrow> string list" where
  "words_of s = filter (\<lambda>w. w \<noteq> []) (split_on (CHR '' '') (map (\<lambda>c. if is_space c then CHR '' '' else c) s))"

text \<open>
  \<open>int(s)\<close>: one sign, ASCII digits with single underscores between them, at most 4300 digits,
  white space around (only C white space when the whole string is ASCII).
\<close>

definition int_space :: "string \<Rightarrow> char \<Rightarrow> bool" where
  "int_space s c = (if list_all (\<lambda>d. code_point d < 128) s
     then 9 \<le> code_point c \<and> code_point c \<le> 13 \<or> code_point c = 32 else is_space c)"

definition digits_value :: "string \<Rightarrow> int" where
  "digits_value ds = foldl (\<lambda>n c. 10 * n + int (code_point c - 48)) 0 ds"

definition parse_int :: "string \<Rightarrow> exn + int" where
  "parse_int s =
     (let t = rev (dropWhile (int_space s) (rev (dropWhile (int_space s) s)));
          negative = (t \<noteq> [] \<and> hd t = CHR ''-'');
          body = (if t \<noteq> [] \<and> (hd t = CHR ''-'' \<or> hd t = CHR ''+'') then tl t else t);
          groups = split_on (CHR ''_'') body
      in if list_all (\<lambda>g. g \<noteq> [] \<and> list_all is_digit g) groups \<and> length (concat groups) \<le> 4300
         then Inr (if negative then - digits_value (concat groups) else digits_value (concat groups))
         else Inl (PyValueError (''invalid literal for int() with base 10: '' @ py_repr s)))"

text \<open>\<open>v or []\<close>.\<close>

definition or_list :: "json \<Rightarrow> json" where
  "or_list v = (if truthy v then v else JList [])"

section \<open>The process table of the host\<close>

record proc_entry =
  pid :: int
  ppid :: int
  starttime :: int
  cmdline :: string
  proc_state :: string

record process_baseline =
  identities :: "(int \<times> int) set"
  cmdlines :: "string set"

definition ZOMBIE_STATE :: string where
  "ZOMBIE_STATE = ''Z''"

definition identity :: "proc_entry \<Rightarrow> int \<times> int" where
  "identity p = (pid p, starttime p)"

text \<open>\<open>text[: text.find("(")]\<close> and \<open>text[text.rfind(")") + 1 :]\<close>; \<open>find\<close> gives -1 when there is none.\<close>

definition before_paren :: "string \<Rightarrow> string" where
  "before_paren s = (if CHR ''('' \<in> set s then takeWhile (\<lambda>c. c \<noteq> CHR ''('') s else butlast s)"

definition after_paren :: "string \<Rightarrow> string" where
  "after_paren s = rev (takeWhile (\<lambda>c. c \<noteq> CHR '')'') (rev s))"

definition item_at :: "'a list \<Rightarrow> nat \<Rightarrow> exn + 'a" where
  "item_at xs i = (if i < length xs then Inr (xs ! i) else Inl (IndexError ''list index out of range''))"

definition parse_stat :: "string \<Rightarrow> exn + int \<times> int \<times> int \<times> string" where
  "parse_stat text =
     (let rest = words_of (after_paren text) in
      bnd (parse_int (strip (before_paren text))) (\<lambda>p.
      bnd (item_at rest 0) (\<lambda>state.
      bnd (bnd (item_at rest 1) parse_int) (\<lambda>parent.
      bnd (bnd (item_at rest 19) parse_int) (\<lambda>start.
      Inr (p, parent, start, state))))))"

text \<open>
  A directory of \<open>/proc\<close>: the two files as they are read, \<open>None\<close> when the read raises \<open>OSError\<close>.
  The decoding of UTF-8 maps the byte 0 to the character 0 and no other byte to it, so that the
  replacement is made on the decoded text. \<open>isdigit\<close> also holds of the superscripts of Latin-1.
\<close>

record proc_dir =
  dir_name :: string
  stat_text :: "string option"
  cmdline_text :: "string option"

definition is_digit_name :: "string \<Rightarrow> bool" where
  "is_digit_name s = (s \<noteq> [] \<and> list_all (\<lambda>c. is_digit c \<or> code_point c \<in> {178, 179, 185}) s)"

definition read_proc_dir :: "proc_dir \<Rightarrow> proc_entry list" where
  "read_proc_dir d =
     (if is_digit_name (dir_name d) then
        case (stat_text d, cmdline_text d) of
          (Some stat, Some cmd) \<Rightarrow>
            (case parse_stat stat of
               Inl _ \<Rightarrow> []
             | Inr (p, parent, start, state) \<Rightarrow>
                 [\<lparr>pid = p, ppid = parent, starttime = start,
                   cmdline = strip (map (\<lambda>c. if code_point c = 0 then CHR '' '' else c) cmd),
                   proc_state = state\<rparr>])
        | _ \<Rightarrow> []
      else [])"

definition iter_proc :: "proc_dir list option \<Rightarrow> proc_entry list" where
  "iter_proc children = (case children of None \<Rightarrow> [] | Some dirs \<Rightarrow> concat (map read_proc_dir dirs))"

definition snapshot_process_baseline :: "proc_dir list option \<Rightarrow> process_baseline" where
  "snapshot_process_baseline children =
     \<lparr>identities = identity ` set (iter_proc children),
      cmdlines = {c \<in> cmdline ` set (iter_proc children). c \<noteq> []}\<rparr>"

definition must_reap :: "process_baseline \<Rightarrow> int set \<Rightarrow> proc_entry \<Rightarrow> bool" where
  "must_reap baseline protect p \<longleftrightarrow>
     pid p \<noteq> 1 \<and> proc_state p \<noteq> ZOMBIE_STATE \<and> pid p \<notin> protect \<and> identity p \<notin> identities baseline"

definition select_reap_pids :: "proc_dir list option \<Rightarrow> process_baseline \<Rightarrow> int set \<Rightarrow> int list" where
  "select_reap_pids children baseline protect = map pid (filter (must_reap baseline protect) (iter_proc children))"

section \<open>The process table of the container\<close>

definition entry_int :: "json \<Rightarrow> string \<Rightarrow> exn + int" where
  "entry_int entry key = bnd (subscript entry key) (py_int parse_int)"

definition text_value :: "(json \<Rightarrow> string) \<Rightarrow> json \<Rightarrow> string" where
  "text_value str v = (case v of JStr s \<Rightarrow> s | _ \<Rightarrow> str v)"

text \<open>\<open>str(entry.get(key) or "")\<close>, after a subscript has succeeded.\<close>

definition entry_text :: "(json \<Rightarrow> string) \<Rightarrow> json \<Rightarrow> string \<Rightarrow> string" where
  "entry_text str entry key = (let v = dget (obj entry) key in if truthy v then text_value str v else [])"

definition entry_identity :: "json \<Rightarrow> exn + int \<times> int" where
  "entry_identity entry = bnd (entry_int entry ''pid'') (\<lambda>p.
     bnd (entry_int entry ''starttime'') (\<lambda>start. Inr (p, start)))"

definition baseline_from_entries :: "(json \<Rightarrow> string) \<Rightarrow> json \<Rightarrow> exn + process_baseline" where
  "baseline_from_entries str entries =
     bnd (iterate entries) (\<lambda>es.
     bnd (mapR (\<lambda>e. bnd (entry_identity e) (\<lambda>i. Inr (i, entry_text str e ''cmdline''))) es) (\<lambda>rows.
     Inr \<lparr>identities = set (map fst rows), cmdlines = set (filter (\<lambda>c. c \<noteq> []) (map snd rows))\<rparr>))"

definition reap_entry :: "(json \<Rightarrow> string) \<Rightarrow> process_baseline \<Rightarrow> int set \<Rightarrow> json \<Rightarrow> exn + (int \<times> int) list" where
  "reap_entry str baseline protect entry =
     bnd (entry_identity entry) (\<lambda>(p, start).
     Inr (if p = 1 \<or> p \<in> protect then []
          else if entry_text str entry ''state'' = ZOMBIE_STATE then []
          else if (p, start) \<in> identities baseline then []
          else [(p, start)]))"

definition reap_from_entries ::
    "(json \<Rightarrow> string) \<Rightarrow> process_baseline \<Rightarrow> int set \<Rightarrow> json \<Rightarrow> exn + (int \<times> int) list" where
  "reap_from_entries str baseline protect entries =
     bnd (iterate entries) (\<lambda>es. bnd (mapR (reap_entry str baseline protect) es) (\<lambda>rs. Inr (concat rs)))"

section \<open>Scanning and reaping\<close>

record exec_result =
  return_code :: "int option"
  stdout :: "string option"
  stderr :: "string option"

text \<open>The commands the launcher runs in the container, and how their time is limited.\<close>

datatype command = Snapshot | Kill int int | Read_capture string int

datatype exec_limit = Unlimited | Exec_timeout int | Wait_for int

record 'w container =
  exec :: "command \<Rightarrow> exec_limit \<Rightarrow> 'w \<Rightarrow> (exn + exec_result) \<times> 'w"

text \<open>\<open>s or t\<close> on optional strings.\<close>

definition or_text :: "string option \<Rightarrow> string \<Rightarrow> string" where
  "or_text s t = (case s of None \<Rightarrow> t | Some x \<Rightarrow> if x = [] then t else x)"

definition EMPTY_SNAPSHOT :: json where
  "EMPTY_SNAPSHOT = JObj [(''entries'', JList []), (''own'', JList [])]"

definition own_pair :: "json \<Rightarrow> exn + (int \<times> int) list" where
  "own_pair pair = (case pair of
     JList [a, b] \<Rightarrow> bnd (py_int parse_int a) (\<lambda>p. bnd (py_int parse_int b) (\<lambda>start. Inr [(p, start)]))
   | _ \<Rightarrow> Inr [])"

definition read_snapshot :: "(string \<Rightarrow> exn + json) \<Rightarrow> exec_result \<Rightarrow> exn + json \<times> (int \<times> int) set" where
  "read_snapshot loads result =
     bnd (ensure (return_code result = Some 0)
       (ControlError (''process snapshot failed: '' @ or_text (stderr result) (or_text (stdout result) [])))) (\<lambda>_.
     bnd (case stdout result of
            Some text \<Rightarrow> if text = [] then Inr EMPTY_SNAPSHOT else loads text
          | None \<Rightarrow> Inr EMPTY_SNAPSHOT) (\<lambda>payload.
     case payload of
       JList xs \<Rightarrow> Inr (payload, {})
     | JObj d \<Rightarrow>
         bnd (iterate (or_list (dget d ''own''))) (\<lambda>pairs.
         bnd (mapR own_pair pairs) (\<lambda>own.
         Inr (or_list (dget d ''entries''), set (concat own))))
     | _ \<Rightarrow> Inl (AttributeError ''object has no attribute get'')))"

definition snapshot ::
    "(string \<Rightarrow> exn + json) \<Rightarrow> 'w container \<Rightarrow> 'w \<Rightarrow> (exn + json \<times> (int \<times> int) set) \<times> 'w" where
  "snapshot loads C w = (case exec C Snapshot Unlimited w of (r, w') \<Rightarrow> (bnd r (read_snapshot loads), w'))"

text \<open>The state of a cleanup: the world, the scanner identities seen so far, the kills asked for.\<close>

record 'w reaper =
  reaper_world :: 'w
  scanner_identities :: "(int \<times> int) set"
  kills :: "(int \<times> int) list"

fun kill_all :: "'w container \<Rightarrow> (int \<times> int) list \<Rightarrow> 'w reaper \<Rightarrow> (exn + unit) \<times> 'w reaper" where
  "kill_all C [] r = (Inr (), r)"
| "kill_all C ((p, start) # victims) r =
     (case exec C (Kill p start) Unlimited (reaper_world r) of (res, w) \<Rightarrow>
        (let r' = r\<lparr>reaper_world := w, kills := kills r @ [(p, start)]\<rparr>
         in case res of Inl e \<Rightarrow> (Inl e, r') | Inr _ \<Rightarrow> kill_all C victims r'))"

text \<open>One attempt: \<open>True\<close> when nothing is left to reap.\<close>

definition reap_attempt ::
    "(json \<Rightarrow> string) \<Rightarrow> (string \<Rightarrow> exn + json) \<Rightarrow> 'w container \<Rightarrow> process_baseline \<Rightarrow> int set \<Rightarrow>
     'w reaper \<Rightarrow> (exn + bool) \<times> 'w reaper" where
  "reap_attempt str loads C baseline protect r =
     (case snapshot loads C (reaper_world r) of (scan, w) \<Rightarrow>
        (let r = r\<lparr>reaper_world := w\<rparr> in
         case scan of
           Inl e \<Rightarrow> (Inl e, r)
         | Inr (entries, own) \<Rightarrow>
             (let r = r\<lparr>scanner_identities := scanner_identities r \<union> own\<rparr> in
              case reap_from_entries str baseline protect entries of
                Inl e \<Rightarrow> (Inl e, r)
              | Inr found \<Rightarrow>
                  (let reap = filter (\<lambda>i. i \<notin> scanner_identities r \<and> i \<notin> own) found
                   in if reap = [] then (Inr True, r)
                      else case kill_all C reap r of
                        (Inl e, r) \<Rightarrow> (Inl e, r) | (Inr _, r) \<Rightarrow> (Inr False, r)))))"

fun reap_loop ::
    "nat \<Rightarrow> (json \<Rightarrow> string) \<Rightarrow> (string \<Rightarrow> exn + json) \<Rightarrow> 'w container \<Rightarrow> process_baseline \<Rightarrow> int set \<Rightarrow>
     'w reaper \<Rightarrow> (exn + unit) \<times> 'w reaper" where
  "reap_loop 0 str loads C baseline protect r = (Inl (ControlError ''quiescence failed''), r)"
| "reap_loop (Suc n) str loads C baseline protect r =
     (case reap_attempt str loads C baseline protect r of
        (Inl e, r') \<Rightarrow> (Inl e, r')
      | (Inr True, r') \<Rightarrow> (Inr (), r')
      | (Inr False, r') \<Rightarrow> reap_loop n str loads C baseline protect r')"

definition REAP_ATTEMPTS :: nat where
  "REAP_ATTEMPTS = 6"

definition production_final_cleanup ::
    "(json \<Rightarrow> string) \<Rightarrow> (string \<Rightarrow> exn + json) \<Rightarrow> 'w container \<Rightarrow> process_baseline option \<Rightarrow> int set \<Rightarrow>
     'w reaper \<Rightarrow> (exn + unit) \<times> 'w reaper" where
  "production_final_cleanup str loads C baseline protect r = (case baseline of
     None \<Rightarrow> (Inl (ControlError ''missing process baseline''), r)
   | Some b \<Rightarrow> reap_loop REAP_ATTEMPTS str loads C b protect r)"


section \<open>Lemmas\<close>

lemma reap_entry_eq_Inr:
  "reap_entry str baseline protect e = Inr out \<longleftrightarrow> (\<exists>i. entry_identity e = Inr i
     \<and> out = (if fst i = 1 \<or> fst i \<in> protect \<or> entry_text str e ''state'' = ZOMBIE_STATE \<or> i \<in> identities baseline
              then [] else [i]))"
  by (auto simp: reap_entry_def bnd_eq_Inr)

lemma reap_found:
  assumes "reap_from_entries str baseline protect entries = Inr found"
  shows "(\<forall>i\<in>set found. fst i \<noteq> 1 \<and> fst i \<notin> protect \<and> i \<notin> identities baseline)
    \<and> (\<exists>es. iterate entries = Inr es \<and> (\<forall>e\<in>set es. \<exists>i. entry_identity e = Inr i \<and>
         (fst i = 1 \<or> fst i \<in> protect \<or> entry_text str e ''state'' = ZOMBIE_STATE \<or> i \<in> identities baseline
          \<or> i \<in> set found)))"
proof -
  from assms obtain es rs where es: "iterate entries = Inr es" "mapR (reap_entry str baseline protect) es = Inr rs"
    and found: "found = concat rs"
    by (auto simp: reap_from_entries_def bnd_eq_Inr)
  then have all: "list_all2 (\<lambda>e out. reap_entry str baseline protect e = Inr out) es rs"
    by (simp add: mapR_eq_Inr)
  have "\<forall>out\<in>set rs. \<forall>i\<in>set out. fst i \<noteq> 1 \<and> fst i \<notin> protect \<and> i \<notin> identities baseline"
    using all by (induction rule: list_all2_induct) (auto simp: reap_entry_eq_Inr split: if_splits)
  moreover have "\<exists>out\<in>set rs. reap_entry str baseline protect e = Inr out" if "e \<in> set es" for e
    using all that by (induction rule: list_all2_induct) auto
  then have "\<forall>e\<in>set es. \<exists>i. entry_identity e = Inr i \<and>
       (fst i = 1 \<or> fst i \<in> protect \<or> entry_text str e ''state'' = ZOMBIE_STATE \<or> i \<in> identities baseline
        \<or> i \<in> set (concat rs))"
    by (fastforce simp: reap_entry_eq_Inr split: if_splits)
  ultimately show ?thesis using es(1) found by auto
qed

lemma kill_all_kills:
  "kill_all C victims r = (res, r') \<Longrightarrow> scanner_identities r' = scanner_identities r
     \<and> (\<exists>ks. kills r' = kills r @ ks \<and> set ks \<subseteq> set victims)"
proof (induction victims arbitrary: r)
  case (Cons v victims)
  obtain p start where v: "v = (p, start)" by (cases v)
  obtain x w where x: "exec C (Kill p start) Unlimited (reaper_world r) = (x, w)" by fastforce
  show ?case
  proof (cases x)
    case (Inl e)
    with Cons.prems v x show ?thesis by (auto simp: Let_def)
  next
    case (Inr y)
    with Cons.prems v x have "kill_all C victims (r\<lparr>reaper_world := w, kills := kills r @ [(p, start)]\<rparr>) = (res, r')"
      by (simp add: Let_def)
    from Cons.IH [OF this] show ?thesis using v by auto
  qed
qed simp

lemma reap_attempt_result:
  assumes "reap_attempt str loads C baseline protect r = (res, r')"
  shows "scanner_identities r \<subseteq> scanner_identities r'
    \<and> (\<exists>ks. kills r' = kills r @ ks \<and> (\<forall>i\<in>set ks. fst i \<noteq> 1 \<and> fst i \<notin> protect \<and> i \<notin> identities baseline
           \<and> i \<notin> scanner_identities r))
    \<and> (res = Inr True \<longrightarrow> (\<exists>w entries own found. snapshot loads C w = (Inr (entries, own), reaper_world r')
         \<and> reap_from_entries str baseline protect entries = Inr found \<and> set found \<subseteq> scanner_identities r'))"
proof -
  obtain x w where x: "snapshot loads C (reaper_world r) = (x, w)" by fastforce
  show ?thesis
  proof (cases x)
    case (Inl e)
    with assms x show ?thesis by (auto simp: reap_attempt_def)
  next
    case (Inr eo)
    obtain entries own where eo: "eo = (entries, own)" by (cases eo)
    define r1 where "r1 = r\<lparr>reaper_world := w, scanner_identities := scanner_identities r \<union> own\<rparr>"
    show ?thesis
    proof (cases "reap_from_entries str baseline protect entries")
      case (Inl e)
      with assms x Inr eo show ?thesis by (auto simp: reap_attempt_def)
    next
      case found: (Inr found)
      define reap where "reap = filter (\<lambda>i. i \<notin> scanner_identities r \<union> own \<and> i \<notin> own) found"
      have res: "(res, r') = (if reap = [] then (Inr True, r1) else case kill_all C reap r1 of
                    (Inl e, r) \<Rightarrow> (Inl e, r) | (Inr _, r) \<Rightarrow> (Inr False, r))"
        using assms x Inr eo found by (simp add: reap_attempt_def Let_def reap_def r1_def split: if_splits)
      have ok: "\<forall>i\<in>set reap. fst i \<noteq> 1 \<and> fst i \<notin> protect \<and> i \<notin> identities baseline \<and> i \<notin> scanner_identities r"
        using reap_found [OF found] by (auto simp: reap_def)
      show ?thesis
      proof (cases "reap = []")
        case True
        then have "set found \<subseteq> scanner_identities r \<union> own" by (auto simp: reap_def filter_empty_conv)
        with True res x Inr eo found show ?thesis by (auto simp: r1_def)
      next
        case False
        obtain y r2 where y: "kill_all C reap r1 = (y, r2)" by fastforce
        from kill_all_kills [OF y] obtain ks where "kills r2 = kills r1 @ ks" "set ks \<subseteq> set reap"
          "scanner_identities r2 = scanner_identities r1" by auto
        with ok False res y show ?thesis by (cases y) (auto simp: r1_def)
      qed
    qed
  qed
qed

text \<open>A container that does what it is asked: a scan shows its table and the scanner's own processes, a kill
  removes its victim and starts nothing.\<close>

definition entry_row :: "proc_entry \<Rightarrow> json" where
  "entry_row p = JObj [(''pid'', JInt (pid p)), (''ppid'', JInt (ppid p)), (''starttime'', JInt (starttime p)),
     (''state'', JStr (proc_state p)), (''cmdline'', JStr (cmdline p))]"

definition snapshot_json :: "proc_entry list \<Rightarrow> proc_entry list \<Rightarrow> json" where
  "snapshot_json table scanner = JObj [(''entries'', JList (map entry_row (table @ scanner))),
     (''own'', JList (map (\<lambda>p. JList [JInt (pid p), JInt (starttime p)]) scanner))]"

definition obedient ::
    "(string \<Rightarrow> exn + json) \<Rightarrow> 'w container \<Rightarrow> ('w \<Rightarrow> proc_entry list) \<Rightarrow> ('w \<Rightarrow> proc_entry list) \<Rightarrow> bool" where
  "obedient loads C table scanner \<longleftrightarrow>
     (\<forall>w. \<exists>text w'. exec C Snapshot Unlimited w = (Inr \<lparr>return_code = Some 0, stdout = Some text, stderr = None\<rparr>, w')
        \<and> text \<noteq> [] \<and> loads text = Inr (snapshot_json (table w) (scanner w)) \<and> table w' = table w)
   \<and> (\<forall>w p start. \<exists>res w'. exec C (Kill p start) Unlimited w = (Inr res, w')
        \<and> set (table w') \<subseteq> {q \<in> set (table w). identity q \<noteq> (p, start)})"

lemma entry_row_identity [simp]: "entry_identity (entry_row p) = Inr (identity p)"
  by (simp add: entry_identity_def entry_int_def subscript_def entry_row_def py_int_def identity_def)

lemma entry_row_state [simp]: "entry_text str (entry_row p) ''state'' = proc_state p"
  by (auto simp: entry_text_def entry_row_def text_value_def Let_def)

lemma reap_rows: "reap_from_entries str baseline protect (JList (map entry_row ps))
    = Inr (map identity (filter (must_reap baseline protect) ps))"
proof -
  have "reap_entry str baseline protect (entry_row p) = Inr (if must_reap baseline protect p then [identity p] else [])" for p
    by (auto simp: reap_entry_def must_reap_def identity_def)
  then have "mapR (reap_entry str baseline protect) (map entry_row ps)
      = Inr (map (\<lambda>p. if must_reap baseline protect p then [identity p] else []) ps)"
    by (induction ps) simp_all
  moreover have "concat (map (\<lambda>p. if must_reap baseline protect p then [identity p] else []) ps)
      = map identity (filter (must_reap baseline protect) ps)" by (induction ps) simp_all
  ultimately show ?thesis by (simp add: reap_from_entries_def)
qed

lemma obedient_snapshot:
  assumes "obedient loads C table scanner"
  shows "\<exists>w'. snapshot loads C w = (Inr (JList (map entry_row (table w @ scanner w)), identity ` set (scanner w)), w')
    \<and> table w' = table w"
proof -
  from assms obtain out w' where s: "exec C Snapshot Unlimited w = (Inr \<lparr>return_code = Some 0, stdout = Some out, stderr = None\<rparr>, w')"
      "out \<noteq> []" "loads out = Inr (snapshot_json (table w) (scanner w))" "table w' = table w"
    unfolding obedient_def by blast
  have own: "mapR own_pair (map (\<lambda>p. JList [JInt (pid p), JInt (starttime p)]) ps) = Inr (map (\<lambda>p. [identity p]) ps)" for ps
    by (induction ps) (simp_all add: own_pair_def py_int_def identity_def)
  have entries: "or_list (JList xs) = JList xs" for xs by (cases xs) (simp_all add: or_list_def)
  have "read_snapshot loads \<lparr>return_code = Some 0, stdout = Some out, stderr = None\<rparr>
      = Inr (JList (map entry_row (table w @ scanner w)), identity ` set (scanner w))"
    using s(2,3) by (auto simp: read_snapshot_def snapshot_json_def iterate_JList own entries)
  with s show ?thesis by (simp add: snapshot_def)
qed

lemma obedient_kill_all:
  assumes "obedient loads C table scanner"
  shows "\<exists>r'. kill_all C victims r = (Inr (), r')
    \<and> set (table (reaper_world r')) \<subseteq> {q \<in> set (table (reaper_world r)). identity q \<notin> set victims}"
proof (induction victims arbitrary: r)
  case (Cons v victims)
  obtain p start where v: "v = (p, start)" by (cases v)
  from assms obtain res w where k: "exec C (Kill p start) Unlimited (reaper_world r) = (Inr res, w)"
      "set (table w) \<subseteq> {q \<in> set (table (reaper_world r)). identity q \<noteq> (p, start)}"
    unfolding obedient_def by blast
  from Cons.IH [of "r\<lparr>reaper_world := w, kills := kills r @ [(p, start)]\<rparr>"] k v show ?case
    by (fastforce simp: Let_def)
qed auto

definition stray :: proc_entry where
  "stray = \<lparr>pid = 7, ppid = 1, starttime = 100, cmdline = ''sh'', proc_state = ''S''\<rparr>"

definition driver_process :: proc_entry where
  "driver_process = \<lparr>pid = 5, ppid = 1, starttime = 40, cmdline = ''node'', proc_state = ''S''\<rparr>"

definition scanner_process :: proc_entry where
  "scanner_process = \<lparr>pid = 9, ppid = 1, starttime = 200, cmdline = ''node'', proc_state = ''R''\<rparr>"

text \<open>The world is the text of a scan: one letter for each process alive.\<close>

definition sample_table :: "string \<Rightarrow> proc_entry list" where
  "sample_table w = (if CHR ''D'' \<in> set w then [driver_process] else []) @ (if CHR ''S'' \<in> set w then [stray] else [])"

definition sample_container :: "string container" where
  "sample_container = \<lparr>exec = (\<lambda>c limit w. case c of
     Snapshot \<Rightarrow> (Inr \<lparr>return_code = Some 0, stdout = Some (CHR ''T'' # w), stderr = None\<rparr>, w)
   | Kill p start \<Rightarrow> (Inr \<lparr>return_code = Some 0, stdout = None, stderr = None\<rparr>,
       filter (\<lambda>c. (p, start) \<noteq> (if c = CHR ''D'' then (5, 40) else (7, 100))) w)
   | Read_capture path most \<Rightarrow> (Inr \<lparr>return_code = Some 0, stdout = None, stderr = None\<rparr>, w))\<rparr>"

definition sample_loads :: "string \<Rightarrow> exn + json" where
  "sample_loads text = Inr (snapshot_json (sample_table (tl text)) [scanner_process])"

definition sample_baseline :: process_baseline where
  "sample_baseline = \<lparr>identities = {(5, 40)}, cmdlines = {''node''}\<rparr>"

definition sample_reaper :: "string reaper" where
  "sample_reaper = \<lparr>reaper_world = ''DS'', scanner_identities = {}, kills = []\<rparr>"

lemma sample_obedient: "obedient sample_loads sample_container sample_table (\<lambda>_. [scanner_process])"
  by (auto simp: obedient_def sample_container_def sample_loads_def sample_table_def identity_def stray_def
        driver_process_def split: if_splits)

lemmas sample_defs = sample_container_def sample_loads_def stray_def driver_process_def
  scanner_process_def sample_baseline_def sample_reaper_def

section \<open>Properties\<close>



text \<open>
  C24. In a container that obeys (a scan shows the table, a kill removes its victim, nothing new
  starts) the six attempts of the cleanup are enough, and nothing that had to be reaped is left.
\<close>

theorem reap_converges:
  assumes "obedient loads C table scanner"
  shows "\<exists>r'. production_final_cleanup str loads C (Some baseline) protect r = (Inr (), r')
    \<and> (\<forall>p\<in>set (table (reaper_world r')). \<not> must_reap baseline protect p \<or> identity p \<in> scanner_identities r')"
proof -
  define clean where "clean r \<longleftrightarrow> (\<forall>p\<in>set (table (reaper_world r)). \<not> must_reap baseline protect p \<or> identity p \<in> scanner_identities r)" for r :: "_ reaper"
  have attempt: "\<exists>b r'. reap_attempt str loads C baseline protect r = (Inr b, r')
      \<and> clean r'
      \<and> (clean r \<longrightarrow> b)"
    for r
  proof -
    define own where "own = identity ` set (scanner (reaper_world r))"
    from obedient_snapshot [OF assms, of "reaper_world r"] obtain w where
      s: "snapshot loads C (reaper_world r) = (Inr (JList (map entry_row (table (reaper_world r) @ scanner (reaper_world r))), own), w)"
        "table w = table (reaper_world r)" unfolding own_def by blast
    define r1 where "r1 = r\<lparr>reaper_world := w, scanner_identities := scanner_identities r \<union> own\<rparr>"
    define reap where "reap = filter (\<lambda>i. i \<notin> scanner_identities r1 \<and> i \<notin> own)
       (map identity (filter (must_reap baseline protect) (table (reaper_world r) @ scanner (reaper_world r))))"
    have eq: "reap_attempt str loads C baseline protect r = (if reap = [] then (Inr True, r1)
        else case kill_all C reap r1 of (Inl e, r) \<Rightarrow> (Inl e, r) | (Inr _, r) \<Rightarrow> (Inr False, r))"
      using s(1) unfolding reap_def by (simp add: reap_attempt_def Let_def reap_rows r1_def del: map_append filter_append)
    have mem: "i \<in> set reap \<longleftrightarrow> i \<notin> scanner_identities r1 \<and>
        (\<exists>p\<in>set (table (reaper_world r)). must_reap baseline protect p \<and> identity p = i)" for i
      unfolding reap_def by (auto simp: r1_def own_def)
    have sub: "scanner_identities r \<subseteq> scanner_identities r1" "table (reaper_world r1) = table (reaper_world r)"
      by (auto simp: r1_def s)
    show ?thesis
    proof (cases "reap = []")
      case True
      then have "clean r1"
        using mem sub unfolding clean_def by (metis empty_iff list.set(1))
      with True eq show ?thesis by auto
    next
      case False
      then obtain i where "i \<in> set reap" by (cases reap) auto
      then obtain p where "p \<in> set (table (reaper_world r))" "must_reap baseline protect p" "identity p \<notin> scanner_identities r1"
        using mem by auto
      with sub(1) have bad: "\<not> clean r" unfolding clean_def
        by auto
      from obedient_kill_all [OF assms, of reap r1] obtain r2 where k: "kill_all C reap r1 = (Inr (), r2)"
        "set (table (reaper_world r2)) \<subseteq> {q \<in> set (table (reaper_world r1)). identity q \<notin> set reap}" by blast
      from kill_all_kills [OF k(1)] have "scanner_identities r2 = scanner_identities r1" by simp
      then have clean: "clean r2"
        using k(2) mem sub(2) unfolding clean_def by fastforce
      have "reap_attempt str loads C baseline protect r = (Inr False, r2)" using eq k(1) False by simp
      then show ?thesis using clean bad by (intro exI [of _ False] exI [of _ r2]) simp
    qed
  qed
  from attempt [of r] obtain b r1 where one: "reap_attempt str loads C baseline protect r = (Inr b, r1)"
    "clean r1" by blast
  from attempt [of r1] one(2) obtain r2 where two: "reap_attempt str loads C baseline protect r1 = (Inr True, r2)"
    "clean r2" by (auto simp: eq_commute)
  show ?thesis using one two unfolding clean_def
    by (cases b) (auto simp: production_final_cleanup_def REAP_ATTEMPTS_def eval_nat_numeral)
qed

theorem reap_converges_witness:
  "filter (\<lambda>p. must_reap sample_baseline {} p \<and> identity p \<notin> scanner_identities sample_reaper)
       (sample_table (reaper_world sample_reaper)) \<noteq> []
   \<and> (\<exists>r'. production_final_cleanup (\<lambda>_. []) sample_loads sample_container (Some sample_baseline) {} sample_reaper = (Inr (), r')
     \<and> filter (\<lambda>p. must_reap sample_baseline {} p \<and> identity p \<notin> scanner_identities r') (sample_table (reaper_world r')) = [])"
proof -
  have "filter (\<lambda>p. must_reap sample_baseline {} p \<and> identity p \<notin> scanner_identities sample_reaper)
       (sample_table (reaper_world sample_reaper)) \<noteq> []" by code_simp
  moreover from reap_converges [OF sample_obedient, of "\<lambda>_. []" sample_baseline "{}" sample_reaper]
  obtain r' where "production_final_cleanup (\<lambda>_. []) sample_loads sample_container (Some sample_baseline) {} sample_reaper = (Inr (), r')"
    "filter (\<lambda>p. must_reap sample_baseline {} p \<and> identity p \<notin> scanner_identities r') (sample_table (reaper_world r')) = []"
    by (auto simp: filter_empty_conv)
  ultimately show ?thesis by blast
qed

end
