(* ===== verification/Captures.thy ===== *)
theory Captures
  imports Quiesce ExecutionContract Bytes
begin

text \<open>
  The captures of a controlled execution, from \<open>yacht_harbor_agents/captures.py\<close>: the walk to a
  file that follows no link, the bounded read, the reader script that does the same inside the
  container, the parser of what it prints, and the record on the host.

  The operating system is outside the program: \<open>kernel\<close> says what \<open>os.open\<close> relative to a
  descriptor, \<open>os.fstat\<close> and \<open>os.read\<close> answer, on abstract descriptors.
\<close>

section \<open>Base64\<close>

definition b64_char :: "nat \<Rightarrow> char" where
  "b64_char n = char_of (if n < 26 then 65 + n else if n < 52 then 71 + n else if n < 62 then n - 4
     else if n = 62 then 43 else 47)"

definition b64_value :: "char \<Rightarrow> nat option" where
  "b64_value c = (let n = code_point c in
     if 65 \<le> n \<and> n \<le> 90 then Some (n - 65) else if 97 \<le> n \<and> n \<le> 122 then Some (n - 71)
     else if 48 \<le> n \<and> n \<le> 57 then Some (n + 4) else if n = 43 then Some 62 else if n = 47 then Some 63 else None)"

fun b64encode :: "bytes \<Rightarrow> string" where
  "b64encode [] = []"
| "b64encode [a] = [b64_char (a div 4), b64_char (a mod 4 * 16), CHR ''='', CHR ''='']"
| "b64encode [a, b] = [b64_char (a div 4), b64_char (a mod 4 * 16 + b div 16), b64_char (b mod 16 * 4), CHR ''='']"
| "b64encode (a # b # c # rest) =
     [b64_char (a div 4), b64_char (a mod 4 * 16 + b div 16), b64_char (b mod 16 * 4 + c div 64), b64_char (c mod 64)]
     @ b64encode rest"

text \<open>
  \<open>base64.b64decode(s, validate=False)\<close>: characters outside the alphabet are skipped, complete
  padding ends the text, an incomplete group is \<open>binascii.Error\<close> (\<open>None\<close>). The state is the place
  in the group of four, the bits left over and the padding seen.
\<close>

fun a2b :: "nat \<Rightarrow> nat \<Rightarrow> nat \<Rightarrow> string \<Rightarrow> bytes option" where
  "a2b quad left pads [] = (if quad = 0 then Some [] else None)"
| "a2b quad left pads (c # s) =
     (if c = CHR ''='' then
        (if 2 \<le> quad \<and> 4 \<le> quad + Suc pads then Some []
         else a2b quad left (if 2 \<le> quad then Suc pads else pads) s)
      else case b64_value c of
        None \<Rightarrow> a2b quad left pads s
      | Some v \<Rightarrow>
          if quad = 0 then a2b 1 v 0 s
          else if quad = 1 then map_option ((#) (left * 4 + v div 16)) (a2b 2 (v mod 16) 0 s)
          else if quad = 2 then map_option ((#) (left * 16 + v div 4)) (a2b 3 (v mod 4) 0 s)
          else map_option ((#) (left * 64 + v)) (a2b 0 0 0 s))"

definition b64decode :: "string \<Rightarrow> bytes option" where
  "b64decode s = (if list_all (\<lambda>c. code_point c < 128) s then a2b 0 0 0 s else None)"

section \<open>Reading a file of the workspace\<close>

record capture_read =
  read_status :: string
  read_path :: string
  read_data :: "bytes option"
  read_error :: "string option"

definition read_failed :: "string \<Rightarrow> string \<Rightarrow> capture_read" where
  "read_failed path e = \<lparr>read_status = ''error'', read_path = path, read_data = None, read_error = Some e\<rparr>"

definition read_missing :: "string \<Rightarrow> capture_read" where
  "read_missing path = \<lparr>read_status = ''missing'', read_path = path, read_data = None, read_error = None\<rparr>"

definition read_captured :: "string \<Rightarrow> bytes \<Rightarrow> capture_read" where
  "read_captured path data = \<lparr>read_status = ''captured'', read_path = path, read_data = Some data, read_error = None\<rparr>"

definition is_safe_relative_path :: "string \<Rightarrow> bool" where
  "is_safe_relative_path p =
     (if p = [] \<or> hd p = CHR ''/'' \<or> char_of (92 :: nat) \<in> set p then False
      else list_all (\<lambda>part. part \<notin> {[], ''.'', ''..''}) (split_on (CHR ''/'') p))"

text \<open>
  What \<open>os.open\<close> answers: a descriptor, \<open>FileNotFoundError\<close>, an \<open>OSError\<close> with \<open>ELOOP\<close> or
  \<open>EMLINK\<close>, or another \<open>OSError\<close>, with its text. The flag of \<open>openat\<close> says that the part is
  the last one: the others are opened with \<open>O_DIRECTORY\<close>, the last with \<open>O_NONBLOCK\<close>, all with
  \<open>O_NOFOLLOW\<close>. \<open>read_at\<close> is \<open>os.read\<close> at a position of the file.
\<close>

datatype 'h opened = Opened 'h | Not_found | Link_loop string | Open_failed string

datatype file_kind = Regular | Link | Other_file

record 'h kernel =
  openat :: "'h \<Rightarrow> string \<Rightarrow> bool \<Rightarrow> 'h opened"
  kind_of :: "'h \<Rightarrow> file_kind"
  read_at :: "'h \<Rightarrow> nat \<Rightarrow> nat \<Rightarrow> exn + bytes"

fun open_parts :: "'h kernel \<Rightarrow> 'h \<Rightarrow> string list \<Rightarrow> 'h opened" where
  "open_parts K fd [] = Opened fd"
| "open_parts K fd (part # parts) = (case openat K fd part (parts = []) of
     Opened nxt \<Rightarrow> open_parts K nxt parts | failed \<Rightarrow> failed)"

function read_loop :: "'h kernel \<Rightarrow> 'h \<Rightarrow> nat \<Rightarrow> int \<Rightarrow> exn + bytes" where
  "read_loop K fd pos remaining =
     (if remaining \<le> 0 then Inr []
      else bnd (read_at K fd pos (nat remaining)) (\<lambda>piece.
        if piece = [] then Inr []
        else bnd (read_loop K fd (pos + length piece) (remaining - int (length piece))) (\<lambda>rest. Inr (piece @ rest))))"
  by pat_completeness auto
termination
  by (relation "measure (\<lambda>(K, fd, pos, remaining). nat remaining)") auto

declare read_loop.simps [simp del]

definition read_allowlisted_file :: "'h kernel \<Rightarrow> 'h opened \<Rightarrow> string \<Rightarrow> int \<Rightarrow> exn + capture_read" where
  "read_allowlisted_file K root_fd path max_bytes =
     (if \<not> is_safe_relative_path path then Inr (read_failed path ''unsafe path'')
      else case root_fd of
        Not_found \<Rightarrow> Inr (read_missing path)
      | Link_loop e \<Rightarrow> Inr (read_failed path e)
      | Open_failed e \<Rightarrow> Inr (read_failed path e)
      | Opened dir_fd \<Rightarrow>
          (case open_parts K dir_fd (split_on (CHR ''/'') path) of
             Not_found \<Rightarrow> Inr (read_missing path)
           | Link_loop e \<Rightarrow> Inr (read_failed path ''symlink'')
           | Open_failed e \<Rightarrow> Inr (read_failed path e)
           | Opened fd \<Rightarrow>
               if kind_of K fd = Link then Inr (read_failed path ''symlink'')
               else if kind_of K fd \<noteq> Regular then Inr (read_failed path ''not a file'')
               else bnd (read_loop K fd 0 (max_bytes + 1)) (\<lambda>data.
                 Inr (if max_bytes < int (length data) then read_failed path ''oversize''
                      else read_captured path data))))"

text \<open>The script of \<open>_PYTHON_READER\<close>, started in the work directory: the object it prints.\<close>

definition script_error :: "string \<Rightarrow> json" where
  "script_error e = JObj [(''status'', JStr ''error''), (''error'', JStr e)]"

definition python_reader :: "'h kernel \<Rightarrow> 'h \<Rightarrow> string \<Rightarrow> int \<Rightarrow> exn + json" where
  "python_reader K cwd rel max_bytes =
     (let parts = split_on (CHR ''/'') rel in
      if rel = [] \<or> hd rel = CHR ''/'' \<or> char_of (92 :: nat) \<in> set rel
         \<or> list_ex (\<lambda>p. p \<in> {[], ''.'', ''..''}) parts
      then Inr (script_error ''unsafe path'')
      else case open_parts K cwd parts of
        Not_found \<Rightarrow> Inr (JObj [(''status'', JStr ''missing'')])
      | Link_loop e \<Rightarrow> Inr (script_error ''symlink'')
      | Open_failed e \<Rightarrow> Inr (script_error e)
      | Opened fd \<Rightarrow>
          if kind_of K fd \<noteq> Regular then Inr (script_error ''not a file'')
          else bnd (read_loop K fd 0 (max_bytes + 1)) (\<lambda>data.
            Inr (if max_bytes < int (length data) then script_error ''oversize''
                 else JObj [(''status'', JStr ''captured''), (''b64'', JStr (b64encode data))])))"

section \<open>Reading through the container\<close>

text \<open>\<open>[line for line in text.splitlines() if line.strip()]\<close>.\<close>

definition is_line_break :: "char \<Rightarrow> bool" where
  "is_line_break c = (let n = code_point c in 10 \<le> n \<and> n \<le> 13 \<or> 28 \<le> n \<and> n \<le> 30 \<or> n = 133)"

definition text_lines :: "string \<Rightarrow> string list" where
  "text_lines s = filter (\<lambda>line. strip line \<noteq> [])
     (split_on (CHR 0x0A) (map (\<lambda>c. if is_line_break c then CHR 0x0A else c) s))"

text \<open>\<open>base64.b64decode(payload.get("b64") or "")\<close>; what is no string is a \<open>TypeError\<close>.\<close>

definition payload_bytes :: "json \<Rightarrow> bytes option" where
  "payload_bytes v = (if \<not> truthy v then Some [] else case v of JStr s \<Rightarrow> b64decode s | _ \<Rightarrow> None)"

text \<open>\<open>json.loads\<close> is a parameter, \<open>None\<close> when it raises \<open>JSONDecodeError\<close>.\<close>

definition parse_capture_payload ::
    "(json \<Rightarrow> string) \<Rightarrow> (string \<Rightarrow> json option) \<Rightarrow> string \<Rightarrow> string \<Rightarrow> exn + capture_read" where
  "parse_capture_payload str loads text path =
     (if text_lines text = [] then Inr (read_failed path ''empty capture'')
      else case loads (last (text_lines text)) of
        None \<Rightarrow> Inr (read_failed path ''unreadable capture'')
      | Some (JObj payload) \<Rightarrow>
          if dget payload ''status'' = JStr ''missing'' then Inr (read_missing path)
          else if dget payload ''status'' = JStr ''captured'' then
            (case payload_bytes (dget payload ''b64'') of
               None \<Rightarrow> Inr (read_failed path ''unreadable capture'')
             | Some data \<Rightarrow> Inr (read_captured path data))
          else (let e = dget payload ''error''
                in Inr (read_failed path (if truthy e then text_value str e else ''error'')))
      | Some _ \<Rightarrow> Inl (AttributeError ''object has no attribute get''))"

text \<open>\<open>str(error)\<close>.\<close>

fun exception_text :: "exn \<Rightarrow> string" where
  "exception_text (ConfigError m) = m"
| "exception_text (ContractError m) = m"
| "exception_text (SchemaError m) = m"
| "exception_text (SkillError m) = m"
| "exception_text (McpError m) = m"
| "exception_text (DuplexError m) = m"
| "exception_text (ControlError m) = m"
| "exception_text (TimeoutError m) = m"
| "exception_text Cancelled = []"
| "exception_text (UnsafeMountError m) = m"
| "exception_text (TypeError m) = m"
| "exception_text (PyValueError m) = m"
| "exception_text (PyOverflowError m) = m"
| "exception_text (KeyError k) = py_repr k"
| "exception_text (IndexError m) = m"
| "exception_text (AttributeError m) = m"
| "exception_text (OSError m) = m"

definition CAPTURE_EXEC_TIMEOUT_SECONDS :: int where
  "CAPTURE_EXEC_TIMEOUT_SECONDS = 30"

definition exec_output ::
    "(json \<Rightarrow> string) \<Rightarrow> (string \<Rightarrow> json option) \<Rightarrow> string \<Rightarrow> exec_result \<Rightarrow> exn + capture_read" where
  "exec_output str loads path result =
     (let out = or_text (stdout result) [] in
      if return_code result \<notin> {Some 0, None} \<and> strip out = []
      then Inr (read_failed path (strip (or_text (stderr result) (or_text (Some out) ''exec failed''))))
      else parse_capture_payload str loads out path)"

text \<open>
  A \<open>TypeError\<close> of the call means an environment without a timeout parameter: the command is run
  again under \<open>asyncio.wait_for\<close>, and what this second call raises is not caught.
\<close>

definition capture_via_exec ::
    "(json \<Rightarrow> string) \<Rightarrow> (string \<Rightarrow> json option) \<Rightarrow> 'w container \<Rightarrow> string \<Rightarrow> int \<Rightarrow> 'w \<Rightarrow> (exn + capture_read) \<times> 'w" where
  "capture_via_exec str loads C path max_bytes w =
     (if \<not> is_safe_relative_path path then (Inr (read_failed path ''unsafe path''), w)
      else case exec C (Read_capture path max_bytes) (Exec_timeout CAPTURE_EXEC_TIMEOUT_SECONDS) w of
        (Inr result, w) \<Rightarrow> (exec_output str loads path result, w)
      | (Inl (TypeError m), w) \<Rightarrow>
          (case exec C (Read_capture path max_bytes) (Wait_for CAPTURE_EXEC_TIMEOUT_SECONDS) w of
             (Inr result, w) \<Rightarrow> (exec_output str loads path result, w)
           | (Inl e, w) \<Rightarrow> (Inl e, w))
      | (Inl Cancelled, w) \<Rightarrow> (Inl Cancelled, w)
      | (Inl e, w) \<Rightarrow> (Inr (read_failed path (exception_text e)), w))"

section \<open>The record on the host\<close>

text \<open>The record, and the file that is written; \<open>sha256\<close> is \<open>hashlib.sha256(data).hexdigest()\<close>.\<close>

definition write_host_capture ::
    "(bytes \<Rightarrow> string) \<Rightarrow> string \<Rightarrow> nat \<Rightarrow> string \<Rightarrow> capture_read \<Rightarrow> json_obj \<times> (string \<times> bytes) option" where
  "write_host_capture sha256 after index path read =
     (let record = [(''id'', JStr (after @ ''-'' @ nat_str index)), (''after'', JStr after), (''path'', JStr path),
                    (''status'', JStr (read_status read))] in
      if read_status read \<noteq> ''captured''
      then (record @ (case read_error read of None \<Rightarrow> [] | Some e \<Rightarrow> if e = [] then [] else [(''error'', JStr e)]), None)
      else let data = (case read_data read of None \<Rightarrow> [] | Some d \<Rightarrow> d);
               digest = sha256 data;
               artifact = after @ ''-'' @ nat_str index @ ''-'' @ take 12 digest
           in (record @ [(''bytes'', JInt (int (length data))), (''sha256'', JStr digest), (''artifact'', JStr artifact)],
               Some (artifact, data)))"

section \<open>Lemmas\<close>

lemma code_point_b64: "n < 64 \<Longrightarrow> code_point (b64_char n) =
    (if n < 26 then 65 + n else if n < 52 then 71 + n else if n < 62 then n - 4 else if n = 62 then 43 else 47)"
  by (simp add: b64_char_def code_point_def)

lemma b64_value_char: "n < 64 \<Longrightarrow> b64_value (b64_char n) = Some n"
  by (auto simp: b64_value_def code_point_b64 Let_def split: if_splits)

lemma b64_char_plain: "n < 64 \<Longrightarrow> b64_char n \<noteq> CHR ''='' \<and> code_point (b64_char n) < 128"
  using code_point_b64 [of n] by (auto simp: code_point_def split: if_splits)

lemma a2b_char [simp]:
  "n < 64 \<Longrightarrow> a2b 0 left pads (b64_char n # s) = a2b 1 n 0 s"
  "n < 64 \<Longrightarrow> a2b (Suc 0) left pads (b64_char n # s) = map_option ((#) (left * 4 + n div 16)) (a2b 2 (n mod 16) 0 s)"
  "n < 64 \<Longrightarrow> a2b 2 left pads (b64_char n # s) = map_option ((#) (left * 16 + n div 4)) (a2b 3 (n mod 4) 0 s)"
  "n < 64 \<Longrightarrow> a2b 3 left pads (b64_char n # s) = map_option ((#) (left * 64 + n)) (a2b 0 0 0 s)"
  by (simp_all add: b64_value_char b64_char_plain)

lemma groups:
  "(a :: nat) < 256 \<Longrightarrow> a div 4 < 64" "a mod 4 * 16 < 64" "b < 256 \<Longrightarrow> a mod 4 * 16 + b div 16 < 64"
  "b mod 16 * 4 < 64" "c < 256 \<Longrightarrow> b mod 16 * 4 + c div 64 < 64" "c mod 64 < 64"
  by linarith+

lemma a2b_encode: "\<forall>x\<in>set d. x < 256 \<Longrightarrow> a2b 0 0 0 (b64encode d) = Some d"
proof (induction d rule: b64encode.induct)
  case (2 a)
  then have "a div 4 * 4 + a mod 4 * 16 div 16 = a" by simp
  with 2 show ?case by (simp add: groups del: a2b.simps) (simp add: b64_value_char)
next
  case (3 a b)
  then have "a div 4 * 4 + (a mod 4 * 16 + b div 16) div 16 = a"
    "(a mod 4 * 16 + b div 16) mod 16 * 16 + b mod 16 * 4 div 4 = b" by auto
  with 3 show ?case by (simp add: groups del: a2b.simps) simp
next
  case (4 a b c rest)
  then have "b div 16 < 16" "c div 64 < 4" by auto
  then have "a div 4 * 4 + (a mod 4 * 16 + b div 16) div 16 = a"
    "(a mod 4 * 16 + b div 16) mod 16 * 16 + (b mod 16 * 4 + c div 64) div 4 = b"
    "(b mod 16 * 4 + c div 64) mod 4 * 64 + c mod 64 = c" by simp_all
  with 4 show ?case by (simp add: groups del: a2b.simps)
qed simp

lemma b64encode_ascii: "\<forall>x\<in>set d. x < 256 \<Longrightarrow> list_all (\<lambda>c. code_point c < 128) (b64encode d)"
  by (induction d rule: b64encode.induct) (simp_all add: groups b64_char_plain, simp_all add: code_point_def)

lemma b64_roundtrip: "\<forall>x\<in>set d. x < 256 \<Longrightarrow> b64decode (b64encode d) = Some d"
  by (simp add: b64decode_def a2b_encode b64encode_ascii)


text \<open>A file as the system shows it: every read gives some piece of what is left, empty only at the end.\<close>

definition reads_content :: "'h kernel \<Rightarrow> 'h \<Rightarrow> bytes \<Rightarrow> bool" where
  "reads_content K fd content \<longleftrightarrow> (\<forall>pos n. 0 < n \<longrightarrow>
     (\<exists>k. read_at K fd pos n = Inr (take k (drop pos content)) \<and> k \<le> n \<and> (pos < length content \<longrightarrow> 0 < k)))"

lemma read_loop_content:
  assumes "reads_content K fd content" and "0 \<le> remaining"
  shows "read_loop K fd pos remaining = Inr (take (nat remaining) (drop pos content))"
  using assms
proof (induction K fd pos remaining rule: read_loop.induct)
  case (1 K fd pos remaining)
  show ?case
  proof (cases "remaining \<le> 0")
    case True
    then show ?thesis by (simp add: read_loop.simps)
  next
    case False
    then obtain k where k: "read_at K fd pos (nat remaining) = Inr (take k (drop pos content))" "k \<le> nat remaining"
        "pos < length content \<longrightarrow> 0 < k"
      using 1(2) unfolding reads_content_def by (metis zero_less_nat_eq not_le)
    define piece where "piece = take k (drop pos content)"
    have len: "length piece \<le> nat remaining" "piece = take (length piece) (drop pos content)"
      using k(2) by (auto simp: piece_def min_def)
    show ?thesis
    proof (cases "piece = []")
      case True
      then have "drop pos content = []" using k(3) by (auto simp: piece_def)
      with True False k(1) show ?thesis by (simp add: read_loop.simps piece_def)
    next
      case more: False
      have "read_loop K fd (pos + length piece) (remaining - int (length piece))
          = Inr (take (nat (remaining - int (length piece))) (drop (pos + length piece) content))"
        by (rule 1(1) [OF False k(1) [folded piece_def] more 1(2)]) (use len(1) False in linarith)
      moreover have "take (nat remaining) (drop pos content)
          = piece @ take (nat (remaining - int (length piece))) (drop (pos + length piece) content)"
      proof -
        have "nat remaining = length piece + nat (remaining - int (length piece))" using len(1) by simp
        then show ?thesis using len(2) by (metis add.commute drop_drop take_add)
      qed
      ultimately show ?thesis using False k(1) more by (subst read_loop.simps) (simp add: piece_def)
    qed
  qed
qed

lemma read_loop_bytes:
  assumes "\<And>pos n data. read_at K fd pos n = Inr data \<Longrightarrow> \<forall>x\<in>set data. x < 256"
  shows "read_loop K fd pos remaining = Inr data \<Longrightarrow> \<forall>x\<in>set data. x < 256"
  using assms
proof (induction K fd pos remaining arbitrary: data rule: read_loop.induct)
  case (1 K fd pos remaining)
  show ?case
  proof (cases "remaining \<le> 0")
    case True
    with 1(2) show ?thesis by (simp add: read_loop.simps)
  next
    case False
    with 1(2) obtain piece where p: "read_at K fd pos (nat remaining) = Inr piece"
      by (subst (asm) read_loop.simps) (auto simp: bnd_eq_Inr)
    show ?thesis
    proof (cases "piece = []")
      case True
      with 1(2) False p show ?thesis by (simp add: read_loop.simps)
    next
      case more: False
      with 1(2) False p obtain rest where "read_loop K fd (pos + length piece) (remaining - int (length piece)) = Inr rest"
        "data = piece @ rest" by (subst (asm) read_loop.simps) (auto simp: bnd_eq_Inr)
      with 1(1) [OF False p more _ 1(3)] 1(3) [OF p] show ?thesis by auto
    qed
  qed
qed

lemma python_reader_alt:
  "python_reader K cwd path max_bytes = (if \<not> is_safe_relative_path path then Inr (script_error ''unsafe path'')
      else case open_parts K cwd (split_on (CHR ''/'') path) of
        Not_found \<Rightarrow> Inr (JObj [(''status'', JStr ''missing'')])
      | Link_loop e \<Rightarrow> Inr (script_error ''symlink'')
      | Open_failed e \<Rightarrow> Inr (script_error e)
      | Opened fd \<Rightarrow>
          if kind_of K fd \<noteq> Regular then Inr (script_error ''not a file'')
          else bnd (read_loop K fd 0 (max_bytes + 1)) (\<lambda>data.
            Inr (if max_bytes < int (length data) then script_error ''oversize''
                 else JObj [(''status'', JStr ''captured''), (''b64'', JStr (b64encode data))])))"
proof -
  have safe: "is_safe_relative_path path \<longleftrightarrow> \<not> (path = [] \<or> hd path = CHR ''/'' \<or> char_of (92 :: nat) \<in> set path
         \<or> list_ex (\<lambda>p. p \<in> {[], ''.'', ''..''}) (split_on (CHR ''/'') path))"
    by (auto simp: is_safe_relative_path_def list_ex_iff list_all_iff)
  then show ?thesis by (simp add: python_reader_def Let_def)
qed

section \<open>Properties\<close>

text \<open>A file of five bytes that is read two bytes at a time.\<close>

definition sample_kernel :: "nat kernel" where
  "sample_kernel = \<lparr>openat = (\<lambda>fd part final. if final then Opened 1 else Opened fd), kind_of = (\<lambda>fd. Regular),
     read_at = (\<lambda>fd pos n. Inr (take (min 2 n) (drop pos [104, 101, 108, 108, 111])))\<rparr>"

lemma sample_reads: "reads_content sample_kernel 1 [104, 101, 108, 108, 111]"
  by (auto simp: reads_content_def sample_kernel_def intro!: exI [of _ "min 2 n" for n])

lemma sample_opened: "open_parts sample_kernel 0 (split_on (CHR ''/'') ''logs/out.txt'') = Opened 1"
  by (simp add: sample_kernel_def)

lemma kind_sample: "kind_of sample_kernel fd = Regular"
  by (simp add: sample_kernel_def)

lemma sample_safe: "is_safe_relative_path ''logs/out.txt''"
  by code_simp

text \<open>
  C25. A read is bounded and exact, however the system cuts it into pieces: a regular file of at most
  \<open>max_bytes\<close> bytes is captured whole, a longer one is refused after reading one byte more than
  the bound, and nothing in between happens.
\<close>

theorem bounded_read_exact:
  assumes "is_safe_relative_path path" and "open_parts K cwd (split_on (CHR ''/'') path) = Opened fd"
    and "kind_of K fd = Regular" and "reads_content K fd content" and "0 \<le> max_bytes"
  shows "read_allowlisted_file K (Opened cwd) path max_bytes
    = Inr (if int (length content) \<le> max_bytes then read_captured path content else read_failed path ''oversize'')"
proof -
  have "read_loop K fd 0 (max_bytes + 1) = Inr (take (nat (max_bytes + 1)) content)"
    using read_loop_content [OF assms(4), of "max_bytes + 1" 0] assms(5) by simp
  with assms show ?thesis by (auto simp: read_allowlisted_file_def min_def)
qed

theorem bounded_read_exact_witness:
  "read_allowlisted_file sample_kernel (Opened 0) ''logs/out.txt'' 5
     = Inr (read_captured ''logs/out.txt'' [104, 101, 108, 108, 111])
   \<and> read_allowlisted_file sample_kernel (Opened 0) ''logs/out.txt'' 4 = Inr (read_failed ''logs/out.txt'' ''oversize'')"
  using bounded_read_exact [OF sample_safe sample_opened _ sample_reads, of 5]
    bounded_read_exact [OF sample_safe sample_opened _ sample_reads, of 4] by (simp add: sample_kernel_def)

text \<open>
  C26. The script that runs inside the container and the reader of the host are the same function:
  parsing what the script prints gives what the host would have read, byte for byte.
\<close>

theorem container_reader_agrees:
  assumes "\<forall>fd. kind_of K fd \<noteq> Link"
    and "\<forall>fd pos n data. read_at K fd pos n = Inr data \<longrightarrow> (\<forall>x\<in>set data. x < 256)"
    and "\<forall>fd part final e. openat K fd part final = Open_failed e \<longrightarrow> e \<noteq> []"
    and "\<forall>v. python_reader K cwd path max_bytes = Inr v \<longrightarrow>
           text_lines (print_json v) \<noteq> [] \<and> loads (last (text_lines (print_json v))) = Some v"
  shows "bnd (python_reader K cwd path max_bytes) (\<lambda>v. parse_capture_payload str loads (print_json v) path)
    = read_allowlisted_file K (Opened cwd) path max_bytes"
proof -
  have named: "open_parts K fd parts = Open_failed e \<Longrightarrow> e \<noteq> []" for fd parts e
    using assms(3) by (induction parts arbitrary: fd) (auto split: opened.splits)
  define decoded where "decoded = (\<lambda>v. case v of
      JObj d \<Rightarrow> if dget d ''status'' = JStr ''missing'' then Inr (read_missing path)
        else if dget d ''status'' = JStr ''captured'' then
          (case payload_bytes (dget d ''b64'') of
             None \<Rightarrow> Inr (read_failed path ''unreadable capture'')
           | Some data \<Rightarrow> Inr (read_captured path data))
        else Inr (read_failed path (if truthy (dget d ''error'') then text_value str (dget d ''error'') else ''error''))
    | _ \<Rightarrow> Inl (AttributeError ''object has no attribute get''))"
  have "bnd (python_reader K cwd path max_bytes) (\<lambda>v. parse_capture_payload str loads (print_json v) path)
      = bnd (python_reader K cwd path max_bytes) decoded"
    using assms(4) by (intro bnd_cong refl) (auto simp: parse_capture_payload_def decoded_def Let_def split: json.split)
  also have "\<dots> = read_allowlisted_file K (Opened cwd) path max_bytes"
  proof -
  have failed: "decoded (script_error e) = Inr (read_failed path e)" if "e \<noteq> []" for e
    using that by (simp add: script_error_def decoded_def text_value_def)
  have parse: "decoded (JObj d) = (if dget d ''status'' = JStr ''missing'' then Inr (read_missing path)
        else if dget d ''status'' = JStr ''captured'' then
          (case payload_bytes (dget d ''b64'') of
             None \<Rightarrow> Inr (read_failed path ''unreadable capture'')
           | Some data \<Rightarrow> Inr (read_captured path data))
        else Inr (read_failed path (if truthy (dget d ''error'') then text_value str (dget d ''error'') else ''error'')))" for d
    by (simp add: decoded_def)
  have data: "payload_bytes (JStr (b64encode data)) = Some data" if "\<forall>x\<in>set data. x < 256" for data
    using b64_roundtrip [OF that] by (auto simp: payload_bytes_def b64decode_def)
  show ?thesis
  proof (cases "is_safe_relative_path path")
    case False
    then show ?thesis by (auto simp: python_reader_alt read_allowlisted_file_def failed)
  next
    case True
    then show ?thesis
    proof (cases "open_parts K cwd (split_on (CHR ''/'') path)")
      case (Opened fd)
      show ?thesis
      proof (cases "read_loop K fd 0 (max_bytes + 1)")
        case (Inl e)
        with Opened True assms(1) show ?thesis
          by (auto simp: python_reader_alt read_allowlisted_file_def failed)
      next
        case (Inr content)
        then have "\<forall>x\<in>set content. x < 256" using read_loop_bytes [of K fd] assms(2) by blast
        with Inr Opened True assms(1) data show ?thesis
          by (auto simp: python_reader_alt read_allowlisted_file_def failed parse)
      qed
    qed (auto simp: python_reader_alt read_allowlisted_file_def failed parse named)
  qed
qed
  finally show ?thesis .
qed

theorem container_reader_agrees_witness:
  "bnd (python_reader sample_kernel 0 ''logs/out.txt'' 5) (\<lambda>v. parse_capture_payload (\<lambda>_. [])
      (\<lambda>_. Some (JObj [(''status'', JStr ''captured''), (''b64'', JStr ''aGVsbG8='')])) ''x'' ''logs/out.txt'')
    = Inr (read_captured ''logs/out.txt'' [104, 101, 108, 108, 111])"
proof -
  have read: "read_loop sample_kernel 1 0 6 = Inr [104, 101, 108, 108, 111]"
    using read_loop_content [OF sample_reads, of 6 0] by simp
  have enc: "b64encode [104, 101, 108, 108, 111] = ''aGVsbG8=''" by code_simp
  have script: "python_reader sample_kernel 0 ''logs/out.txt'' 5
      = Inr (JObj [(''status'', JStr ''captured''), (''b64'', JStr ''aGVsbG8='')])"
    using read enc sample_opened sample_safe by (simp add: python_reader_alt kind_sample)
  have "text_lines ''x'' = [''x'']" by code_simp
  then have "bnd (python_reader sample_kernel 0 ''logs/out.txt'' 5) (\<lambda>v. parse_capture_payload (\<lambda>_. [])
      (\<lambda>_. Some (JObj [(''status'', JStr ''captured''), (''b64'', JStr ''aGVsbG8='')])) ''x'' ''logs/out.txt'')
    = read_allowlisted_file sample_kernel (Opened 0) ''logs/out.txt'' 5"
    by (intro container_reader_agrees [where print_json = "\<lambda>_. ''x''"])
      (auto simp: sample_kernel_def script [unfolded sample_kernel_def] dest!: in_set_takeD in_set_dropD)
  also have "\<dots> = Inr (read_captured ''logs/out.txt'' [104, 101, 108, 108, 111])"
    using read_loop_content [OF sample_reads, of 6 0] sample_safe sample_opened
    by (simp add: read_allowlisted_file_def kind_sample)
  finally show ?thesis .
qed

text \<open>The three shapes of a read.\<close>

definition plain_read :: "string \<Rightarrow> capture_read \<Rightarrow> bool" where
  "plain_read path read \<longleftrightarrow> (\<exists>e. read = read_failed path e) \<or> read = read_missing path \<or> (\<exists>d. read = read_captured path d)"

lemma plain_read_intros [simp]:
  "plain_read path (read_failed path e)" "plain_read path (read_missing path)" "plain_read path (read_captured path d)"
  unfolding plain_read_def by blast+

lemma parse_capture_plain: "parse_capture_payload str loads text path = Inr read \<Longrightarrow> plain_read path read"
  by (auto simp: parse_capture_payload_def Let_def split: if_splits option.splits json.splits)

lemma exec_output_plain: "exec_output str loads path result = Inr read \<Longrightarrow> plain_read path read"
  by (auto simp: exec_output_def Let_def parse_capture_plain split: if_splits)

lemma capture_via_exec_plain:
  assumes "capture_via_exec str loads C path max_bytes w = (Inr read, w')"
  shows "plain_read path read"
  using assms
  by (auto simp: capture_via_exec_def exec_output_plain split: if_splits prod.splits sum.splits exn.splits)

lemmas record_accepted = validate_summary_capture_def require_member_def if_present_def SUMMARY_CAPTURE_KEYS_def SUMMARY_CAPTURE_REQUIRED_def
  CAPTURE_STATUSES_def Let_def result_simps capture_id_matches [simplified]

text \<open>
  C27. The record of a capture satisfies the host contract exactly when a failed read has a text. A
  capture whose \<open>exec\<close> times out has none (\<open>str(TimeoutError())\<close> is empty), so its record
  has no error and the whole summary is refused.
\<close>

theorem capture_record_accepted_iff:
  assumes "capture_via_exec str loads C path max_bytes w = (Inr read, w')"
    and "TURN_ID_RE after" and "after \<in> set delivered" and "safe_relative path" and "\<forall>data. SHA256_HEX (sha256 data)"
  shows "(validate_summary_capture delivered position (JObj (fst (write_host_capture sha256 after index path read))) = Inr ()
    \<longleftrightarrow> (read_status read = ''error'' \<longrightarrow> (\<exists>e. read_error read = Some e \<and> e \<noteq> [])))
    \<and> (exec C (Read_capture path max_bytes) (Exec_timeout CAPTURE_EXEC_TIMEOUT_SECONDS) w = (Inl (TimeoutError []), v)
      \<longrightarrow> read_status read = ''error'' \<and> read_error read = Some [])"
proof
  show "validate_summary_capture delivered position (JObj (fst (write_host_capture sha256 after index path read))) = Inr ()
    \<longleftrightarrow> (read_status read = ''error'' \<longrightarrow> (\<exists>e. read_error read = Some e \<and> e \<noteq> []))"
  proof -
  consider (failed) e where "read = read_failed path e" | (missing) "read = read_missing path"
    | (captured) d where "read = read_captured path d"
    using capture_via_exec_plain [OF assms(1)] by (auto simp: plain_read_def)
  then show ?thesis
  proof cases
    case (failed e)
    then show ?thesis using assms(2-4)
      by (auto simp: write_host_capture_def read_failed_def record_accepted)
  next
    case missing
    then show ?thesis using assms(2-4)
      by (auto simp: write_host_capture_def read_missing_def record_accepted)
  next
    case (captured d)
    then show ?thesis using assms(2-5)
      by (auto simp: write_host_capture_def read_captured_def record_accepted)
  qed
  qed
next
  show "exec C (Read_capture path max_bytes) (Exec_timeout CAPTURE_EXEC_TIMEOUT_SECONDS) w = (Inl (TimeoutError []), v)
      \<longrightarrow> read_status read = ''error'' \<and> read_error read = Some []"
  proof
    assume "exec C (Read_capture path max_bytes) (Exec_timeout CAPTURE_EXEC_TIMEOUT_SECONDS) w = (Inl (TimeoutError []), v)"
    moreover have "is_safe_relative_path path"
      using assms(4) by (auto simp: is_safe_relative_path_def safe_relative_def list_all_iff)
    ultimately have "read = read_failed path []"
      using assms(1) by (simp add: capture_via_exec_def)
    then show "read_status read = ''error'' \<and> read_error read = Some []" by (simp add: read_failed_def)
  qed
qed

theorem capture_record_accepted_iff_witness:
  "\<exists>v. validate_summary_capture [''t1''] 0 (JObj (fst (write_host_capture (\<lambda>_. replicate 64 CHR ''a'') ''t1'' 0 ''out.txt''
      (read_failed ''out.txt'' [])))) \<noteq> Inr v"
proof -
  define C :: "unit container" where "C = \<lparr>exec = \<lambda>c limit w. (Inl (TimeoutError []), w)\<rparr>"
  have safe: "is_safe_relative_path ''out.txt''" by code_simp
  have "capture_via_exec (\<lambda>_. []) (\<lambda>_. None) C ''out.txt'' 10 () = (Inr (read_failed ''out.txt'' []), ())"
    by (simp add: C_def capture_via_exec_def safe)
  moreover have "TURN_ID_RE ''t1''" by code_simp
  moreover have "safe_relative ''out.txt''" by code_simp
  moreover have "SHA256_HEX (replicate 64 CHR ''a'')" by code_simp
  ultimately have "validate_summary_capture [''t1''] 0 (JObj (fst (write_host_capture (\<lambda>_. replicate 64 CHR ''a'') ''t1'' 0 ''out.txt''
      (read_failed ''out.txt'' [])))) \<noteq> Inr ()"
    using capture_record_accepted_iff [of "\<lambda>_. []" "\<lambda>_. None" C "''out.txt''" 10 "()" "read_failed ''out.txt'' []" "()" "''t1''"
        "[''t1'']" "\<lambda>_. replicate 64 CHR ''a''" 0 0 "()"] by (simp add: read_failed_def)
  then show ?thesis by blast
qed

end
