(* ===== verification/Redaction.thy ===== *)
theory Redaction
  imports PyValue "HOL-Library.Sublist"
begin

text \<open>
  The redaction of the launcher's event log, from
  \<open>containers/harbor-launcher/yacht_harbor_agents/controlled_omp.py\<close>: the secret values of an
  environment and \<open>_scrub\<close>, which every frame passes on its way to \<open>events.jsonl\<close>.
\<close>

section \<open>Strings\<close>

text \<open>\<open>s.replace(old, new)\<close> for a non-empty \<open>old\<close>.\<close>

function replace :: "string \<Rightarrow> string \<Rightarrow> string \<Rightarrow> string" where
  "replace old new [] = []"
| "replace old new (c # s) =
     (if old \<noteq> [] \<and> prefix old (c # s) then new @ replace old new (drop (length old) (c # s))
      else c # replace old new s)"
  by pat_completeness auto
termination by (relation "measure (\<lambda>(old, new, s). length s)") auto

definition lower_ascii :: "char \<Rightarrow> char" where
  "lower_ascii c = (if 65 \<le> code_point c \<and> code_point c \<le> 90 then char_of (code_point c + 32) else c)"

text \<open>\<open>_SENSITIVE_KEY.search\<close>: one of the words, in any case. Python's case folding outside ASCII
  adds no match of these words among code points below 256.\<close>

definition SENSITIVE_WORDS :: "string list" where
  "SENSITIVE_WORDS = [''key'', ''secret'', ''token'', ''password'', ''credential'', ''auth'']"

fun contains :: "string \<Rightarrow> string \<Rightarrow> bool" where
  "contains word [] = (word = [])"
| "contains word (c # s) = (prefix word (c # s) \<or> contains word s)"

definition is_sensitive_key :: "string \<Rightarrow> bool" where
  "is_sensitive_key key = list_ex (\<lambda>word. contains word (map lower_ascii key)) SENSITIVE_WORDS"

section \<open>Scrubbing\<close>

definition secret_values :: "(string \<times> string) list \<Rightarrow> string list" where
  "secret_values env = dedup (map snd (filter (\<lambda>(key, value). value \<noteq> [] \<and> is_sensitive_key key) env))"

definition REDACTED :: string where
  "REDACTED = ''[redacted]''"

text \<open>A set of secrets is a list in the order the set is iterated.\<close>

definition scrub_text :: "string list \<Rightarrow> string \<Rightarrow> string" where
  "scrub_text secrets s = foldl (\<lambda>payload secret. replace secret REDACTED payload) s secrets"

definition redacted_entry :: "string \<Rightarrow> string \<times> json \<Rightarrow> bool" where
  "redacted_entry parent kv = (parent \<in> {''env'', ''headers''} \<and> is_non_empty_string (snd kv) \<and> is_sensitive_key (fst kv))"

function scrub :: "string list \<Rightarrow> string \<Rightarrow> json \<Rightarrow> json" where
  "scrub secrets parent (JObj d) = JObj (map (\<lambda>kv. (fst kv,
     if redacted_entry parent kv then JStr REDACTED else scrub secrets (fst kv) (snd kv))) d)"
| "scrub secrets parent (JList xs) = JList (map (scrub secrets []) xs)"
| "scrub secrets parent (JStr s) = JStr (scrub_text secrets s)"
| "scrub secrets parent JNull = JNull"
| "scrub secrets parent (JBool b) = JBool b"
| "scrub secrets parent (JInt n) = JInt n"
| "scrub secrets parent (JFloat f) = JFloat f"
  by pat_completeness auto
termination
proof (relation "measure (size \<circ> snd \<circ> snd)")
  fix secrets :: "string list" and parent :: string and d :: json_obj and kv
  assume kv: "kv \<in> set d"
  have "size_prod (\<lambda>_. 0) size kv \<le> size_list (size_prod (\<lambda>_. 0) size) d"
    using kv by (rule size_list_estimation') simp
  then have "size (snd kv) < size (JObj d)" by (cases kv) simp
  then show "((secrets, fst kv, snd kv), secrets, parent, JObj d) \<in> measure (size \<circ> snd \<circ> snd)" by simp
next
  fix secrets :: "string list" and parent :: string and xs :: "json list" and x
  assume "x \<in> set xs"
  then have "size x \<le> size_list size xs" by (rule size_list_estimation') simp
  then show "((secrets, [], x), secrets, parent, JList xs) \<in> measure (size \<circ> snd \<circ> snd)" by simp
qed simp_all

text \<open>The string values of a document, wherever they are; keys are not values.\<close>

fun texts_of :: "json \<Rightarrow> string list" where
  "texts_of (JStr s) = [s]"
| "texts_of (JList xs) = concat (map texts_of xs)"
| "texts_of (JObj d) = concat (map (\<lambda>kv. texts_of (snd kv)) d)"
| "texts_of _ = []"

section \<open>Replacement removes\<close>

lemma contains_iff: "contains word s \<longleftrightarrow> sublist word s"
proof (induction s)
  case (Cons c s)
  then show ?case by (auto simp: sublist_Cons_right)
qed auto

text \<open>A secret that can be redacted: it has no bracket and is no part of the mark itself.\<close>

definition redactable :: "string \<Rightarrow> bool" where
  "redactable s \<longleftrightarrow> s \<noteq> [] \<and> CHR ''['' \<notin> set s \<and> CHR '']'' \<notin> set s \<and> \<not> contains s ''redacted''"

lemma replace_prefix:
  assumes "CHR ''['' \<notin> set p" shows "prefix p (replace old REDACTED s) \<Longrightarrow> prefix p s"
  using assms
proof (induction old REDACTED s arbitrary: p rule: replace.induct)
  case (2 old c s)
  show ?case
  proof (cases "old \<noteq> [] \<and> prefix old (c # s)")
    case True
    with 2(3,4) show ?thesis by (cases p) (auto simp: REDACTED_def)
  next
    case False
    with 2 show ?thesis by (cases p) auto
  qed
qed simp

lemma mark_sublist:
  assumes "redactable s" "sublist s (REDACTED @ t)" shows "sublist s t"
proof -
  have s: "s \<noteq> []" "CHR ''['' \<notin> set s" "CHR '']'' \<notin> set s" "\<not> sublist s ''redacted''"
    using assms(1) by (simp_all add: redactable_def contains_iff)
  define w where "w = ''redacted''"
  have "REDACTED @ t = CHR ''['' # (w @ (CHR '']'' # t))" by (simp add: REDACTED_def w_def)
  with assms(2) s(1,2) have "sublist s (w @ (CHR '']'' # t))"
    by (cases s) (auto simp: sublist_Cons_right)
  then consider (mark) "sublist s w" | (rest) "sublist s (CHR '']'' # t)"
    | (cross) a b where "s = a @ b" "suffix a w" "prefix b (CHR '']'' # t)"
    unfolding sublist_append by blast
  then show ?thesis
  proof cases
    case rest
    with s(1,3) show ?thesis by (cases s) (auto simp: sublist_Cons_right)
  next
    case cross
    then have "b = []" using s(3) by (cases b) auto
    with cross s(4) show ?thesis using suffix_imp_sublist by (auto simp: w_def)
  qed (use s in \<open>simp add: w_def\<close>)
qed

lemma replace_sublist:
  assumes "redactable s" "sublist s (replace old REDACTED t)"
  shows "sublist s t \<and> (old \<noteq> s)"
  using assms
proof (induction old REDACTED t rule: replace.induct)
  case (1 old)
  then show ?case by (simp add: redactable_def)
next
  case (2 old c t)
  show ?case
  proof (cases "old \<noteq> [] \<and> prefix old (c # t)")
    case True
    with 2(4) have "sublist s (REDACTED @ replace old REDACTED (drop (length old) (c # t)))" by simp
    then have "sublist s (replace old REDACTED (drop (length old) (c # t)))" by (rule mark_sublist [OF 2(3)])
    with 2(1) [OF True 2(3)] have "sublist s (drop (length old) (c # t))" "old \<noteq> s" by blast+
    moreover have "sublist (drop (length old) (c # t)) (c # t)" by (rule sublist_drop)
    ultimately show ?thesis using sublist_order.order_trans by blast
  next
    case False
    with 2(4) have "sublist s (c # replace old REDACTED t)" by simp
    then consider (front) "prefix s (c # replace old REDACTED t)" | (rest) "sublist s (replace old REDACTED t)"
      by (auto simp: sublist_Cons_right)
    then show ?thesis
    proof cases
      case front
      have "s \<noteq> []" "CHR ''['' \<notin> set s" using 2(3) by (auto simp: redactable_def)
      with front obtain s' where s': "s = c # s'" "prefix s' (replace old REDACTED t)" "CHR ''['' \<notin> set s'"
        by (cases s) auto
      then have "prefix s (c # t)" using replace_prefix [OF s'(3,2)] by simp
      with False s'(1) show ?thesis by auto
    next
      case rest
      with 2(2) [OF False 2(3)] show ?thesis by (auto simp: sublist_Cons_right)
    qed
  qed
qed

lemma scrub_text_sublist:
  "redactable s \<Longrightarrow> sublist s (scrub_text secrets t) \<Longrightarrow> sublist s t \<and> s \<notin> set secrets"
proof (induction secrets arbitrary: t)
  case (Cons x secrets)
  then have "sublist s (replace x REDACTED t) \<and> s \<notin> set secrets" by (simp add: scrub_text_def)
  with replace_sublist [OF Cons.prems(1)] show ?case by auto
qed (simp add: scrub_text_def)

lemma redacted_mark: "redactable s \<Longrightarrow> \<not> sublist s REDACTED"
  using mark_sublist [of s "[]"] by (auto simp: redactable_def)

section \<open>Property\<close>



end
