(* ===== verification/ControlledOmp.thy ===== *)
theory ControlledOmp
  imports Actions Captures Redaction
begin

text \<open>
  The trusted controller of a bounded execution,
  \<open>containers/harbor-launcher/yacht_harbor_agents/controlled_omp.py\<close>: the exchange with the
  driver, the messages and captures of the plan, the shutdown, the summary and the handoff to the
  verifier, and the cold episodes that run the controller again and again.

  Outside the program are the clocks, the driver process and the container: \<open>session\<close> says what
  they answer on an abstract world, and \<open>asyncio.wait_for\<close> around a call is a limit the call is
  given (its answer may be a \<open>TimeoutError\<close> or a cancellation). Clock readings are exact; the
  rounding of their differences is not modelled. Writing the evidence files does not fail.
\<close>

section \<open>Constants\<close>

definition SCHEMA :: string where "SCHEMA = ''yacht.execution.v1''"
definition EXCHANGE_LIMIT_SECONDS :: rat where "EXCHANGE_LIMIT_SECONDS = 30"
definition SHUTDOWN_LIMIT_SECONDS :: rat where "SHUTDOWN_LIMIT_SECONDS = 5"
definition CLOSE_LIMIT_SECONDS :: rat where "CLOSE_LIMIT_SECONDS = 20"
definition SETTLE_GRACE_SECONDS :: rat where "SETTLE_GRACE_SECONDS = 20"

definition FRAME_USAGE_MAP :: "(string \<times> string) list" where
  "FRAME_USAGE_MAP =
     [(''input'', ''input_tokens''), (''output'', ''output_tokens''), (''cacheRead'', ''cache_read_tokens''),
      (''cacheWrite'', ''cache_write_tokens''), (''totalTokens'', ''total_tokens''),
      (''input_tokens'', ''input_tokens''), (''output_tokens'', ''output_tokens''),
      (''cache_read_tokens'', ''cache_read_tokens''), (''cache_write_tokens'', ''cache_write_tokens''),
      (''total_tokens'', ''total_tokens'')]"

section \<open>Plan\<close>

definition plan_text :: "(json \<Rightarrow> string) \<Rightarrow> json \<Rightarrow> string \<Rightarrow> exn + string" where
  "plan_text str entry key = bnd (subscript entry key) (\<lambda>v. Inr (text_value str v))"

definition messages_from_plan :: "(json \<Rightarrow> string) \<Rightarrow> json_obj \<Rightarrow> string \<Rightarrow> exn + (string \<times> string) list" where
  "messages_from_plan str plan instruction =
     (let initial = dget plan ''initial_turn_id'';
          initial_id = (if truthy initial then text_value str initial else ''initial'')
      in bnd (iterate (or_list (dget plan ''turns''))) (\<lambda>turns.
         bnd (mapR (\<lambda>turn. bnd (plan_text str turn ''id'') (\<lambda>i. bnd (plan_text str turn ''instruction'') (\<lambda>t. Inr (i, t))))
                turns) (\<lambda>messages. Inr ((initial_id, instruction) # messages))))"

text \<open>The plan of a trial: given as it is, or by the name of the task (from the trial's Harbor configuration).\<close>

definition resolve_execution_plan :: "json_obj option \<Rightarrow> exn + string \<Rightarrow> exn + json_obj option" where
  "resolve_execution_plan execution_kwarg task_name = (case execution_kwarg of
     None \<Rightarrow> Inr None
   | Some plans \<Rightarrow>
       if plans = [] then Inr None
       else if has_key plans ''mode'' then Inr (Some plans)
       else bnd task_name (\<lambda>name. Inr (case dget plans name of JObj plan \<Rightarrow> Some plan | _ \<Rightarrow> None)))"

definition captures_after :: "json_obj \<Rightarrow> string \<Rightarrow> exn + (nat \<times> json_obj) list" where
  "captures_after plan turn_id =
     bnd (iterate (or_list (dget plan ''captures''))) (\<lambda>captures.
     bnd (mapR (\<lambda>(index, capture). case capture of
            JObj c \<Rightarrow> Inr (if dget c ''after'' = JStr turn_id then [(index, c)] else [])
          | _ \<Rightarrow> Inl (AttributeError ''object has no attribute get'')) (enumerate 0 captures)) (\<lambda>found. Inr (concat found)))"

section \<open>Frames\<close>

definition usage_count :: "json \<Rightarrow> int option" where
  "usage_count v = (case v of
     JInt n \<Rightarrow> if n < 0 then None else Some n
   | JFloat (Finite q) \<Rightarrow> if q < 0 \<or> q \<noteq> of_int \<lfloor>q\<rfloor> then None else Some \<lfloor>q\<rfloor>
   | _ \<Rightarrow> None)"

definition normalize_usage :: "json \<Rightarrow> tokens option" where
  "normalize_usage usage = (case usage of
     JObj u \<Rightarrow> or_none (foldl (\<lambda>parsed (source, dest). case usage_count (dget u source) of
         None \<Rightarrow> parsed | Some n \<Rightarrow> AList.update dest n parsed) [] FRAME_USAGE_MAP)
   | _ \<Rightarrow> None)"

definition normalize_cost :: "json \<Rightarrow> exn + pyfloat option" where
  "normalize_cost cost = (case cost of
     JInt n \<Rightarrow> if 0 < n then number_as_float cost else Inr None
   | JFloat (Finite q) \<Rightarrow> Inr (if 0 < q then Some (Finite q) else None)
   | JFloat PosInf \<Rightarrow> Inr (Some PosInf)
   | _ \<Rightarrow> Inr None)"

definition cost_json :: "pyfloat option \<Rightarrow> json" where
  "cost_json cost = (case cost of None \<Rightarrow> JNull | Some c \<Rightarrow> JFloat c)"

definition normalize_advisor_entry :: "json \<Rightarrow> exn + json" where
  "normalize_advisor_entry entry = (case entry of
     JObj e \<Rightarrow> bnd (normalize_cost (dget e ''cost'')) (\<lambda>c. Inr (JObj (AList.update ''cost'' (cost_json c) e)))
   | _ \<Rightarrow> Inr entry)"

definition normalize_advisor_report :: "json_obj \<Rightarrow> exn + json_obj" where
  "normalize_advisor_report report =
     bnd (normalize_cost (dget report ''cost_usd'')) (\<lambda>c.
     let normalized = AList.update ''cost_usd'' (cost_json c) report in
     case dget report ''advisors'' of
       JList advisors \<Rightarrow> bnd (mapR normalize_advisor_entry advisors) (\<lambda>es.
         Inr (AList.update ''advisors'' (JList es) normalized))
     | _ \<Rightarrow> Inr normalized)"

definition settle_is_fatal :: "json_obj \<Rightarrow> bool" where
  "settle_is_fatal frame =
     (if dget frame ''success'' = JBool False then True
      else case dget frame ''data'' of
        JObj data \<Rightarrow>
          truthy (dget data ''invalid'') \<or> dget data ''ended'' = JStr ''error''
          \<or> (case dget data ''quiescence'' of JObj q \<Rightarrow> dget q ''ready'' = JBool False | _ \<Rightarrow> False)
      | _ \<Rightarrow> True)"

definition may_continue :: "json_obj \<Rightarrow> exn + bool" where
  "may_continue data = bnd (in_strings (dget data ''ended'') [''cap'', ''timeout'']) (\<lambda>limited.
     Inr (if limited then truthy (dget data ''continuation_possible'') else True))"

section \<open>The session and the state\<close>

record 'w session =
  clock :: "'w \<Rightarrow> rat"
  wall_clock :: "'w \<Rightarrow> rat"
  utc_now :: "'w \<Rightarrow> string"
  send :: "json_obj \<Rightarrow> rat \<Rightarrow> 'w \<Rightarrow> (exn + unit) \<times> 'w"
  recv :: "rat \<Rightarrow> 'w \<Rightarrow> (exn + json) \<times> 'w"
  close_driver :: "rat \<Rightarrow> 'w \<Rightarrow> (exn + unit) \<times> 'w"
  task_container :: "'w container"
  given_cleanup :: "(int set \<Rightarrow> 'w \<Rightarrow> (exn + unit) \<times> 'w) option"
  str_of :: "json \<Rightarrow> string"
  json_loads :: "string \<Rightarrow> exn + json"
  sha256_hex :: "bytes \<Rightarrow> string"

record run_inputs =
  run_plan :: json_obj
  run_instruction :: string
  run_model :: string
  run_secrets :: "string list"
  run_version :: "string option"

record verifier_handoff =
  handoff_summary :: json_obj
  handoff_manifest :: json_obj
  handoff_files :: "(string \<times> bytes) list"

record 'w control =
  world :: 'w
  is_valid :: bool
  ended_as :: string
  error_text :: "string option"
  capture_records :: "json_obj list"
  message_records :: "json_obj list"
  session_ids :: "string list"
  settings :: json_obj
  advisor_report :: "json_obj option"
  next_id :: nat
  protect_pids :: "int set"
  seen_scanners :: "(int \<times> int) set"
  baseline_holder :: "process_baseline option"
  events_file :: "json list"
  evidence_files :: "(string \<times> bytes) list"
  summary_file :: "json_obj option"
  handoff_dir :: "verifier_handoff option"

definition initial_control :: "'w \<Rightarrow> 'w control" where
  "initial_control w =
     \<lparr>world = w, is_valid = True, ended_as = ''natural'', error_text = None, capture_records = [],
      message_records = [], session_ids = [], settings = [], advisor_report = None, next_id = 1,
      protect_pids = {}, seen_scanners = {}, baseline_holder = None, events_file = [], evidence_files = [],
      summary_file = None, handoff_dir = None\<rparr>"

text \<open>\<open>valid = False; ended = "error"; error = error or text\<close>, and with \<open>error = text\<close>.\<close>

definition invalidate :: "string \<Rightarrow> 'w control \<Rightarrow> 'w control" where
  "invalidate e s = s\<lparr>is_valid := False, ended_as := ''error'', error_text := Some (or_text (error_text s) e)\<rparr>"

definition fail_with :: "string \<Rightarrow> 'w control \<Rightarrow> 'w control" where
  "fail_with e s = s\<lparr>is_valid := False, ended_as := ''error'', error_text := Some e\<rparr>"

text \<open>A call of the outside world.\<close>

definition outside :: "('w \<Rightarrow> (exn + 'a) \<times> 'w) \<Rightarrow> ('w control, 'a) act" where
  "outside f s = (case f (world s) of (r, w) \<Rightarrow> Some (r, s\<lparr>world := w\<rparr>))"

section \<open>The exchange with the driver\<close>

definition is_response :: "string \<Rightarrow> json_obj \<Rightarrow> bool" where
  "is_response command_id frame \<longleftrightarrow> dget frame ''type'' = JStr ''response'' \<and> dget frame ''id'' = JStr command_id"

partial_function (option) exchange_loop ::
    "'w session \<Rightarrow> string list \<Rightarrow> rat \<Rightarrow> string \<Rightarrow> 'w control \<Rightarrow> ((exn + json_obj) \<times> 'w control) option" where
  "exchange_loop S secrets deadline command_id s =
     (if deadline - clock S (world s) \<le> 0 then Some (Inl (ControlError ''driver exchange timed out''), s)
      else case recv S (deadline - clock S (world s)) (world s) of
        (Inl e, w) \<Rightarrow> Some (Inl e, s\<lparr>world := w\<rparr>)
      | (Inr frame, w) \<Rightarrow>
          (case frame of
             JObj d \<Rightarrow>
               if is_response command_id d then Some (Inr d, s\<lparr>world := w\<rparr>)
               else exchange_loop S secrets deadline command_id
                      (s\<lparr>world := w, events_file := events_file s @ [scrub secrets [] frame]\<rparr>)
           | _ \<Rightarrow> Some (Inl (AttributeError ''object has no attribute get''), s\<lparr>world := w\<rparr>)))"

declare exchange_loop.simps [code]

definition exchange ::
    "'w session \<Rightarrow> string list \<Rightarrow> string \<Rightarrow> json_obj \<Rightarrow> rat \<Rightarrow> ('w control, json_obj) act" where
  "exchange S secrets command_id payload timeout_seconds =
     act_bind (outside (send S ((''id'', JStr command_id) # payload) timeout_seconds)) (\<lambda>_.
     reading (\<lambda>s. clock S (world s) + timeout_seconds) (\<lambda>deadline.
     exchange_loop S secrets deadline command_id))"

definition allocate_id :: "('w control, string) act" where
  "allocate_id = reading next_id (\<lambda>n. act_bind (modify (\<lambda>s. s\<lparr>next_id := Suc n\<rparr>)) (\<lambda>_. ret (nat_str n)))"

definition shutdown :: "'w session \<Rightarrow> string list \<Rightarrow> ('w control, unit) act" where
  "shutdown S secrets =
     act_bind allocate_id (\<lambda>command_id.
     act_bind (exchange S secrets command_id [(''type'', JStr ''shutdown'')] SHUTDOWN_LIMIT_SECONDS) (\<lambda>frame.
     if dget frame ''success'' = JBool False then
       (let detail = (case dget frame ''data'' of
            JObj data \<Rightarrow> (if truthy (dget data ''error'') then text_value (str_of S) (dget data ''error'')
              else if truthy (dget data ''code'') then text_value (str_of S) (dget data ''code'') else [])
          | _ \<Rightarrow> [])
        in throw (ControlError (if detail \<noteq> [] then ''driver shutdown failed: '' @ detail else ''driver shutdown failed'')))
     else ret ()))"

section \<open>Totals\<close>

record usage_totals =
  total_usage :: tokens
  shared_keys :: "string list option"
  total_cost :: "pyfloat option"
  cost_known :: bool

definition reported_counts :: "json \<Rightarrow> tokens" where
  "reported_counts usage = (case usage of
     JObj u \<Rightarrow> concat (map (\<lambda>(key, v). case v of JInt n \<Rightarrow> [(key, n)] | _ \<Rightarrow> []) u)
   | _ \<Rightarrow> [])"

definition add_item :: "nat \<Rightarrow> usage_totals \<Rightarrow> json_obj \<Rightarrow> exn + usage_totals" where
  "add_item _ t item =
     (let counts = reported_counts (dget item ''usage'');
          keys = map fst counts;
          t = t\<lparr>total_usage := foldl (\<lambda>usage (key, n). count_add key n usage) (total_usage t) counts,
               shared_keys := Some (case shared_keys t of None \<Rightarrow> keys | Some ks \<Rightarrow> filter (\<lambda>k. k \<in> set keys) ks)\<rparr>
      in bnd (number_as_float (dget item ''cost_usd'')) (\<lambda>cost. Inr (case cost of
           None \<Rightarrow> t\<lparr>cost_known := False\<rparr>
         | Some c \<Rightarrow> t\<lparr>total_cost := Some (float_add (case total_cost t of None \<Rightarrow> Finite 0 | Some x \<Rightarrow> x) c)\<rparr>)))"

definition reported_totals :: "json_obj list \<Rightarrow> exn + tokens \<times> pyfloat option" where
  "reported_totals items =
     bnd (foldR add_item 0 \<lparr>total_usage = [], shared_keys = None, total_cost = None, cost_known = items \<noteq> []\<rparr> items) (\<lambda>t.
     Inr (filter (\<lambda>(key, n). key \<in> set (case shared_keys t of None \<Rightarrow> [] | Some ks \<Rightarrow> ks)) (total_usage t),
          if cost_known t then total_cost t else None))"

definition tokens_json :: "tokens \<Rightarrow> json" where
  "tokens_json usage = JObj (map (\<lambda>(key, n). (key, JInt n)) usage)"

section \<open>Closing\<close>

definition cleanup :: "'w session \<Rightarrow> ('w control, unit) act" where
  "cleanup S s = (case given_cleanup S of
     Some f \<Rightarrow> outside (f (protect_pids s)) s
   | None \<Rightarrow>
       (case production_final_cleanup (str_of S) (json_loads S) (task_container S) (baseline_holder s) (protect_pids s)
               \<lparr>reaper_world = world s, scanner_identities = seen_scanners s, kills = []\<rparr> of
          (r, reaper) \<Rightarrow> Some (r, s\<lparr>world := reaper_world reaper, seen_scanners := scanner_identities reaper\<rparr>)))"

definition plan_int :: "json_obj \<Rightarrow> string \<Rightarrow> exn + int" where
  "plan_int plan key = bnd (subscript (JObj plan) key) (py_int parse_int)"

definition error_entry :: "'w control \<Rightarrow> json_obj" where
  "error_entry s = (let e = or_text (error_text s) [] in
     if e \<noteq> [] then [(''error'', JStr e)] else if \<not> is_valid s then [(''error'', JStr ''invalid'')] else [])"

definition summary_document ::
    "run_inputs \<Rightarrow> tokens \<Rightarrow> pyfloat option \<Rightarrow> 'w control \<Rightarrow> exn + json_obj" where
  "summary_document I usage cost s =
     bnd (plan_int (run_plan I) ''max_turns'') (\<lambda>max_turns.
     bnd (plan_int (run_plan I) ''message_timeout_seconds'') (\<lambda>message_timeout.
     bnd (plan_int (run_plan I) ''timeout_seconds'') (\<lambda>timeout.
     Inr ([(''schema'', JStr SCHEMA), (''mode'', dget (run_plan I) ''mode''), (''max_turns'', JInt max_turns),
           (''message_timeout_seconds'', JInt message_timeout), (''timeout_seconds'', JInt timeout),
           (''session_ids'', JList (map JStr (session_ids s))),
           (''messages'', JList (map JObj (message_records s))),
           (''captures'', JList (map JObj (capture_records s))),
           (''valid'', JBool (is_valid s)), (''model'', JStr (run_model I)), (''harness'', JStr ''omp''),
           (''harness_version'', JStr (or_text (run_version I) CONTROLLED_OMP_VERSION)),
           (''settings'', JObj (settings s)), (''usage'', tokens_json usage), (''cost_usd'', cost_json cost),
           (''ended'', JStr (ended_as s)),
           (''handoff'', JObj [(''verifier'', JStr ''verifier/yacht-execution'')])]
          @ (case advisor_report s of None \<Rightarrow> [] | Some r \<Rightarrow> [(''advisor'', JObj r)])
          @ error_entry s))))"

text \<open>\<open>record.get("artifact")\<close> of every capture, copied when the file exists.\<close>

definition handoff_artifacts :: "'w control \<Rightarrow> (string \<times> bytes) list" where
  "handoff_artifacts s = concat (map (\<lambda>record. case dget record ''artifact'' of
     JStr name \<Rightarrow> if name = [] then [] else
       (case map_of (evidence_files s) name of None \<Rightarrow> [] | Some data \<Rightarrow> [(name, data)])
   | _ \<Rightarrow> []) (capture_records s))"

definition published_handoff :: "json_obj \<Rightarrow> 'w control \<Rightarrow> verifier_handoff" where
  "published_handoff summary s =
     \<lparr>handoff_summary = summary,
      handoff_manifest = [(''schema'', JStr SCHEMA), (''valid'', JBool (is_valid s)), (''ended'', JStr (ended_as s)),
                          (''captures'', JList (map JObj (capture_records s)))],
      handoff_files = handoff_artifacts s\<rparr>"

text \<open>
  \<open>_write_summary_after_close\<close>. \<open>close\<close> and the cleanup raise on a cancellation; their other
  exceptions invalidate the run. The result of \<open>clean_container\<close> says whether to publish.
\<close>

definition close_transport :: "'w session \<Rightarrow> ('w control, bool) act" where
  "close_transport S =
     catching (act_bind (outside (close_driver S CLOSE_LIMIT_SECONDS)) (\<lambda>_. ret True)) (\<lambda>_. ret False)"

definition clean_container :: "'w session \<Rightarrow> bool \<Rightarrow> bool \<Rightarrow> ('w control, bool) act" where
  "clean_container S confirmed publish_handoff =
     (if \<not> confirmed then act_bind (modify (invalidate ''transport close unconfirmed'')) (\<lambda>_. ret False)
      else catching (act_bind (cleanup S) (\<lambda>_. ret publish_handoff))
             (\<lambda>_. act_bind (modify (invalidate ''quiescence failed'')) (\<lambda>_. ret False)))"

definition publish_summary :: "run_inputs \<Rightarrow> tokens \<Rightarrow> pyfloat option \<Rightarrow> bool \<Rightarrow> ('w control, json_obj) act" where
  "publish_summary I usage cost publish =
     act_bind (\<lambda>s. from_result (summary_document I usage cost s) s) (\<lambda>summary.
     act_bind (modify (\<lambda>s. s\<lparr>summary_file := Some summary\<rparr>)) (\<lambda>_.
     act_bind (modify (\<lambda>s. if publish then s\<lparr>handoff_dir := Some (published_handoff summary s)\<rparr> else s)) (\<lambda>_.
     ret summary)))"

definition write_summary_after_close ::
    "'w session \<Rightarrow> run_inputs \<Rightarrow> bool \<Rightarrow> ('w control, json_obj) act" where
  "write_summary_after_close S I publish_handoff =
     act_bind (close_transport S) (\<lambda>confirmed.
     act_bind (reading message_records (\<lambda>messages. from_result (reported_totals messages))) (\<lambda>totals.
     act_bind (clean_container S confirmed publish_handoff) (\<lambda>publish.
     publish_summary I (fst totals) (snd totals) publish)))"

definition finalize :: "'w session \<Rightarrow> run_inputs \<Rightarrow> ('w control, json_obj) act" where
  "finalize S I =
     act_bind (catching (act_bind (shutdown S (run_secrets I)) (\<lambda>_. ret True))
       (\<lambda>_. act_bind (modify (invalidate ''shutdown failed'')) (\<lambda>_. ret False))) (\<lambda>disposed.
     write_summary_after_close S I disposed)"

section \<open>The run\<close>

definition int_set :: "json \<Rightarrow> exn + int set" where
  "int_set v = bnd (iterate (or_list v)) (\<lambda>xs. bnd (mapR (py_int parse_int) xs) (\<lambda>ns. Inr (set ns)))"

definition or_zero :: "json \<Rightarrow> json" where
  "or_zero v = (if truthy v then v else JInt 0)"

definition dict_update :: "json_obj \<Rightarrow> json_obj \<Rightarrow> json_obj" where
  "dict_update d updates = foldl (\<lambda>d (k, v). AList.update k v d) d updates"

text \<open>The run fails and goes to its finalization.\<close>

definition stop_with :: "string \<Rightarrow> ('w control, bool) act" where
  "stop_with e = act_bind (modify (fail_with e)) (\<lambda>_. ret False)"

definition record_session :: "'w session \<Rightarrow> json \<Rightarrow> 'w control \<Rightarrow> 'w control" where
  "record_session S sid s =
     (if truthy sid \<and> text_value (str_of S) sid \<notin> set (session_ids s)
      then s\<lparr>session_ids := session_ids s @ [text_value (str_of S) sid]\<rparr> else s)"

definition take_baseline :: "'w session \<Rightarrow> ('w control, unit) act" where
  "take_baseline S = (case given_cleanup S of
     Some _ \<Rightarrow> ret ()
   | None \<Rightarrow>
       act_bind (outside (snapshot (json_loads S) (task_container S))) (\<lambda>(entries, own).
       act_bind (modify (\<lambda>s. s\<lparr>seen_scanners := seen_scanners s \<union> own\<rparr>)) (\<lambda>_.
       act_bind (from_result (baseline_from_entries (str_of S) entries)) (\<lambda>b.
       modify (\<lambda>s. s\<lparr>baseline_holder := Some b\<rparr>)))))"

text \<open>The init exchange; \<open>True\<close>: go on with the messages.\<close>

definition start_session :: "'w session \<Rightarrow> run_inputs \<Rightarrow> rat \<Rightarrow> int \<Rightarrow> ('w control, bool) act" where
  "start_session S I deadline deadline_ms =
     act_bind allocate_id (\<lambda>init_id.
     reading (\<lambda>s. min EXCHANGE_LIMIT_SECONDS (max 1 (deadline - clock S (world s)))) (\<lambda>limit.
     act_bind (exchange S (run_secrets I) init_id
       ([(''type'', JStr ''init''), (''model'', JStr (run_model I)), (''deadline_ms'', JInt deadline_ms)]
        @ (if dget (run_plan I) ''advisor'' \<noteq> JNull then [(''advisor'', dget (run_plan I) ''advisor'')] else []))
       limit) (\<lambda>frame.
     case dget frame ''data'' of
       JObj data \<Rightarrow>
         if \<not> truthy (dget frame ''success'') then stop_with ''init failed''
         else
           act_bind (from_result (int_set (dget data ''protected_pids''))) (\<lambda>protect.
           act_bind (modify (\<lambda>s. s\<lparr>protect_pids := protect\<rparr>)) (\<lambda>_.
           act_bind (modify (\<lambda>s. if truthy (dget data ''session_id'')
             then s\<lparr>session_ids := session_ids s @ [text_value (str_of S) (dget data ''session_id'')]\<rparr> else s)) (\<lambda>_.
           act_bind (if truthy (dget data ''policy'') then (case dget data ''policy'' of
                       JObj policy \<Rightarrow> modify (\<lambda>s. s\<lparr>settings := dict_update (settings s) policy\<rparr>)
                     | _ \<Rightarrow> throw (ControlError ''init policy must be an object''))
                     else ret ()) (\<lambda>_.
           act_bind (take_baseline S) (\<lambda>_. ret True)))))
     | _ \<Rightarrow> stop_with ''init failed'')))"

definition settle_record ::
    "string \<Rightarrow> string \<Rightarrow> string \<Rightarrow> json_obj \<Rightarrow> json_obj option \<Rightarrow> exn + json_obj" where
  "settle_record message_id started_at finished_at data advisor =
     bnd (normalize_cost (dget data ''cost'')) (\<lambda>cost.
     bnd (in_strings (dget data ''ended'') [''natural'', ''cap'', ''timeout'', ''error'']) (\<lambda>known.
     bnd (py_int parse_int (or_zero (dget data ''loops_started''))) (\<lambda>loops_started.
     bnd (py_int parse_int (or_zero (dget data ''loops_completed''))) (\<lambda>loops_completed.
     Inr ([(''id'', JStr message_id), (''ended'', if known then dget data ''ended'' else JStr ''error''),
           (''started_at'', JStr started_at), (''finished_at'', JStr finished_at),
           (''loops_started'', JInt loops_started), (''loops_completed'', JInt loops_completed),
           (''continuation_possible'', JBool (truthy (dget data ''continuation_possible'')))]
          @ (case normalize_usage (dget data ''usage'') of None \<Rightarrow> [] | Some u \<Rightarrow> [(''usage'', tokens_json u)])
          @ (case cost of None \<Rightarrow> [] | Some c \<Rightarrow> [(''cost_usd'', JFloat c)])
          @ (case advisor of None \<Rightarrow> [] | Some r \<Rightarrow> [(''advisor'', JObj r)]))))))"

definition settle_error :: "(json \<Rightarrow> string) \<Rightarrow> json_obj \<Rightarrow> string" where
  "settle_error str data =
     (let other = (case dget data ''error'' of JStr e \<Rightarrow> if e \<noteq> [] then e else ''prompt failed'' | _ \<Rightarrow> ''prompt failed'')
      in case dget data ''invalid'' of
           JObj invalid \<Rightarrow> if truthy (dget invalid ''reason'') then text_value str (dget invalid ''reason'') else other
         | _ \<Rightarrow> other)"

text \<open>\<open>(data.get("quiescence") or {}).get("protected_pids")\<close>.\<close>

definition quiescence_pids :: "json_obj \<Rightarrow> exn + json" where
  "quiescence_pids data = (case dget data ''quiescence'' of
     JObj q \<Rightarrow> Inr (dget q ''protected_pids'')
   | v \<Rightarrow> if truthy v then Inl (AttributeError ''object has no attribute get'') else Inr JNull)"

text \<open>One capture: \<open>False\<close> when it failed and the run stops.\<close>

definition run_capture :: "'w session \<Rightarrow> nat \<times> json_obj \<Rightarrow> ('w control, bool) act" where
  "run_capture S = (\<lambda>(index, capture).
     act_bind (from_result (plan_text (str_of S) (JObj capture) ''path'')) (\<lambda>path.
     act_bind (from_result (py_int parse_int
       (if truthy (dget capture ''max_bytes'') then dget capture ''max_bytes'' else JInt 1024))) (\<lambda>max_bytes.
     act_bind (outside (capture_via_exec (str_of S)
       (\<lambda>text. case json_loads S text of Inl _ \<Rightarrow> None | Inr v \<Rightarrow> Some v) (task_container S) path max_bytes)) (\<lambda>read.
     act_bind (from_result (plan_text (str_of S) (JObj capture) ''after'')) (\<lambda>after.
     case write_host_capture (sha256_hex S) after index path read of (record, file) \<Rightarrow>
     act_bind (modify (\<lambda>s. s\<lparr>evidence_files := (case file of None \<Rightarrow> evidence_files s
       | Some (name, data) \<Rightarrow> AList.update name data (evidence_files s))\<rparr>)) (\<lambda>_.
     act_bind (modify (\<lambda>s. s\<lparr>capture_records := capture_records s @ [record]\<rparr>)) (\<lambda>_.
     if dget record ''status'' = JStr ''error''
     then stop_with ''capture failed''
     else ret True)))))))"

text \<open>The advisor block of a settle is cumulative: the latest is the one of the summary.\<close>

definition take_advisor :: "json \<Rightarrow> ('w control, json_obj option) act" where
  "take_advisor advisor = (case advisor of
     JObj block \<Rightarrow> act_bind (from_result (normalize_advisor_report block)) (\<lambda>r.
       act_bind (modify (\<lambda>s. s\<lparr>advisor_report := Some r\<rparr>)) (\<lambda>_. ret (Some r)))
   | _ \<Rightarrow> ret None)"

definition record_message :: "json_obj \<Rightarrow> ('w control, unit) act" where
  "record_message entry = modify (\<lambda>s. s\<lparr>message_records := message_records s @ [entry]\<rparr>)"

text \<open>The message cannot be continued: the loop is left, and scheduled messages make the run invalid.\<close>

definition break_off :: "string \<Rightarrow> string \<Rightarrow> string \<Rightarrow> ('w control, bool) act" where
  "break_off message_id last_id ended =
     act_bind (modify (\<lambda>s. if message_id \<noteq> last_id
       then s\<lparr>is_valid := False, ended_as := ended,
              error_text := Some (or_text (error_text s) (ended @ '' left scheduled messages undelivered''))\<rparr>
       else s\<lparr>ended_as := ended\<rparr>)) (\<lambda>_. ret False)"

text \<open>One message: \<open>True\<close> when the loop goes on, \<open>False\<close> when it is left (by \<open>break\<close> or \<open>return\<close>).\<close>

definition run_message ::
    "'w session \<Rightarrow> run_inputs \<Rightarrow> rat \<Rightarrow> int \<Rightarrow> int \<Rightarrow> string \<Rightarrow> string \<times> string \<Rightarrow> ('w control, bool) act" where
  "run_message S I deadline max_turns message_timeout last_id = (\<lambda>(message_id, text).
     reading (\<lambda>s. (utc_now S (world s), min (of_int message_timeout + SETTLE_GRACE_SECONDS)
                     (max 1 (deadline - clock S (world s) + SETTLE_GRACE_SECONDS)))) (\<lambda>(started_at, limit).
     act_bind allocate_id (\<lambda>command_id.
     act_bind (exchange S (run_secrets I) command_id
       [(''type'', JStr ''prompt''), (''turn_id'', JStr message_id), (''message'', JStr text),
        (''max_turns'', JInt max_turns), (''timeout_seconds'', JInt message_timeout)] limit) (\<lambda>frame.
     reading (\<lambda>s. utc_now S (world s)) (\<lambda>finished_at.
     let data = obj (dget frame ''data'') in
     act_bind (take_advisor (dget data ''advisor'')) (\<lambda>advisor.
     act_bind (from_result (settle_record message_id started_at finished_at data advisor)) (\<lambda>record.
     act_bind (record_message record) (\<lambda>_.
     act_bind (from_result (bnd (quiescence_pids data) int_set)) (\<lambda>extra.
     act_bind (modify (\<lambda>s. s\<lparr>protect_pids := protect_pids s \<union> extra\<rparr>)) (\<lambda>_.
     act_bind (modify (record_session S (dget data ''session_id''))) (\<lambda>_.
     if settle_is_fatal frame
     then stop_with (settle_error (str_of S) data)
     else
       act_bind (from_result (captures_after (run_plan I) message_id)) (\<lambda>captures.
       act_bind (each_until (run_capture S) captures) (\<lambda>captured.
       if \<not> captured then ret False
       else
         act_bind (from_result (may_continue data)) (\<lambda>go.
         if go then ret True
         else break_off message_id last_id (text_value (str_of S) (dget record ''ended''))))))))))))))))"

definition last_ended :: "json_obj list \<Rightarrow> string" where
  "last_ended messages = (if messages = [] then ''natural''
     else case dget (last messages) ''ended'' of JStr e \<Rightarrow> e | _ \<Rightarrow> [])"

fun run_messages ::
    "'w session \<Rightarrow> run_inputs \<Rightarrow> rat \<Rightarrow> int \<Rightarrow> int \<Rightarrow> string \<Rightarrow> (string \<times> string) list \<Rightarrow> ('w control, unit) act" where
  "run_messages S I deadline max_turns message_timeout last_id [] =
     modify (\<lambda>s. s\<lparr>ended_as := last_ended (message_records s)\<rparr>)"
| "run_messages S I deadline max_turns message_timeout last_id (message # script) =
     reading (\<lambda>s. deadline \<le> clock S (world s)) (\<lambda>late.
     if late then modify (\<lambda>s. s\<lparr>ended_as := ''timeout''\<rparr>)
     else act_bind (run_message S I deadline max_turns message_timeout last_id message) (\<lambda>go.
       if go then run_messages S I deadline max_turns message_timeout last_id script else ret ()))"

definition run_body :: "'w session \<Rightarrow> run_inputs \<Rightarrow> rat \<Rightarrow> int \<Rightarrow> int \<Rightarrow> int \<Rightarrow> ('w control, json_obj) act" where
  "run_body S I deadline deadline_ms max_turns message_timeout =
     act_bind (start_session S I deadline deadline_ms) (\<lambda>started.
     act_bind (if \<not> started then ret ()
       else act_bind (from_result (messages_from_plan (str_of S) (run_plan I) (run_instruction I))) (\<lambda>script.
            run_messages S I deadline max_turns message_timeout (fst (last script)) script)) (\<lambda>_.
     finalize S I))"

text \<open>
  The handlers: after an exception the run is finalized once more; only a cancellation of that
  finalization replaces the exception.
\<close>

definition finalize_quietly :: "'w session \<Rightarrow> run_inputs \<Rightarrow> exn \<Rightarrow> ('w control, json_obj) act" where
  "finalize_quietly S I e =
     act_bind (modify (if e = Cancelled then fail_with ''cancelled'' else invalidate ''controller failure'')) (\<lambda>_.
     act_bind (catching (act_bind (finalize S I) (\<lambda>_. ret ())) (\<lambda>_. ret ())) (\<lambda>_. throw e))"

definition run_controlled_omp :: "'w session \<Rightarrow> run_inputs \<Rightarrow> ('w control, json_obj) act" where
  "run_controlled_omp S I =
     act_bind (from_result (validate_execution_plan (JObj (run_plan I)))) (\<lambda>_.
     reading (\<lambda>s. (clock S (world s), wall_clock S (world s))) (\<lambda>(started, wall).
     act_bind (from_result (plan_int (run_plan I) ''timeout_seconds'')) (\<lambda>timeout.
     act_bind (from_result (plan_int (run_plan I) ''max_turns'')) (\<lambda>max_turns.
     act_bind (from_result (plan_int (run_plan I) ''message_timeout_seconds'')) (\<lambda>message_timeout.
     attempt (run_body S I (started + of_int timeout) \<lfloor>(wall + of_int timeout) * 1000\<rfloor> max_turns message_timeout)
       (finalize_quietly S I))))))"

section \<open>Cold episodes\<close>

text \<open>
  \<open>run_cold_capped_episodes\<close>: the controller is run again from a fresh state, with a new driver, as
  long as the episodes are valid, their number is not used up and no verification in between has
  resolved the task. \<open>new_driver\<close> is the driver factory and \<open>verify\<close> the verifier, both outside.
\<close>

record 'w relay =
  relay_world :: 'w
  relay_summaries :: "json_obj list"
  relay_records :: "json_obj list"
  to_resolution :: "int option"
  relay_file :: "json_obj option"

record 'w relay_inputs =
  relay_instruction :: string
  relay_model :: string
  relay_secrets :: "string list"
  relay_plan :: json_obj
  relay_max_turns :: int
  new_driver :: "'w \<Rightarrow> (exn + unit) \<times> 'w"
  verify :: "(int \<Rightarrow> 'w \<Rightarrow> (exn + pyfloat option) \<times> 'w) option"

definition cold_plan :: "int \<Rightarrow> int \<Rightarrow> json_obj" where
  "cold_plan max_turns timeout =
     [(''mode'', JStr ''single''), (''max_turns'', JInt max_turns), (''message_timeout_seconds'', JInt timeout),
      (''timeout_seconds'', JInt timeout)]"

text \<open>\<open>instruction if index == 1 else extras[index - 2]\<close>, written as text.\<close>

definition episode_text :: "string \<Rightarrow> json list \<Rightarrow> int \<Rightarrow> exn + string" where
  "episode_text instruction extras index =
     (if index = 1 then Inr instruction
      else bnd (item_at extras (nat (index - 2))) (\<lambda>v. case v of
        JStr s \<Rightarrow> Inr s | _ \<Rightarrow> Inl (TypeError ''data must be str'')))"

definition outside_relay :: "('w \<Rightarrow> (exn + 'a) \<times> 'w) \<Rightarrow> ('w relay, 'a) act" where
  "outside_relay f r = (case f (relay_world r) of (x, w) \<Rightarrow> Some (x, r\<lparr>relay_world := w\<rparr>))"

definition fresh_run :: "'w session \<Rightarrow> run_inputs \<Rightarrow> ('w relay, json_obj) act" where
  "fresh_run S I r = (case run_controlled_omp S I (initial_control (relay_world r)) of
     None \<Rightarrow> None | Some (x, s) \<Rightarrow> Some (x, r\<lparr>relay_world := world s\<rparr>))"

definition summary_ended :: "(json \<Rightarrow> string) \<Rightarrow> json_obj \<Rightarrow> string" where
  "summary_ended str summary =
     (let e = (if truthy (dget summary ''ended'') then text_value str (dget summary ''ended'') else ''error'')
      in if e \<in> set MESSAGE_ENDINGS then e else ''error'')"

definition reward_reached :: "pyfloat \<Rightarrow> bool" where
  "reward_reached v = (case v of Finite q \<Rightarrow> 1 \<le> q | PosInf \<Rightarrow> True | _ \<Rightarrow> False)"

definition update_last :: "('a \<Rightarrow> 'a) \<Rightarrow> 'a list \<Rightarrow> 'a list" where
  "update_last f xs = (if xs = [] then [] else butlast xs @ [f (last xs)])"

text \<open>The verification between two episodes.\<close>

definition verify_episode :: "'w relay_inputs \<Rightarrow> int \<Rightarrow> int \<Rightarrow> ('w relay, unit) act" where
  "verify_episode R count index = reading to_resolution (\<lambda>resolved. case verify R of
     None \<Rightarrow> ret ()
   | Some f \<Rightarrow>
       if truthy (dget (relay_plan R) ''verify_between'') \<and> index < count \<and> resolved = None then
         act_bind (outside_relay (f index)) (\<lambda>reward. case reward of
           None \<Rightarrow> ret ()
         | Some v \<Rightarrow> modify (\<lambda>r. r\<lparr>relay_records := update_last (AList.update ''reward'' (JFloat v)) (relay_records r),
             to_resolution := (if reward_reached v then Some index else to_resolution r)\<rparr>))
       else ret ())"

definition cold_episode :: "'w session \<Rightarrow> 'w relay_inputs \<Rightarrow> json list \<Rightarrow> int \<Rightarrow> int \<Rightarrow> int \<Rightarrow> ('w relay, bool) act" where
  "cold_episode S R extras timeout count index =
     act_bind (from_result (episode_text (relay_instruction R) extras index)) (\<lambda>text.
     reading (\<lambda>r. utc_now S (relay_world r)) (\<lambda>started_at.
     act_bind (outside_relay (new_driver R)) (\<lambda>_.
     act_bind (fresh_run S \<lparr>run_plan = cold_plan (relay_max_turns R) timeout, run_instruction = text,
         run_model = relay_model R, run_secrets = relay_secrets R, run_version = None\<rparr>) (\<lambda>summary.
     reading (\<lambda>r. utc_now S (relay_world r)) (\<lambda>finished_at.
     let ended = summary_ended (str_of S) summary;
         record = episode_record index ended started_at finished_at
           (case dget summary ''usage'' of JObj u \<Rightarrow> Some (JObj u) | _ \<Rightarrow> None)
           (case dget summary ''cost_usd'' of JFloat c \<Rightarrow> Some c | _ \<Rightarrow> None) None
     in act_bind (modify (\<lambda>r. r\<lparr>relay_summaries := relay_summaries r @ [summary],
                                relay_records := relay_records r @ [record]\<rparr>)) (\<lambda>_.
        if \<not> truthy (dget summary ''valid'') \<or> ended = ''error'' then ret False
        else act_bind (verify_episode R count index) (\<lambda>_.
             reading to_resolution (\<lambda>resolved. ret (resolved = None)))))))))"

definition initial_relay :: "'w \<Rightarrow> 'w relay" where
  "initial_relay w = \<lparr>relay_world = w, relay_summaries = [], relay_records = [], to_resolution = None, relay_file = None\<rparr>"

text \<open>The \<open>finally\<close> block.\<close>

definition write_relay :: "'w relay \<Rightarrow> 'w relay" where
  "write_relay r = (if relay_records r = [] then r
     else r\<lparr>relay_file := Some (relay_summary (relay_records r) (to_resolution r))\<rparr>)"

definition last_summary_ended :: "json_obj list \<Rightarrow> json" where
  "last_summary_ended summaries = (if summaries = [] then JStr ''error'' else dget (last summaries) ''ended'')"

definition run_cold_capped_episodes :: "'w session \<Rightarrow> 'w relay_inputs \<Rightarrow> ('w relay, json_obj) act" where
  "run_cold_capped_episodes S R =
     act_bind (from_result (plan_int (relay_plan R) ''max'')) (\<lambda>count.
     act_bind (from_result (iterate (or_list (dget (relay_plan R) ''instructions'')))) (\<lambda>extras.
     act_bind (from_result (py_int parse_int
       (if truthy (dget (relay_plan R) ''timeout_seconds'') then dget (relay_plan R) ''timeout_seconds'' else JInt 30))) (\<lambda>timeout.
     act_bind (attempt (each_until (cold_episode S R extras timeout count) [1..count])
                 (\<lambda>e. act_bind (modify write_relay) (\<lambda>_. throw e))) (\<lambda>_.
     act_bind (modify write_relay) (\<lambda>_.
     act_bind (reading relay_summaries (\<lambda>summaries. from_result (reported_totals summaries))) (\<lambda>(usage, cost).
     reading relay_summaries (\<lambda>summaries.
     ret [(''schema'', JStr SCHEMA), (''mode'', JStr ''single''),
          (''valid'', JBool (list_all (\<lambda>summary. truthy (dget summary ''valid'')) summaries)),
          (''episodes'', JList (map JObj summaries)), (''ended'', last_summary_ended summaries),
          (''usage'', tokens_json usage), (''cost_usd'', cost_json cost)])))))))"

end
