(* ===== verification/ControlledProperties.thy ===== *)
theory ControlledProperties
  imports ControlledOmp
begin

text \<open>
  What the controller guarantees: it returns whatever the driver does, it hands evidence to the
  verifier only after the driver, the transport and the container are known to be at rest, and a
  summary it calls valid is complete.
\<close>

section \<open>Returning\<close>

lemma returns_case_json [act_total]:
  "returns a \<Longrightarrow> (\<And>b. returns (f b)) \<Longrightarrow> (\<And>n. returns (g n)) \<Longrightarrow> (\<And>x. returns (h x)) \<Longrightarrow> (\<And>s. returns (i s))
   \<Longrightarrow> (\<And>xs. returns (j xs)) \<Longrightarrow> (\<And>d. returns (k d))
   \<Longrightarrow> returns (case v of JNull \<Rightarrow> a | JBool b \<Rightarrow> f b | JInt n \<Rightarrow> g n | JFloat x \<Rightarrow> h x
        | JStr s \<Rightarrow> i s | JList xs \<Rightarrow> j xs | JObj d \<Rightarrow> k d)"
  by (cases v) simp_all

lemma returns_case_prod [act_total]: "(\<And>a b. returns (f a b)) \<Longrightarrow> returns (case p of (a, b) \<Rightarrow> f a b)"
  by (cases p) simp

lemma returns_case_option [act_total]: "returns a \<Longrightarrow> (\<And>x. returns (f x)) \<Longrightarrow> returns (case v of None \<Rightarrow> a | Some x \<Rightarrow> f x)"
  by (cases v) simp_all

lemma returns_outside [act_total]: "returns (outside f)"
  by (simp add: returns_def outside_def split: prod.splits)

lemma returns_outside_relay [act_total]: "returns (outside_relay f)"
  by (simp add: returns_def outside_relay_def split: prod.splits)

lemma returns_cleanup [act_total]: "returns (cleanup S)"
  by (simp add: returns_def cleanup_def outside_def split: prod.splits option.splits)

lemma returns_summary [act_total]: "returns (\<lambda>s. from_result (f s) s)"
  by (simp add: returns_def from_result_def)

text \<open>Every receive takes some time: the clock of the deadline moves on.\<close>

definition clock_advances :: "'w session \<Rightarrow> rat \<Rightarrow> bool" where
  "clock_advances S \<epsilon> \<longleftrightarrow> 0 < \<epsilon> \<and> (\<forall>limit w. clock S w + \<epsilon> \<le> clock S (snd (recv S limit w)))"

lemma exchange_loop_returns:
  assumes "clock_advances S \<epsilon>"
  shows "returns (exchange_loop S secrets deadline command_id)"
proof -
  have "exchange_loop S secrets deadline command_id s \<noteq> None" if "deadline - clock S (world s) \<le> of_nat n * \<epsilon>" for n s
    using that
  proof (induction n arbitrary: s)
    case 0
    then show ?case by (subst exchange_loop.simps) simp
  next
    case (Suc n)
    obtain r w where r: "recv S (deadline - clock S (world s)) (world s) = (r, w)" by fastforce
    then have "clock S (world s) + \<epsilon> \<le> clock S w"
      using assms unfolding clock_advances_def by (metis snd_conv)
    then have "deadline - clock S w \<le> of_nat n * \<epsilon>" using Suc.prems by (simp add: algebra_simps)
    then show ?case using Suc.IH r
      by (subst exchange_loop.simps) (auto split: sum.splits json.splits)
  qed
  moreover have "\<exists>n. deadline - clock S (world s) \<le> of_nat n * \<epsilon>" for s
  proof -
    obtain n where "(deadline - clock S (world s)) / \<epsilon> < of_nat n" using reals_Archimedean2 by blast
    then have "deadline - clock S (world s) \<le> of_nat n * \<epsilon>"
      using assms by (simp add: clock_advances_def divide_less_eq)
    then show ?thesis by blast
  qed
  ultimately show ?thesis unfolding returns_def by blast
qed

lemma returns_exchange: "clock_advances S \<epsilon> \<Longrightarrow> returns (exchange S secrets command_id payload timeout)"
  unfolding exchange_def by (intro act_total exchange_loop_returns)

lemma returns_allocate [act_total]: "returns allocate_id"
  unfolding allocate_id_def by (intro act_total)

lemma returns_shutdown: "clock_advances S \<epsilon> \<Longrightarrow> returns (shutdown S secrets)"
  unfolding shutdown_def Let_def by (intro act_total returns_exchange)

lemma returns_finalize: "clock_advances S \<epsilon> \<Longrightarrow> returns (finalize S I)"
  unfolding finalize_def write_summary_after_close_def close_transport_def clean_container_def publish_summary_def
  by (intro act_total returns_shutdown)

lemma returns_stop [act_total]: "returns (stop_with e)"
  unfolding stop_with_def by (intro act_total)

lemma returns_start: "clock_advances S \<epsilon> \<Longrightarrow> returns (start_session S I deadline deadline_ms)"
  unfolding start_session_def take_baseline_def by (intro act_total returns_exchange)

lemma returns_capture [act_total]: "returns (run_capture S capture)"
  unfolding run_capture_def by (intro act_total)

lemma returns_message: "clock_advances S \<epsilon> \<Longrightarrow> returns (run_message S I deadline max_turns message_timeout last_id message)"
  unfolding run_message_def take_advisor_def record_message_def break_off_def Let_def by (intro act_total returns_exchange)

lemma returns_messages:
  "clock_advances S \<epsilon> \<Longrightarrow> returns (run_messages S I deadline max_turns message_timeout last_id script)"
  by (induction script) (auto intro!: act_total returns_message)

lemma returns_body: "clock_advances S \<epsilon> \<Longrightarrow> returns (run_body S I deadline deadline_ms max_turns message_timeout)"
  unfolding run_body_def by (intro act_total returns_start returns_messages returns_finalize)

lemma returns_quietly: "clock_advances S \<epsilon> \<Longrightarrow> returns (finalize_quietly S I e)"
  unfolding finalize_quietly_def by (intro act_total returns_finalize)

lemma returns_run: "clock_advances S \<epsilon> \<Longrightarrow> returns (run_controlled_omp S I)"
  unfolding run_controlled_omp_def by (intro act_total returns_body returns_quietly)

text \<open>
  C9. The controller always returns: however many event frames the driver sends, whether or not it
  ever answers, crashes or the run is cancelled, the run ends with a summary or an exception, as
  long as the clock moves while frames arrive. So does the whole sequence of cold episodes.
\<close>

theorem controller_returns:
  assumes "clock_advances S \<epsilon>"
  shows "(\<exists>r s'. run_controlled_omp S I s = Some (r, s')) \<and> (\<exists>r c'. run_cold_capped_episodes S R c = Some (r, c'))"
proof -
  have cold: "returns (cold_episode S R extras timeout count index)" for extras timeout count index
  proof -
    have "returns (fresh_run S J)" for J
      using returns_run [OF assms, of J] by (auto simp: returns_def fresh_run_def split: option.splits)
    then show ?thesis
      unfolding cold_episode_def verify_episode_def Let_def by (intro act_total)
  qed
  have "returns (run_cold_capped_episodes S R)"
    unfolding run_cold_capped_episodes_def by (intro act_total cold)
  with returns_run [OF assms, of I] show ?thesis by (fastforce simp: returns_def)
qed

section \<open>The handoff\<close>

lemma keeps_case_json [act_keeps]:
  "keeps P a \<Longrightarrow> (\<And>b. keeps P (f b)) \<Longrightarrow> (\<And>n. keeps P (g n)) \<Longrightarrow> (\<And>x. keeps P (h x)) \<Longrightarrow> (\<And>s. keeps P (i s))
   \<Longrightarrow> (\<And>xs. keeps P (j xs)) \<Longrightarrow> (\<And>d. keeps P (k d))
   \<Longrightarrow> keeps P (case v of JNull \<Rightarrow> a | JBool b \<Rightarrow> f b | JInt n \<Rightarrow> g n | JFloat x \<Rightarrow> h x
        | JStr s \<Rightarrow> i s | JList xs \<Rightarrow> j xs | JObj d \<Rightarrow> k d)"
  by (cases v) simp_all

lemma keeps_case_prod [act_keeps]: "(\<And>a b. keeps P (f a b)) \<Longrightarrow> keeps P (case p of (a, b) \<Rightarrow> f a b)"
  by (cases p) simp

lemma keeps_case_option [act_keeps]: "keeps P a \<Longrightarrow> (\<And>x. keeps P (f x)) \<Longrightarrow> keeps P (case v of None \<Rightarrow> a | Some x \<Rightarrow> f x)"
  by (cases v) simp_all

text \<open>What the calls of the outside world leave alone, and what every step but the publication does.\<close>

definition core :: "'w control \<Rightarrow> bool \<times> string \<times> string option \<times> json_obj list \<times> json_obj list \<times> verifier_handoff option" where
  "core s = (is_valid s, ended_as s, error_text s, capture_records s, message_records s, handoff_dir s)"

lemma keeps_of_core:
  assumes "\<And>G. keeps (\<lambda>s. G (core s)) m" shows "keeps (\<lambda>s. G (handoff_dir s)) m"
  using assms [of "\<lambda>(v, e, t, cs, ms, h). G h"] by (simp add: core_def)

lemma keeps_outside [act_keeps]: "keeps (\<lambda>s. G (core s)) (outside f)"
  by (auto simp: keeps_def outside_def core_def split: prod.splits)

lemma keeps_cleanup [act_keeps]: "keeps (\<lambda>s. G (core s)) (cleanup S)"
  by (auto simp: keeps_def cleanup_def outside_def core_def split: prod.splits option.splits)

lemma keeps_exchange_loop [act_keeps]: "keeps (\<lambda>s. G (core s)) (exchange_loop S secrets deadline command_id)"
proof -
  have "core s' = core s" if ret: "exchange_loop S secrets deadline command_id s = Some (r, s')" for s r s'
  proof -
    have "(\<lambda>S secrets deadline command_id s result. core (snd result) = core s) S secrets deadline command_id s (r, s')"
    proof (rule exchange_loop.raw_induct [OF _ ret])
      fix f and S :: "'b session" and secrets deadline command_id and s :: "'b control" and result
      assume IH: "\<And>S secrets deadline command_id s result. f S secrets deadline command_id s = Some result
          \<Longrightarrow> core (snd result) = core s"
        and eq: "(if deadline - clock S (world s) \<le> 0 then Some (Inl (ControlError ''driver exchange timed out''), s)
          else case recv S (deadline - clock S (world s)) (world s) of
            (Inl e, w) \<Rightarrow> Some (Inl e, s\<lparr>world := w\<rparr>)
          | (Inr frame, w) \<Rightarrow>
              (case frame of
                 JObj d \<Rightarrow>
                   if is_response command_id d then Some (Inr d, s\<lparr>world := w\<rparr>)
                   else f S secrets deadline command_id
                          (s\<lparr>world := w, events_file := events_file s @ [scrub secrets [] frame]\<rparr>)
               | _ \<Rightarrow> Some (Inl (AttributeError ''object has no attribute get''), s\<lparr>world := w\<rparr>))) = Some result"
      then show "core (snd result) = core s"
        by (auto simp: core_def split: if_splits prod.splits sum.splits json.splits dest!: IH)
    qed
    then show ?thesis by simp
  qed
  then show ?thesis by (auto simp: keeps_def)
qed

lemma keeps_allocate [act_keeps]: "keeps (\<lambda>s. G (core s)) allocate_id"
  unfolding allocate_id_def by (intro act_keeps) (simp add: core_def)

lemma keeps_exchange [act_keeps]: "keeps (\<lambda>s. G (core s)) (exchange S secrets command_id payload timeout)"
  unfolding exchange_def by (intro act_keeps)

lemma keeps_shutdown [act_keeps]: "keeps (\<lambda>s. G (core s)) (shutdown S secrets)"
  unfolding shutdown_def Let_def by (intro act_keeps)

lemma keeps_close [act_keeps]: "keeps (\<lambda>s. G (core s)) (close_transport S)"
  unfolding close_transport_def by (intro act_keeps)

lemma keeps_handoff [act_keeps]:
  "keeps (\<lambda>s. G (handoff_dir s)) (outside f)"
  "keeps (\<lambda>s. G (handoff_dir s)) (cleanup S)"
  "keeps (\<lambda>s. G (handoff_dir s)) allocate_id"
  "keeps (\<lambda>s. G (handoff_dir s)) (exchange S secrets command_id payload timeout)"
  "keeps (\<lambda>s. G (handoff_dir s)) (shutdown S secrets)"
  "keeps (\<lambda>s. G (handoff_dir s)) (close_transport S)"
  by (rule keeps_of_core, rule act_keeps)+

lemma keeps_clean [act_keeps]: "keeps (\<lambda>s. G (handoff_dir s)) (clean_container S confirmed publish)"
  unfolding clean_container_def by (intro act_keeps) (simp_all add: invalidate_def)

lemma keeps_stop [act_keeps]: "keeps (\<lambda>s. G (handoff_dir s)) (stop_with e)"
  unfolding stop_with_def by (intro act_keeps) (simp add: fail_with_def)

lemma keeps_start [act_keeps]: "keeps (\<lambda>s. G (handoff_dir s)) (start_session S I deadline deadline_ms)"
  unfolding start_session_def take_baseline_def by (intro act_keeps) simp_all

lemma keeps_capture [act_keeps]: "keeps (\<lambda>s. G (handoff_dir s)) (run_capture S capture)"
  unfolding run_capture_def by (intro act_keeps) simp_all

lemma keeps_message [act_keeps]:
  "keeps (\<lambda>s. G (handoff_dir s)) (run_message S I deadline max_turns message_timeout last_id message)"
  unfolding run_message_def take_advisor_def record_message_def break_off_def Let_def
  by (intro act_keeps) (simp_all add: record_session_def)

lemma keeps_messages [act_keeps]:
  "keeps (\<lambda>s. G (handoff_dir s)) (run_messages S I deadline max_turns message_timeout last_id script)"
  by (induction script) (auto intro!: act_keeps)

text \<open>
  A state at rest: the driver has acknowledged the shutdown, its transport has confirmed the close, and
  the cleanup of the container has succeeded, in this order.
\<close>

definition at_rest :: "'w session \<Rightarrow> run_inputs \<Rightarrow> 'w control \<Rightarrow> bool" where
  "at_rest S I s \<longleftrightarrow> (\<exists>s0 s1 w. shutdown S (run_secrets I) s0 = Some (Inr (), s1)
     \<and> close_driver S CLOSE_LIMIT_SECONDS (world s1) = (Inr (), w)
     \<and> cleanup S (s1\<lparr>world := w\<rparr>) = Some (Inr (), s))"

lemma catching_eq: "catching m h s = Some (r, s') \<longleftrightarrow>
    (\<exists>e s1. m s = Some (Inl e, s1) \<and> (if e = Cancelled then r = Inl Cancelled \<and> s' = s1 else h e s1 = Some (r, s')))
    \<or> (\<exists>x. m s = Some (Inr x, s') \<and> r = Inr x)"
  by (auto simp: catching_def attempt_eq throw_def)

lemma close_transport_True: "close_transport S s = Some (Inr True, s') \<longleftrightarrow>
    (\<exists>w. close_driver S CLOSE_LIMIT_SECONDS (world s) = (Inr (), w) \<and> s' = s\<lparr>world := w\<rparr>)"
  by (auto simp: close_transport_def catching_eq act_eqs outside_def split: prod.splits)

lemma clean_container_True: "clean_container S confirmed publish s = Some (Inr True, s') \<longleftrightarrow>
    confirmed \<and> publish \<and> cleanup S s = Some (Inr (), s')"
  by (auto simp: clean_container_def catching_eq act_eqs)

lemma clean_container_False:
  "clean_container S confirmed publish s = Some (Inr False, s') \<Longrightarrow> is_valid s' \<Longrightarrow> \<not> publish"
  by (auto simp: clean_container_def catching_eq act_eqs invalidate_def split: if_splits)

text \<open>A finalization that returns a summary: what it published, and what a valid one means.\<close>

lemma published_handoff_summary [simp]: "published_handoff summary (s\<lparr>summary_file := f\<rparr>) = published_handoff summary s"
  by (simp add: published_handoff_def handoff_artifacts_def cong: json.case_cong if_cong option.case_cong)

lemma publish_summary_eq: "publish_summary I usage cost publish s = Some (r, s') \<longleftrightarrow>
    (case summary_document I usage cost s of Inl e \<Rightarrow> r = Inl e \<and> s' = s
     | Inr summary \<Rightarrow> r = Inr summary \<and> s' = (if publish
         then s\<lparr>summary_file := Some summary, handoff_dir := Some (published_handoff summary s)\<rparr>
         else s\<lparr>summary_file := Some summary\<rparr>))"
  by (cases "summary_document I usage cost s")
    (auto simp: publish_summary_def act_eqs)

lemma keeps_core_part:
  assumes "\<And>G. keeps (\<lambda>s. G (core s)) m" and "m s = Some (r, s')"
  shows "core s' = core s"
  using keepsD [OF assms(1) [of "\<lambda>c. c = core s"] assms(2)] by simp

lemma keeps_invalid_clean: "keeps (\<lambda>s. \<not> is_valid s) (clean_container S confirmed publish)"
proof -
  have "keeps (\<lambda>s. \<not> is_valid s) (cleanup S)"
    using keeps_cleanup [of "\<lambda>(v, e, t, cs, ms, h). \<not> v"] by (simp add: core_def)
  then show ?thesis unfolding clean_container_def by (intro act_keeps) (simp_all add: invalidate_def)
qed

lemma shutdown_step:
  assumes "catching (act_bind (shutdown S secrets) (\<lambda>_. ret True))
       (\<lambda>_. act_bind (modify (invalidate ''shutdown failed'')) (\<lambda>_. ret False)) s = Some (r, s1)"
  shows "handoff_dir s1 = handoff_dir s \<and> (r = Inr True \<longrightarrow> shutdown S secrets s = Some (Inr (), s1) \<and> core s1 = core s)
    \<and> (r = Inr False \<longrightarrow> \<not> is_valid s1)"
proof -
  have "keeps (\<lambda>t. handoff_dir t = handoff_dir s) (catching (act_bind (shutdown S secrets) (\<lambda>_. ret True))
       (\<lambda>_. act_bind (modify (invalidate ''shutdown failed'')) (\<lambda>_. ret False)))"
    by (intro act_keeps) (simp add: invalidate_def)
  from keepsD [OF this assms] have "handoff_dir s1 = handoff_dir s" by simp
  moreover have "shutdown S secrets s = Some (Inr (), s1)" if "r = Inr True"
    using assms that by (auto simp: catching_eq act_eqs split: if_splits)
  moreover have "\<not> is_valid s1" if "r = Inr False"
    using assms that by (auto simp: catching_eq act_eqs invalidate_def split: if_splits)
  ultimately show ?thesis using keeps_core_part [OF keeps_shutdown] by blast
qed

lemma summary_document_fields:
  assumes "summary_document I usage cost s = Inr summary"
  shows "dget summary ''valid'' = JBool (is_valid s)" "dget summary ''ended'' = JStr (ended_as s)"
    "dget summary ''messages'' = JList (map JObj (message_records s))"
    "dget summary ''captures'' = JList (map JObj (capture_records s))"
    "has_key summary ''error'' \<longleftrightarrow> error_entry s \<noteq> []"
  using assms by (auto simp: summary_document_def bnd_eq_Inr error_entry_def Let_def split: option.splits if_splits)

lemma finalize_result:
  assumes "finalize S I s = Some (r, s')"
  shows "(handoff_dir s' = handoff_dir s \<and> (\<forall>summary. r = Inr summary \<longrightarrow> dget summary ''valid'' = JBool False))
    \<or> (\<exists>rest usage cost summary. at_rest S I rest \<and> summary_document I usage cost rest = Inr summary \<and> r = Inr summary
         \<and> s' = rest\<lparr>summary_file := Some summary, handoff_dir := Some (published_handoff summary rest)\<rparr> \<and> core rest = core s)"
proof -
  let ?m = "catching (act_bind (shutdown S (run_secrets I)) (\<lambda>_. ret True))
       (\<lambda>_. act_bind (modify (invalidate ''shutdown failed'')) (\<lambda>_. ret False))"
  from assms consider (raised) e where "?m s = Some (Inl e, s')" "r = Inl e"
    | (on) disposed s1 where "?m s = Some (Inr disposed, s1)" "write_summary_after_close S I disposed s1 = Some (r, s')"
    unfolding finalize_def act_bind_eq by blast
  then show ?thesis
  proof cases
    case raised
    with shutdown_step [OF raised(1)] show ?thesis by simp
  next
    case on
    note down = shutdown_step [OF on(1)]
    from on(2) consider (close) e where "close_transport S s1 = Some (Inl e, s')" "r = Inl e"
      | (totals) e confirmed where "close_transport S s1 = Some (Inr confirmed, s')" "r = Inl e"
      | (clean) e confirmed s2 where "close_transport S s1 = Some (Inr confirmed, s2)"
          "clean_container S confirmed disposed s2 = Some (Inl e, s')" "r = Inl e"
      | (rest) confirmed s2 publish s3 usage cost where "close_transport S s1 = Some (Inr confirmed, s2)"
          "clean_container S confirmed disposed s2 = Some (Inr publish, s3)"
          "publish_summary I usage cost publish s3 = Some (r, s')"
      unfolding write_summary_after_close_def act_bind_eq reading_def from_result_eq by blast
    then show ?thesis
    proof cases
      case close
      with down keepsD [OF keeps_handoff(6) close(1), of "\<lambda>d. d = handoff_dir s"] show ?thesis by simp
    next
      case totals
      with down keepsD [OF keeps_handoff(6) totals(1), of "\<lambda>d. d = handoff_dir s"] show ?thesis by simp
    next
      case clean
      with down keepsD [OF keeps_handoff(6) clean(1), of "\<lambda>d. d = handoff_dir s"]
        keepsD [OF keeps_clean clean(2), of "\<lambda>d. d = handoff_dir s"] show ?thesis by simp
    next
      case rest
      have h: "handoff_dir s3 = handoff_dir s"
        using down keepsD [OF keeps_handoff(6) rest(1), of "\<lambda>d. d = handoff_dir s"]
          keepsD [OF keeps_clean rest(2), of "\<lambda>d. d = handoff_dir s"] by simp
      have c2: "core s2 = core s1" by (rule keeps_core_part [OF keeps_close rest(1)])
      show ?thesis
      proof (cases publish)
        case False
        have "\<not> is_valid s3"
        proof
          assume valid: "is_valid s3"
          have "clean_container S confirmed disposed s2 = Some (Inr False, s3)" using rest(2) False by simp
          from clean_container_False [OF this valid] have "\<not> disposed" .
          with down on(1) have "\<not> is_valid s1" by auto
          with c2 have "\<not> is_valid s2" by (simp add: core_def)
          with keepsD [OF keeps_invalid_clean rest(2)] valid show False by simp
        qed
        with h rest(3) False show ?thesis
          by (auto simp: publish_summary_eq dest: summary_document_fields(1) split: sum.splits)
      next
        case True
        with rest(2) have c: "confirmed" "disposed" "cleanup S s2 = Some (Inr (), s3)"
          by (simp_all add: clean_container_True)
        with rest(1) obtain w where w: "close_driver S CLOSE_LIMIT_SECONDS (world s1) = (Inr (), w)" "s2 = s1\<lparr>world := w\<rparr>"
          by (auto simp: close_transport_True)
        from down c(2) on(1) have "shutdown S (run_secrets I) s = Some (Inr (), s1)" "core s1 = core s" by auto
        moreover have "core s3 = core s2" by (rule keeps_core_part [OF keeps_cleanup c(3)])
        ultimately have "at_rest S I s3" "core s3 = core s" using w c(3) c2 unfolding at_rest_def by auto
        with rest(3) True h show ?thesis
          by (cases "summary_document I usage cost s3") (auto simp: publish_summary_eq)
      qed
    qed
  qed
qed

text \<open>The handoff of a state at rest.\<close>

definition published_at_rest :: "'w session \<Rightarrow> run_inputs \<Rightarrow> verifier_handoff option \<Rightarrow> bool" where
  "published_at_rest S I handoff \<longleftrightarrow> (\<forall>h. handoff = Some h \<longrightarrow> (\<exists>rest usage cost summary. at_rest S I rest
     \<and> summary_document I usage cost rest = Inr summary \<and> h = published_handoff summary rest))"

lemma keeps_published: "keeps (\<lambda>s. published_at_rest S I (handoff_dir s)) (finalize S I)"
  unfolding keeps_def
proof (intro allI impI)
  fix s r s'
  assume old: "published_at_rest S I (handoff_dir s)" and run: "finalize S I s = Some (r, s')"
  from finalize_result [OF run] show "published_at_rest S I (handoff_dir s')"
  proof (elim disjE exE conjE)
    fix rest usage cost summary
    assume "at_rest S I rest" "summary_document I usage cost rest = Inr summary"
      "s' = rest\<lparr>summary_file := Some summary, handoff_dir := Some (published_handoff summary rest)\<rparr>"
    then show ?thesis unfolding published_at_rest_def
      by (intro allI impI exI [of _ rest] exI [of _ usage] exI [of _ cost] exI [of _ summary]) simp
  qed (use old in simp)
qed

text \<open>
  C7. Nothing is handed to the verifier while anything may still write. Whatever the driver does and
  however the run ends, the handoff exists only if the driver acknowledged the shutdown, the
  transport confirmed the close and the cleanup of the container succeeded, and it holds the summary
  of that very state; the manifest says the same of validity as the summary.
\<close>

theorem handoff_only_at_rest:
  assumes "run_controlled_omp S I (initial_control w) = Some (r, s')" and "handoff_dir s' = Some h"
  shows "\<exists>rest usage cost. at_rest S I rest \<and> summary_document I usage cost rest = Inr (handoff_summary h)
    \<and> handoff_files h = handoff_artifacts rest
    \<and> dget (handoff_manifest h) ''valid'' = JBool (is_valid rest)
    \<and> dget (handoff_summary h) ''valid'' = JBool (is_valid rest)"
proof -
  note keeps_published [act_keeps]
  have "keeps (\<lambda>s. published_at_rest S I (handoff_dir s)) (run_body S I deadline deadline_ms max_turns message_timeout)"
    for deadline deadline_ms max_turns message_timeout
    unfolding run_body_def by (intro act_keeps)
  moreover have "keeps (\<lambda>s. published_at_rest S I (handoff_dir s)) (finalize_quietly S I e)" for e
    unfolding finalize_quietly_def by (intro act_keeps) (simp add: fail_with_def invalidate_def)
  ultimately have "keeps (\<lambda>s. published_at_rest S I (handoff_dir s)) (run_controlled_omp S I)"
    unfolding run_controlled_omp_def by (intro act_keeps)
  from keepsD [OF this assms(1)] assms(2) obtain rest usage cost summary where rest: "at_rest S I rest"
      "summary_document I usage cost rest = Inr summary" "h = published_handoff summary rest"
    by (auto simp: initial_control_def published_at_rest_def)
  then show ?thesis
    using summary_document_fields(1) [OF rest(2)]
    by (intro exI [of _ rest] exI [of _ usage] exI [of _ cost]) (simp add: published_handoff_def)
qed

section \<open>Valid summaries\<close>

text \<open>As long as a run is valid: the messages it has recorded, no error, no failed capture.\<close>

definition on_track :: "json list \<Rightarrow> 'w control \<Rightarrow> bool" where
  "on_track ids s \<longleftrightarrow> (is_valid s \<longrightarrow> map (\<lambda>m. dget m ''id'') (message_records s) = ids \<and> error_text s = None
     \<and> (\<forall>c\<in>set (capture_records s). dget c ''status'' \<noteq> JStr ''error''))"

lemma keeps_track_of_core:
  assumes "\<And>G. keeps (\<lambda>s. G (core s)) m" shows "keeps (on_track ids) m"
proof -
  have "keeps (\<lambda>s. is_valid s \<longrightarrow> map (\<lambda>m. dget m ''id'') (message_records s) = ids \<and> error_text s = None
     \<and> (\<forall>c\<in>set (capture_records s). dget c ''status'' \<noteq> JStr ''error'')) m"
    using assms [of "\<lambda>(v, e, t, cs, ms, h). v \<longrightarrow> map (\<lambda>m. dget m ''id'') ms = ids \<and> t = None
     \<and> (\<forall>c\<in>set cs. dget c ''status'' \<noteq> JStr ''error'')"] by (simp only: core_def prod.case)
  then show ?thesis unfolding keeps_def on_track_def .
qed

lemma keeps_track [act_keeps]:
  "keeps (on_track ids) (outside f)"
  "keeps (on_track ids) allocate_id"
  "keeps (on_track ids) (exchange S secrets command_id payload timeout)"
  by (rule keeps_track_of_core, rule act_keeps)+

lemma ensures_case_json:
  "ensures P a Q \<Longrightarrow> (\<And>b. ensures P (f b) Q) \<Longrightarrow> (\<And>n. ensures P (g n) Q) \<Longrightarrow> (\<And>x. ensures P (h x) Q)
   \<Longrightarrow> (\<And>s. ensures P (i s) Q) \<Longrightarrow> (\<And>xs. ensures P (j xs) Q) \<Longrightarrow> (\<And>d. ensures P (k d) Q)
   \<Longrightarrow> ensures P (case v of JNull \<Rightarrow> a | JBool b \<Rightarrow> f b | JInt n \<Rightarrow> g n | JFloat x \<Rightarrow> h x
        | JStr s \<Rightarrow> i s | JList xs \<Rightarrow> j xs | JObj d \<Rightarrow> k d) Q"
  by (cases v) simp_all

lemma stop_ensures: "(\<And>s. \<not> is_valid s \<Longrightarrow> Q False s) \<Longrightarrow> ensures P (stop_with e) Q"
  by (auto simp: ensures_def stop_with_def act_eqs fail_with_def)

lemma modify_track:
  "(\<And>s. on_track ids s \<Longrightarrow> on_track ids (f s)) \<Longrightarrow> ensures (on_track ids) m Q
   \<Longrightarrow> ensures (on_track ids) (act_bind (modify f) (\<lambda>_. m)) Q"
  by (rule ensures_kept) (rule keeps_modify)

lemmas track_steps = ensures_reading ensures_kept [OF keeps_track(1)] ensures_kept [OF keeps_track(2)]
  ensures_kept [OF keeps_track(3)] modify_track ensures_if ensures_case_prod ensures_case_json ensures_result ensures_ret
  stop_ensures

lemma start_on_track:
  "ensures (on_track ids) (start_session S I deadline deadline_ms) (\<lambda>go s. on_track ids s \<and> (is_valid s \<longrightarrow> go))"
proof -
  have base: "keeps (on_track ids) (take_baseline S)"
    unfolding take_baseline_def by (intro act_keeps) (simp_all add: on_track_def)
  have policy: "keeps (on_track ids) (if c then (case v of JObj policy \<Rightarrow> modify (\<lambda>s. s\<lparr>settings := f policy s\<rparr>)
       | _ \<Rightarrow> throw e) else ret ())" for c v f e
    by (intro act_keeps) (simp add: on_track_def)
  show ?thesis
    unfolding start_session_def
    by (intro track_steps ensures_kept [OF base] ensures_kept [OF policy]) (simp_all add: on_track_def)
qed

lemma capture_on_track:
  "ensures (on_track ids) (run_capture S capture) (\<lambda>go s. on_track ids s \<and> (\<not> go \<longrightarrow> \<not> is_valid s))"
proof -
  have final: "ensures (on_track ids) (act_bind (modify (\<lambda>s. s\<lparr>capture_records := capture_records s @ [entry]\<rparr>)) (\<lambda>_.
     if dget entry ''status'' = JStr ''error'' then stop_with e else ret True))
     (\<lambda>go s. on_track ids s \<and> (\<not> go \<longrightarrow> \<not> is_valid s))" for entry e
    by (auto simp: ensures_def act_eqs on_track_def stop_with_def fail_with_def split: if_splits)
  have stored: "ensures (on_track ids) (act_bind (modify (\<lambda>s. s\<lparr>evidence_files := f s\<rparr>)) (\<lambda>_. m)) Q"
    if "ensures (on_track ids) m Q" for f m and Q :: "bool \<Rightarrow> 'a control \<Rightarrow> bool"
    by (rule modify_track [OF _ that]) (simp add: on_track_def)
  show ?thesis
    unfolding run_capture_def
    by (intro ensures_case_prod ensures_result ensures_kept [OF keeps_track(1)] stored final)
qed

lemma settle_record_id: "settle_record message_id started_at finished_at data advisor = Inr entry
    \<Longrightarrow> dget entry ''id'' = JStr message_id"
  by (auto simp: settle_record_def bnd_eq_Inr)

lemma message_on_track:
  "ensures (on_track ids) (run_message S I deadline max_turns message_timeout last_id message)
     (\<lambda>go s. on_track (ids @ [JStr (fst message)]) s \<and> (is_valid s \<longrightarrow> go \<or> fst message = last_id))"
proof -
  obtain message_id body where message: "message = (message_id, body)" by (cases message)
  let ?ids = "ids @ [JStr message_id]"
  let ?Q = "\<lambda>go s. on_track ?ids s \<and> (is_valid s \<longrightarrow> go \<or> message_id = last_id)"
  have advisor: "keeps (on_track ids) (take_advisor v)" for v
    unfolding take_advisor_def by (intro act_keeps) (simp add: on_track_def)
  have recorded: "ensures (on_track ids) (act_bind (record_message entry) (\<lambda>_. m)) ?Q"
    if "settle_record message_id started_at finished_at data adv = Inr entry" "ensures (on_track ?ids) m ?Q"
    for started_at finished_at data adv entry m
  proof (rule ensures_bind [OF _ that(2)])
    show "ensures (on_track ids) (record_message entry) (\<lambda>_. on_track ?ids)"
      using settle_record_id [OF that(1)] unfolding record_message_def
      by (intro ensures_modify) (simp add: on_track_def)
  qed
  have captures: "ensures (on_track ?ids) (act_bind (each_until (run_capture S) cs) (\<lambda>captured. if \<not> captured then ret False else g)) ?Q"
    if g: "ensures (on_track ?ids) g ?Q" for cs g
  proof (rule ensures_bind [OF ensures_each_until [OF capture_on_track]])
    fix captured
    show "ensures (\<lambda>s. on_track ?ids s \<and> (\<not> captured \<longrightarrow> \<not> is_valid s)) (if \<not> captured then ret False else g) ?Q"
      using g by (cases captured) (auto intro: ensures_ret elim: ensures_weaken)
  qed
  have off: "ensures (on_track ?ids) (break_off message_id last_id e) ?Q" for e
    by (auto simp: ensures_def act_eqs break_off_def on_track_def)
  show ?thesis
    unfolding message run_message_def Let_def split_conv fst_conv
    by (intro ensures_reading ensures_kept [OF keeps_track(2)] ensures_kept [OF keeps_track(3)] ensures_kept [OF advisor]
        ensures_result recorded captures off modify_track ensures_if ensures_ret ensures_case_prod stop_ensures)
      (assumption | simp add: on_track_def record_session_def)+
qed

lemma messages_on_track:
  "ensures (on_track ids) (run_messages S I deadline max_turns message_timeout last_id script)
     (\<lambda>_ s. \<exists>k\<le>length script. on_track (ids @ map (\<lambda>m. JStr (fst m)) (take k script)) s
        \<and> (is_valid s \<longrightarrow> k = length script \<or> ended_as s = ''timeout'' \<or> 0 < k \<and> fst (script ! (k - 1)) = last_id))"
  (is "ensures _ _ (\<lambda>_. ?R ids script)")
proof (induction script arbitrary: ids)
  case Nil
  show ?case by (auto simp: ensures_def modify_def on_track_def)
next
  case (Cons message script)
  have late: "ensures (on_track ids) (modify (\<lambda>s. s\<lparr>ended_as := ''timeout''\<rparr>)) (\<lambda>_. ?R ids (message # script))"
    by (rule ensures_modify) (auto simp: on_track_def intro: exI [of _ 0])
  have go: "ensures (\<lambda>s. on_track (ids @ [JStr (fst message)]) s \<and> (is_valid s \<longrightarrow> go \<or> fst message = last_id))
      (if go then run_messages S I deadline max_turns message_timeout last_id script else ret ()) (\<lambda>_. ?R ids (message # script))" for go
  proof (cases go)
    case True
    have "?R ids (message # script) s" if "?R (ids @ [JStr (fst message)]) script s" for s :: "'a control"
    proof -
      from that obtain k where "k \<le> length script" "on_track ((ids @ [JStr (fst message)]) @ map (\<lambda>m. JStr (fst m)) (take k script)) s"
        "is_valid s \<longrightarrow> k = length script \<or> ended_as s = ''timeout'' \<or> 0 < k \<and> fst (script ! (k - 1)) = last_id" by blast
      then show ?thesis by (intro exI [of _ "Suc k"]) (auto simp: nth_Cons')
    qed
    then show ?thesis using True Cons.IH [of "ids @ [JStr (fst message)]"] by (auto elim!: ensures_weaken)
  next
    case False
    then show ?thesis by (auto simp: ensures_def ret_def intro!: exI [of _ 1])
  qed
  show ?case unfolding run_messages.simps
    by (intro ensures_reading ensures_if late ensures_bind [OF message_on_track go])
qed

lemma script_distinct:
  assumes plan: "validate_execution_plan (JObj plan) = Inr ()" and script: "messages_from_plan str plan instruction = Inr script"
  shows "distinct (map fst script) \<and> script \<noteq> []"
proof (cases "dget plan ''mode'' = JStr ''single''")
  case True
  then have "fst ` set plan \<subseteq> set SINGLE_KEYS"
    using plan single_plan_iff [of "JObj plan"] by (auto simp: field_def)
  then have "\<not> has_key plan ''turns''" by (auto simp: has_key_iff SINGLE_KEYS_def)
  then have "dget plan ''turns'' = JNull" by (simp add: has_key_def)
  with script show ?thesis by (auto simp: messages_from_plan_def or_list_def Let_def)
next
  case False
  then have "field (JObj plan) ''mode'' \<noteq> JStr ''single''" by (simp add: field_def)
  from retained_plan_sound [OF plan this] obtain initial turns tids where
    p: "dget plan ''initial_turn_id'' = JStr initial" "dget plan ''turns'' = JList turns"
      "map (\<lambda>t. field t ''id'') turns = map JStr tids" "distinct (initial # tids)" "TURN_ID_RE initial"
    by (auto simp: field_def)
  then have initial: "initial \<noteq> []" by (auto simp: TURN_ID_RE_def)
  define step where "step = (\<lambda>turn. bnd (plan_text str turn ''id'') (\<lambda>i. bnd (plan_text str turn ''instruction'') (\<lambda>t. Inr (i, t))))"
  have "or_list (JList turns) = JList turns" by (cases turns) (simp_all add: or_list_def)
  then obtain rest where rest: "mapR step turns = Inr rest" "script = (initial, instruction) # rest"
    using script p(1,2) initial by (auto simp: messages_from_plan_def step_def text_value_def Let_def bnd_eq_Inr)
  have "map fst rest = tids"
  proof -
    have "list_all2 (\<lambda>t x. step t = Inr x) turns rest" using rest(1) by (simp add: mapR_eq_Inr)
    then show ?thesis using p(3)
    proof (induction arbitrary: tids rule: list_all2_induct)
      case (Cons t ts x xs)
      from Cons.prems obtain tid tids' where t: "tids = tid # tids'" "field t ''id'' = JStr tid"
        "map (\<lambda>t. field t ''id'') ts = map JStr tids'" by (cases tids) auto
      then obtain d where "t = JObj d" "dget d ''id'' = JStr tid" by (cases t) (auto simp: field_def)
      with Cons.hyps(1) have "fst x = tid"
        by (auto simp: step_def plan_text_def subscript_def bnd_eq_Inr text_value_def dget_def split: option.splits)
      with Cons.IH [OF t(3)] t(1) show ?case by simp
    qed simp
  qed
  with p(4) rest(2) show ?thesis by simp
qed

lemma quietly_raises: "finalize_quietly S I e s = Some (Inr x, s') \<Longrightarrow> thesis"
  by (auto simp: finalize_quietly_def act_eqs)

lemma run_body_of_result:
  assumes "run_controlled_omp S I s = Some (Inr summary, s')"
  obtains deadline deadline_ms max_turns message_timeout
  where "validate_execution_plan (JObj (run_plan I)) = Inr ()"
    and "run_body S I deadline deadline_ms max_turns message_timeout s = Some (Inr summary, s')"
proof -
  from assms obtain u timeout max_turns message_timeout where "validate_execution_plan (JObj (run_plan I)) = Inr u"
    "attempt (run_body S I (clock S (world s) + of_int timeout) \<lfloor>(wall_clock S (world s) + of_int timeout) * 1000\<rfloor>
       max_turns message_timeout) (finalize_quietly S I) s = Some (Inr summary, s')"
    unfolding run_controlled_omp_def reading_def split_conv act_bind_eq from_result_eq by auto
  then show ?thesis using that by (auto simp: attempt_eq elim: quietly_raises)
qed

text \<open>
  C8. A summary that says it is valid is complete. Its messages are the scheduled ones in order, all
  of them unless it says that it ended by a timeout; no capture has failed, there is no error, and
  the very summary has been handed to the verifier.
\<close>

theorem valid_summary_complete:
  assumes "run_controlled_omp S I (initial_control w) = Some (Inr summary, s')"
    and "dget summary ''valid'' = JBool True"
  shows "\<exists>script k ms cs h. messages_from_plan (str_of S) (run_plan I) (run_instruction I) = Inr script
    \<and> dget summary ''messages'' = JList (map JObj ms)
    \<and> map (\<lambda>m. dget m ''id'') ms = map (\<lambda>m. JStr (fst m)) (take k script)
    \<and> (k < length script \<longrightarrow> dget summary ''ended'' = JStr ''timeout'')
    \<and> dget summary ''captures'' = JList (map JObj cs) \<and> (\<forall>c\<in>set cs. dget c ''status'' \<noteq> JStr ''error'')
    \<and> \<not> has_key summary ''error'' \<and> handoff_dir s' = Some h \<and> handoff_summary h = summary"
proof -
  from run_body_of_result [OF assms(1)] obtain deadline deadline_ms max_turns message_timeout where
    plan: "validate_execution_plan (JObj (run_plan I)) = Inr ()"
    and body: "run_body S I deadline deadline_ms max_turns message_timeout (initial_control w) = Some (Inr summary, s')" .
  from body obtain started s1 s2 where start: "start_session S I deadline deadline_ms (initial_control w) = Some (Inr started, s1)"
    and messages: "(if \<not> started then ret () else act_bind (from_result (messages_from_plan (str_of S) (run_plan I) (run_instruction I)))
        (\<lambda>script. run_messages S I deadline max_turns message_timeout (fst (last script)) script)) s1 = Some (Inr (), s2)"
    and final: "finalize S I s2 = Some (Inr summary, s')"
    unfolding run_body_def act_bind_eq by auto
  have "on_track [] (initial_control w)" by (simp add: on_track_def initial_control_def)
  from ensuresD [OF start_on_track start this] have s1: "on_track [] s1" "is_valid s1 \<longrightarrow> started" by auto
  from finalize_result [OF final] assms(2) obtain rest usage cost where rest: "summary_document I usage cost rest = Inr summary"
      "s' = rest\<lparr>summary_file := Some summary, handoff_dir := Some (published_handoff summary rest)\<rparr>" "core rest = core s2"
    by auto
  note fields = summary_document_fields [OF rest(1)]
  have valid: "is_valid rest" using fields(1) assms(2) by simp
  have same: "is_valid s2" "error_text s2 = error_text rest" "ended_as s2 = ended_as rest"
      "message_records s2 = message_records rest" "capture_records s2 = capture_records rest"
    using rest(3) valid by (simp_all add: core_def)
  have started
  proof (rule ccontr)
    assume "\<not> started"
    then have "s2 = s1" using messages by (simp add: ret_def)
    with same(1) s1(2) \<open>\<not> started\<close> show False by simp
  qed
  with messages obtain script where script: "messages_from_plan (str_of S) (run_plan I) (run_instruction I) = Inr script"
    and run: "run_messages S I deadline max_turns message_timeout (fst (last script)) script s1 = Some (Inr (), s2)"
    by (auto simp: act_eqs)
  from ensuresD [OF messages_on_track run s1(1)] obtain k where k: "k \<le> length script"
      "on_track (map (\<lambda>m. JStr (fst m)) (take k script)) s2"
      "k = length script \<or> ended_as s2 = ''timeout'' \<or> 0 < k \<and> fst (script ! (k - 1)) = fst (last script)"
    using same(1) by auto
  have "k = length script \<or> ended_as s2 = ''timeout''"
  proof (rule ccontr)
    assume "\<not> ?thesis"
    with k have "0 < k" "k < length script" "fst (script ! (k - 1)) = fst (last script)" by auto
    moreover from this have "script \<noteq> []" by auto
    ultimately have "map fst script ! (k - 1) = map fst script ! (length script - 1)" by (simp add: last_conv_nth)
    then have "k - 1 = length script - 1"
      using script_distinct [OF plan script] \<open>0 < k\<close> \<open>k < length script\<close> nth_eq_iff_index_eq [of "map fst script"] by simp
    with \<open>0 < k\<close> \<open>k < length script\<close> show False by simp
  qed
  moreover have "\<not> has_key summary ''error''"
    using fields(5) valid same k(2) by (simp add: error_entry_def on_track_def or_text_def)
  ultimately show ?thesis
    using script fields(2-4) k(2) same rest(2)
    by (intro exI [of _ script] exI [of _ k] exI [of _ "message_records rest"] exI [of _ "capture_records rest"]
        exI [of _ "published_handoff summary rest"]) (auto simp: on_track_def published_handoff_def)
qed

text \<open>A driver that answers every command, and a clock that counts its frames.\<close>

definition sample_session :: "nat session" where
  "sample_session =
     \<lparr>clock = of_nat, wall_clock = (\<lambda>w. 1000 + of_nat w), utc_now = (\<lambda>w. nat_str w),
      send = (\<lambda>payload limit w. (Inr (), w)),
      recv = (\<lambda>limit w. (Inr (JObj [(''type'', JStr ''response''), (''id'', JStr (nat_str (Suc w))), (''success'', JBool True),
        (''data'', JObj [(''session_id'', JStr ''s''), (''ended'', JStr ''natural''), (''loops_started'', JInt 1), (''loops_completed'', JInt 1)])]), Suc w)),
      close_driver = (\<lambda>limit w. (Inr (), w)),
      task_container = \<lparr>exec = (\<lambda>c limit w. (Inl (OSError []), w))\<rparr>,
      given_cleanup = Some (\<lambda>pids w. (Inr (), w)), str_of = (\<lambda>_. []), json_loads = (\<lambda>_. Inl (PyValueError [])), sha256_hex = (\<lambda>_. [])\<rparr>"

definition sample_inputs :: "int \<Rightarrow> run_inputs" where
  "sample_inputs timeout = \<lparr>run_plan = cold_plan 1 timeout, run_instruction = ''go'', run_model = ''m'', run_secrets = [], run_version = None\<rparr>"

theorem controller_returns_witness:
  "\<exists>r s'. run_controlled_omp sample_session (sample_inputs 1) (initial_control 0) = Some (r, s')"
proof -
  have "clock_advances sample_session 1" by (simp add: clock_advances_def sample_session_def)
  from controller_returns [OF this] show ?thesis by blast
qed

lemma sample_run:
  "(case run_controlled_omp sample_session (sample_inputs 9) (initial_control 0) of
      Some (Inr summary, s') \<Rightarrow> dget summary ''valid'' = JBool True \<and> handoff_dir s' \<noteq> None \<and> length (message_records s') = 1
    | _ \<Rightarrow> False)"
  by code_simp

lemma sample_late:
  "(case run_controlled_omp sample_session (sample_inputs 1) (initial_control 0) of
      Some (Inr summary, s') \<Rightarrow> dget summary ''valid'' = JBool True \<and> message_records s' = []
    | _ \<Rightarrow> False)"
  by code_simp

theorem handoff_only_at_rest_witness:
  "\<exists>summary s' h rest. run_controlled_omp sample_session (sample_inputs 9) (initial_control 0) = Some (Inr summary, s')
     \<and> handoff_dir s' = Some h \<and> at_rest sample_session (sample_inputs 9) rest
     \<and> dget (handoff_manifest h) ''valid'' = dget (handoff_summary h) ''valid''"
proof -
  from sample_run obtain summary s' h where
    run: "run_controlled_omp sample_session (sample_inputs 9) (initial_control 0) = Some (Inr summary, s')" "handoff_dir s' = Some h"
    by (auto split: option.split_asm prod.split_asm sum.split_asm)
  from handoff_only_at_rest [OF run] run show ?thesis by metis
qed

text \<open>
  The second run reaches its deadline before it has sent anything, and is valid all the same.
\<close>

theorem valid_summary_complete_witness:
  "\<exists>summary s' h. run_controlled_omp sample_session (sample_inputs 9) (initial_control 0) = Some (Inr summary, s')
     \<and> handoff_dir s' = Some h \<and> handoff_summary h = summary
   \<and> (\<exists>late t. run_controlled_omp sample_session (sample_inputs 1) (initial_control 0) = Some (Inr late, t)
        \<and> message_records t = [] \<and> \<not> has_key late ''error'')"
proof -
  from sample_run obtain summary s' where
    run: "run_controlled_omp sample_session (sample_inputs 9) (initial_control 0) = Some (Inr summary, s')"
      "dget summary ''valid'' = JBool True"
    by (auto split: option.split_asm prod.split_asm sum.split_asm)
  from sample_late obtain late t where
    late: "run_controlled_omp sample_session (sample_inputs 1) (initial_control 0) = Some (Inr late, t)"
      "dget late ''valid'' = JBool True" "message_records t = []"
    by (auto split: option.split_asm prod.split_asm sum.split_asm)
  from valid_summary_complete [OF run] valid_summary_complete [OF late(1,2)] run(1) late(1,3) show ?thesis by blast
qed

end
