(* ===== verification/Spec2Isabelle.thy ===== *)
theory Spec2Isabelle
  imports Statistics ExecutionContract TaskPlans Relay Selection Secrets Logbook
    CourseRegistry InstallRenderers Regatta ScorecardSchema LaunchAudit ArtifactSchemas
    HandoffProperties ControlledProperties
begin

text \<open>
  Verification of yacht, a benchmark harness for coding agents: a \<^emph>\<open>regatta\<close> (a TOML
  configuration) declares a course (the tasks and the evaluator), vessels (a model, a runtime and
  riggings) and comparisons. The host prepares each vessel, hands a launcher container one job,
  collects the evaluator's grading into a Logbook and reports the comparison. Paths below are
  relative to \<open>src/src/yacht/\<close>, those of the launcher to
  \<open>src/containers/harbor-launcher/yacht_harbor_agents/\<close>.

  \<^bold>\<open>How the parts interact.\<close> The parsed configuration passes the regatta contract
  (\<open>Regatta\<close>) and \<open>Loader\<close> turns it into the records of \<open>Domain\<close>. \<open>CourseRegistry\<close> gives the evaluator of an
  adapter kind, \<open>Selection\<close> the sample of benchmark instances, \<open>Secrets\<close> the secret values.
  \<open>TaskPlans\<close> renders the per-task execution and episode plans, \<open>InstallRenderers\<close> the files of
  skills and MCP servers, and \<open>JobRender\<close> puts them into the Terminal-Bench job of a vessel, which
  the job contract of \<open>ArtifactSchemas\<close> checks. In the container, \<open>LaunchAudit\<close> checks the mounts
  of a duplex trial and reads the agent's stream, \<open>Relay\<close> replays the episode plan and merges
  what the episodes reported; a controlled execution is run by \<open>ControlledOmp\<close>, which speaks to the
  agent's driver, takes captures (\<open>Captures\<close>), quiesces the container (\<open>Quiesce\<close>), redacts the events
  (\<open>Redaction\<close>) and hands a summary to the verifier; the host checks that summary with
  \<open>ExecutionContract\<close>. The course adapters read the handoff of \<open>Handoff\<close>. Back on the host the Logbook is driven by the run index of \<open>Logbook\<close>,
  whose artifacts pass \<open>ArtifactSchemas\<close> and \<open>ScorecardSchema\<close>; \<open>Statistics\<close> grades the
  comparison.

  \<^bold>\<open>Theories and the code they model.\<close>
  \<^item> \<open>Prelude\<close>: results (\<open>Inl\<close> the exception, \<open>Inr\<close> the value) with their sequencing, loops that may
    raise, which exceptions a computation can raise (the collection \<open>raises\<close>), dictionaries as
    association lists, the locale \<open>invariant_machine\<close>.
  \<^item> \<open>PyValue\<close>, \<open>PyFloat\<close>, \<open>Bytes\<close>, \<open>Paths\<close>: parsed JSON, Python's strings, exceptions, binary64
    arithmetic on rationals, UTF-8 and POSIX paths.
  \<^item> \<open>Statistics\<close>: \<open>reports/statistics.py\<close>. Wilson and t-intervals, the exact sign test, the
    planning search and the paired statistics.
  \<^item> \<open>ExecutionContract\<close>: \<open>_execution_contract.py\<close>, shared by the host and the launcher.
  \<^item> \<open>TaskPlans\<close>: \<open>courses/execution.py\<close> and \<open>courses/episodes.py\<close>.
  \<^item> \<open>Relay\<close>: \<open>episodes.py\<close> of the launcher.
  \<^item> \<open>Selection\<close>: \<open>courses/selection.py\<close>. \<open>Secrets\<close>: \<open>secret_resolution.py\<close>.
  \<^item> \<open>Logbook\<close>: \<open>logbook/index.py\<close> as an object state and a disk; \<open>logbook/io.py\<close> as a step
    relation with crash points.
  \<^item> \<open>CourseRegistry\<close>: the tables and lookups of \<open>courses/registry.py\<close>.
  \<^item> \<open>InstallRenderers\<close>: \<open>harnesses/mcp_config.py\<close>, \<open>harnesses/skill_config.py\<close>,
    \<open>runtimes/tool_capabilities.py\<close>.
  \<^item> \<open>SchemaChecks\<close>, \<open>Regatta\<close>, \<open>ScorecardSchema\<close>, \<open>ArtifactSchemas\<close>: the document contracts of
    \<open>contracts/schemas.py\<close>.
  \<^item> \<open>LaunchAudit\<close>: \<open>duplex.py\<close> of the launcher.
  \<^item> \<open>Quiesce\<close>: \<open>quiesce.py\<close> of the launcher and the cleanup of \<open>controlled_omp.py\<close>.
    \<open>Captures\<close>: \<open>captures.py\<close>. \<open>Redaction\<close>: the scrubbing of events. \<open>Actions\<close>: the effects of the
    controller (state, exceptions, not returning) and their proof rules. \<open>ControlledOmp\<close> and its
    properties \<open>ControlledProperties\<close>: \<open>controlled_omp.py\<close>, the run and the cold episodes.
  \<^item> \<open>Handoff\<close> and its properties \<open>HandoffProperties\<close>: \<open>courses/handoff.py\<close>.
  \<^item> \<open>Loader\<close> and its properties \<open>LoaderProperties\<close>: \<open>config/loader.py\<close>.
  \<^item> \<open>Domain\<close>: the configuration dataclasses of \<open>domain/model.py\<close> and
    \<open>courses/task_directory.py\<close>. \<open>JobRender\<close> and its properties \<open>JobProperties\<close>:
    \<open>courses/terminal_bench/job.py\<close>.

  \<^bold>\<open>What the lemmas show.\<close> The controller: it returns, hands over only at rest, and a valid summary is
  complete. Contracts: what an accepted document guarantees (references closed,
  counts that add up, paths contained) and which exceptions a validator can raise. Renderers: what
  they render is accepted by the consumer, and loses nothing that was declared. The Logbook: its
  invariants under every sequence of operations, and after a crash. Statistics: the numerical
  routines against their exact definitions. Digests: which inputs a preimage determines. Findings are
  theorems too: inputs on which the code breaks its own documentation.

  \<^bold>\<open>Parameters and bounds.\<close> SHA-256, \<open>Path.resolve\<close>, the TOML parser, the clock, \<open>json.dumps\<close> and
  \<open>str\<close> of a value that is no string are arguments of the definitions; no property assumes more of
  them than it states. The contracts' structural pre-check against the published JSON Schema files
  uses an external library and is left out; it exists for the wake and the run index documents, where a
  modelled validator accepts at least what the code accepts. Characters are code points below 256. Integers are unbounded and floats are finite
  rationals rounded after each operation; where an infinity or NaN can arise, it is a value of its
  own. Every loop is structural recursion over the data it consumes, or a \<open>function\<close> with its
  measure; the reads of \<open>LaunchAudit\<close> consume an explicit list of stream events. The exchange with the
  driver may wait for ever if time stands still: it is a partial function, \<open>None\<close> when it does not
  return, and it is shown to return when the clock moves. The attempts of the reap loop are those of
  the code (six), no fuel. What the driver, the clock, the kernel and the container answer is a
  parameter over an abstract world; the properties hold for every answer, except where a hypothesis
  states documented behaviour (a clock that moves, a kernel that reads a file in order, a container
  in which a kill kills).

  \<^bold>\<open>Not modelled.\<close> The agents inside the containers (\<open>agents.py\<close>) and the scripts for node; processes,
  terminals, HTTP and the file system beyond the Logbook;
  argument parsing; the text and HTML of the reports; the drivers of the external evaluators. The
  manifest lists each part with its reason.
\<close>

end
